(* ===== verification/Prelude.thy ===== *)
theory Prelude
  imports Main "HOL-Library.Multiset" "HOL-Library.AList"
    "HOL-Library.List_Lexorder" "HOL-Library.Char_ord" "HOL-Library.Product_Lexorder"
begin

text \<open>
  The shared vocabulary of the development: the errors a Go function can return, the
  outcome of a call (a value, an error, a panic, or a loop that has not finished within its
  fuel), the two bind operators that sequence calls, and the generic lemmas on lists,
  association lists and stable sorting that the component theories use.
\<close>

section \<open>Collections of facts\<close>

named_theorems outcome_simps \<open>inversion of bind on the outcome of a call\<close>
named_theorems go_defs \<open>definitions of Go library helpers, for evaluation\<close>

lemmas asm_splits = option.split_asm list.split_asm prod.split_asm if_split_asm

section \<open>Errors\<close>

text \<open>
  The values of Go's \<^verbatim>\<open>error\<close> interface that the code creates or inspects. Sentinels are
  constants; \<open>NewError\<close> is \<^verbatim>\<open>errors.New\<close> or a \<^verbatim>\<open>fmt.Errorf\<close> without error operand;
  \<open>Errorf\<close> renders its cause with \<^verbatim>\<open>%s\<close> or \<^verbatim>\<open>%v\<close>, which cuts the chain;
  \<open>Wrapf\<close> uses \<^verbatim>\<open>%w\<close>, which keeps it. The strings around the cause are the rest of the
  format. \<open>StatusError\<close> is an error of the Kubernetes API with its reason, code and message.
\<close>

datatype error =
    NewError string
  | Errorf string error string
  | Wrapf string error string
  | ErrLBNotFound
  | ErrNetworkStackConfig
  | ErrNoEligibleBackends
  | InstanceNotFound
  | ErrNoNetworks
  | RetryError string int
  | ErrorResponse int string
  | TagMissingError error
  | NumError string string string
  | Aggregate "error list"
  | OtherError string
  | StatusError string int string
  | ImplementedElsewhere
  | NotImplemented
  | Canceled
  | DeadlineExceeded
  | WaitTimeout

definition quote :: "string \<Rightarrow> string" where
  "quote s = ''\"'' @ s @ ''\"''"

fun join :: "string \<Rightarrow> string list \<Rightarrow> string" where
  "join sep [] = ''''"
| "join sep [x] = x"
| "join sep (x # y # ys) = x @ sep @ join sep (y # ys)"

text \<open>
  The message of an aggregate lists the distinct messages of its leaves, in brackets when
  there is more than one.
\<close>

definition aggregate_text :: "string list \<Rightarrow> string" where
  "aggregate_text ms =
     (case rev (remdups (rev ms)) of
        [] \<Rightarrow> '''' | [m] \<Rightarrow> m | ms' \<Rightarrow> ''['' @ join '', '' ms' @ '']'')"

fun error_texts :: "error \<Rightarrow> string list" where
  "error_texts (Aggregate es) = concat (map error_texts es)"
| "error_texts (Errorf p e s) = [p @ aggregate_text (error_texts e) @ s]"
| "error_texts (Wrapf p e s) = [p @ aggregate_text (error_texts e) @ s]"
| "error_texts (TagMissingError e) = error_texts e"
| "error_texts (NewError m) = [m]"
| "error_texts (RetryError m d) = [m]"
| "error_texts (ErrorResponse c m) = [m]"
| "error_texts (NumError f n m) = [''strconv.'' @ f @ '': parsing '' @ quote n @ '': '' @ m]"
| "error_texts (OtherError m) = [m]"
| "error_texts (StatusError reason code m) = [m]"
| "error_texts ImplementedElsewhere = [''implemented by alternate to cloud provider'']"
| "error_texts NotImplemented = [''unimplemented'']"
| "error_texts Canceled = [''context canceled'']"
| "error_texts DeadlineExceeded = [''context deadline exceeded'']"
| "error_texts WaitTimeout = [''timed out waiting for the condition'']"
| "error_texts ErrLBNotFound = [''loadbalancer not found'']"
| "error_texts ErrNetworkStackConfig = [''network stack configuration error'']"
| "error_texts ErrNoEligibleBackends = [''no eligible load balancer backends'']"
| "error_texts InstanceNotFound = [''instance not found'']"
| "error_texts ErrNoNetworks = [''no networks have been defined'']"

definition error_text :: "error \<Rightarrow> string" where
  "error_text e = aggregate_text (error_texts e)"

text \<open>
  \<^verbatim>\<open>errors.Is\<close> follows the \<^verbatim>\<open>%w\<close> chain and the \<^verbatim>\<open>Is\<close> method of an aggregate;
  \<^verbatim>\<open>errors.As\<close> for \<^verbatim>\<open>*api.RetryError\<close> follows the chain only, because an aggregate has
  neither an \<^verbatim>\<open>As\<close> nor an \<^verbatim>\<open>Unwrap\<close> method.
\<close>

fun errors_Is :: "error \<Rightarrow> error \<Rightarrow> bool" where
  "errors_Is (Wrapf p e s) t = (Wrapf p e s = t \<or> errors_Is e t)"
| "errors_Is (Aggregate es) t = (Aggregate es = t \<or> list_ex (\<lambda>e. errors_Is e t) es)"
| "errors_Is e t = (e = t)"

fun errors_As_RetryError :: "error \<Rightarrow> int option" where
  "errors_As_RetryError (RetryError m d) = Some d"
| "errors_As_RetryError (Wrapf p e s) = errors_As_RetryError e"
| "errors_As_RetryError _ = None"

text \<open>\<^verbatim>\<open>utilerrors.NewAggregate\<close>: nil entries are dropped; nil when nothing is left.\<close>

definition NewAggregate :: "error option list \<Rightarrow> error option" where
  "NewAggregate es =
     (case List.map_filter (\<lambda>e. e) es of [] \<Rightarrow> None | es' \<Rightarrow> Some (Aggregate es'))"

section \<open>Outcomes and their sequencing\<close>

datatype 'a outcome = Ok 'a | Err error | Panic string | OutOfFuel

fun bindR :: "'a outcome \<Rightarrow> ('a \<Rightarrow> 'b outcome) \<Rightarrow> 'b outcome" where
  "bindR (Ok x) f = f x"
| "bindR (Err e) f = Err e"
| "bindR (Panic m) f = Panic m"
| "bindR OutOfFuel f = OutOfFuel"

fun map_err :: "(error \<Rightarrow> error) \<Rightarrow> 'a outcome \<Rightarrow> 'a outcome" where
  "map_err g (Err e) = Err (g e)"
| "map_err g r = r"

lemma bindR_Ok_iff [outcome_simps]:
  "bindR m f = Ok y \<longleftrightarrow> (\<exists>x. m = Ok x \<and> f x = Ok y)"
  by (cases m) auto

lemma bindR_Err_iff [outcome_simps]:
  "bindR m f = Err e \<longleftrightarrow> m = Err e \<or> (\<exists>x. m = Ok x \<and> f x = Err e)"
  by (cases m) auto

lemma bindR_Panic_iff [outcome_simps]:
  "bindR m f = Panic p \<longleftrightarrow> m = Panic p \<or> (\<exists>x. m = Ok x \<and> f x = Panic p)"
  by (cases m) auto

lemma bindR_OutOfFuel_iff [outcome_simps]:
  "bindR m f = OutOfFuel \<longleftrightarrow> m = OutOfFuel \<or> (\<exists>x. m = Ok x \<and> f x = OutOfFuel)"
  by (cases m) auto

lemma map_err_iff [outcome_simps]:
  "map_err g r = Ok y \<longleftrightarrow> r = Ok y"
  "map_err g r = Panic p \<longleftrightarrow> r = Panic p"
  "map_err g r = OutOfFuel \<longleftrightarrow> r = OutOfFuel"
  "map_err g r = Err e \<longleftrightarrow> (\<exists>e'. r = Err e' \<and> e = g e')"
  by (cases r; auto)+

lemma bindR_cong [fundef_cong]:
  "m = m' \<Longrightarrow> (\<And>x. m' = Ok x \<Longrightarrow> f x = f' x) \<Longrightarrow> bindR m f = bindR m' f'"
  by (cases m') auto

text \<open>
  Code with effects is a function of the state it runs in (the outside world, or the service
  object together with the world); errors and panics keep the state reached so far, as the
  effects of a Go function are not undone when it returns an error.
\<close>

type_synonym ('s, 'a) cmd = "'s \<Rightarrow> 'a outcome \<times> 's"

definition returnM :: "'a \<Rightarrow> ('s, 'a) cmd" where
  "returnM x = (\<lambda>s. (Ok x, s))"

definition liftR :: "'a outcome \<Rightarrow> ('s, 'a) cmd" where
  "liftR r = (\<lambda>s. (r, s))"

definition bindM :: "('s, 'a) cmd \<Rightarrow> ('a \<Rightarrow> ('s, 'b) cmd) \<Rightarrow> ('s, 'b) cmd" where
  "bindM m f = (\<lambda>s. case m s of
       (Ok x, s') \<Rightarrow> f x s'
     | (Err e, s') \<Rightarrow> (Err e, s')
     | (Panic p, s') \<Rightarrow> (Panic p, s')
     | (OutOfFuel, s') \<Rightarrow> (OutOfFuel, s'))"

definition get_state :: "('s, 's) cmd" where
  "get_state = (\<lambda>s. (Ok s, s))"

definition map_errM :: "(error \<Rightarrow> error) \<Rightarrow> ('s, 'a) cmd \<Rightarrow> ('s, 'a) cmd" where
  "map_errM g m = (\<lambda>s. case m s of (r, s') \<Rightarrow> (map_err g r, s'))"

lemma bindM_Ok_iff [outcome_simps]:
  "bindM m f s = (Ok y, t) \<longleftrightarrow> (\<exists>x u. m s = (Ok x, u) \<and> f x u = (Ok y, t))"
  by (auto simp: bindM_def split: prod.splits outcome.splits)

lemma bindM_Err_iff [outcome_simps]:
  "bindM m f s = (Err e, t) \<longleftrightarrow>
     m s = (Err e, t) \<or> (\<exists>x u. m s = (Ok x, u) \<and> f x u = (Err e, t))"
  by (auto simp: bindM_def split: prod.splits outcome.splits)

lemma bindM_Panic_iff [outcome_simps]:
  "bindM m f s = (Panic p, t) \<longleftrightarrow>
     m s = (Panic p, t) \<or> (\<exists>x u. m s = (Ok x, u) \<and> f x u = (Panic p, t))"
  by (auto simp: bindM_def split: prod.splits outcome.splits)

lemma returnM_iff [outcome_simps]: "returnM x s = (r, t) \<longleftrightarrow> r = Ok x \<and> t = s"
  by (auto simp: returnM_def)

lemma liftR_iff [outcome_simps]: "liftR r' s = (r, t) \<longleftrightarrow> r' = r \<and> t = s"
  by (auto simp: liftR_def)

lemma get_state_iff [outcome_simps]: "get_state s = (r, t) \<longleftrightarrow> r = Ok s \<and> t = s"
  by (auto simp: get_state_def)

lemma map_errM_iff [outcome_simps]:
  "map_errM g m s = (Ok y, t) \<longleftrightarrow> m s = (Ok y, t)"
  "map_errM g m s = (Panic p, t) \<longleftrightarrow> m s = (Panic p, t)"
  "map_errM g m s = (Err e, t) \<longleftrightarrow> (\<exists>e'. m s = (Err e', t) \<and> e = g e')"
  by (cases "m s"; cases "fst (m s)"; auto simp: map_errM_def)+

text \<open>A branch applied to the state: the state moves into the branches.\<close>

lemma branch_app [outcome_simps]:
  "(if b then f else g) x = (if b then f x else g x)"
  "(case z of None \<Rightarrow> f | Some y \<Rightarrow> h y) x = (case z of None \<Rightarrow> f x | Some y \<Rightarrow> h y x)"
  "(case l of [] \<Rightarrow> f | a # as \<Rightarrow> k a as) x = (case l of [] \<Rightarrow> f x | a # as \<Rightarrow> k a as x)"
  "(case p of (a, b) \<Rightarrow> m a b) x = (case p of (a, b) \<Rightarrow> m a b x)"
  by (auto split: option.splits list.splits prod.splits)

lemma bindM_return [simp]: "bindM (returnM x) f = f x"
  by (simp add: bindM_def returnM_def)

lemma bindM_get_state [simp]: "bindM get_state f s = f s s"
  by (simp add: bindM_def get_state_def)

lemma bindM_liftR_Ok [simp]: "bindM (liftR (Ok x)) f = f x"
  by (simp add: bindM_def liftR_def)

text \<open>An error kept as a value, for calls whose error the code inspects before returning.\<close>

definition attempt :: "('s, 'a) cmd \<Rightarrow> ('s, error + 'a) cmd" where
  "attempt m = (\<lambda>s. case m s of
       (Ok x, s') \<Rightarrow> (Ok (Inr x), s')
     | (Err e, s') \<Rightarrow> (Ok (Inl e), s')
     | (Panic p, s') \<Rightarrow> (Panic p, s')
     | (OutOfFuel, s') \<Rightarrow> (OutOfFuel, s'))"

lemma attempt_iff [outcome_simps]:
  "attempt m s = (Ok (Inr x), t) \<longleftrightarrow> m s = (Ok x, t)"
  "attempt m s = (Ok (Inl e), t) \<longleftrightarrow> m s = (Err e, t)"
  "attempt m s = (Panic p, t) \<longleftrightarrow> m s = (Panic p, t)"
  "attempt m s = (Err e, t) \<longleftrightarrow> False"
  by (auto simp: attempt_def split: prod.splits outcome.splits)

text \<open>
  A reflexive and transitive relation that every call keeps between the state before and the
  state after, whatever its outcome: the rules that carry it through composed code.
\<close>

locale state_frame =
  fixes frame :: "'s \<Rightarrow> 's \<Rightarrow> bool"
  assumes frame_refl: "frame s s"
    and frame_trans: "frame s t \<Longrightarrow> frame t u \<Longrightarrow> frame s u"
begin

definition keeps :: "('s, 'a) cmd \<Rightarrow> bool" where
  "keeps m \<longleftrightarrow> (\<forall>s r t. m s = (r, t) \<longrightarrow> frame s t)"

lemma keepsI: "(\<And>s r t. m s = (r, t) \<Longrightarrow> frame s t) \<Longrightarrow> keeps m"
  by (simp add: keeps_def)

lemma keepsD: "keeps m \<Longrightarrow> m s = (r, t) \<Longrightarrow> frame s t"
  by (auto simp: keeps_def)

lemma keeps_return: "keeps (returnM x)"
  by (simp add: keeps_def returnM_def frame_refl)

lemma keeps_liftR: "keeps (liftR r)"
  by (simp add: keeps_def liftR_def frame_refl)

lemma keeps_get_state: "keeps get_state"
  by (simp add: keeps_def get_state_def frame_refl)

lemma keeps_bind: "keeps m \<Longrightarrow> (\<And>x. keeps (f x)) \<Longrightarrow> keeps (bindM m f)"
  by (force simp: keeps_def bindM_def split: prod.splits outcome.splits intro: frame_trans)

lemma keeps_map_errM: "keeps m \<Longrightarrow> keeps (map_errM g m)"
  by (auto simp: keeps_def map_errM_def split: prod.splits)

lemma keeps_attempt: "keeps m \<Longrightarrow> keeps (attempt m)"
  by (auto simp: keeps_def attempt_def split: prod.splits outcome.splits)

lemma keeps_branches:
  "keeps f \<Longrightarrow> keeps g \<Longrightarrow> keeps (if b then f else g)"
  "keeps f \<Longrightarrow> (\<And>y. keeps (h y)) \<Longrightarrow> keeps (case z of None \<Rightarrow> f | Some y \<Rightarrow> h y)"
  "(\<And>a b. keeps (k a b)) \<Longrightarrow> keeps (case p of (a, b) \<Rightarrow> k a b)"
  "(\<And>a. keeps (l a)) \<Longrightarrow> (\<And>b. keeps (r b)) \<Longrightarrow> keeps (case v of Inl a \<Rightarrow> l a | Inr b \<Rightarrow> r b)"
  by (auto split: option.splits prod.splits sum.splits)

lemmas keeps_rules = keeps_return keeps_liftR keeps_get_state keeps_bind keeps_map_errM keeps_attempt keeps_branches

end

text \<open>As a congruence rule: evaluation does not enter the continuation of a bind.\<close>

lemma bindM_weak_cong: "m = m' \<Longrightarrow> bindM m f = bindM m' f"
  by simp

lemma bindM_run_cong:
  assumes "m s = m' s" "\<And>x u. m' s = (Ok x, u) \<Longrightarrow> f x u = f' x u"
  shows "bindM m f s = bindM m' f' s"
  using assms by (auto simp: bindM_def split: prod.splits outcome.splits)

text \<open>
  Both binds are monads over the same outcomes; the laws are stated once and both instances
  are shown to satisfy them.
\<close>

locale outcome_monad =
  fixes ret :: "'a \<Rightarrow> 'm"
    and bnd :: "'m \<Rightarrow> ('a \<Rightarrow> 'm) \<Rightarrow> 'm"
  assumes left_unit: "bnd (ret x) f = f x"
    and right_unit: "bnd m ret = m"
    and assoc: "bnd (bnd m f) g = bnd m (\<lambda>x. bnd (f x) g)"
begin

lemma bind_ret_comp: "bnd m (\<lambda>x. bnd (ret x) g) = bnd m g"
  by (simp add: left_unit)

lemma bind_after_ret: "bnd (bnd m (\<lambda>x. ret (h x))) g = bnd m (\<lambda>x. g (h x))"
  by (simp add: assoc left_unit)

end

interpretation pure_calls: outcome_monad Ok bindR
proof unfold_locales
  fix m :: "'a outcome" and f g and x :: 'a
  show "bindR (Ok x) f = f x" by simp
  show "bindR m Ok = m" by (cases m) auto
  show "bindR (bindR m f) g = bindR m (\<lambda>x. bindR (f x) g)" by (cases m) auto
qed

interpretation effect_calls: outcome_monad returnM bindM
proof unfold_locales
  fix m :: "('s, 'a) cmd" and f g :: "'a \<Rightarrow> ('s, 'a) cmd" and x :: 'a
  show "bindM (returnM x) f = f x" by simp
  show "bindM m returnM = m"
    by (auto simp: bindM_def returnM_def fun_eq_iff split: prod.splits outcome.splits)
  show "bindM (bindM m f) g = bindM m (\<lambda>x. bindM (f x) g)"
    by (auto simp: bindM_def fun_eq_iff split: prod.splits outcome.splits)
qed

text \<open>A loop over a list whose body may fail: the first failure ends the loop.\<close>

fun mapR :: "('a \<Rightarrow> 'b outcome) \<Rightarrow> 'a list \<Rightarrow> 'b list outcome" where
  "mapR f [] = Ok []"
| "mapR f (x # xs) = bindR (f x) (\<lambda>y. bindR (mapR f xs) (\<lambda>ys. Ok (y # ys)))"

lemma mapR_Ok_iff: "mapR f xs = Ok ys \<longleftrightarrow> list_all2 (\<lambda>x y. f x = Ok y) xs ys"
proof (induction xs arbitrary: ys)
  case (Cons x xs)
  then show ?case by (cases ys) (auto simp: outcome_simps)
qed auto

lemma mapR_length: "mapR f xs = Ok ys \<Longrightarrow> length ys = length xs"
  by (auto simp: mapR_Ok_iff dest: list_all2_lengthD)

lemma mapR_Ok_map: "mapR f xs = Ok ys \<Longrightarrow> (\<And>x y. x \<in> set xs \<Longrightarrow> f x = Ok y \<Longrightarrow> h y = g x)
  \<Longrightarrow> map h ys = map g xs"
proof (induction xs arbitrary: ys)
  case (Cons x xs)
  then show ?case by (auto simp: outcome_simps)
qed simp

lemma mapR_set: "mapR f xs = Ok ys \<Longrightarrow> set ys = {y. \<exists>x \<in> set xs. f x = Ok y}"
  by (induction xs arbitrary: ys) (auto simp: outcome_simps)

section \<open>Lists\<close>

lemma find_SomeD: "find P xs = Some x \<Longrightarrow> x \<in> set xs \<and> P x"
  by (auto simp: find_Some_iff)

lemma list_all2_mem: "list_all2 P xs ys \<Longrightarrow> x \<in> set xs \<Longrightarrow> \<exists>y \<in> set ys. P x y"
  by (induction rule: list_all2_induct) auto

lemma mem_map_filter: "y \<in> set (List.map_filter f xs) \<longleftrightarrow> (\<exists>x \<in> set xs. f x = Some y)"
  by (induction xs) (auto simp: map_filter_simps split: option.splits)

lemma in_set_if_count: "n < count_list xs x \<Longrightarrow> x \<in> set xs"
  by (metis count_notin not_less_zero)

lemma distinct_iff_count_list: "distinct xs \<longleftrightarrow> (\<forall>v. count_list xs v \<le> 1)"
proof (induction xs)
  case (Cons x xs)
  have "(\<forall>v. count_list (x # xs) v \<le> 1) \<longleftrightarrow> count_list xs x = 0 \<and> (\<forall>v. count_list xs v \<le> 1)"
    by (auto simp: le_Suc_eq)
  with Cons show ?case by (simp add: count_list_0_iff)
qed simp

section \<open>Association lists as Go maps\<close>

text \<open>
  A Go map with string keys is an association list; reading an absent key gives the zero
  value, here the empty string. Two maps are deeply equal when they agree on every key.
\<close>

type_synonym smap = "(string \<times> string) list"

definition mget :: "smap \<Rightarrow> string \<Rightarrow> string" where
  "mget m k = (case map_of m k of None \<Rightarrow> '''' | Some v \<Rightarrow> v)"

definition map_DeepEqual :: "smap \<Rightarrow> smap \<Rightarrow> bool" where
  "map_DeepEqual m n = list_all (\<lambda>k. map_of m k = map_of n k) (map fst m @ map fst n)"

lemma map_DeepEqual_iff: "map_DeepEqual m n \<longleftrightarrow> map_of m = map_of n"
proof
  assume agree: "map_DeepEqual m n"
  show "map_of m = map_of n"
  proof
    fix k
    show "map_of m k = map_of n k"
    proof (cases "k \<in> fst ` set m \<union> fst ` set n")
      case True
      with agree show ?thesis by (auto simp: map_DeepEqual_def list_all_iff)
    next
      case False
      then show ?thesis by (metis UnCI map_of_eq_None_iff)
    qed
  qed
qed (simp add: map_DeepEqual_def list_all_iff)

lemma map_DeepEqual_refl [simp]: "map_DeepEqual m m"
  by (simp add: map_DeepEqual_iff)

section \<open>Stable sorting by a key\<close>

text \<open>
  \<^verbatim>\<open>sort.Strings\<close> and \<^verbatim>\<open>sort.SliceStable\<close> with a less function that compares keys. The
  locale states what the code relies on: the keys are linearly ordered and sorting is
  stable; lists with the same elements and pairwise different keys sort to the same list.
\<close>

locale slice_order =
  fixes key :: "'a \<Rightarrow> 'k::linorder"
    and sorted_slice :: "'a list \<Rightarrow> 'a list"
  assumes sorted_slice: "sorted_slice xs = sort_key key xs"
begin

lemma sorted_slice_mset: "mset (sorted_slice xs) = mset xs"
  by (simp add: sorted_slice)

lemma sorted_slice_set: "set (sorted_slice xs) = set xs"
  by (simp add: sorted_slice)

lemma sorted_slice_length: "length (sorted_slice xs) = length xs"
  by (simp add: sorted_slice)

lemma sorted_slice_sorted: "sorted (map key (sorted_slice xs))"
  by (simp add: sorted_slice)

lemma sorted_slice_idem: "sorted_slice (sorted_slice xs) = sorted_slice xs"
  by (simp add: sorted_slice sorted_sort_id sort_key_id_if_sorted)

lemma sorted_slice_keys_perm:
  assumes "mset (map key xs) = mset (map key ys)"
  shows "map key (sorted_slice xs) = map key (sorted_slice ys)"
proof -
  have "sort (map key (sorted_slice ys)) = map key (sorted_slice xs)"
    using assms by (intro properties_for_sort) (simp_all add: sorted_slice)
  then show ?thesis by (simp add: sorted_slice sorted_sort_id)
qed

end

end
