(* ===== verification/Go_Strings.thy ===== *)
theory Go_Strings
  imports Prelude "HOL-Library.Sublist"
begin

text \<open>
  The parts of Go's \<^verbatim>\<open>strings\<close>, \<^verbatim>\<open>strconv\<close> and \<^verbatim>\<open>sort\<close> packages and of its integer
  conversions that the code uses. A Go string is a list of bytes, here of \<^typ>\<open>char\<close>;
  Go's \<open>int\<close> is 64 bits wide, so parsing checks that range.
\<close>

section \<open>Integer conversions\<close>

definition int32 :: "int \<Rightarrow> int" where
  "int32 n = (n + 2 ^ 31) mod 2 ^ 32 - 2 ^ 31"

definition uint32 :: "int \<Rightarrow> int" where
  "uint32 n = n mod 2 ^ 32"

definition is_int32 :: "int \<Rightarrow> bool" where
  "is_int32 n \<longleftrightarrow> - (2 ^ 31) \<le> n \<and> n < 2 ^ 31"

definition is_int64 :: "int \<Rightarrow> bool" where
  "is_int64 n \<longleftrightarrow> - (2 ^ 63) \<le> n \<and> n < 2 ^ 63"

lemma int32_id [simp]: "is_int32 n \<Longrightarrow> int32 n = n"
  by (simp add: int32_def is_int32_def)

lemma is_int32_int32: "is_int32 (int32 n)"
proof -
  have "0 \<le> (n + 2 ^ 31) mod 2 ^ 32" and "(n + 2 ^ 31) mod 2 ^ 32 < 2 ^ 32" by simp_all
  then show ?thesis by (simp add: is_int32_def int32_def)
qed

lemma int32_eq_iff: "int32 m = int32 n \<longleftrightarrow> m mod 2 ^ 32 = n mod 2 ^ 32"
  by (simp add: int32_def mod_eq_dvd_iff)

lemma uint32_bounds: "0 \<le> uint32 n \<and> uint32 n < 2 ^ 32"
  by (simp add: uint32_def)

section \<open>strconv\<close>

definition digit :: "char \<Rightarrow> int option" where
  "digit c = (let n = of_char c in if 48 \<le> n \<and> n \<le> 57 then Some (n - 48) else None)"

definition digit_char :: "int \<Rightarrow> char" where
  "digit_char d = char_of (48 + d)"

lemma digit_digit_char [simp]: "0 \<le> d \<Longrightarrow> d < 10 \<Longrightarrow> digit (digit_char d) = Some d"
  by (simp add: digit_def digit_char_def Let_def)

text \<open>
  The digit loop of \<^verbatim>\<open>strconv.ParseUint\<close> in base 10: a character that is no digit ends it
  with a syntax error, a value beyond 64 bits with a range error, whichever comes first.
\<close>

fun ParseUint_loop :: "int \<Rightarrow> string \<Rightarrow> string + int" where
  "ParseUint_loop acc [] = Inr acc"
| "ParseUint_loop acc (c # cs) =
     (case digit c of
        None \<Rightarrow> Inl ''invalid syntax''
      | Some d \<Rightarrow> if 2 ^ 64 \<le> 10 * acc + d then Inl ''value out of range''
                  else ParseUint_loop (10 * acc + d) cs)"

definition ParseUint_base10 :: "string \<Rightarrow> string + int" where
  "ParseUint_base10 s = (if s = [] then Inl ''invalid syntax'' else ParseUint_loop 0 s)"

definition ParseUint :: "string \<Rightarrow> int outcome" where
  "ParseUint s = (case ParseUint_base10 s of
       Inl m \<Rightarrow> Err (NumError ''ParseUint'' s m) | Inr n \<Rightarrow> Ok n)"

fun sign_split :: "string \<Rightarrow> bool \<times> string" where
  "sign_split [] = (False, [])"
| "sign_split (c # cs) =
     (if c = CHR ''-'' then (True, cs) else if c = CHR ''+'' then (False, cs) else (False, c # cs))"

definition Atoi :: "string \<Rightarrow> int outcome" where
  "Atoi s =
     (case sign_split s of (neg, t) \<Rightarrow>
        (case ParseUint_base10 t of
           Inl m \<Rightarrow> Err (NumError ''Atoi'' s m)
         | Inr n \<Rightarrow>
             if \<not> neg \<and> 2 ^ 63 \<le> n \<or> neg \<and> 2 ^ 63 < n
             then Err (NumError ''Atoi'' s ''value out of range'')
             else Ok (if neg then - n else n)))"

function nat_to_dec :: "int \<Rightarrow> string" where
  "nat_to_dec n =
     (if n < 10 then [digit_char n] else nat_to_dec (n div 10) @ [digit_char (n mod 10)])"
  by pat_completeness auto
termination
  by (relation "measure nat") auto

declare nat_to_dec.simps [simp del]

definition Itoa :: "int \<Rightarrow> string" where
  "Itoa n = (if n < 0 then CHR ''-'' # nat_to_dec (- n) else nat_to_dec n)"

definition ParseBool :: "string \<Rightarrow> bool outcome" where
  "ParseBool s =
     (if s \<in> set [''1'', ''t'', ''T'', ''TRUE'', ''true'', ''True''] then Ok True
      else if s \<in> set [''0'', ''f'', ''F'', ''FALSE'', ''false'', ''False''] then Ok False
      else Err (NumError ''ParseBool'' s ''invalid syntax''))"

lemma digit_nonneg: "digit c = Some d \<Longrightarrow> 0 \<le> d"
  by (auto simp: digit_def Let_def split: if_splits)

lemma ParseUint_loop_nonneg: "0 \<le> acc \<Longrightarrow> ParseUint_loop acc s = Inr n \<Longrightarrow> 0 \<le> n \<and> n < 2 ^ 64 \<or> n = acc"
  by (induction acc s rule: ParseUint_loop.induct)
    (fastforce split: option.splits if_splits dest: digit_nonneg)+

lemma ParseUint_base10_bounds: "ParseUint_base10 s = Inr n \<Longrightarrow> 0 \<le> n \<and> n < 2 ^ 64"
  using ParseUint_loop_nonneg [of 0 s n] by (auto simp: ParseUint_base10_def split: if_splits)

lemma Atoi_is_int64: "Atoi s = Ok n \<Longrightarrow> is_int64 n"
  by (auto simp: Atoi_def is_int64_def split: prod.splits sum.splits if_splits
      dest: ParseUint_base10_bounds)

lemma Atoi_no_panic [simp]: "Atoi s \<noteq> Panic p" "Atoi s \<noteq> OutOfFuel"
  by (auto simp: Atoi_def split: prod.splits sum.splits if_splits)

lemma Atoi_Nil [simp]: "Atoi [] \<noteq> Ok n"
  by (simp add: Atoi_def ParseUint_base10_def)

lemma ParseUint_loop_append:
  "ParseUint_loop acc (xs @ ys) =
     (case ParseUint_loop acc xs of Inl m \<Rightarrow> Inl m | Inr v \<Rightarrow> ParseUint_loop v ys)"
  by (induction acc xs rule: ParseUint_loop.induct) (auto split: option.splits)

lemma ParseUint_loop_nat_to_dec:
  "0 \<le> n \<Longrightarrow> n < 2 ^ 64 \<Longrightarrow> ParseUint_loop 0 (nat_to_dec n) = Inr n"
proof (induction n rule: nat_to_dec.induct)
  case (1 n)
  show ?case
  proof (cases "n < 10")
    case True
    with 1 show ?thesis by (simp add: nat_to_dec.simps [of n])
  next
    case False
    with 1 have "ParseUint_loop 0 (nat_to_dec (n div 10)) = Inr (n div 10)" by simp
    moreover have "10 * (n div 10) + n mod 10 = n" by simp
    ultimately show ?thesis using False 1
      by (simp add: nat_to_dec.simps [of n] ParseUint_loop_append del: mult_div_mod_eq)
  qed
qed

lemma nat_to_dec_nonempty [simp]: "nat_to_dec n \<noteq> []"
  by (subst nat_to_dec.simps) simp

lemma nat_to_dec_digits: "0 \<le> n \<Longrightarrow> c \<in> set (nat_to_dec n) \<Longrightarrow> digit c \<noteq> None"
proof (induction n rule: nat_to_dec.induct)
  case (1 n)
  then show ?case by (cases "n < 10") (auto simp: nat_to_dec.simps [of n])
qed

lemma digit_sign [simp]: "digit (CHR ''-'') = None" "digit (CHR ''+'') = None"
    "digit (CHR '','') = None"
  by (simp_all add: digit_def)

lemma sign_split_digits:
  assumes "s \<noteq> []" and "\<And>c. c \<in> set s \<Longrightarrow> digit c \<noteq> None"
  shows "sign_split s = (False, s)"
proof (cases s)
  case (Cons c cs)
  with assms(2) [of c] have "c \<noteq> CHR ''-''" and "c \<noteq> CHR ''+''" by force+
  with Cons show ?thesis by simp
qed (use assms in simp)

lemma sign_split_nat_to_dec: "0 \<le> n \<Longrightarrow> sign_split (nat_to_dec n) = (False, nat_to_dec n)"
  using nat_to_dec_digits by (intro sign_split_digits) simp_all

lemma Atoi_Itoa [simp]: "is_int64 n \<Longrightarrow> Atoi (Itoa n) = Ok n"
  by (cases "n < 0")
    (auto simp: Atoi_def Itoa_def is_int64_def sign_split_nat_to_dec ParseUint_base10_def
       ParseUint_loop_nat_to_dec)

lemma Itoa_no_comma: "CHR '','' \<notin> set (Itoa n)"
proof -
  have "0 \<le> m \<Longrightarrow> CHR '','' \<notin> set (nat_to_dec m)" for m
    using nat_to_dec_digits [of m "CHR '',''"] by auto
  then show ?thesis by (simp add: Itoa_def)
qed

lemma Itoa_inj: "is_int64 m \<Longrightarrow> is_int64 n \<Longrightarrow> Itoa m = Itoa n \<Longrightarrow> m = n"
  by (metis Atoi_Itoa outcome.inject(1))

lemma Itoa_nonempty [simp]: "Itoa n \<noteq> []"
  by (simp add: Itoa_def)

section \<open>strings\<close>

text \<open>\<^verbatim>\<open>strings.Split\<close> with a separator of one byte; the result is never empty.\<close>

fun Split1 :: "char \<Rightarrow> string \<Rightarrow> string list" where
  "Split1 c [] = [[]]"
| "Split1 c (x # xs) =
     (if x = c then [] # Split1 c xs
      else (case Split1 c xs of [] \<Rightarrow> [[x]] | y # ys \<Rightarrow> (x # y) # ys))"

lemma Split1_nonempty [simp]: "Split1 c s \<noteq> []"
  by (induction s) (auto split: list.splits)

lemma join_Split1: "join [c] (Split1 c s) = s"
proof (induction s)
  case (Cons x xs)
  then show ?case
    by (cases "Split1 c xs"; cases "tl (Split1 c xs)") (auto split: list.splits)
qed simp

lemma Split1_no_sep: "c \<notin> set s \<Longrightarrow> Split1 c s = [s]"
  by (induction s) auto

lemma Split1_append: "c \<notin> set s \<Longrightarrow> Split1 c (s @ c # t) = s # Split1 c t"
  by (induction s) auto

lemma Split1_join:
  "xs \<noteq> [] \<Longrightarrow> (\<And>x. x \<in> set xs \<Longrightarrow> c \<notin> set x) \<Longrightarrow> Split1 c (join [c] xs) = xs"
  by (induction "[c]" xs rule: join.induct) (auto simp: Split1_no_sep Split1_append)

text \<open>
  \<^verbatim>\<open>strings.TrimSpace\<close> removes Unicode white space at both ends. The code points of the
  White_Space property are listed by their UTF-8 bytes.
\<close>

definition space_runes :: "string list" where
  "space_runes =
     map (\<lambda>n. [char_of (n::nat)]) [9, 10, 11, 12, 13, 32] @
     map (\<lambda>n. [CHR 0xC2, char_of (n::nat)]) [0x85, 0xA0] @
     [[CHR 0xE1, CHR 0x9A, CHR 0x80], [CHR 0xE3, CHR 0x80, CHR 0x80], [CHR 0xE2, CHR 0x81, CHR 0x9F]] @
     map (\<lambda>n. [CHR 0xE2, CHR 0x80, char_of (n::nat)])
       [0x80, 0x81, 0x82, 0x83, 0x84, 0x85, 0x86, 0x87, 0x88, 0x89, 0x8A, 0xA8, 0xA9, 0xAF]"

function trim_front :: "string list \<Rightarrow> string \<Rightarrow> string" where
  "trim_front rs s =
     (case find (\<lambda>r. r \<noteq> [] \<and> prefix r s) rs of
        None \<Rightarrow> s
      | Some r \<Rightarrow> trim_front rs (drop (length r) s))"
  by pat_completeness auto
termination
  by (relation "measure (\<lambda>(rs, s). length s)")
    (auto simp: find_Some_iff prefix_def)

declare trim_front.simps [simp del]

definition TrimSpace :: "string \<Rightarrow> string" where
  "TrimSpace s = rev (trim_front (map rev space_runes) (rev (trim_front space_runes s)))"

lemma trim_front_Nil [simp]: "trim_front rs [] = []"
  by (subst trim_front.simps) (auto split: option.splits simp: find_Some_iff)

lemma TrimSpace_Nil [simp]: "TrimSpace [] = []"
  by (simp add: TrimSpace_def)

text \<open>
  Case mapping: \<^verbatim>\<open>strings.ToLower\<close> and \<^verbatim>\<open>strings.EqualFold\<close> on ASCII letters; bytes of
  other code points are left as they are.
\<close>

definition lower_byte :: "char \<Rightarrow> char" where
  "lower_byte c = (let n = of_char c in if 65 \<le> n \<and> n \<le> (90::nat) then char_of (n + 32) else c)"

definition ToLower :: "string \<Rightarrow> string" where
  "ToLower s = map lower_byte s"

definition EqualFold :: "string \<Rightarrow> string \<Rightarrow> bool" where
  "EqualFold s t \<longleftrightarrow> ToLower s = ToLower t"

lemma ToLower_eq_Nil [simp]: "ToLower s = [] \<longleftrightarrow> s = []"
  by (simp add: ToLower_def)

definition HasPrefix :: "string \<Rightarrow> string \<Rightarrow> bool" where
  "HasPrefix s p \<longleftrightarrow> prefix p s"

definition TrimPrefix :: "string \<Rightarrow> string \<Rightarrow> string" where
  "TrimPrefix s p = (if prefix p s then drop (length p) s else s)"

lemma TrimPrefix_append [simp]: "TrimPrefix (p @ s) p = s"
  by (simp add: TrimPrefix_def)

lemma HasPrefix_append [simp]: "HasPrefix (p @ s) p"
  by (simp add: HasPrefix_def)

text \<open>A slice printed with \<^verbatim>\<open>%v\<close> or \<^verbatim>\<open>%s\<close>: the elements between brackets.\<close>

definition show_list :: "string list \<Rightarrow> string" where
  "show_list xs = ''['' @ join '' '' xs @ '']''"

section \<open>Sorting strings\<close>

definition sort_Strings :: "string list \<Rightarrow> string list" where
  "sort_Strings xs = sort xs"

interpretation strings_order: slice_order "\<lambda>s::string. s" sort_Strings
  by unfold_locales (simp add: sort_Strings_def)

lemma sort_Strings_perm: "mset xs = mset ys \<Longrightarrow> sort_Strings xs = sort_Strings ys"
  using strings_order.sorted_slice_keys_perm [of xs ys] by simp

end
