(* ===== verification/Cloud_Types.thy ===== *)
theory Cloud_Types
  imports Go_Strings
begin

text \<open>
  The data the controllers exchange with Kubernetes and with the DigitalOcean API, and the
  API clients they are given. Go structs are records; a pointer is an option, a slice a list
  (the code never distinguishes a nil slice from an empty one), a string type with named
  constants stays a string, because the code has default branches for other values. Fields
  the code neither reads nor writes are left out.
\<close>

section \<open>Kubernetes objects\<close>

record ServicePort =
  sp_Name :: string
  sp_Protocol :: string
  sp_Port :: int
  sp_NodePort :: int

record LoadBalancerIngress =
  ing_IP :: string
  ing_Hostname :: string

record Service =
  svc_Name :: string
  svc_Namespace :: string
  svc_UID :: string
  svc_Annotations :: smap
  svc_DeletionTimestamp :: "string option"
  svc_Type :: string
  svc_Ports :: "ServicePort list"
  svc_ExternalTrafficPolicy :: string
  svc_HealthCheckNodePort :: int
  svc_LoadBalancerSourceRanges :: "string list"
  svc_Ingress :: "LoadBalancerIngress list"

record NodeAddress =
  na_Type :: string
  na_Address :: string

record NodeCondition =
  nc_Type :: string
  nc_Status :: string

record Taint =
  taint_Key :: string
  taint_Value :: string
  taint_Effect :: string
  taint_TimeAdded :: "string option"

record Node =
  node_Name :: string
  node_Labels :: smap
  node_ProviderID :: string
  node_Taints :: "Taint list"
  node_Conditions :: "NodeCondition list"
  node_Addresses :: "NodeAddress list"

record Event =
  ev_Namespace :: string
  ev_Name :: string
  ev_UID :: string
  ev_Type :: string
  ev_Reason :: string
  ev_Message :: string

section \<open>DigitalOcean API objects\<close>

record ForwardingRule =
  fr_EntryProtocol :: string
  fr_EntryPort :: int
  fr_TargetProtocol :: string
  fr_TargetPort :: int
  fr_CertificateID :: string
  fr_TlsPassthrough :: bool

record HealthCheck =
  hc_Protocol :: string
  hc_Port :: int
  hc_Path :: string
  hc_CheckIntervalSeconds :: int
  hc_ResponseTimeoutSeconds :: int
  hc_HealthyThreshold :: int
  hc_UnhealthyThreshold :: int
  hc_ProxyProtocol :: "bool option"

record StickySessions =
  ss_Type :: string
  ss_CookieName :: string
  ss_CookieTtlSeconds :: int

record LBFirewall =
  lbf_Allow :: "string list"
  lbf_Deny :: "string list"

record LoadBalancer =
  lb_ID :: string
  lb_Name :: string
  lb_IP :: string
  lb_IPv6 :: string
  lb_Type :: string
  lb_Status :: string
  lb_ForwardingRules :: "ForwardingRule list"
  lb_DropletIDs :: "int list"

record LoadBalancerRequest =
  req_Name :: string
  req_Algorithm :: string
  req_Region :: string
  req_SizeSlug :: string
  req_SizeUnit :: int
  req_Type :: string
  req_ForwardingRules :: "ForwardingRule list"
  req_HealthCheck :: "HealthCheck option"
  req_StickySessions :: "StickySessions option"
  req_DropletIDs :: "int list"
  req_Tags :: "string list"
  req_RedirectHttpToHttps :: bool
  req_EnableProxyProtocol :: bool
  req_EnableBackendKeepalive :: bool
  req_VPCUUID :: string
  req_VPCSubnetUUID :: string
  req_DisableLetsEncryptDNSRecords :: "bool option"
  req_ValidateOnly :: bool
  req_HTTPIdleTimeoutSeconds :: "int option"
  req_Firewall :: "LBFirewall option"
  req_Network :: string
  req_NetworkStack :: string
  req_IP :: string

record Certificate =
  cert_ID :: string
  cert_Name :: string
  cert_Type :: string

record NetworkAddr =
  net_IPAddress :: string
  net_Type :: string

record Networks =
  nets_V4 :: "NetworkAddr list"
  nets_V6 :: "NetworkAddr list"

record Region =
  region_Slug :: string

record Droplet =
  droplet_ID :: int
  droplet_Name :: string
  droplet_Region :: "Region option"
  droplet_SizeSlug :: string
  droplet_Status :: string
  droplet_Networks :: "Networks option"

record Sources =
  src_Addresses :: "string list"
  src_Tags :: "string list"
  src_DropletIDs :: "int list"
  src_LoadBalancerUIDs :: "string list"
  src_KubernetesIDs :: "string list"

text \<open>\<^verbatim>\<open>godo.Destinations\<close> has the same fields as \<^verbatim>\<open>godo.Sources\<close>.\<close>

type_synonym Destinations = Sources

record InboundRule =
  ir_Protocol :: string
  ir_PortRange :: string
  ir_Sources :: "Sources option"
  ir_Action :: string

record OutboundRule =
  or_Protocol :: string
  or_PortRange :: string
  or_Destinations :: "Destinations option"
  or_Action :: string

record Firewall =
  fw_ID :: string
  fw_Name :: string
  fw_InboundRules :: "InboundRule list"
  fw_OutboundRules :: "OutboundRule list"
  fw_Tags :: "string list"

record FirewallRequest =
  fwr_Name :: string
  fwr_InboundRules :: "InboundRule list"
  fwr_OutboundRules :: "OutboundRule list"
  fwr_Tags :: "string list"

record Resource =
  res_ID :: string
  res_Type :: string

record Pages =
  pg_Prev :: string
  pg_Next :: string

text \<open>\<^verbatim>\<open>godo.Links\<close> is read for its \<^verbatim>\<open>Pages\<close> only.\<close>

type_synonym Links = "Pages option"

record Response =
  resp_StatusCode :: int
  resp_Links :: "Links option"

definition StatusNotFound :: int where
  "StatusNotFound = 404"

definition is_StatusNotFound :: "Response option \<Rightarrow> bool" where
  "is_StatusNotFound resp = (case resp of None \<Rightarrow> False | Some r \<Rightarrow> resp_StatusCode r = StatusNotFound)"

text \<open>The type assertion \<^verbatim>\<open>err.(*godo.ErrorResponse)\<close>, giving the status code of the response.\<close>

fun as_ErrorResponse :: "error \<Rightarrow> int option" where
  "as_ErrorResponse (ErrorResponse status msg) = Some status"
| "as_ErrorResponse _ = None"

lemma as_ErrorResponse_Some: "as_ErrorResponse e = Some status \<longleftrightarrow> (\<exists>msg. e = ErrorResponse status msg)"
  by (cases e) auto

section \<open>API clients\<close>

text \<open>
  The services behind the clients are not part of the repository: every call is a function of
  the state of the outside world, of type \<open>'w\<close>. A call returns what the Go method returns,
  its value (a pointer as an option, a slice as a list), the HTTP response and the error,
  any of which may be nil. Contexts and their deadlines are not modelled: a call that is
  cancelled is a call that returns an error.
\<close>

type_synonym 'a reply = "'a \<times> Response option \<times> error option"

type_synonym ('w, 'a) call = "'w \<Rightarrow> 'a reply \<times> 'w"

text \<open>
  \<open>pageForURL\<close> is godo's parser of the page number in a pagination link, \<open>ParseCIDRSloppy\<close>
  the CIDR parser of k8s.io/utils/net, giving the canonical text of the network,
  \<open>map_order\<close> the order in which a range loop over the keys of a map visits them. The field
  \<open>page_fuel\<close> bounds the number of pages a pagination loop of the model requests.
\<close>

record 'w client =
  LoadBalancers_Get :: "string \<Rightarrow> ('w, LoadBalancer option) call"
  LoadBalancers_List :: "int \<Rightarrow> int \<Rightarrow> ('w, LoadBalancer list) call"
  LoadBalancers_Create :: "LoadBalancerRequest \<Rightarrow> ('w, LoadBalancer option) call"
  LoadBalancers_Update :: "string \<Rightarrow> LoadBalancerRequest \<Rightarrow> ('w, LoadBalancer option) call"
  LoadBalancers_Delete :: "string \<Rightarrow> ('w, unit) call"
  Droplets_Get :: "int \<Rightarrow> ('w, Droplet option) call"
  Droplets_List :: "int \<Rightarrow> int \<Rightarrow> ('w, Droplet list) call"
  Droplets_ListByName :: "string \<Rightarrow> int \<Rightarrow> int \<Rightarrow> ('w, Droplet list) call"
  Certificates_Get :: "string \<Rightarrow> ('w, Certificate option) call"
  Certificates_ListByName :: "string \<Rightarrow> int \<Rightarrow> int \<Rightarrow> ('w, Certificate list) call"
  Firewalls_Get :: "string \<Rightarrow> ('w, Firewall option) call"
  Firewalls_List :: "int \<Rightarrow> int \<Rightarrow> ('w, Firewall list) call"
  Firewalls_Create :: "FirewallRequest \<Rightarrow> ('w, Firewall option) call"
  Firewalls_Update :: "string \<Rightarrow> FirewallRequest \<Rightarrow> ('w, Firewall option) call"
  Tags_Create :: "string \<Rightarrow> ('w, unit) call"
  Tags_TagResources :: "string \<Rightarrow> Resource list \<Rightarrow> ('w, unit) call"
  Regions_List :: "int \<Rightarrow> int \<Rightarrow> ('w, Region list) call"
  Services_Patch :: "Service \<Rightarrow> Service \<Rightarrow> 'w \<Rightarrow> error option \<times> 'w"
  Events_Create :: "Event \<Rightarrow> 'w \<Rightarrow> 'w"
  pageForURL :: "string \<Rightarrow> int outcome"
  ParseCIDRSloppy :: "string \<Rightarrow> string outcome"
  map_order :: "string list \<Rightarrow> string list"
  page_fuel :: nat

text \<open>A client whose every call fails without a response, the base of the example clients.\<close>

definition offline_client :: "'w client" where
  "offline_client =
     (let down = Some (OtherError ''offline'') in
     \<lparr>LoadBalancers_Get = (\<lambda>i w. ((None, None, down), w)),
      LoadBalancers_List = (\<lambda>p n w. (([], None, down), w)),
      LoadBalancers_Create = (\<lambda>r w. ((None, None, down), w)),
      LoadBalancers_Update = (\<lambda>i r w. ((None, None, down), w)),
      LoadBalancers_Delete = (\<lambda>i w. (((), None, down), w)),
      Droplets_Get = (\<lambda>i w. ((None, None, down), w)),
      Droplets_List = (\<lambda>p n w. (([], None, down), w)),
      Droplets_ListByName = (\<lambda>x p n w. (([], None, down), w)),
      Certificates_Get = (\<lambda>i w. ((None, None, down), w)),
      Certificates_ListByName = (\<lambda>x p n w. (([], None, down), w)),
      Firewalls_Get = (\<lambda>i w. ((None, None, down), w)),
      Firewalls_List = (\<lambda>p n w. (([], None, down), w)),
      Firewalls_Create = (\<lambda>r w. ((None, None, down), w)),
      Firewalls_Update = (\<lambda>i r w. ((None, None, down), w)),
      Tags_Create = (\<lambda>t w. (((), None, down), w)),
      Tags_TagResources = (\<lambda>t r w. (((), None, down), w)),
      Regions_List = (\<lambda>p n w. (([], None, down), w)),
      Services_Patch = (\<lambda>b u w. (down, w)),
      Events_Create = (\<lambda>e w. w),
      pageForURL = (\<lambda>u. Err (OtherError ''no page'')),
      ParseCIDRSloppy = (\<lambda>s. Ok s),
      map_order = rev,
      page_fuel = 10\<rparr>)"

text \<open>Calling the API: the reply is a value, the world moves on.\<close>

definition api :: "('w, 'a) call \<Rightarrow> ('w, 'a reply) cmd" where
  "api c = (\<lambda>w. case c w of (r, w') \<Rightarrow> (Ok r, w'))"

lemma api_iff [outcome_simps]: "api c w = (r, w') \<longleftrightarrow> (\<exists>x. c w = (x, w') \<and> r = Ok x)"
  by (auto simp: api_def split: prod.splits)

text \<open>Reading through a pointer panics when it is nil.\<close>

definition deref :: "'a option \<Rightarrow> 'a outcome" where
  "deref p = (case p of None \<Rightarrow> Panic ''nil pointer dereference'' | Some x \<Rightarrow> Ok x)"

lemma deref_iff [outcome_simps]:
  "deref p = Ok x \<longleftrightarrow> p = Some x" "deref p \<noteq> Err e" "deref p \<noteq> OutOfFuel"
  by (auto simp: deref_def split: option.splits)

lemma deref_Some [simp]: "deref (Some x) = Ok x"
  by (simp add: deref_def)

section \<open>Field access on services\<close>

abbreviation ann :: "Service \<Rightarrow> string \<Rightarrow> string" where
  "ann s k \<equiv> mget (svc_Annotations s) k"

abbreviation ann_lookup :: "Service \<Rightarrow> string \<Rightarrow> string option" where
  "ann_lookup s k \<equiv> map_of (svc_Annotations s) k"

definition updateServiceAnnotation :: "Service \<Rightarrow> string \<Rightarrow> string \<Rightarrow> Service" where
  "updateServiceAnnotation s k v = s\<lparr>svc_Annotations := AList.update k v (svc_Annotations s)\<rparr>"

text \<open>
  The annotation map as the rest of the code relies on it: what a read returns after a write,
  and that a write touches nothing else of the service.
\<close>

locale annotation_store =
  fixes look :: "'s \<Rightarrow> string \<Rightarrow> string option"
    and upd :: "'s \<Rightarrow> string \<Rightarrow> string \<Rightarrow> 's"
  assumes look_upd: "look (upd s k v) = (look s)(k \<mapsto> v)"
begin

lemma look_upd_same: "look (upd s k v) k = Some v"
  by (simp add: look_upd)

lemma look_upd_other: "k' \<noteq> k \<Longrightarrow> look (upd s k v) k' = look s k'"
  by (simp add: look_upd)

lemma upd_idem: "look (upd (upd s k v) k v) = look (upd s k v)"
  by (simp add: look_upd)

lemma upd_commute: "k \<noteq> k' \<Longrightarrow> look (upd (upd s k v) k' v') = look (upd (upd s k' v') k v)"
  by (simp add: look_upd fun_upd_twist)

lemma upd_no_change: "look s k = Some v \<Longrightarrow> look (upd s k v) = look s"
  by (simp add: look_upd fun_upd_idem)

end

interpretation svc_ann: annotation_store "\<lambda>s. map_of (svc_Annotations s)" updateServiceAnnotation
  by unfold_locales (simp add: updateServiceAnnotation_def AList.update_conv')

lemma ann_update [simp]:
  "ann (updateServiceAnnotation s k v) k' = (if k' = k then v else ann s k')"
  by (simp add: mget_def svc_ann.look_upd)

lemma updateServiceAnnotation_frame [simp]:
  "svc_Name (updateServiceAnnotation s k v) = svc_Name s"
  "svc_Namespace (updateServiceAnnotation s k v) = svc_Namespace s"
  "svc_UID (updateServiceAnnotation s k v) = svc_UID s"
  "svc_DeletionTimestamp (updateServiceAnnotation s k v) = svc_DeletionTimestamp s"
  "svc_Type (updateServiceAnnotation s k v) = svc_Type s"
  "svc_Ports (updateServiceAnnotation s k v) = svc_Ports s"
  "svc_ExternalTrafficPolicy (updateServiceAnnotation s k v) = svc_ExternalTrafficPolicy s"
  "svc_HealthCheckNodePort (updateServiceAnnotation s k v) = svc_HealthCheckNodePort s"
  "svc_LoadBalancerSourceRanges (updateServiceAnnotation s k v) = svc_LoadBalancerSourceRanges s"
  "svc_Ingress (updateServiceAnnotation s k v) = svc_Ingress s"
  by (simp_all add: updateServiceAnnotation_def)

end
