(* ===== verification/Annotations.thy ===== *)
theory Annotations
  imports Cloud_Types
begin

text \<open>
  The annotation keys of \<^verbatim>\<open>lb_annotations.go\<close> and the boolean reader of \<^verbatim>\<open>annotations.go\<close>.
\<close>

named_theorems ann_defs \<open>definitions of the annotation keys\<close>

section \<open>Keys\<close>

definition annDOLoadBalancerBase :: string where
  [ann_defs]: "annDOLoadBalancerBase = ''service.beta.kubernetes.io/do-loadbalancer-''"

definition annDOLoadBalancerID :: string where
  [ann_defs]: "annDOLoadBalancerID = ''kubernetes.digitalocean.com/load-balancer-id''"

definition annDOLoadBalancerName :: string where
  [ann_defs]: "annDOLoadBalancerName = annDOLoadBalancerBase @ ''name''"

definition annDOProtocol :: string where
  [ann_defs]: "annDOProtocol = annDOLoadBalancerBase @ ''protocol''"

definition annDOHealthCheckPath :: string where
  [ann_defs]: "annDOHealthCheckPath = annDOLoadBalancerBase @ ''healthcheck-path''"

definition annDOHealthCheckPort :: string where
  [ann_defs]: "annDOHealthCheckPort = annDOLoadBalancerBase @ ''healthcheck-port''"

definition annDOHealthCheckProtocol :: string where
  [ann_defs]: "annDOHealthCheckProtocol = annDOLoadBalancerBase @ ''healthcheck-protocol''"

definition annDOOverrideHealthCheck :: string where
  [ann_defs]: "annDOOverrideHealthCheck = annDOLoadBalancerBase @ ''override-health-check''"

definition annDOHealthCheckIntervalSeconds :: string where
  [ann_defs]: "annDOHealthCheckIntervalSeconds = annDOLoadBalancerBase @ ''healthcheck-check-interval-seconds''"

definition annDOHealthCheckResponseTimeoutSeconds :: string where
  [ann_defs]: "annDOHealthCheckResponseTimeoutSeconds = annDOLoadBalancerBase @ ''healthcheck-response-timeout-seconds''"

definition annDOHealthCheckUnhealthyThreshold :: string where
  [ann_defs]: "annDOHealthCheckUnhealthyThreshold = annDOLoadBalancerBase @ ''healthcheck-unhealthy-threshold''"

definition annDOHealthCheckHealthyThreshold :: string where
  [ann_defs]: "annDOHealthCheckHealthyThreshold = annDOLoadBalancerBase @ ''healthcheck-healthy-threshold''"

definition annDOHTTPPorts :: string where
  [ann_defs]: "annDOHTTPPorts = annDOLoadBalancerBase @ ''http-ports''"

definition annDOTLSPorts :: string where
  [ann_defs]: "annDOTLSPorts = annDOLoadBalancerBase @ ''tls-ports''"

definition annDOHTTP2Ports :: string where
  [ann_defs]: "annDOHTTP2Ports = annDOLoadBalancerBase @ ''http2-ports''"

definition annDOHTTP3Port :: string where
  [ann_defs]: "annDOHTTP3Port = annDOLoadBalancerBase @ ''http3-port''"

definition annDOTLSPassThrough :: string where
  [ann_defs]: "annDOTLSPassThrough = annDOLoadBalancerBase @ ''tls-passthrough''"

definition annDOCertificateID :: string where
  [ann_defs]: "annDOCertificateID = annDOLoadBalancerBase @ ''certificate-id''"

definition annDOCertificateName :: string where
  [ann_defs]: "annDOCertificateName = annDOLoadBalancerBase @ ''certificate-name''"

definition annDOHostname :: string where
  [ann_defs]: "annDOHostname = annDOLoadBalancerBase @ ''hostname''"

definition annDOAlgorithm :: string where
  [ann_defs]: "annDOAlgorithm = annDOLoadBalancerBase @ ''algorithm''"

definition annDOSizeSlug :: string where
  [ann_defs]: "annDOSizeSlug = annDOLoadBalancerBase @ ''size-slug''"

definition annDOSizeUnit :: string where
  [ann_defs]: "annDOSizeUnit = annDOLoadBalancerBase @ ''size-unit''"

definition annDOStickySessionsType :: string where
  [ann_defs]: "annDOStickySessionsType = annDOLoadBalancerBase @ ''sticky-sessions-type''"

definition annDOStickySessionsCookieName :: string where
  [ann_defs]: "annDOStickySessionsCookieName = annDOLoadBalancerBase @ ''sticky-sessions-cookie-name''"

definition annDOStickySessionsCookieTTL :: string where
  [ann_defs]: "annDOStickySessionsCookieTTL = annDOLoadBalancerBase @ ''sticky-sessions-cookie-ttl''"

definition annDORedirectHTTPToHTTPS :: string where
  [ann_defs]: "annDORedirectHTTPToHTTPS = annDOLoadBalancerBase @ ''redirect-http-to-https''"

definition annDODisableLetsEncryptDNSRecords :: string where
  [ann_defs]: "annDODisableLetsEncryptDNSRecords = annDOLoadBalancerBase @ ''disable-lets-encrypt-dns-records''"

definition annDOEnableProxyProtocol :: string where
  [ann_defs]: "annDOEnableProxyProtocol = annDOLoadBalancerBase @ ''enable-proxy-protocol''"

definition annDOEnableBackendKeepalive :: string where
  [ann_defs]: "annDOEnableBackendKeepalive = annDOLoadBalancerBase @ ''enable-backend-keepalive''"

definition annDODisownLB :: string where
  [ann_defs]: "annDODisownLB = ''service.kubernetes.io/do-loadbalancer-disown''"

definition annDOHttpIdleTimeoutSeconds :: string where
  [ann_defs]: "annDOHttpIdleTimeoutSeconds = annDOLoadBalancerBase @ ''http-idle-timeout-seconds''"

definition annDODenyRules :: string where
  [ann_defs]: "annDODenyRules = annDOLoadBalancerBase @ ''deny-rules''"

definition annDOAllowRules :: string where
  [ann_defs]: "annDOAllowRules = annDOLoadBalancerBase @ ''allow-rules''"

definition annDOType :: string where
  [ann_defs]: "annDOType = annDOLoadBalancerBase @ ''type''"

definition annDONetwork :: string where
  [ann_defs]: "annDONetwork = annDOLoadBalancerBase @ ''network''"

definition annDONetworkStack :: string where
  [ann_defs]: "annDONetworkStack = annDOLoadBalancerBase @ ''network-stack''"

definition annDOLoadBalancerIP :: string where
  [ann_defs]: "annDOLoadBalancerIP = annDOLoadBalancerBase @ ''ip''"

definition annDOSubnetUUID :: string where
  [ann_defs]: "annDOSubnetUUID = annDOLoadBalancerBase @ ''subnet-uuid''"

text \<open>No two keys coincide, so an annotation never shadows another.\<close>

lemma annotation_keys_distinct:
  "distinct
     [annDOLoadBalancerID, annDOLoadBalancerName, annDOProtocol, 
      annDOHealthCheckPath, annDOHealthCheckPort, annDOHealthCheckProtocol, 
      annDOOverrideHealthCheck, annDOHealthCheckIntervalSeconds, 
      annDOHealthCheckResponseTimeoutSeconds, annDOHealthCheckUnhealthyThreshold, 
      annDOHealthCheckHealthyThreshold, annDOHTTPPorts, annDOTLSPorts, 
      annDOHTTP2Ports, annDOHTTP3Port, annDOTLSPassThrough, annDOCertificateID, 
      annDOCertificateName, annDOHostname, annDOAlgorithm, annDOSizeSlug, 
      annDOSizeUnit, annDOStickySessionsType, annDOStickySessionsCookieName, 
      annDOStickySessionsCookieTTL, annDORedirectHTTPToHTTPS, 
      annDODisableLetsEncryptDNSRecords, annDOEnableProxyProtocol, 
      annDOEnableBackendKeepalive, annDODisownLB, annDOHttpIdleTimeoutSeconds, 
      annDODenyRules, annDOAllowRules, annDOType, annDONetwork, annDONetworkStack, 
      annDOLoadBalancerIP, annDOSubnetUUID]"
  by (simp add: ann_defs)

section \<open>Boolean annotations\<close>

text \<open>\<^verbatim>\<open>getBool\<close> returns the parsed value and whether the annotation is present.\<close>

definition getBool :: "smap \<Rightarrow> string \<Rightarrow> (bool \<times> bool) outcome" where
  "getBool annotations key =
     (case map_of annotations key of
        None \<Rightarrow> Ok (False, False)
      | Some v \<Rightarrow>
          map_err (\<lambda>e. Errorf (''cannot convert value '' @ quote v @ '' for annotation '' @
              quote key @ '' to bool: '') e '''')
            (bindR (ParseBool v) (\<lambda>parsed. Ok (parsed, True))))"

lemma ParseBool_no_panic [simp]: "ParseBool v \<noteq> Panic p" "ParseBool v \<noteq> OutOfFuel"
  by (auto simp: ParseBool_def split: if_splits)

lemma getBool_no_panic [simp]: "getBool m k \<noteq> Panic p" "getBool m k \<noteq> OutOfFuel"
  by (auto simp: getBool_def outcome_simps split: option.splits)

lemma getBool_cong: "map_of m k = map_of n k \<Longrightarrow> getBool m k = getBool n k"
  by (simp add: getBool_def)

end
