(* ===== verification/LB_Config.thy ===== *)
theory LB_Config
  imports Annotations
begin

text \<open>
  Reading a load balancer configuration from a service: the getters of \<^verbatim>\<open>loadbalancers.go\<close>
  for names, types, sizes, health checks, forwarding rules, sticky sessions and source
  ranges. Everything here is a pure function of the service except the certificate lookup.
\<close>

section \<open>Constants\<close>

definition LoadBalancerTypeRegional :: string where
  "LoadBalancerTypeRegional = ''REGIONAL''"

definition LoadBalancerTypeRegionalNetwork :: string where
  "LoadBalancerTypeRegionalNetwork = ''REGIONAL_NETWORK''"

definition LoadBalancerNetworkTypeExternal :: string where
  "LoadBalancerNetworkTypeExternal = ''EXTERNAL''"

definition LoadBalancerNetworkTypeInternal :: string where
  "LoadBalancerNetworkTypeInternal = ''INTERNAL''"

definition stickySessionsTypeNone :: string where
  "stickySessionsTypeNone = ''none''"

definition stickySessionsTypeCookies :: string where
  "stickySessionsTypeCookies = ''cookies''"

definition protocolTCP :: string where "protocolTCP = ''tcp''"

definition protocolUDP :: string where "protocolUDP = ''udp''"

definition protocolHTTP :: string where "protocolHTTP = ''http''"

definition protocolHTTPS :: string where "protocolHTTPS = ''https''"

definition protocolHTTP2 :: string where "protocolHTTP2 = ''http2''"

definition protocolHTTP3 :: string where "protocolHTTP3 = ''http3''"

definition defaultSecurePort :: int where "defaultSecurePort = 443"

definition kubeProxyHealthPort :: int where "kubeProxyHealthPort = 10256"

definition ProtocolTCP :: string where "ProtocolTCP = ''TCP''"

definition ProtocolUDP :: string where "ProtocolUDP = ''UDP''"

definition ServiceTypeLoadBalancer :: string where
  "ServiceTypeLoadBalancer = ''LoadBalancer''"

definition ServiceTypeNodePort :: string where
  "ServiceTypeNodePort = ''NodePort''"

lemmas lb_const_defs =
  LoadBalancerTypeRegional_def LoadBalancerTypeRegionalNetwork_def
  LoadBalancerNetworkTypeExternal_def LoadBalancerNetworkTypeInternal_def
  stickySessionsTypeNone_def stickySessionsTypeCookies_def
  protocolTCP_def protocolUDP_def protocolHTTP_def protocolHTTPS_def protocolHTTP2_def
  protocolHTTP3_def defaultSecurePort_def kubeProxyHealthPort_def ProtocolTCP_def
  ProtocolUDP_def ServiceTypeLoadBalancer_def ServiceTypeNodePort_def

section \<open>Names and identifiers\<close>

text \<open>\<^verbatim>\<open>cloudprovider.DefaultLoadBalancerName\<close>: "a" and the UID without dashes, at most 32 bytes.\<close>

definition DefaultLoadBalancerName :: "Service \<Rightarrow> string" where
  "DefaultLoadBalancerName s = take 32 (filter (\<lambda>c. c \<noteq> CHR ''-'') (''a'' @ svc_UID s))"

definition getLoadBalancerLegacyName :: "Service \<Rightarrow> string" where
  "getLoadBalancerLegacyName s = DefaultLoadBalancerName s"

definition getLoadBalancerName :: "Service \<Rightarrow> string" where
  "getLoadBalancerName s =
     (let name = ann s annDOLoadBalancerName in
      if 0 < length name then name else getLoadBalancerLegacyName s)"

definition GetLoadBalancerName :: "Service \<Rightarrow> string" where
  "GetLoadBalancerName s = getLoadBalancerName s"

definition getLoadBalancerID :: "Service \<Rightarrow> string" where
  "getLoadBalancerID s = ann s annDOLoadBalancerID"

section \<open>Scalar settings\<close>

definition getProtocol :: "Service \<Rightarrow> string outcome" where
  "getProtocol s =
     (case ann_lookup s annDOProtocol of
        None \<Rightarrow> Ok protocolTCP
      | Some protocol \<Rightarrow>
          if protocol \<in> set [protocolTCP, protocolHTTP, protocolHTTPS, protocolHTTP2, protocolHTTP3]
          then Ok protocol
          else Err (NewError (''invalid protocol '' @ quote protocol @
            '' specified in annotation '' @ quote annDOProtocol)))"

definition getHostname :: "Service \<Rightarrow> string" where
  "getHostname s = ToLower (ann s annDOHostname)"

definition getLoadBalancerIP :: "Service \<Rightarrow> string" where
  "getLoadBalancerIP s = TrimSpace (ann s annDOLoadBalancerIP)"

definition getSubnetUUID :: "Service \<Rightarrow> string" where
  "getSubnetUUID s = TrimSpace (ann s annDOSubnetUUID)"

text \<open>\<^verbatim>\<open>getAlgorithm\<close>, \<^verbatim>\<open>getSizeSlug\<close> and \<^verbatim>\<open>getSizeUnit\<close>; the unit is truncated to 32 bits.\<close>

definition getAlgorithm :: "Service \<Rightarrow> string" where
  "getAlgorithm s =
     (if ann s annDOAlgorithm = ''least_connections'' then ''least_connections''
      else ''round_robin'')"

definition getSizeSlug :: "Service \<Rightarrow> string outcome" where
  "getSizeSlug s =
     (let sizeSlug = ann s annDOSizeSlug in
      if sizeSlug \<noteq> '''' \<and> sizeSlug \<notin> set [''lb-small'', ''lb-medium'', ''lb-large'']
      then Err (NewError (''invalid LB size slug provided: '' @ sizeSlug))
      else Ok sizeSlug)"

definition getSizeUnit :: "Service \<Rightarrow> int outcome" where
  "getSizeUnit s =
     (case ann_lookup s annDOSizeUnit of
        None \<Rightarrow> Ok 0
      | Some sizeUnitStr \<Rightarrow>
          if sizeUnitStr = '''' then Ok 0
          else bindR
            (map_err (\<lambda>e. Errorf (''invalid LB size unit '' @ quote sizeUnitStr @ '' provided: '') e '''')
               (Atoi sizeUnitStr))
            (\<lambda>sizeUnit.
               if sizeUnit < 0
               then Err (NewError (''LB size unit must be non-negative. '' @ Itoa sizeUnit @ '' provided''))
               else Ok (uint32 sizeUnit)))"

definition getStickySessionsType :: "Service \<Rightarrow> string" where
  "getStickySessionsType s =
     (if ann s annDOStickySessionsType = stickySessionsTypeCookies
      then stickySessionsTypeCookies else stickySessionsTypeNone)"

definition getStickySessionsCookieName :: "Service \<Rightarrow> string outcome" where
  "getStickySessionsCookieName s =
     (let name = ann s annDOStickySessionsCookieName in
      if name = '''' then Err (NewError ''sticky session cookie name not specified, but required'')
      else Ok name)"

definition getStickySessionsCookieTTL :: "Service \<Rightarrow> int outcome" where
  "getStickySessionsCookieTTL s =
     (let ttl = ann s annDOStickySessionsCookieTTL in
      if ttl = '''' then Err (NewError ''sticky session cookie ttl not specified, but required'')
      else Atoi ttl)"

definition buildStickySessions :: "Service \<Rightarrow> StickySessions outcome" where
  "buildStickySessions s =
     (let t = getStickySessionsType s in
      if t = stickySessionsTypeNone
      then Ok \<lparr>ss_Type = t, ss_CookieName = '''', ss_CookieTtlSeconds = 0\<rparr>
      else bindR (getStickySessionsCookieName s) (\<lambda>name.
           bindR (getStickySessionsCookieTTL s) (\<lambda>ttl.
           Ok \<lparr>ss_Type = t, ss_CookieName = name, ss_CookieTtlSeconds = ttl\<rparr>)))"

section \<open>Boolean settings\<close>

definition getBoolSetting :: "Service \<Rightarrow> string \<Rightarrow> string \<Rightarrow> bool outcome" where
  "getBoolSetting s key what =
     bindR (map_err (\<lambda>e. Errorf (''failed to get '' @ what @ '' configuration setting: '') e '''')
         (getBool (svc_Annotations s) key))
       (\<lambda>(value, found). Ok value)"

definition getRedirectHTTPToHTTPS :: "Service \<Rightarrow> bool outcome" where
  "getRedirectHTTPToHTTPS s = getBoolSetting s annDORedirectHTTPToHTTPS ''HTTP-to-HTTPS''"

definition getEnableProxyProtocol :: "Service \<Rightarrow> bool outcome" where
  "getEnableProxyProtocol s = getBoolSetting s annDOEnableProxyProtocol ''proxy protocol''"

definition getDisableLetsEncryptDNSRecords :: "Service \<Rightarrow> bool outcome" where
  "getDisableLetsEncryptDNSRecords s =
     getBoolSetting s annDODisableLetsEncryptDNSRecords ''disable lets encrypt dns records''"

definition getEnableBackendKeepalive :: "Service \<Rightarrow> bool outcome" where
  "getEnableBackendKeepalive s = getBoolSetting s annDOEnableBackendKeepalive ''backend keepalive''"

definition getDisownLB :: "Service \<Rightarrow> bool outcome" where
  "getDisownLB s = getBoolSetting s annDODisownLB ''disown LB''"

definition getTLSPassThrough :: "Service \<Rightarrow> bool" where
  "getTLSPassThrough s =
     (case getBool (svc_Annotations s) annDOTLSPassThrough of
        Ok (passThrough, found) \<Rightarrow> passThrough | _ \<Rightarrow> False)"

definition getHttpIdleTimeoutSeconds :: "Service \<Rightarrow> int option outcome" where
  "getHttpIdleTimeoutSeconds s =
     (case ann_lookup s annDOHttpIdleTimeoutSeconds of
        None \<Rightarrow> Ok None
      | Some v \<Rightarrow>
          bindR (map_err (\<lambda>e. Errorf (''failed to parse provided LB HTTP idle timeout seconds value '' @
                 [CHR 0x27] @ v @ [CHR 0x27] @ '': '') e '''')
               (ParseUint v))
            (\<lambda>t. Ok (Some t)))"

section \<open>Type and network\<close>

definition valid_lb_type :: "string \<Rightarrow> bool" where
  "valid_lb_type t \<longleftrightarrow> t = LoadBalancerTypeRegional \<or> t = LoadBalancerTypeRegionalNetwork"

definition getType :: "Service \<Rightarrow> string \<Rightarrow> string outcome" where
  "getType s defaultLBType =
     (if \<not> valid_lb_type defaultLBType
      then Panic ''defaultLBType must be REGIONAL or REGIONAL_NETWORK''
      else
        let name = ann s annDOType in
        if name = '''' then Ok defaultLBType
        else if \<not> valid_lb_type name
        then Err (NewError ''only LB types supported are (REGIONAL, REGIONAL_NETWORK)'')
        else Ok name)"

definition getNetwork :: "Service \<Rightarrow> string outcome" where
  "getNetwork s =
     (let network = ann s annDONetwork in
      if network = '''' then Ok LoadBalancerNetworkTypeExternal
      else if \<not> (network = LoadBalancerNetworkTypeExternal \<or> network = LoadBalancerNetworkTypeInternal)
      then Err (NewError ''only LB networks supported are (EXTERNAL, INTERNAL)'')
      else Ok network)"

section \<open>Lists of ports and strings\<close>

definition getPorts :: "Service \<Rightarrow> string \<Rightarrow> int list outcome" where
  "getPorts s anno =
     (case ann_lookup s anno of
        None \<Rightarrow> Ok []
      | Some ports \<Rightarrow> mapR Atoi (Split1 (CHR '','') ports))"

definition getHTTPPorts :: "Service \<Rightarrow> int list outcome" where
  "getHTTPPorts s = getPorts s annDOHTTPPorts"

definition getHTTP2Ports :: "Service \<Rightarrow> int list outcome" where
  "getHTTP2Ports s = getPorts s annDOHTTP2Ports"

definition getHTTPSPorts :: "Service \<Rightarrow> int list outcome" where
  "getHTTPSPorts s = getPorts s annDOTLSPorts"

definition getHTTP3Port :: "Service \<Rightarrow> int outcome" where
  "getHTTP3Port s =
     (case ann_lookup s annDOHTTP3Port of None \<Rightarrow> Ok (- 1) | Some portStr \<Rightarrow> Atoi portStr)"

definition getStrings :: "Service \<Rightarrow> string \<Rightarrow> string list" where
  "getStrings s anno =
     (let vals = ann s anno in
      if vals = '''' then [] else map TrimSpace (Split1 (CHR '','') vals))"

text \<open>
  \<^verbatim>\<open>findDups\<close> counts the occurrences of each value and returns the repeated ones. The map
  is read in insertion order here; the code sorts the result, which makes the order of the
  range loop irrelevant.
\<close>

definition incr_occurrence :: "(int \<times> nat) list \<Rightarrow> int \<Rightarrow> (int \<times> nat) list" where
  "incr_occurrence m v = AList.update v (case map_of m v of None \<Rightarrow> 1 | Some n \<Rightarrow> Suc n) m"

definition findDups :: "int list list \<Rightarrow> string list" where
  "findDups vss =
     (let occurrences = foldl (foldl incr_occurrence) [] vss in
      sort_Strings (map (\<lambda>(v, n). Itoa v) (filter (\<lambda>(v, n). 1 < n) occurrences)))"

definition contains :: "int list \<Rightarrow> int \<Rightarrow> bool" where
  "contains vals v = list_ex (\<lambda>x. x = v) vals"

section \<open>Health checks\<close>

definition RequestsOnlyLocalTraffic :: "Service \<Rightarrow> bool" where
  "RequestsOnlyLocalTraffic s =
     (if svc_Type s \<noteq> ServiceTypeLoadBalancer \<and> svc_Type s \<noteq> ServiceTypeNodePort then False
      else svc_ExternalTrafficPolicy s = ''Local'')"

definition NeedsHealthCheck :: "Service \<Rightarrow> bool" where
  "NeedsHealthCheck s =
     (if svc_Type s \<noteq> ServiceTypeLoadBalancer then False else RequestsOnlyLocalTraffic s)"

definition GetServiceHealthCheckPathPort :: "Service \<Rightarrow> string \<times> int" where
  "GetServiceHealthCheckPathPort s =
     (if \<not> NeedsHealthCheck s then ('''', 0)
      else if svc_HealthCheckNodePort s = 0 then ('''', 0)
      else (''/healthz'', svc_HealthCheckNodePort s))"

definition healthCheckPathAndPort :: "Service \<Rightarrow> string \<times> int" where
  "healthCheckPathAndPort s =
     (case GetServiceHealthCheckPathPort s of (path, healthCheckNodePort) \<Rightarrow>
        if path \<noteq> '''' then (path, healthCheckNodePort)
        else (''/healthz'', kubeProxyHealthPort))"

definition healthCheckPath :: "Service \<Rightarrow> string" where
  "healthCheckPath s = (case ann_lookup s annDOHealthCheckPath of None \<Rightarrow> '''' | Some path \<Rightarrow> path)"

definition healthCheckPort :: "Service \<Rightarrow> int outcome" where
  "healthCheckPort s =
     bindR (map_err (\<lambda>e. Errorf ''failed to get health check port: '' e '''')
         (getPorts s annDOHealthCheckPort))
       (\<lambda>ports.
          if 1 < length ports
          then Err (NewError (''annotation '' @ annDOHealthCheckPort @
            '' only supports a single port, but found multiple: '' @ show_list (map Itoa ports)))
          else (case ports of
              port # _ \<Rightarrow>
                (case find (\<lambda>sp. sp_Port sp = port) (svc_Ports s) of
                   Some sp \<Rightarrow>
                     if sp_Protocol sp = ProtocolUDP
                     then Err (NewError (''health check port: '' @ Itoa (sp_Port sp) @
                       '', cannot be of protocol type UDP''))
                     else Ok (sp_NodePort sp)
                 | None \<Rightarrow>
                     Err (NewError (''specified health check port '' @ Itoa port @
                       '' does not exist on service '' @ svc_Namespace s @ ''/'' @ svc_Name s)))
            | [] \<Rightarrow>
                (case find (\<lambda>sp. sp_Protocol sp = ProtocolTCP) (svc_Ports s) of
                   Some sp \<Rightarrow> Ok (sp_NodePort sp)
                 | None \<Rightarrow> Err (NewError ''no health check port of protocol TCP found''))))"

definition healthCheckProtocol :: "Service \<Rightarrow> string outcome" where
  "healthCheckProtocol s =
     (let protocol = ann s annDOHealthCheckProtocol; path = healthCheckPath s in
      if protocol = '''' then
        if path \<noteq> '''' then Ok protocolHTTP else Ok protocolTCP
      else if protocol \<in> set [protocolTCP, protocolHTTP, protocolHTTPS] then Ok protocol
      else Err (NewError (''invalid protocol '' @ quote protocol @ '' specified in annotation '' @
        quote annDOHealthCheckProtocol)))"

text \<open>The four numeric settings differ in their key, their default and their message.\<close>

definition intAnnotation :: "Service \<Rightarrow> string \<Rightarrow> string \<Rightarrow> int \<Rightarrow> int outcome" where
  "intAnnotation s key what dflt =
     (case ann_lookup s key of
        None \<Rightarrow> Ok dflt
      | Some valStr \<Rightarrow>
          map_err (\<lambda>e. Errorf (''failed to parse health check '' @ what @ '' annotation '' @
            quote key @ '': '') e '''') (Atoi valStr))"

definition healthCheckIntervalSeconds :: "Service \<Rightarrow> int outcome" where
  "healthCheckIntervalSeconds s = intAnnotation s annDOHealthCheckIntervalSeconds ''interval'' 3"

definition healthCheckResponseTimeoutSeconds :: "Service \<Rightarrow> int outcome" where
  "healthCheckResponseTimeoutSeconds s =
     intAnnotation s annDOHealthCheckResponseTimeoutSeconds ''response timeout'' 5"

definition healthCheckUnhealthyThreshold :: "Service \<Rightarrow> int outcome" where
  "healthCheckUnhealthyThreshold s =
     intAnnotation s annDOHealthCheckUnhealthyThreshold ''unhealthy threshold'' 3"

definition healthCheckHealthyThreshold :: "Service \<Rightarrow> int outcome" where
  "healthCheckHealthyThreshold s =
     intAnnotation s annDOHealthCheckHealthyThreshold ''healthy threshold'' 5"

definition buildHealthCheck :: "Service \<Rightarrow> HealthCheck outcome" where
  "buildHealthCheck s =
     bindR
       (case ann_lookup s annDOOverrideHealthCheck of
          None \<Rightarrow>
            (case healthCheckPathAndPort s of (path, port) \<Rightarrow>
               Ok (path, port, protocolHTTP, Some False))
        | Some _ \<Rightarrow>
            bindR (healthCheckPort s) (\<lambda>port.
            bindR (healthCheckProtocol s) (\<lambda>protocol.
            Ok (healthCheckPath s, port, protocol, None))))
       (\<lambda>(hcPath, hcPort, hcProtocol, proxyProtocol).
          bindR (healthCheckIntervalSeconds s) (\<lambda>checkIntervalSecs.
          bindR (healthCheckResponseTimeoutSeconds s) (\<lambda>responseTimeoutSecs.
          bindR (healthCheckUnhealthyThreshold s) (\<lambda>unhealthyThreshold.
          bindR (healthCheckHealthyThreshold s) (\<lambda>healthyThreshold.
          Ok \<lparr>hc_Protocol = hcProtocol, hc_Port = hcPort, hc_Path = hcPath,
              hc_CheckIntervalSeconds = checkIntervalSecs,
              hc_ResponseTimeoutSeconds = responseTimeoutSecs,
              hc_HealthyThreshold = healthyThreshold,
              hc_UnhealthyThreshold = unhealthyThreshold,
              hc_ProxyProtocol = proxyProtocol\<rparr>)))))"

section \<open>Certificates\<close>

definition getCertificateID :: "Service \<Rightarrow> string" where
  "getCertificateID s = ann s annDOCertificateID"

definition getCertificateName :: "Service \<Rightarrow> string" where
  "getCertificateName s = ann s annDOCertificateName"

definition findCertificateID :: "'w client \<Rightarrow> Service \<Rightarrow> ('w, string) cmd" where
  "findCertificateID c s =
     (let certificateID = getCertificateID s; certificateName = getCertificateName s in
      if certificateID \<noteq> '''' then returnM certificateID
      else if certificateName = '''' then returnM ''''
      else bindM (api (Certificates_ListByName c certificateName 1 1)) (\<lambda>(lbCert, resp, err).
        case err of
          Some e \<Rightarrow> liftR (Err (Errorf (''failed to get certificate by name: '' @
            quote certificateName @ '' error: '') e ''''))
        | None \<Rightarrow>
            (case lbCert of
               [] \<Rightarrow> liftR (Err (NewError (''certificate with name: '' @
                 quote certificateName @ '' not found'')))
             | cert # _ \<Rightarrow> returnM (cert_ID cert))))"

section \<open>Forwarding rules\<close>

definition buildTLSForwardingRule ::
    "ForwardingRule \<Rightarrow> string \<Rightarrow> bool \<Rightarrow> ForwardingRule outcome" where
  "buildTLSForwardingRule rule certificateID tlsPassThrough =
     (if certificateID = '''' \<and> \<not> tlsPassThrough
      then Err (NewError ''must set certificate id or enable tls pass through'')
      else if certificateID \<noteq> '''' \<and> tlsPassThrough
      then Err (NewError ''either certificate id should be set or tls pass through enabled, not both'')
      else if tlsPassThrough then Ok (rule\<lparr>fr_TlsPassthrough := tlsPassThrough\<rparr>)
      else Ok (rule\<lparr>fr_CertificateID := certificateID, fr_TargetProtocol := protocolHTTP\<rparr>))"

definition buildForwardingRule ::
    "ServicePort \<Rightarrow> string \<Rightarrow> string \<Rightarrow> bool \<Rightarrow> ForwardingRule outcome" where
  "buildForwardingRule port protocol certificateID tlsPassThrough =
     (if sp_Protocol port \<noteq> ProtocolTCP \<and> sp_Protocol port \<noteq> ProtocolUDP
      then Err (NewError (''only TCP or UDP protocol is supported, got: '' @ quote (sp_Protocol port)))
      else
        let rule = \<lparr>fr_EntryProtocol = protocol, fr_EntryPort = sp_Port port,
                    fr_TargetProtocol = protocol, fr_TargetPort = sp_NodePort port,
                    fr_CertificateID = '''', fr_TlsPassthrough = False\<rparr> in
        if protocol = protocolHTTPS \<or> protocol = protocolHTTP2
        then map_err (\<lambda>e. Errorf ''failed to build TLS part(s) of forwarding rule: '' e '''')
               (buildTLSForwardingRule rule certificateID tlsPassThrough)
        else Ok rule)"

definition buildHTTP3ForwardingRule ::
    "'w client \<Rightarrow> Service \<Rightarrow> ('w, ForwardingRule option) cmd" where
  "buildHTTP3ForwardingRule c s =
     bindM (liftR (getHTTP3Port s)) (\<lambda>http3Port.
       if http3Port = - 1 then returnM None
       else bindM (findCertificateID c s) (\<lambda>certificateID.
         if getTLSPassThrough s
         then liftR (Err (NewError ''TLS passthrough is not allowed to be used in conjunction with HTTP3''))
         else if certificateID = ''''
         then liftR (Err (NewError ''certificate ID is required for HTTP3''))
         else (case find (\<lambda>port. sp_Port port = int32 http3Port) (svc_Ports s) of
             Some port \<Rightarrow>
               returnM (Some \<lparr>fr_EntryProtocol = protocolHTTP3, fr_EntryPort = http3Port,
                   fr_TargetProtocol = protocolHTTP, fr_TargetPort = sp_NodePort port,
                   fr_CertificateID = certificateID, fr_TlsPassthrough = False\<rparr>)
           | None \<Rightarrow> returnM None)))"

text \<open>The protocol of a service port: the port lists override the default, UDP overrides them.\<close>

definition portProtocolFor ::
    "string \<Rightarrow> int list \<Rightarrow> int list \<Rightarrow> int list \<Rightarrow> ServicePort \<Rightarrow> string" where
  "portProtocolFor defaultProtocol httpPorts httpsPorts http2Ports port =
     (let protocol = defaultProtocol;
          protocol = (if sp_Port port \<in> set (map int32 httpPorts) then protocolHTTP else protocol);
          protocol = (if sp_Port port \<in> set (map int32 httpsPorts) then protocolHTTPS else protocol);
          protocol = (if sp_Port port \<in> set (map int32 http2Ports) then protocolHTTP2 else protocol)
      in if sp_Protocol port = ProtocolUDP then protocolUDP else protocol)"

text \<open>
  The secure default: with a certificate or pass-through and no port listed for HTTPS, port
  443 is served over HTTPS unless it is listed for HTTP/2.
\<close>

definition effectiveHTTPSPorts :: "string \<Rightarrow> bool \<Rightarrow> int list \<Rightarrow> int list \<Rightarrow> int list" where
  "effectiveHTTPSPorts certificateID tlsPassThrough httpsPorts http2Ports =
     (let needSecureProto = (certificateID \<noteq> '''' \<or> tlsPassThrough) in
      if needSecureProto \<and> length httpsPorts = 0 \<and> \<not> contains http2Ports defaultSecurePort
      then httpsPorts @ [defaultSecurePort] else httpsPorts)"

definition buildForwardingRules ::
    "'w client \<Rightarrow> Service \<Rightarrow> ('w, ForwardingRule list) cmd" where
  "buildForwardingRules c s =
     bindM (liftR (getProtocol s)) (\<lambda>defaultProtocol.
     bindM (liftR (getHTTPPorts s)) (\<lambda>httpPorts.
     bindM (liftR (getHTTPSPorts s)) (\<lambda>httpsPorts.
     bindM (liftR (getHTTP2Ports s)) (\<lambda>http2Ports.
     let portDups = findDups [httpPorts, httpsPorts, http2Ports] in
     if portDups \<noteq> [] then
       liftR (Err (NewError (''ports from annotations '' @ quote (annDOLoadBalancerBase @ ''*-ports'') @
         '' cannot be shared but found: '' @ join '', '' portDups)))
     else
     bindM (findCertificateID c s) (\<lambda>certificateID.
     let tlsPassThrough = getTLSPassThrough s;
         httpsPorts = effectiveHTTPSPorts certificateID tlsPassThrough httpsPorts http2Ports in
     bindM (liftR (mapR (\<lambda>port.
         buildForwardingRule port
           (portProtocolFor defaultProtocol httpPorts httpsPorts http2Ports port)
           certificateID tlsPassThrough) (svc_Ports s))) (\<lambda>forwardingRules.
     bindM (map_errM (\<lambda>e. Wrapf ''failed to construct http3 forwarding rule: '' e '''')
         (buildHTTP3ForwardingRule c s)) (\<lambda>h3.
     returnM (forwardingRules @ (case h3 of None \<Rightarrow> [] | Some r \<Rightarrow> [r])))))))))"

definition buildRegionalNetworkForwardingRule :: "Service \<Rightarrow> ForwardingRule list outcome" where
  "buildRegionalNetworkForwardingRule s =
     mapR (\<lambda>port.
       bindR
         (if sp_Protocol port = ProtocolTCP then Ok protocolTCP
          else if sp_Protocol port = ProtocolUDP then Ok protocolUDP
          else Err (NewError (''only TCP or UDP protocol is supported, got: '' @ quote (sp_Protocol port))))
         (\<lambda>protocol.
            Ok \<lparr>fr_EntryProtocol = protocol, fr_EntryPort = sp_Port port,
                fr_TargetProtocol = protocol, fr_TargetPort = sp_Port port,
                fr_CertificateID = '''', fr_TlsPassthrough = False\<rparr>)) (svc_Ports s)"

section \<open>Load balancer firewall\<close>

text \<open>
  \<^verbatim>\<open>utilnet.ParseIPNets\<close> collects the networks in a map keyed by their canonical text, so
  repeated networks appear once and the loop over the map visits them in any order.
\<close>

definition ParseIPNets :: "'w client \<Rightarrow> string list \<Rightarrow> string list outcome" where
  "ParseIPNets c specs =
     bindR (mapR (\<lambda>spec. ParseCIDRSloppy c (TrimSpace spec)) specs) (\<lambda>keys. Ok (remdups keys))"

definition getSourceRangeRules :: "'w client \<Rightarrow> Service \<Rightarrow> string list outcome" where
  "getSourceRangeRules c s =
     (if svc_LoadBalancerSourceRanges s = [] then Ok []
      else bindR
        (map_err (\<lambda>e. Errorf (''failed to parse spec.loadBalancerSourceRanges '' @
               show_list (map quote (svc_LoadBalancerSourceRanges s)) @ '': '') e
             '' (expected format for an IP address is 10.0.0.0/24)'')
           (ParseIPNets c (svc_LoadBalancerSourceRanges s)))
        (\<lambda>ipnets. Ok (map (\<lambda>sourceRange. ''cidr:'' @ sourceRange) (map_order c ipnets))))"

definition buildFirewall :: "'w client \<Rightarrow> Service \<Rightarrow> LBFirewall outcome" where
  "buildFirewall c s =
     bindR (map_err (\<lambda>e. Errorf ''failed to get source range rules: '' e '''') (getSourceRangeRules c s))
       (\<lambda>sourceRanges.
          Ok \<lparr>lbf_Allow = (if sourceRanges \<noteq> [] then sourceRanges else getStrings s annDOAllowRules),
              lbf_Deny = getStrings s annDODenyRules\<rparr>)"

section \<open>Duplicate ports\<close>

lemma foldl_foldl_concat: "foldl (foldl f) a xss = foldl f a (concat xss)"
  by (induction xss arbitrary: a) simp_all

lemma occurrences_distinct:
  "distinct (map fst m) \<Longrightarrow> distinct (map fst (foldl incr_occurrence m vs))"
  by (induction vs arbitrary: m) (simp_all add: incr_occurrence_def distinct_update)

lemma occurrences_count:
  "map_of (foldl incr_occurrence m vs) v =
     (if v \<in> set vs
      then Some (count_list vs v + (case map_of m v of None \<Rightarrow> 0 | Some n \<Rightarrow> n))
      else map_of m v)"
  by (induction vs arbitrary: m)
    (auto simp: incr_occurrence_def AList.update_conv' split: option.splits)

lemma mem_occurrences:
  "(v, n) \<in> set (foldl incr_occurrence [] vs) \<longleftrightarrow> v \<in> set vs \<and> n = count_list vs v"
proof -
  have "distinct (map fst (foldl incr_occurrence [] vs))" by (rule occurrences_distinct) simp
  then have "(v, n) \<in> set (foldl incr_occurrence [] vs) \<longleftrightarrow>
      map_of (foldl incr_occurrence [] vs) v = Some n" by simp
  then show ?thesis by (auto simp: occurrences_count)
qed

lemma findDups_set: "set (findDups vss) = Itoa ` {v. 1 < count_list (concat vss) v}"
proof -
  let ?vs = "concat vss"
  have "{p \<in> set (foldl incr_occurrence [] ?vs). (\<lambda>(v, n). 1 < n) p} =
      (\<lambda>v. (v, count_list ?vs v)) ` {v. 1 < count_list ?vs v}"
    by (auto simp: mem_occurrences image_iff dest: in_set_if_count)
  then show ?thesis
    by (simp add: findDups_def foldl_foldl_concat strings_order.sorted_slice_set image_image)
qed

lemma findDups_empty_iff: "findDups vss = [] \<longleftrightarrow> distinct (concat vss)"
proof -
  have "findDups vss = [] \<longleftrightarrow> {v. 1 < count_list (concat vss) v} = {}"
    by (metis findDups_set image_is_empty set_empty)
  then show ?thesis by (auto simp: distinct_iff_count_list not_less)
qed

text \<open>
  \<open>findDups\<close> returns, in sorted order, the decimal texts of exactly the values that occur
  more than once in the lists taken together, whether in one list or in two; it returns
  nothing exactly when all the values are different.
\<close>

theorem findDups_correct:
  "set (findDups vss) = Itoa ` {v. 1 < count_list (concat vss) v} \<and> sorted (findDups vss) \<and>
   (findDups vss = [] \<longleftrightarrow> distinct (concat vss))"
  using strings_order.sorted_slice_sorted
  by (simp add: findDups_set findDups_empty_iff) (simp add: findDups_def)

section \<open>Port lists\<close>

lemma mapR_map_id: "(\<And>x. x \<in> set xs \<Longrightarrow> f (g x) = Ok x) \<Longrightarrow> mapR f (map g xs) = Ok xs"
  by (induction xs) auto

text \<open>
  A port annotation written as the comma-separated decimal texts of a non-empty list of
  64-bit numbers is read back as exactly that list.
\<close>

theorem getPorts_roundtrip:
  assumes "ports \<noteq> []" and "\<And>p. p \<in> set ports \<Longrightarrow> is_int64 p"
    and "ann_lookup s anno = Some (join '','' (map Itoa ports))"
  shows "getPorts s anno = Ok ports"
proof -
  have "Split1 (CHR '','') (join '','' (map Itoa ports)) = map Itoa ports"
    by (rule Split1_join) (use assms(1) in \<open>auto simp: Itoa_no_comma\<close>)
  with assms show ?thesis by (simp add: getPorts_def mapR_map_id)
qed

definition example_service :: Service where
  "example_service =
     \<lparr>svc_Name = ''web'', svc_Namespace = ''default'', svc_UID = ''abc-123-def'',
      svc_Annotations = [(annDOTLSPorts, ''443,8443''), (annDOCertificateID, ''cert-1'')],
      svc_DeletionTimestamp = None, svc_Type = ''LoadBalancer'',
      svc_Ports = [\<lparr>sp_Name = ''https'', sp_Protocol = ''TCP'', sp_Port = 443, sp_NodePort = 30443\<rparr>,
                   \<lparr>sp_Name = ''dns'', sp_Protocol = ''UDP'', sp_Port = 53, sp_NodePort = 30053\<rparr>],
      svc_ExternalTrafficPolicy = ''Cluster'', svc_HealthCheckNodePort = 0,
      svc_LoadBalancerSourceRanges = [], svc_Ingress = []\<rparr>"

theorem getPorts_roundtrip_witness:
  "getPorts example_service annDOTLSPorts = Ok [443, 8443]"
proof (rule getPorts_roundtrip)
  show "ann_lookup example_service annDOTLSPorts = Some (join '','' (map Itoa [443, 8443]))"
    by code_simp
qed (auto simp: is_int64_def)

section \<open>Forwarding rules\<close>

text \<open>
  What a forwarding rule promises about TLS: a rule for HTTPS or HTTP/2 either passes the
  encrypted traffic through or terminates it with a certificate and forwards plain HTTP, and
  never both; no other rule passes TLS through.
\<close>

definition tls_rule_ok :: "ForwardingRule \<Rightarrow> bool" where
  "tls_rule_ok r \<longleftrightarrow>
     (if fr_EntryProtocol r \<in> set [protocolHTTPS, protocolHTTP2]
      then fr_TlsPassthrough r \<and> fr_CertificateID r = '''' \<and> fr_TargetProtocol r = fr_EntryProtocol r \<or>
           \<not> fr_TlsPassthrough r \<and> fr_CertificateID r \<noteq> '''' \<and> fr_TargetProtocol r = protocolHTTP
      else \<not> fr_TlsPassthrough r)"

lemma buildForwardingRule_ports:
  "buildForwardingRule p proto cid tls = Ok r \<Longrightarrow>
     fr_EntryPort r = sp_Port p \<and> fr_TargetPort r = sp_NodePort p \<and> fr_EntryProtocol r = proto"
  by (auto simp: buildForwardingRule_def buildTLSForwardingRule_def outcome_simps Let_def
      split: if_splits)

lemma buildForwardingRule_tls: "buildForwardingRule p proto cid tls = Ok r \<Longrightarrow> tls_rule_ok r"
  by (auto simp: buildForwardingRule_def buildTLSForwardingRule_def outcome_simps Let_def
      tls_rule_ok_def split: if_splits)

lemma portProtocolFor_UDP: "sp_Protocol p = ProtocolUDP \<Longrightarrow> portProtocolFor d h hs h2 p = protocolUDP"
  by (simp add: portProtocolFor_def Let_def)

lemma buildHTTP3ForwardingRule_Ok:
  assumes "buildHTTP3ForwardingRule c s w = (Ok (Some r), w')"
  shows "fr_EntryProtocol r = protocolHTTP3 \<and> tls_rule_ok r \<and> fr_CertificateID r \<noteq> '''' \<and>
    getHTTP3Port s = Ok (fr_EntryPort r) \<and> \<not> getTLSPassThrough s \<and>
    (\<exists>p \<in> set (svc_Ports s). sp_Port p = int32 (fr_EntryPort r) \<and> sp_NodePort p = fr_TargetPort r)"
  using assms
  by (auto simp: buildHTTP3ForwardingRule_def outcome_simps tls_rule_ok_def lb_const_defs
      split: if_splits option.splits) (blast dest: find_SomeD)

lemma buildForwardingRules_Ok:
  assumes "buildForwardingRules c s w = (Ok rules, w')"
  shows "\<exists>d http https http2 cid base h3 u.
    getHTTPPorts s = Ok http \<and> getHTTPSPorts s = Ok https \<and> getHTTP2Ports s = Ok http2 \<and>
    distinct (http @ https @ http2) \<and>
    mapR (\<lambda>p. buildForwardingRule p
        (portProtocolFor d http (effectiveHTTPSPorts cid (getTLSPassThrough s) https http2) http2 p) cid
        (getTLSPassThrough s)) (svc_Ports s) = Ok base \<and>
    buildHTTP3ForwardingRule c s u = (Ok h3, w') \<and>
    rules = base @ (case h3 of None \<Rightarrow> [] | Some r \<Rightarrow> [r])"
  using assms unfolding buildForwardingRules_def
  by (clarsimp simp: outcome_simps Let_def findDups_empty_iff simp del: distinct_append split: if_splits)
    fastforce


definition example_rules :: "ForwardingRule list" where
  "example_rules =
     [\<lparr>fr_EntryProtocol = ''https'', fr_EntryPort = 443, fr_TargetProtocol = ''http'',
       fr_TargetPort = 30443, fr_CertificateID = ''cert-1'', fr_TlsPassthrough = False\<rparr>,
      \<lparr>fr_EntryProtocol = ''udp'', fr_EntryPort = 53, fr_TargetProtocol = ''udp'',
       fr_TargetPort = 30053, fr_CertificateID = '''', fr_TlsPassthrough = False\<rparr>]"

lemma example_rules_built:
  "buildForwardingRules (offline_client :: unit client) example_service () = (Ok example_rules, ())"
  by code_simp


text \<open>
  A port may appear only once in the HTTP, HTTPS and HTTP/2 port annotations: when the
  three lists parse and some value occurs twice, building the rules fails before any API call.
\<close>

theorem buildForwardingRules_shared_ports:
  assumes "getProtocol s = Ok d" and "getHTTPPorts s = Ok http" and "getHTTPSPorts s = Ok https"
    and "getHTTP2Ports s = Ok http2" and "\<not> distinct (http @ https @ http2)"
  shows "\<exists>e. buildForwardingRules c s w = (Err e, w)"
proof -
  from assms(5) have "findDups [http, https, http2] \<noteq> []"
    by (simp add: findDups_empty_iff del: distinct_append)
  with assms(1-4) show ?thesis by (simp add: buildForwardingRules_def Let_def outcome_simps)
qed

theorem buildForwardingRules_shared_ports_witness:
  "\<exists>e. buildForwardingRules (offline_client :: unit client)
     (example_service\<lparr>svc_Annotations := [(annDOHTTPPorts, ''80,443''), (annDOTLSPorts, ''443'')]\<rparr>) () =
     (Err e, ())"
  by (rule buildForwardingRules_shared_ports [of _ protocolTCP "[80, 443]" "[443]" "[]"])
    (code_simp, code_simp, code_simp, code_simp, simp)

text \<open>
  The check for shared ports compares 64-bit numbers, the rules 32-bit ones. Two different
  annotated ports that agree modulo \<open>2 ^ 32\<close> pass the check although they select the same
  service port, and the later list silently wins.
\<close>

theorem shared_port_check_ignores_truncation:
  "findDups [[80], [2 ^ 32 + 80], []] = [] \<and>
   portProtocolFor protocolTCP [80] [2 ^ 32 + 80] []
     \<lparr>sp_Name = ''web'', sp_Protocol = ProtocolTCP, sp_Port = 80, sp_NodePort = 30080\<rparr> = protocolHTTPS"
  by (simp add: findDups_empty_iff portProtocolFor_def int32_def lb_const_defs)

section \<open>Sizes\<close>

text \<open>
  The size unit is the annotated number reduced modulo \<open>2 ^ 32\<close> when it is not negative;
  a negative number, or a text that is no 64-bit number, is an error.
\<close>

theorem getSizeUnit_cases:
  assumes "ann_lookup s annDOSizeUnit = Some v" and "v \<noteq> ''''"
  shows "(\<forall>n. Atoi v = Ok n \<and> 0 \<le> n \<longrightarrow> getSizeUnit s = Ok (n mod 2 ^ 32)) \<and>
    (\<forall>n. Atoi v = Ok n \<and> n < 0 \<longrightarrow> (\<exists>e. getSizeUnit s = Err e)) \<and>
    (\<forall>e. Atoi v = Err e \<longrightarrow> (\<exists>e'. getSizeUnit s = Err e'))"
  using assms by (auto simp: getSizeUnit_def uint32_def)

theorem getSizeUnit_cases_witness:
  "getSizeUnit (example_service\<lparr>svc_Annotations := [(annDOSizeUnit, ''4294967297'')]\<rparr>) = Ok 1"
proof -
  let ?s = "example_service\<lparr>svc_Annotations := [(annDOSizeUnit, ''4294967297'')]\<rparr>"
  have "Atoi ''4294967297'' = Ok 4294967297" by code_simp
  then show ?thesis using getSizeUnit_cases [of ?s "''4294967297''"] by simp
qed

section \<open>Health checks\<close>

lemma healthCheckPathAndPort_eq:
  "healthCheckPathAndPort s =
     (''/healthz'',
      if svc_Type s = ServiceTypeLoadBalancer \<and> svc_ExternalTrafficPolicy s = ''Local'' \<and>
         svc_HealthCheckNodePort s \<noteq> 0
      then svc_HealthCheckNodePort s else kubeProxyHealthPort)"
  by (simp add: healthCheckPathAndPort_def GetServiceHealthCheckPathPort_def NeedsHealthCheck_def
      RequestsOnlyLocalTraffic_def)

text \<open>
  Without the override annotation the health check is HTTP on \<^verbatim>\<open>/healthz\<close> without PROXY
  protocol, on the health check node port of a service with the local traffic policy and on
  kube-proxy's port otherwise.
\<close>

theorem buildHealthCheck_default:
  assumes "ann_lookup s annDOOverrideHealthCheck = None" and "buildHealthCheck s = Ok hc"
  shows "hc_Protocol hc = protocolHTTP \<and> hc_Path hc = ''/healthz'' \<and> hc_ProxyProtocol hc = Some False \<and>
    hc_Port hc = (if svc_Type s = ServiceTypeLoadBalancer \<and> svc_ExternalTrafficPolicy s = ''Local'' \<and>
                     svc_HealthCheckNodePort s \<noteq> 0
                  then svc_HealthCheckNodePort s else kubeProxyHealthPort)"
  using assms by (auto simp: buildHealthCheck_def healthCheckPathAndPort_eq outcome_simps)

definition example_local_service :: Service where
  "example_local_service = example_service\<lparr>svc_ExternalTrafficPolicy := ''Local'',
     svc_HealthCheckNodePort := 31000\<rparr>"

theorem buildHealthCheck_default_witness:
  "buildHealthCheck example_local_service =
     Ok \<lparr>hc_Protocol = ''http'', hc_Port = 31000, hc_Path = ''/healthz'', hc_CheckIntervalSeconds = 3,
         hc_ResponseTimeoutSeconds = 5, hc_HealthyThreshold = 5, hc_UnhealthyThreshold = 3,
         hc_ProxyProtocol = Some False\<rparr> \<and> kubeProxyHealthPort \<noteq> 31000"
proof -
  have hc: "buildHealthCheck example_local_service =
     Ok \<lparr>hc_Protocol = ''http'', hc_Port = 31000, hc_Path = ''/healthz'', hc_CheckIntervalSeconds = 3,
         hc_ResponseTimeoutSeconds = 5, hc_HealthyThreshold = 5, hc_UnhealthyThreshold = 3,
         hc_ProxyProtocol = Some False\<rparr>" by code_simp
  have "ann_lookup example_local_service annDOOverrideHealthCheck = None" by code_simp
  from buildHealthCheck_default [OF this hc] hc show ?thesis by (simp add: kubeProxyHealthPort_def)
qed

text \<open>
  With the override annotation the health check port is the node port of a port of the
  service: of the annotated one, which must not be UDP, or else of the first TCP port.
\<close>

theorem healthCheckPort_is_node_port:
  assumes "healthCheckPort s = Ok n"
  shows "\<exists>p \<in> set (svc_Ports s). n = sp_NodePort p \<and> sp_Protocol p \<noteq> ProtocolUDP \<and>
    (getPorts s annDOHealthCheckPort = Ok [sp_Port p] \<or>
     getPorts s annDOHealthCheckPort = Ok [] \<and> sp_Protocol p = ProtocolTCP)"
  using assms
  by (auto simp: healthCheckPort_def outcome_simps lb_const_defs
      split: if_splits list.splits option.splits dest!: find_SomeD)

theorem healthCheckPort_is_node_port_witness:
  "\<exists>p \<in> set (svc_Ports example_service). 30443 = sp_NodePort p \<and> sp_Protocol p \<noteq> ProtocolUDP"
proof -
  have "healthCheckPort example_service = Ok 30443" by code_simp
  from healthCheckPort_is_node_port [OF this] show ?thesis by blast
qed

section \<open>Type and network\<close>

text \<open>
  \<open>getType\<close> panics exactly when the configured default is not a supported type, whatever
  the service; otherwise it returns a supported type, the default when the annotation is
  absent or empty, or an error for an unsupported annotation.
\<close>

theorem getType_cases:
  "(\<exists>p. getType s d = Panic p) = (\<not> valid_lb_type d) \<and>
   (\<forall>t. getType s d = Ok t \<longrightarrow> valid_lb_type t \<and> t = (if ann s annDOType = '''' then d else ann s annDOType)) \<and>
   (valid_lb_type d \<longrightarrow> (\<exists>t. getType s d = Ok t) = (ann s annDOType = '''' \<or> valid_lb_type (ann s annDOType)))"
  by (auto simp: getType_def Let_def)

lemma getType_Ok_valid: "getType s d = Ok t \<Longrightarrow> valid_lb_type t"
  by (auto simp: getType_def Let_def split: if_splits)

lemma getNetwork_Ok: "getNetwork s = Ok n \<Longrightarrow>
    n = LoadBalancerNetworkTypeExternal \<or> n = LoadBalancerNetworkTypeInternal"
  by (auto simp: getNetwork_def Let_def split: if_splits)

section \<open>Source ranges\<close>

text \<open>
  The allow list of the load balancer firewall: with source ranges in the service spec it
  is exactly the set of their canonical networks, each prefixed with \<^verbatim>\<open>cidr:\<close>, in whatever
  order the map of networks is traversed; only without source ranges is it the allow annotation.
\<close>

theorem buildFirewall_allow:
  assumes "\<And>xs. mset (map_order c xs) = mset xs" and "buildFirewall c s = Ok fw"
  shows "if svc_LoadBalancerSourceRanges s = [] then lbf_Allow fw = getStrings s annDOAllowRules
    else distinct (lbf_Allow fw) \<and>
      set (lbf_Allow fw) = {''cidr:'' @ k | k spec.
        spec \<in> set (svc_LoadBalancerSourceRanges s) \<and> ParseCIDRSloppy c (TrimSpace spec) = Ok k}"
proof (cases "svc_LoadBalancerSourceRanges s = []")
  case True
  with assms(2) show ?thesis by (auto simp: buildFirewall_def getSourceRangeRules_def)
next
  case False
  let ?specs = "svc_LoadBalancerSourceRanges s"
  from assms(2) False obtain keys where keys: "mapR (\<lambda>spec. ParseCIDRSloppy c (TrimSpace spec)) ?specs = Ok keys"
    and fw: "lbf_Allow fw = (let sr = map (\<lambda>k. ''cidr:'' @ k) (map_order c (remdups keys)) in
        if sr \<noteq> [] then sr else getStrings s annDOAllowRules)"
    by (auto simp: buildFirewall_def getSourceRangeRules_def ParseIPNets_def outcome_simps)
  from assms(1) have perm: "set (map_order c xs) = set xs" "distinct (map_order c xs) = distinct xs" for xs
    by (metis mset_eq_setD) (metis assms(1) mset_eq_imp_distinct_iff)
  from keys False have "keys \<noteq> []" by (auto dest: mapR_length)
  with perm(1) [of "remdups keys"] have "map_order c (remdups keys) \<noteq> []" by force
  with fw have allow: "lbf_Allow fw = map (\<lambda>k. ''cidr:'' @ k) (map_order c (remdups keys))" by simp
  have "set keys = {k. \<exists>spec \<in> set ?specs. ParseCIDRSloppy c (TrimSpace spec) = Ok k}"
    by (rule mapR_set [OF keys])
  with allow perm False show ?thesis by (auto simp: distinct_map inj_on_def)
qed

theorem buildFirewall_allow_witness:
  "lbf_Allow \<lparr>lbf_Allow = [''cidr:10.0.0.0/24'', ''cidr:10.1.0.0/16''], lbf_Deny = []\<rparr> \<noteq> [] \<and>
   distinct [''cidr:10.0.0.0/24'', ''cidr:10.1.0.0/16'']"
proof -
  let ?s = "example_service\<lparr>svc_LoadBalancerSourceRanges := [''10.0.0.0/24'', '' 10.1.0.0/16'', ''10.0.0.0/24 '']\<rparr>"
  let ?fw = "\<lparr>lbf_Allow = [''cidr:10.0.0.0/24'', ''cidr:10.1.0.0/16''], lbf_Deny = []\<rparr>"
  have perm: "\<And>xs. mset (map_order (offline_client :: unit client) xs) = mset xs"
    by (simp add: offline_client_def Let_def)
  have built: "buildFirewall (offline_client :: unit client) ?s = Ok ?fw" by code_simp
  from buildFirewall_allow [OF perm built] show ?thesis by simp
qed

end
