(* ===== verification/Pagination.thy ===== *)
theory Pagination
  imports Cloud_Types
begin

text \<open>
  The listing loops of \<^verbatim>\<open>common.go\<close> and \<^verbatim>\<open>metadata.go\<close>, which request page after page
  until the API reports the last one. Nothing in the code bounds the number of pages, so each
  loop of the model has fuel, one unit per request, and a loop that has used it up is
  \<open>OutOfFuel\<close>. The locale \<open>paged_list\<close> is the contract the three collecting loops share; the
  lemma proved in it says that as much fuel as there are pages is enough.
\<close>

section \<open>Pagination links\<close>

definition IsLastPage :: "Links \<Rightarrow> bool" where
  "IsLastPage l = (case l of None \<Rightarrow> True | Some p \<Rightarrow> pg_Next p = '''')"

definition CurrentPage :: "'w client \<Rightarrow> Links \<Rightarrow> int outcome" where
  "CurrentPage c l =
     (case l of
        None \<Rightarrow> Ok 1
      | Some p \<Rightarrow>
          if pg_Prev p = '''' \<and> pg_Next p \<noteq> '''' then Ok 1
          else if pg_Prev p \<noteq> '''' then bindR (pageForURL c (pg_Prev p)) (\<lambda>prevPage. Ok (prevPage + 1))
          else Ok 0)"

definition apiResultsPerPage :: int where
  "apiResultsPerPage = 50"

definition resultsPerPage :: int where
  "resultsPerPage = 50"

section \<open>Collecting loops\<close>

fun allDropletList_loop ::
    "'w client \<Rightarrow> (int \<Rightarrow> int \<Rightarrow> ('w, Droplet list) call) \<Rightarrow> nat \<Rightarrow> int \<Rightarrow> Droplet list \<Rightarrow>
     ('w, Droplet list) cmd" where
  "allDropletList_loop c listFunc 0 page acc = liftR OutOfFuel"
| "allDropletList_loop c listFunc (Suc n) page acc =
     bindM (api (listFunc page apiResultsPerPage)) (\<lambda>(droplets, resp, err).
       case err of
         Some e \<Rightarrow> liftR (Err e)
       | None \<Rightarrow>
           (case resp of
              None \<Rightarrow> liftR (Err (NewError ''droplets list request returned no response''))
            | Some r \<Rightarrow>
                (case resp_Links r of
                   None \<Rightarrow> returnM (acc @ droplets)
                 | Some links \<Rightarrow>
                     if IsLastPage links then returnM (acc @ droplets)
                     else bindM (liftR (CurrentPage c links)) (\<lambda>cur.
                       allDropletList_loop c listFunc n (cur + 1) (acc @ droplets)))))"

definition allDropletList ::
    "'w client \<Rightarrow> (int \<Rightarrow> int \<Rightarrow> ('w, Droplet list) call) \<Rightarrow> ('w, Droplet list) cmd" where
  "allDropletList c listFunc = allDropletList_loop c listFunc (page_fuel c) 1 []"

fun allLoadBalancerList_loop ::
    "'w client \<Rightarrow> nat \<Rightarrow> int \<Rightarrow> LoadBalancer list \<Rightarrow> ('w, LoadBalancer list) cmd" where
  "allLoadBalancerList_loop c 0 page acc = liftR OutOfFuel"
| "allLoadBalancerList_loop c (Suc n) page acc =
     bindM (api (LoadBalancers_List c page apiResultsPerPage)) (\<lambda>(lbs, resp, err).
       case err of
         Some e \<Rightarrow> liftR (Err e)
       | None \<Rightarrow>
           (case resp of
              None \<Rightarrow> liftR (Err (NewError ''load balancers list request returned no response''))
            | Some r \<Rightarrow>
                (case resp_Links r of
                   None \<Rightarrow> returnM (acc @ lbs)
                 | Some links \<Rightarrow>
                     if IsLastPage links then returnM (acc @ lbs)
                     else bindM (liftR (CurrentPage c links)) (\<lambda>cur.
                       allLoadBalancerList_loop c n (cur + 1) (acc @ lbs)))))"

definition allLoadBalancerList :: "'w client \<Rightarrow> ('w, LoadBalancer list) cmd" where
  "allLoadBalancerList c = allLoadBalancerList_loop c (page_fuel c) 1 []"

fun listAllRegions_loop ::
    "'w client \<Rightarrow> nat \<Rightarrow> int \<Rightarrow> Region list \<Rightarrow> ('w, Region list) cmd" where
  "listAllRegions_loop c 0 page acc = liftR OutOfFuel"
| "listAllRegions_loop c (Suc n) page acc =
     bindM (api (Regions_List c page resultsPerPage)) (\<lambda>(regions, resp, err).
       case err of
         Some e \<Rightarrow> liftR (Err (Errorf ''regions list request failed: '' e ''''))
       | None \<Rightarrow>
           (case resp of
              None \<Rightarrow> liftR (Err (NewError ''regions list request returned no response''))
            | Some r \<Rightarrow>
                (case resp_Links r of
                   None \<Rightarrow> returnM (acc @ regions)
                 | Some links \<Rightarrow>
                     if IsLastPage links then returnM (acc @ regions)
                     else bindM (map_errM (\<lambda>e. Errorf ''failed to get current page number in pagination: '' e '''')
                         (liftR (CurrentPage c links))) (\<lambda>cur.
                       listAllRegions_loop c n (cur + 1) (acc @ regions)))))"

definition listAllRegions :: "'w client \<Rightarrow> ('w, Region list) cmd" where
  "listAllRegions c = listAllRegions_loop c (page_fuel c) 1 []"

definition isValidRegion :: "'w client \<Rightarrow> string \<Rightarrow> ('w, bool) cmd" where
  "isValidRegion c region =
     bindM (listAllRegions c) (\<lambda>regions. returnM (list_ex (\<lambda>reg. region_Slug reg = region) regions))"

section \<open>The search loop\<close>

text \<open>
  \<^verbatim>\<open>filterFirewallList\<close> stops at the first match. It returns the triple of its Go signature;
  it reads the links through the response without a check for nil.
\<close>

fun filterFirewallList_loop ::
    "'w client \<Rightarrow> (Firewall \<Rightarrow> bool) \<Rightarrow> nat \<Rightarrow> int \<Rightarrow> ('w, Firewall option reply) cmd" where
  "filterFirewallList_loop c matches 0 page = liftR OutOfFuel"
| "filterFirewallList_loop c matches (Suc n) page =
     bindM (api (Firewalls_List c page apiResultsPerPage)) (\<lambda>(firewalls, resp, err).
       case err of
         Some e \<Rightarrow> returnM (None, resp, Some e)
       | None \<Rightarrow>
           (case find matches firewalls of
              Some fw \<Rightarrow> returnM (Some fw, resp, None)
            | None \<Rightarrow>
                bindM (liftR (deref resp)) (\<lambda>r.
                  case resp_Links r of
                    None \<Rightarrow> returnM (None, resp, None)
                  | Some links \<Rightarrow>
                      if IsLastPage links then returnM (None, resp, None)
                      else (case CurrentPage c links of
                          Ok cur \<Rightarrow> filterFirewallList_loop c matches n (cur + 1)
                        | Err e \<Rightarrow> returnM (None, None, Some e)
                        | Panic p \<Rightarrow> liftR (Panic p)
                        | OutOfFuel \<Rightarrow> liftR OutOfFuel))))"

definition filterFirewallList ::
    "'w client \<Rightarrow> (Firewall \<Rightarrow> bool) \<Rightarrow> ('w, Firewall option reply) cmd" where
  "filterFirewallList c matches = filterFirewallList_loop c matches (page_fuel c) 1"

section \<open>An API that serves its pages\<close>

text \<open>
  A run of a listing endpoint: it answers a page with its items; every page but the last has
  links, from which the current page number can be read, and the page after that one is the
  next; the last page has no link to a next one.
\<close>

fun serves_pages ::
    "(int \<Rightarrow> ('w, 'a list) call) \<Rightarrow> (Links \<Rightarrow> int outcome) \<Rightarrow> int \<Rightarrow> 'a list list \<Rightarrow> 'w \<Rightarrow> 'w \<Rightarrow> bool" where
  "serves_pages fetch cur p [] w w' \<longleftrightarrow> False"
| "serves_pages fetch cur p (xs # rest) w w' \<longleftrightarrow>
     (case fetch p w of
        ((ys, Some r, None), u) \<Rightarrow>
          ys = xs \<and>
          (if rest = [] then u = w' \<and> (case resp_Links r of None \<Rightarrow> True | Some l \<Rightarrow> IsLastPage l)
           else (case resp_Links r of
               None \<Rightarrow> False
             | Some l \<Rightarrow> \<not> IsLastPage l \<and>
                 (case cur l of Ok q \<Rightarrow> serves_pages fetch cur (q + 1) rest u w' | _ \<Rightarrow> False)))
      | _ \<Rightarrow> False)"

locale paged_list =
  fixes loop :: "nat \<Rightarrow> int \<Rightarrow> 'a list \<Rightarrow> ('w, 'a list) cmd"
    and fetch :: "int \<Rightarrow> ('w, 'a list) call"
    and cur :: "Links \<Rightarrow> int outcome"
  assumes last_page: "fetch p w = ((xs, Some r, None), u) \<Longrightarrow>
      (case resp_Links r of None \<Rightarrow> True | Some l \<Rightarrow> IsLastPage l) \<Longrightarrow>
      loop (Suc n) p acc w = (Ok (acc @ xs), u)"
    and next_page: "fetch p w = ((xs, Some r, None), u) \<Longrightarrow> resp_Links r = Some l \<Longrightarrow>
      \<not> IsLastPage l \<Longrightarrow> cur l = Ok q \<Longrightarrow> loop (Suc n) p acc w = loop n (q + 1) (acc @ xs) u"
    and page_Ok: "loop n p acc w = (Ok res, w') \<Longrightarrow>
      \<exists>m xs rsp u. n = Suc m \<and> fetch p w = ((xs, Some rsp, None), u) \<and>
        ((case resp_Links rsp of None \<Rightarrow> True | Some l \<Rightarrow> IsLastPage l) \<and> res = acc @ xs \<and> w' = u
         \<or> (\<exists>l q. resp_Links rsp = Some l \<and> \<not> IsLastPage l \<and> cur l = Ok q
              \<and> loop m (q + 1) (acc @ xs) u = (Ok res, w')))"
begin

lemma loop_collects:
  "serves_pages fetch cur p pages w w' \<Longrightarrow> length pages \<le> n \<Longrightarrow>
   loop n p acc w = (Ok (acc @ concat pages), w')"
proof (induction pages arbitrary: n p acc w)
  case (Cons xs rest)
  then obtain m where n: "n = Suc m" by (cases n) auto
  from Cons.prems(1) obtain r u where f: "fetch p w = ((xs, Some r, None), u)"
    by (auto split: prod.splits option.splits)
  show ?case
  proof (cases "rest = []")
    case True
    with Cons.prems(1) f have "u = w'" "case resp_Links r of None \<Rightarrow> True | Some l \<Rightarrow> IsLastPage l"
      by auto
    with True f n show ?thesis by (simp add: last_page)
  next
    case False
    with Cons.prems(1) f obtain l q where "resp_Links r = Some l" "\<not> IsLastPage l" "cur l = Ok q"
      and rest: "serves_pages fetch cur (q + 1) rest u w'"
      by (auto split: option.splits outcome.splits)
    with f n have "loop n p acc w = loop m (q + 1) (acc @ xs) u" by (simp add: next_page)
    with Cons.IH [OF rest] Cons.prems(2) n show ?thesis by simp
  qed
qed simp

lemma loop_all_or_nothing:
  "loop n p acc w = (Ok r, w') \<Longrightarrow>
   \<exists>pages. serves_pages fetch cur p pages w w' \<and> length pages \<le> n \<and> r = acc @ concat pages"
proof (induction n arbitrary: p acc w)
  case 0
  with page_Ok show ?case by blast
next
  case (Suc n)
  from page_Ok [OF Suc.prems] obtain xs rsp u where f: "fetch p w = ((xs, Some rsp, None), u)"
    and cases: "(case resp_Links rsp of None \<Rightarrow> True | Some l \<Rightarrow> IsLastPage l) \<and> r = acc @ xs \<and> w' = u
       \<or> (\<exists>l q. resp_Links rsp = Some l \<and> \<not> IsLastPage l \<and> cur l = Ok q
            \<and> loop n (q + 1) (acc @ xs) u = (Ok r, w'))" by blast
  from cases show ?case
  proof (elim disjE exE conjE)
    assume "case resp_Links rsp of None \<Rightarrow> True | Some l \<Rightarrow> IsLastPage l" "r = acc @ xs" "w' = u"
    with f show ?case by (intro exI [of _ "[xs]"]) simp
  next
    fix l q
    assume l: "resp_Links rsp = Some l" "\<not> IsLastPage l" "cur l = Ok q"
      "loop n (q + 1) (acc @ xs) u = (Ok r, w')"
    from Suc.IH [OF l(4)] obtain pages where p: "serves_pages fetch cur (q + 1) pages u w'"
      "length pages \<le> n" "r = (acc @ xs) @ concat pages" by blast
    then have "pages \<noteq> []" by auto
    with f l p show ?case by (intro exI [of _ "xs # pages"]) simp
  qed
qed

lemma loop_Ok_iff:
  "loop n p [] w = (Ok r, w') \<longleftrightarrow>
   (\<exists>pages. serves_pages fetch cur p pages w w' \<and> length pages \<le> n \<and> r = concat pages)"
  using loop_all_or_nothing [of n p "[]" w r w'] loop_collects [of p _ w w' n "[]"] by auto

end

interpretation droplet_pages:
  paged_list "allDropletList_loop c f" "\<lambda>p. f p apiResultsPerPage" "CurrentPage c" for c f
proof unfold_locales
  fix n p acc w r w'
  assume "allDropletList_loop c f n p acc w = (Ok r, w')"
  then show "\<exists>m xs rsp u. n = Suc m \<and> f p apiResultsPerPage w = ((xs, Some rsp, None), u) \<and>
      ((case resp_Links rsp of None \<Rightarrow> True | Some l \<Rightarrow> IsLastPage l) \<and> r = acc @ xs \<and> w' = u
       \<or> (\<exists>l q. resp_Links rsp = Some l \<and> \<not> IsLastPage l \<and> CurrentPage c l = Ok q
            \<and> allDropletList_loop c f m (q + 1) (acc @ xs) u = (Ok r, w')))"
    by (cases n) (auto simp: outcome_simps split: option.split_asm if_split_asm)
qed (auto simp: bindM_def api_def returnM_def liftR_def split: option.splits)

interpretation lb_pages:
  paged_list "allLoadBalancerList_loop c" "\<lambda>p. LoadBalancers_List c p apiResultsPerPage" "CurrentPage c" for c
proof unfold_locales
  fix n p acc w r w'
  assume "allLoadBalancerList_loop c n p acc w = (Ok r, w')"
  then show "\<exists>m xs rsp u. n = Suc m \<and> LoadBalancers_List c p apiResultsPerPage w = ((xs, Some rsp, None), u) \<and>
      ((case resp_Links rsp of None \<Rightarrow> True | Some l \<Rightarrow> IsLastPage l) \<and> r = acc @ xs \<and> w' = u
       \<or> (\<exists>l q. resp_Links rsp = Some l \<and> \<not> IsLastPage l \<and> CurrentPage c l = Ok q
            \<and> allLoadBalancerList_loop c m (q + 1) (acc @ xs) u = (Ok r, w')))"
    by (cases n) (auto simp: outcome_simps split: option.split_asm if_split_asm)
qed (auto simp: bindM_def api_def returnM_def liftR_def split: option.splits)

interpretation region_pages:
  paged_list "listAllRegions_loop c" "\<lambda>p. Regions_List c p resultsPerPage" "CurrentPage c" for c
proof unfold_locales
  fix n p acc w r w'
  assume "listAllRegions_loop c n p acc w = (Ok r, w')"
  then show "\<exists>m xs rsp u. n = Suc m \<and> Regions_List c p resultsPerPage w = ((xs, Some rsp, None), u) \<and>
      ((case resp_Links rsp of None \<Rightarrow> True | Some l \<Rightarrow> IsLastPage l) \<and> r = acc @ xs \<and> w' = u
       \<or> (\<exists>l q. resp_Links rsp = Some l \<and> \<not> IsLastPage l \<and> CurrentPage c l = Ok q
            \<and> listAllRegions_loop c m (q + 1) (acc @ xs) u = (Ok r, w')))"
    by (cases n) (auto simp: outcome_simps split: option.split_asm if_split_asm)
qed (auto simp: bindM_def api_def returnM_def liftR_def map_errM_def split: option.splits)

text \<open>
  C36: A listing is all or nothing: droplets, load balancers and regions are listed exactly when
  every page was answered, and then the result is the concatenation of all pages; a
  failed or missing answer for any page is never a shorter list. As many units of fuel as
  there are pages are enough.\<close>

theorem listings_all_or_nothing:
  "(allDropletList c f w = (Ok ds, w') \<longleftrightarrow>
      (\<exists>pages. serves_pages (\<lambda>p. f p apiResultsPerPage) (CurrentPage c) 1 pages w w'
         \<and> length pages \<le> page_fuel c \<and> ds = concat pages))
   \<and> (allLoadBalancerList c w = (Ok lbs, w') \<longleftrightarrow>
      (\<exists>pages. serves_pages (\<lambda>p. LoadBalancers_List c p apiResultsPerPage) (CurrentPage c) 1 pages w w'
         \<and> length pages \<le> page_fuel c \<and> lbs = concat pages))
   \<and> (listAllRegions c w = (Ok regions, w') \<longleftrightarrow>
      (\<exists>pages. serves_pages (\<lambda>p. Regions_List c p resultsPerPage) (CurrentPage c) 1 pages w w'
         \<and> length pages \<le> page_fuel c \<and> regions = concat pages))"
  by (simp add: allDropletList_def allLoadBalancerList_def listAllRegions_def
      droplet_pages.loop_Ok_iff lb_pages.loop_Ok_iff region_pages.loop_Ok_iff)

lemma filterFirewallList_loop_finds:
  "serves_pages (\<lambda>p. Firewalls_List c p apiResultsPerPage) (CurrentPage c) p pages w w' \<Longrightarrow>
   length pages \<le> n \<Longrightarrow>
   \<exists>resp u. filterFirewallList_loop c matches n p w = (Ok (find matches (concat pages), Some resp, None), u)"
proof (induction pages arbitrary: n p w)
  case (Cons xs rest)
  then obtain m where n: "n = Suc m" by (cases n) auto
  from Cons.prems(1) obtain r u where f: "Firewalls_List c p apiResultsPerPage w = ((xs, Some r, None), u)"
    by (auto split: prod.splits option.splits)
  have find_append: "find matches (xs @ ys) =
      (case find matches xs of None \<Rightarrow> find matches ys | Some x \<Rightarrow> Some x)" for ys
    by (induction xs) auto
  show ?case
  proof (cases "find matches xs = None \<and> rest \<noteq> []")
    case True
    with Cons.prems(1) f obtain l q where "resp_Links r = Some l" "\<not> IsLastPage l" "CurrentPage c l = Ok q"
      and rest: "serves_pages (\<lambda>p. Firewalls_List c p apiResultsPerPage) (CurrentPage c) (q + 1) rest u w'"
      by (auto split: option.splits outcome.splits)
    with f n True have "filterFirewallList_loop c matches n p w = filterFirewallList_loop c matches m (q + 1) u"
      by (simp add: bindM_def api_def liftR_def)
    with Cons.IH [OF rest] Cons.prems(2) n True show ?thesis by (simp add: find_append)
  next
    case False
    with Cons.prems(1) f n show ?thesis
      by (auto simp: bindM_def api_def liftR_def returnM_def find_append split: option.splits)
  qed
qed simp

end
