(* ===== verification/Droplets.thy ===== *)
theory Droplets
  imports Pagination
begin

text \<open>
  The instances interface of \<^verbatim>\<open>droplets.go\<close> and the node addresses of \<^verbatim>\<open>common.go\<close>: how a
  Kubernetes node is matched with a droplet, by provider ID or by name.
\<close>

section \<open>Provider IDs\<close>

definition dropletShutdownStatus :: string where
  "dropletShutdownStatus = ''off''"

definition providerIDPrefix :: string where
  "providerIDPrefix = ''digitalocean://''"

definition dropletIDFromProviderID :: "string \<Rightarrow> int outcome" where
  "dropletIDFromProviderID providerID =
     (if providerID = '''' then Err (NewError ''provider ID cannot be empty'')
      else if \<not> HasPrefix providerID providerIDPrefix
      then Err (NewError (''provider ID '' @ quote providerID @ '' is missing prefix '' @ quote providerIDPrefix))
      else
        let provIDNum = TrimPrefix providerID providerIDPrefix in
        if provIDNum = '''' then Err (NewError ''provider ID number cannot be empty'')
        else map_err (\<lambda>e. Errorf (''failed to convert provider ID number '' @ quote provIDNum @ '': '') e '''')
               (Atoi provIDNum))"

section \<open>Addresses\<close>

text \<open>The three address accessors of \<^verbatim>\<open>godo.Droplet\<close>: the first address of the wanted kind.\<close>

definition first_address :: "(Networks \<Rightarrow> NetworkAddr list) \<Rightarrow> string \<Rightarrow> Droplet \<Rightarrow> string outcome" where
  "first_address family kind d =
     (case droplet_Networks d of
        None \<Rightarrow> Err ErrNoNetworks
      | Some nets \<Rightarrow>
          (case find (\<lambda>a. net_Type a = kind) (family nets) of
             Some a \<Rightarrow> Ok (net_IPAddress a)
           | None \<Rightarrow> Ok ''''))"

definition PublicIPv4 :: "Droplet \<Rightarrow> string outcome" where
  "PublicIPv4 d = first_address nets_V4 ''public'' d"

definition PrivateIPv4 :: "Droplet \<Rightarrow> string outcome" where
  "PrivateIPv4 d = first_address nets_V4 ''private'' d"

definition PublicIPv6 :: "Droplet \<Rightarrow> string outcome" where
  "PublicIPv6 d = first_address nets_V6 ''public'' d"

definition NodeHostName :: string where "NodeHostName = ''Hostname''"

definition NodeInternalIP :: string where "NodeInternalIP = ''InternalIP''"

definition NodeExternalIP :: string where "NodeExternalIP = ''ExternalIP''"

definition nodeAddresses :: "Droplet \<Rightarrow> NodeAddress list outcome" where
  "nodeAddresses d =
     bindR (map_err (\<lambda>e. Errorf ''could not get private ip: '' e '''') (PrivateIPv4 d)) (\<lambda>privateIP.
       if privateIP = '''' then Err (NewError ''could not get private ip: <nil>'')
       else
       bindR (map_err (\<lambda>e. Errorf ''could not get public ipv4: '' e '''') (PublicIPv4 d)) (\<lambda>publicIPv4.
       bindR (map_err (\<lambda>e. Errorf ''could not get public ipv6: '' e '''') (PublicIPv6 d)) (\<lambda>publicIPv6.
       Ok ([\<lparr>na_Type = NodeHostName, na_Address = droplet_Name d\<rparr>,
            \<lparr>na_Type = NodeInternalIP, na_Address = privateIP\<rparr>] @
           (if publicIPv4 \<noteq> '''' then [\<lparr>na_Type = NodeExternalIP, na_Address = publicIPv4\<rparr>] else []) @
           (if publicIPv6 \<noteq> '''' then [\<lparr>na_Type = NodeExternalIP, na_Address = publicIPv6\<rparr>] else [])))))"

section \<open>Finding a droplet\<close>

definition dropletByID :: "'w client \<Rightarrow> int \<Rightarrow> ('w, Droplet option \<times> error option) cmd" where
  "dropletByID c dropletID =
     bindM (api (Droplets_Get c dropletID)) (\<lambda>(droplet, resp, err). returnM (droplet, err))"

definition droplet_is_named :: "string \<Rightarrow> Droplet \<Rightarrow> bool" where
  "droplet_is_named nodeName d \<longleftrightarrow>
     droplet_Name d = nodeName \<or> PrivateIPv4 d = Ok nodeName \<or> PublicIPv4 d = Ok nodeName \<or>
     PublicIPv6 d = Ok nodeName"

definition dropletByName :: "'w client \<Rightarrow> string \<Rightarrow> ('w, Droplet) cmd" where
  "dropletByName c nodeName =
     bindM (allDropletList c (Droplets_ListByName c nodeName)) (\<lambda>droplets.
       case find (droplet_is_named nodeName) droplets of
         Some d \<Rightarrow> returnM d
       | None \<Rightarrow> liftR (Err InstanceNotFound))"

section \<open>The instances interface\<close>

definition InstanceExists :: "'w client \<Rightarrow> Node \<Rightarrow> ('w, bool) cmd" where
  "InstanceExists c node =
     bindM (map_errM (\<lambda>e. Errorf ''determining droplet ID from providerID: '' e '''')
         (liftR (dropletIDFromProviderID (node_ProviderID node)))) (\<lambda>dropletID.
     bindM (dropletByID c dropletID) (\<lambda>(droplet, err).
       case err of
         None \<Rightarrow> returnM True
       | Some e \<Rightarrow>
           (case as_ErrorResponse e of
              None \<Rightarrow> liftR (Err (Errorf ''unexpected error type from godo: '' e ''''))
            | Some status \<Rightarrow>
                if status \<noteq> StatusNotFound
                then liftR (Err (Errorf ''error checking if instance exists: '' e ''''))
                else returnM False)))"

definition InstanceShutdown :: "'w client \<Rightarrow> Node \<Rightarrow> ('w, bool) cmd" where
  "InstanceShutdown c node =
     bindM (map_errM (\<lambda>e. Errorf ''determining droplet ID from providerID: '' e '''')
         (liftR (dropletIDFromProviderID (node_ProviderID node)))) (\<lambda>dropletID.
     bindM (dropletByID c dropletID) (\<lambda>(droplet, err).
       case err of
         Some e \<Rightarrow> liftR (Err (Errorf ''getting droplet by ID: '' e '': ''))
       | None \<Rightarrow>
           (case droplet of
              None \<Rightarrow> liftR (Err (NewError (''droplet '' @ Itoa dropletID @ '' for node '' @
                node_Name node @ '' does not exist'')))
            | Some d \<Rightarrow> returnM (droplet_Status d = dropletShutdownStatus))))"

record InstanceMeta =
  im_ProviderID :: string
  im_InstanceType :: string
  im_Region :: string
  im_NodeAddresses :: "NodeAddress list"
  im_Zone :: string
  im_AdditionalLabels :: smap

definition metadataDroplet :: "'w client \<Rightarrow> Node \<Rightarrow> ('w, int \<times> Droplet) cmd" where
  "metadataDroplet c node =
     (if node_ProviderID node = '''' then
        bindM (map_errM (\<lambda>e. Errorf ''getting droplet by name: '' e '''')
            (dropletByName c (node_Name node))) (\<lambda>d.
          returnM (droplet_ID d, d))
      else
        bindM (map_errM (\<lambda>e. Errorf ''determining droplet ID from providerID: '' e '''')
            (liftR (dropletIDFromProviderID (node_ProviderID node)))) (\<lambda>dropletID.
        bindM (dropletByID c dropletID) (\<lambda>(droplet, err).
          case err of
            Some e \<Rightarrow> liftR (Err (Errorf ''getting droplet by ID: '' e '': ''))
          | None \<Rightarrow>
              (case droplet of
                 None \<Rightarrow> liftR (Err (NewError (''droplet '' @ Itoa dropletID @ '' for node '' @
                   node_Name node @ '' does not exist'')))
               | Some d \<Rightarrow> returnM (dropletID, d)))))"

definition InstanceMetadata :: "'w client \<Rightarrow> Node \<Rightarrow> ('w, InstanceMeta) cmd" where
  "InstanceMetadata c node =
     bindM (metadataDroplet c node) (\<lambda>(dropletID, droplet).
     bindM (map_errM (\<lambda>e. Errorf (''getting node addresses of droplet '' @ Itoa dropletID @ '' for node '' @
         node_Name node @ '': '') e '''') (liftR (nodeAddresses droplet))) (\<lambda>nodeAddrs.
     bindM (liftR (deref (droplet_Region droplet))) (\<lambda>region.
     returnM \<lparr>im_ProviderID = providerIDPrefix @ Itoa dropletID,
              im_InstanceType = droplet_SizeSlug droplet,
              im_Region = region_Slug region,
              im_NodeAddresses = nodeAddrs,
              im_Zone = '''', im_AdditionalLabels = []\<rparr>)))"

section \<open>Properties\<close>

lemma dropletIDFromProviderID_roundtrip [simp]:
  "is_int64 n \<Longrightarrow> dropletIDFromProviderID (providerIDPrefix @ Itoa n) = Ok n"
  by (simp add: dropletIDFromProviderID_def Let_def)

lemma dropletIDFromProviderID_int64: "dropletIDFromProviderID s = Ok n \<Longrightarrow> is_int64 n"
  by (auto simp: dropletIDFromProviderID_def Let_def outcome_simps Atoi_is_int64 split: if_splits)

lemma dropletIDFromProviderID_Ok_iff:
  "dropletIDFromProviderID s = Ok n \<longleftrightarrow> (\<exists>t. s = providerIDPrefix @ t \<and> Atoi t = Ok n)"
  by (auto simp: dropletIDFromProviderID_def Let_def outcome_simps HasPrefix_def prefix_def
      split: if_splits)

lemma dropletIDFromProviderID_no_panic [simp]:
  "dropletIDFromProviderID s \<noteq> Panic p" "dropletIDFromProviderID s \<noteq> OutOfFuel"
  by (auto simp: dropletIDFromProviderID_def Let_def outcome_simps split: if_splits)

lemma InstanceExists_run:
  assumes "dropletIDFromProviderID (node_ProviderID node) = Ok dropletID"
    and "Droplets_Get c dropletID w = ((d, resp, err), w')"
  shows "InstanceExists c node w =
    (case err of
       None \<Rightarrow> (Ok True, w')
     | Some e \<Rightarrow>
         (case as_ErrorResponse e of
            None \<Rightarrow> (Err (Errorf ''unexpected error type from godo: '' e ''''), w')
          | Some code \<Rightarrow>
              if code = StatusNotFound then (Ok False, w')
              else (Err (Errorf ''error checking if instance exists: '' e ''''), w')))"
  using assms by (auto simp: InstanceExists_def dropletByID_def bindM_def map_errM_def liftR_def api_def returnM_def
      split: option.splits)

lemma InstanceExists_False:
  "InstanceExists c node w = (Ok False, w') \<longleftrightarrow>
     (\<exists>dropletID d resp msg. dropletIDFromProviderID (node_ProviderID node) = Ok dropletID \<and>
        Droplets_Get c dropletID w = ((d, resp, Some (ErrorResponse StatusNotFound msg)), w'))" (is "?gone \<longleftrightarrow> ?answer")
proof
  assume gone: ?gone
  then obtain dropletID where id: "dropletIDFromProviderID (node_ProviderID node) = Ok dropletID"
    by (auto simp: InstanceExists_def outcome_simps)
  obtain d resp err u where get: "Droplets_Get c dropletID w = ((d, resp, err), u)" by (metis prod.exhaust)
  with gone id show ?answer
    by (auto simp: InstanceExists_run [OF id get] as_ErrorResponse_Some split: option.splits if_splits)
qed (auto simp: InstanceExists_run)

lemma InstanceExists_returns: "InstanceExists c node w \<noteq> (Panic p, w')" "InstanceExists c node w \<noteq> (OutOfFuel, w')"
  by (auto simp: InstanceExists_def dropletByID_def bindM_def map_errM_def liftR_def api_def returnM_def outcome_simps
      split: prod.splits outcome.splits option.splits)

lemma InstanceShutdown_returns: "InstanceShutdown c node w \<noteq> (Panic p, w')" "InstanceShutdown c node w \<noteq> (OutOfFuel, w')"
  by (auto simp: InstanceShutdown_def dropletByID_def bindM_def map_errM_def liftR_def api_def returnM_def outcome_simps
      split: prod.splits outcome.splits option.splits)

lemma InstanceShutdown_True:
  assumes "InstanceShutdown c node w = (Ok True, w')"
  shows "\<exists>dropletID d resp. dropletIDFromProviderID (node_ProviderID node) = Ok dropletID \<and>
        Droplets_Get c dropletID w = ((Some d, resp, None), w') \<and> droplet_Status d = dropletShutdownStatus"
  using assms by (auto simp: InstanceShutdown_def dropletByID_def outcome_simps split: asm_splits)

text \<open>
  \<open>InstanceExists\<close> reports a node as gone, on which Kubernetes deletes the node, only when
  the API itself answered 404 for the droplet whose ID is in the node's provider ID. Every
  other failure is an error, and a malformed provider ID makes no API call at all.
\<close>

theorem InstanceExists_false_only_on_404:
  "(InstanceExists c node w = (Ok False, w') \<longrightarrow>
     (\<exists>dropletID d resp msg. dropletIDFromProviderID (node_ProviderID node) = Ok dropletID \<and>
        Droplets_Get c dropletID w = ((d, resp, Some (ErrorResponse StatusNotFound msg)), w'))) \<and>
   ((\<exists>e. dropletIDFromProviderID (node_ProviderID node) = Err e) \<longrightarrow>
     (\<exists>e. InstanceExists c node w = (Err e, w)))"
  by (auto simp: InstanceExists_False) (auto simp: InstanceExists_def outcome_simps)

definition example_node :: Node where
  "example_node =
     \<lparr>node_Name = ''worker-1'', node_Labels = [], node_ProviderID = ''digitalocean://42'',
      node_Taints = [], node_Conditions = [\<lparr>nc_Type = ''Ready'', nc_Status = ''True''\<rparr>],
      node_Addresses = [\<lparr>na_Type = ''InternalIP'', na_Address = ''10.0.0.2''\<rparr>,
                        \<lparr>na_Type = ''ExternalIP'', na_Address = ''203.0.113.7''\<rparr>]\<rparr>"

theorem InstanceExists_false_only_on_404_witness:
  "\<exists>dropletID. dropletIDFromProviderID (node_ProviderID example_node) = Ok dropletID \<and> dropletID = 42"
proof -
  let ?c = "(offline_client :: unit client)\<lparr>Droplets_Get :=
      (\<lambda>i w. ((None, Some \<lparr>resp_StatusCode = 404, resp_Links = None\<rparr>, Some (ErrorResponse 404 ''gone'')), w))\<rparr>"
  have "InstanceExists ?c example_node () = (Ok False, ())" by code_simp
  with InstanceExists_false_only_on_404 [of ?c example_node "()" "()"]
  obtain dropletID where "dropletIDFromProviderID (node_ProviderID example_node) = Ok dropletID" by blast
  moreover have "dropletIDFromProviderID (node_ProviderID example_node) = Ok 42" by code_simp
  ultimately show ?thesis by simp
qed

lemma nodeAddresses_Ok:
  assumes "nodeAddresses d = Ok addrs"
  shows "\<exists>ip ext. addrs = \<lparr>na_Type = NodeHostName, na_Address = droplet_Name d\<rparr> #
      \<lparr>na_Type = NodeInternalIP, na_Address = ip\<rparr> # ext \<and> PrivateIPv4 d = Ok ip \<and> ip \<noteq> '''' \<and>
      length ext \<le> 2 \<and> (\<forall>a \<in> set ext. na_Type a = NodeExternalIP \<and> na_Address a \<noteq> '''' \<and>
        (PublicIPv4 d = Ok (na_Address a) \<or> PublicIPv6 d = Ok (na_Address a)))"
  using assms by (auto simp: nodeAddresses_def outcome_simps split: if_splits)

lemma metadataDroplet_by_ID:
  "metadataDroplet c node w = (Ok (n, d), w') \<Longrightarrow> node_ProviderID node \<noteq> '''' \<Longrightarrow>
   dropletIDFromProviderID (node_ProviderID node) = Ok n"
  by (auto simp: metadataDroplet_def dropletByID_def outcome_simps split: option.splits)

lemma metadataDroplet_by_name:
  "metadataDroplet c node w = (Ok (n, d), w') \<Longrightarrow> node_ProviderID node = '''' \<Longrightarrow>
   n = droplet_ID d \<and> droplet_is_named (node_Name node) d"
  by (auto simp: metadataDroplet_def dropletByName_def outcome_simps split: option.splits dest: find_SomeD)


definition example_droplet :: Droplet where
  "example_droplet =
     \<lparr>droplet_ID = 42, droplet_Name = ''worker-1'', droplet_Region = Some \<lparr>region_Slug = ''nyc1''\<rparr>,
      droplet_SizeSlug = ''s-2vcpu-4gb'', droplet_Status = ''active'',
      droplet_Networks = Some \<lparr>nets_V4 = [\<lparr>net_IPAddress = ''203.0.113.7'', net_Type = ''public''\<rparr>,
                                          \<lparr>net_IPAddress = ''10.0.0.2'', net_Type = ''private''\<rparr>],
                               nets_V6 = []\<rparr>\<rparr>"

definition droplet_client :: "unit client" where
  "droplet_client = offline_client\<lparr>Droplets_Get := (\<lambda>i w.
     ((Some example_droplet, Some \<lparr>resp_StatusCode = 200, resp_Links = None\<rparr>, None), w))\<rparr>"


end
