(* ===== verification/Net_IP.thy ===== *)
theory Net_IP
  imports Go_Strings
begin

text \<open>
  When does \<^verbatim>\<open>netip.ParseAddr\<close> accept a string as an IPv6 address? The code asks nothing
  else of the parser (\<^verbatim>\<open>isIPv6\<close>), so the model keeps the parser's control flow and
  checks and drops the address bytes it would store.
\<close>

definition is_hex :: "char \<Rightarrow> bool" where
  "is_hex c \<longleftrightarrow> (let n = of_char c :: nat in
     48 \<le> n \<and> n \<le> 57 \<or> 97 \<le> n \<and> n \<le> 102 \<or> 65 \<le> n \<and> n \<le> 70)"

text \<open>
  \<^verbatim>\<open>parseIPv4Fields\<close>: the value and the number of digits of the current octet, the index
  of the octet, and whether the previous byte was a dot (or there was none).
\<close>

fun parseIPv4Fields :: "int \<Rightarrow> nat \<Rightarrow> nat \<Rightarrow> bool \<Rightarrow> string \<Rightarrow> bool" where
  "parseIPv4Fields v digLen pos prevDot [] \<longleftrightarrow> 3 \<le> pos"
| "parseIPv4Fields v digLen pos prevDot (c # cs) =
     (case digit c of
        Some d \<Rightarrow>
          if digLen = 1 \<and> v = 0 then False
          else if 255 < v * 10 + d then False
          else parseIPv4Fields (v * 10 + d) (Suc digLen) pos False cs
      | None \<Rightarrow>
          if c = CHR ''.'' then
            if prevDot \<or> cs = [] then False
            else if pos = 3 then False
            else parseIPv4Fields 0 0 (Suc pos) True cs
          else False)"

text \<open>
  The main loop of \<^verbatim>\<open>parseIPv6\<close>: the number of bytes filled so far, whether an ellipsis has
  been seen, and the unread rest. \<open>None\<close> is a parse error; a fifth hex digit in a group is
  an error before the group can exceed 16 bits.
\<close>

function parseIPv6_loop :: "nat \<Rightarrow> bool \<Rightarrow> string \<Rightarrow> (nat \<times> bool \<times> string) option" where
  "parseIPv6_loop i ell s =
     (if 16 \<le> i then Some (i, ell, s)
      else
        let ds = takeWhile is_hex s; r = dropWhile is_hex s in
        if 4 < length ds then None
        else if ds = [] then None
        else (case r of
            [] \<Rightarrow> Some (i + 2, ell, [])
          | c # r' \<Rightarrow>
              if c = CHR ''.'' then
                if \<not> ell \<and> i \<noteq> 12 then None
                else if 16 < i + 4 then None
                else if parseIPv4Fields 0 0 0 True s then Some (i + 4, ell, []) else None
              else if c \<noteq> CHR '':'' then None
              else (case r' of
                  [] \<Rightarrow> None
                | d # r'' \<Rightarrow>
                    if d = CHR '':'' then
                      if ell then None
                      else if r'' = [] then Some (i + 2, True, [])
                      else parseIPv6_loop (i + 2) True r''
                    else parseIPv6_loop (i + 2) ell r')))"
  by pat_completeness auto
termination
  by (relation "measure (\<lambda>(i, ell, s). 16 - i)") auto

declare parseIPv6_loop.simps [simp del]

definition parseIPv6_ok :: "string \<Rightarrow> bool" where
  "parseIPv6_ok inp =
     (let s = takeWhile (\<lambda>c. c \<noteq> CHR ''%'') inp;
          rest = dropWhile (\<lambda>c. c \<noteq> CHR ''%'') inp in
      if rest \<noteq> [] \<and> tl rest = [] then False
      else
        let lead = prefix ''::'' s; s' = (if lead then drop 2 s else s) in
        if lead \<and> s' = [] then True
        else (case parseIPv6_loop 0 lead s' of
            None \<Rightarrow> False
          | Some (i, ell, s'') \<Rightarrow>
              if s'' \<noteq> [] then False else if i < 16 then ell else \<not> ell))"

definition isIPv6 :: "string \<Rightarrow> bool" where
  "isIPv6 addr =
     (case find (\<lambda>c. c \<in> set ''.:%'') addr of
        None \<Rightarrow> False
      | Some c \<Rightarrow> c = CHR '':'' \<and> parseIPv6_ok addr)"

lemma isIPv6_colon: "isIPv6 s \<Longrightarrow> CHR '':'' \<in> set s"
  by (fastforce simp: isIPv6_def find_Some_iff in_set_conv_nth split: option.splits)

lemma isIPv6_Nil [simp]: "\<not> isIPv6 []"
  by (simp add: isIPv6_def)

text \<open>The parser agrees with the addresses of the test fixtures.\<close>

lemma isIPv6_examples:
  "isIPv6 ''2a03:b0c0:3:d0::e4e:1001''" "isIPv6 ''::1''" "isIPv6 ''::ffff:10.0.0.1''"
  "\<not> isIPv6 ''10.0.0.1''" "\<not> isIPv6 ''2001::db8::1''" "\<not> isIPv6 ''1:2:3:4:5:6:7''"
  by code_simp+

end
