(* ===== verification/LB_Nodes.thy ===== *)
theory LB_Nodes
  imports LB_Config Droplets Net_IP
begin

text \<open>
  Which nodes back a load balancer: the classification of a node by the address families it
  has, the filter by load balancer type and network, the readiness gate for nodes that are
  not backends yet, the retry decisions, and the network stack (IPv4 or dual stack) that the
  node set allows. This is the middle part of loadbalancers.go.
\<close>

section \<open>Node predicates\<close>

datatype nodeClassification =
    nodeClassSingleStackV4
  | nodeClassSingleStackV6
  | nodeClassDualStack
  | nodeClassPublicNetUnready

record nodeState =
  lbReadyNodes :: "Node list"
  filteredCount :: nat
  publicNetUnreadyCount :: nat
  publicNetUnreadyNodes :: "Node list"
  singleStackV4Nodes :: "Node list"
  singleStackV6Nodes :: "Node list"
  dualStackNodes :: "Node list"

definition hasSingleStackV4 :: "nodeState \<Rightarrow> bool" where
  "hasSingleStackV4 ns = (0 < length (singleStackV4Nodes ns))"

definition hasSingleStackV6 :: "nodeState \<Rightarrow> bool" where
  "hasSingleStackV6 ns = (0 < length (singleStackV6Nodes ns))"

definition hasDualStackNodes :: "nodeState \<Rightarrow> bool" where
  "hasDualStackNodes ns = (0 < length (dualStackNodes ns))"

definition isAllDualStack :: "nodeState \<Rightarrow> bool" where
  "isAllDualStack ns = (hasDualStackNodes ns \<and> \<not> hasSingleStackV4 ns)"

definition allowsPrivateOnlyBackends :: "string \<Rightarrow> string \<Rightarrow> bool" where
  "allowsPrivateOnlyBackends lbType lbNetwork =
     (lbNetwork = LoadBalancerNetworkTypeInternal \<or>
      (lbNetwork = LoadBalancerNetworkTypeExternal \<and> lbType = LoadBalancerTypeRegional))"

text \<open>
  The two loops of \<^verbatim>\<open>classifyNode\<close>: the first sets a flag for each external address seen,
  the second stops at the first internal address that is not IPv6.
\<close>

definition externalFlags :: "NodeAddress list \<Rightarrow> bool \<times> bool" where
  "externalFlags addrs =
     foldl (\<lambda>(hasIPv4, hasIPv6) addr.
         if na_Type addr \<noteq> NodeExternalIP then (hasIPv4, hasIPv6)
         else if isIPv6 (na_Address addr) then (hasIPv4, True)
         else (True, hasIPv6))
       (False, False) addrs"

definition classifyNode :: "Node \<Rightarrow> bool \<Rightarrow> nodeClassification" where
  "classifyNode node allowInternalFallback =
     (let (v4, hasIPv6) = externalFlags (node_Addresses node);
          hasIPv4 = (if \<not> v4 \<and> \<not> hasIPv6 \<and> allowInternalFallback
                     then list_ex (\<lambda>a. na_Type a = NodeInternalIP \<and> \<not> isIPv6 (na_Address a))
                            (node_Addresses node)
                     else v4)
      in if hasIPv4 \<and> hasIPv6 then nodeClassDualStack
         else if hasIPv4 \<and> \<not> hasIPv6 then nodeClassSingleStackV4
         else if \<not> hasIPv4 \<and> hasIPv6 then nodeClassSingleStackV6
         else nodeClassPublicNetUnready)"

definition empty_nodeState :: nodeState where
  "empty_nodeState =
     \<lparr>lbReadyNodes = [], filteredCount = 0, publicNetUnreadyCount = 0,
      publicNetUnreadyNodes = [], singleStackV4Nodes = [], singleStackV6Nodes = [],
      dualStackNodes = []\<rparr>"

text \<open>One iteration of the loop of \<^verbatim>\<open>filterAndClassifyNodes\<close>.\<close>

definition classify_step :: "bool \<Rightarrow> bool \<Rightarrow> nodeState \<Rightarrow> Node \<Rightarrow> nodeState" where
  "classify_step isInternalLB allowPrivateOnly st node =
     (if isInternalLB then st\<lparr>lbReadyNodes := lbReadyNodes st @ [node]\<rparr>
      else case classifyNode node allowPrivateOnly of
        nodeClassPublicNetUnready \<Rightarrow>
          st\<lparr>filteredCount := filteredCount st + 1,
             publicNetUnreadyCount := publicNetUnreadyCount st + 1,
             publicNetUnreadyNodes := publicNetUnreadyNodes st @ [node]\<rparr>
      | nodeClassSingleStackV6 \<Rightarrow>
          st\<lparr>filteredCount := filteredCount st + 1,
             singleStackV6Nodes := singleStackV6Nodes st @ [node]\<rparr>
      | nodeClassSingleStackV4 \<Rightarrow>
          st\<lparr>lbReadyNodes := lbReadyNodes st @ [node],
             singleStackV4Nodes := singleStackV4Nodes st @ [node]\<rparr>
      | nodeClassDualStack \<Rightarrow>
          st\<lparr>lbReadyNodes := lbReadyNodes st @ [node],
             dualStackNodes := dualStackNodes st @ [node]\<rparr>)"

definition filterAndClassifyNodes :: "Node list \<Rightarrow> string \<Rightarrow> string \<Rightarrow> nodeState" where
  "filterAndClassifyNodes nodes lbType lbNetwork =
     foldl (classify_step (lbNetwork = LoadBalancerNetworkTypeInternal)
              (allowsPrivateOnlyBackends lbType lbNetwork))
       empty_nodeState nodes"

definition nodeNetworkTypeLabel :: string where
  "nodeNetworkTypeLabel = ''doks.digitalocean.com/node-network-type''"

definition nodeNetworkTypePrivate :: string where
  "nodeNetworkTypePrivate = ''private''"

definition nodeIntendsPublicNetwork :: "Node \<Rightarrow> bool" where
  "nodeIntendsPublicNetwork node =
     (\<not> EqualFold (mget (node_Labels node) nodeNetworkTypeLabel) nodeNetworkTypePrivate)"

definition isNodeReady :: "Node \<Rightarrow> bool" where
  "isNodeReady node =
     (case find (\<lambda>c. nc_Type c = ''Ready'') (node_Conditions node) of
        None \<Rightarrow> False
      | Some c \<Rightarrow> nc_Status c = ''True'')"

definition doksCriticalComponentsReadyTaintKey :: string where
  "doksCriticalComponentsReadyTaintKey = ''readiness.k8s.io/DOKSCriticalComponentsReady''"

definition hasPendingCriticalComponentsTaint :: "Node \<Rightarrow> bool" where
  "hasPendingCriticalComponentsTaint node =
     list_ex (\<lambda>t. taint_Key t = doksCriticalComponentsReadyTaintKey) (node_Taints node)"

text \<open>The set of admitted droplets is a \<^verbatim>\<open>map[int]bool\<close>; its keys are kept as a list.\<close>

definition admittedDropletIDSet :: "LoadBalancer option \<Rightarrow> int list" where
  "admittedDropletIDSet lb = (case lb of None \<Rightarrow> [] | Some b \<Rightarrow> remdups (lb_DropletIDs b))"

definition is_admitted :: "int list \<Rightarrow> Node \<Rightarrow> bool" where
  "is_admitted admittedIDs node =
     (case dropletIDFromProviderID (node_ProviderID node) of
        Ok i \<Rightarrow> i \<in> set admittedIDs | _ \<Rightarrow> False)"

fun filterByReadiness :: "int list \<Rightarrow> Node list \<Rightarrow> Node list \<times> Node list" where
  "filterByReadiness admittedIDs [] = ([], [])"
| "filterByReadiness admittedIDs (node # nodes) =
     (let (admit, pending) = filterByReadiness admittedIDs nodes in
      if is_admitted admittedIDs node then (node # admit, pending)
      else if isNodeReady node \<and> \<not> hasPendingCriticalComponentsTaint node
      then (node # admit, pending)
      else (admit, node # pending))"

fun pendingInitNodes :: "Node list \<Rightarrow> Node list \<times> Node list" where
  "pendingInitNodes [] = ([], [])"
| "pendingInitNodes (node # nodes) =
     (let (pending, privateOnly) = pendingInitNodes nodes in
      if nodeIntendsPublicNetwork node then (node # pending, privateOnly)
      else (pending, node # privateOnly))"

section \<open>Names for messages\<close>

definition nodeNames :: "Node list \<Rightarrow> string list" where
  "nodeNames nodes = map node_Name nodes"

definition formatNodeNameList :: "string list \<Rightarrow> nat \<Rightarrow> string" where
  "formatNodeNameList names maxNodes =
     (if length names = 0 then ''''
      else let sorted = sort_Strings names in
        if length sorted \<le> maxNodes then join '', '' sorted
        else join '', '' (take maxNodes sorted) @ '' [+'' @
               Itoa (int (length sorted - maxNodes)) @ '' more]'')"

definition formatNodeNames :: "Node list \<Rightarrow> nat \<Rightarrow> string" where
  "formatNodeNames nodes maxNodes = formatNodeNameList (nodeNames nodes) maxNodes"

section \<open>Preparing a synchronisation\<close>

definition nodesNotYetLBReadyRetryAfter :: int where
  "nodesNotYetLBReadyRetryAfter = 5"

definition nodesNotYetReadyRetryAfter :: int where
  "nodesNotYetReadyRetryAfter = 15"

definition qualified_name :: "Service \<Rightarrow> string" where
  "qualified_name s = svc_Namespace s @ ''/'' @ svc_Name s"

definition classifyServiceNodes :: "string \<Rightarrow> Service \<Rightarrow> Node list \<Rightarrow> nodeState outcome" where
  "classifyServiceNodes defaultLBType service nodes =
     bindR (getNetwork service) (\<lambda>lbNetwork.
     bindR (getType service defaultLBType) (\<lambda>lbType.
     Ok (filterAndClassifyNodes nodes lbType lbNetwork)))"

definition prepareNodesForLBSync :: "string \<Rightarrow> Service \<Rightarrow> Node list \<Rightarrow> Node list outcome" where
  "prepareNodesForLBSync defaultLBType service nodes =
     bindR (classifyServiceNodes defaultLBType service nodes) (\<lambda>ns.
     let (pending, privateOnly) = pendingInitNodes (publicNetUnreadyNodes ns) in
     if length (lbReadyNodes ns) = 0 \<and> 0 < length pending
     then Err (RetryError
       (''service '' @ qualified_name service @ '': '' @ Itoa (int (length pending)) @
        '' node(s) still initializing and not yet lb-ready (e.g. missing ExternalIP); retrying instead of updating backends with an empty node set: '' @
        formatNodeNames pending 5) nodesNotYetLBReadyRetryAfter)
     else Ok pending)"

definition retryIfNodesPendingInit :: "Service \<Rightarrow> Node list \<Rightarrow> Node list \<Rightarrow> error option" where
  "retryIfNodesPendingInit service pendingInit pendingNotReady =
     (let pending = pendingInit @ pendingNotReady in
      if length pending = 0 then None
      else let retryAfter = (if 0 < length pendingNotReady then nodesNotYetReadyRetryAfter
                             else nodesNotYetLBReadyRetryAfter)
        in Some (RetryError
          (''service '' @ qualified_name service @
           '': updated backends with the currently admissible node set; retrying for '' @
           Itoa (int (length pending)) @
           '' node(s) still pending (initializing, not yet NodeReady, or critical components not yet ready): '' @
           formatNodeNames pending 5) retryAfter))"

section \<open>Network stack\<close>

definition LoadBalancerNetworkStackIPv4 :: string where
  "LoadBalancerNetworkStackIPv4 = ''IPV4''"

definition LoadBalancerNetworkStackDualstack :: string where
  "LoadBalancerNetworkStackDualstack = ''DUALSTACK''"

text \<open>The default when the annotation is absent or empty; a nil node state is \<open>None\<close>.\<close>

definition defaultNetworkStack :: "string \<Rightarrow> bool \<Rightarrow> nodeState option \<Rightarrow> string" where
  "defaultNetworkStack lbType isInternalLB nso =
     (if isInternalLB then LoadBalancerNetworkStackIPv4
      else if lbType = LoadBalancerTypeRegionalNetwork
      then (case nso of
              Some ns \<Rightarrow> if isAllDualStack ns then LoadBalancerNetworkStackDualstack
                         else LoadBalancerNetworkStackIPv4
            | None \<Rightarrow> LoadBalancerNetworkStackIPv4)
      else LoadBalancerNetworkStackDualstack)"

definition bug_detected :: string where
  "bug_detected = ''BUG detected: cluster has single stack v4 nodes but was not defaulted to single stack REGIONAL NETWORK lb''"

definition getNetworkStack ::
  "Service \<Rightarrow> string \<Rightarrow> string \<Rightarrow> nodeState option \<Rightarrow> string outcome" where
  "getNetworkStack service lbType network nso =
     (if (case nso of None \<Rightarrow> False | Some ns \<Rightarrow> length (lbReadyNodes ns) = 0)
      then Err (NewError ''no ready nodes available for load balancer'')
      else
        let isInternalLB = (network = LoadBalancerNetworkTypeInternal);
            explicitAnnotation = (ann service annDONetworkStack \<noteq> '''');
            networkStack = (if explicitAnnotation then ann service annDONetworkStack
                            else defaultNetworkStack lbType isInternalLB nso)
        in
        if \<not> (networkStack = LoadBalancerNetworkStackIPv4 \<or>
              networkStack = LoadBalancerNetworkStackDualstack)
        then Err (NewError (''only LB network stacks supported are ('' @
               LoadBalancerNetworkStackIPv4 @ '', '' @ LoadBalancerNetworkStackDualstack @ '')''))
        else if networkStack = LoadBalancerNetworkStackDualstack \<and> isInternalLB
        then Err (Wrapf '''' ErrNetworkStackConfig
               '': dual stack networking is not supported for internal load balancer'')
        else case nso of
          None \<Rightarrow> Ok networkStack
        | Some ns \<Rightarrow>
            if networkStack = LoadBalancerNetworkStackDualstack
               \<and> lbType = LoadBalancerTypeRegionalNetwork \<and> hasSingleStackV4 ns
            then if explicitAnnotation
                 then Err (Wrapf '''' ErrNetworkStackConfig
                   ('': dual-stack networking requested but '' @
                    Itoa (int (length (singleStackV4Nodes ns))) @ '' nodes lack IPv6 addresses: '' @
                    formatNodeNames (singleStackV4Nodes ns) 3 @
                    ''. REGIONAL_NETWORK load balancers require all nodes to have IPv6 for dual-stack mode''))
                 else Err (NewError bug_detected)
            else Ok networkStack)"

section \<open>Classification\<close>

definition has_external :: "Node \<Rightarrow> bool \<Rightarrow> bool" where
  "has_external node v6 =
     list_ex (\<lambda>a. na_Type a = NodeExternalIP \<and> isIPv6 (na_Address a) = v6) (node_Addresses node)"

definition has_internal_v4 :: "Node \<Rightarrow> bool" where
  "has_internal_v4 node =
     list_ex (\<lambda>a. na_Type a = NodeInternalIP \<and> \<not> isIPv6 (na_Address a)) (node_Addresses node)"

lemma externalFlags_foldl:
  "foldl (\<lambda>(hasIPv4, hasIPv6) addr.
         if na_Type addr \<noteq> NodeExternalIP then (hasIPv4, hasIPv6)
         else if isIPv6 (na_Address addr) then (hasIPv4, True)
         else (True, hasIPv6)) (b4, b6) addrs
   = (b4 \<or> list_ex (\<lambda>a. na_Type a = NodeExternalIP \<and> isIPv6 (na_Address a) = False) addrs,
      b6 \<or> list_ex (\<lambda>a. na_Type a = NodeExternalIP \<and> isIPv6 (na_Address a) = True) addrs)"
  by (induction addrs arbitrary: b4 b6) auto

lemma externalFlags_eq: "externalFlags (node_Addresses n) = (has_external n False, has_external n True)"
  unfolding externalFlags_def externalFlags_foldl by (simp add: has_external_def)

lemma classifyNode_eq:
  "classifyNode n fb =
     (if has_external n True
      then if has_external n False then nodeClassDualStack else nodeClassSingleStackV6
      else if has_external n False \<or> (fb \<and> has_internal_v4 n) then nodeClassSingleStackV4
      else nodeClassPublicNetUnready)"
  by (auto simp: classifyNode_def externalFlags_eq has_internal_v4_def Let_def)

lemma classify_foldl_internal:
  "foldl (classify_step True fb) st nodes = st\<lparr>lbReadyNodes := lbReadyNodes st @ nodes\<rparr>"
  by (induction nodes arbitrary: st) (simp_all add: classify_step_def)

definition class_filter :: "bool \<Rightarrow> nodeClassification list \<Rightarrow> Node list \<Rightarrow> Node list" where
  "class_filter fb cs nodes = filter (\<lambda>n. classifyNode n fb \<in> set cs) nodes"

lemma classify_foldl_external:
  "foldl (classify_step False fb) st nodes =
     \<lparr>lbReadyNodes = lbReadyNodes st @ class_filter fb [nodeClassSingleStackV4, nodeClassDualStack] nodes,
      filteredCount = filteredCount st +
        length (class_filter fb [nodeClassSingleStackV6, nodeClassPublicNetUnready] nodes),
      publicNetUnreadyCount = publicNetUnreadyCount st +
        length (class_filter fb [nodeClassPublicNetUnready] nodes),
      publicNetUnreadyNodes = publicNetUnreadyNodes st @ class_filter fb [nodeClassPublicNetUnready] nodes,
      singleStackV4Nodes = singleStackV4Nodes st @ class_filter fb [nodeClassSingleStackV4] nodes,
      singleStackV6Nodes = singleStackV6Nodes st @ class_filter fb [nodeClassSingleStackV6] nodes,
      dualStackNodes = dualStackNodes st @ class_filter fb [nodeClassDualStack] nodes\<rparr>"
proof (induction nodes arbitrary: st)
  case Nil
  then show ?case by (simp add: class_filter_def)
next
  case (Cons n nodes)
  show ?case
    unfolding foldl.simps Cons.IH
    by (cases "classifyNode n fb") (simp_all add: classify_step_def class_filter_def)
qed

lemma filterAndClassifyNodes_eq:
  "filterAndClassifyNodes nodes t n =
     (if n = LoadBalancerNetworkTypeInternal then empty_nodeState\<lparr>lbReadyNodes := nodes\<rparr>
      else let fb = allowsPrivateOnlyBackends t n in
     \<lparr>lbReadyNodes = class_filter fb [nodeClassSingleStackV4, nodeClassDualStack] nodes,
      filteredCount = length (class_filter fb [nodeClassSingleStackV6, nodeClassPublicNetUnready] nodes),
      publicNetUnreadyCount = length (class_filter fb [nodeClassPublicNetUnready] nodes),
      publicNetUnreadyNodes = class_filter fb [nodeClassPublicNetUnready] nodes,
      singleStackV4Nodes = class_filter fb [nodeClassSingleStackV4] nodes,
      singleStackV6Nodes = class_filter fb [nodeClassSingleStackV6] nodes,
      dualStackNodes = class_filter fb [nodeClassDualStack] nodes\<rparr>)"
  by (simp add: filterAndClassifyNodes_def classify_foldl_internal classify_foldl_external
      empty_nodeState_def Let_def)

lemma class_filter_disjoint:
  assumes "set cs \<inter> set ds = {}"
  shows "mset (class_filter fb (cs @ ds) nodes) =
     mset (class_filter fb cs nodes) + mset (class_filter fb ds nodes)"
  using assms by (induction nodes) (auto simp: class_filter_def disjoint_iff)

lemma class_filter_all:
  "class_filter fb [nodeClassSingleStackV4, nodeClassDualStack, nodeClassSingleStackV6,
     nodeClassPublicNetUnready] nodes = nodes"
proof -
  have "classifyNode n fb \<in> set [nodeClassSingleStackV4, nodeClassDualStack,
      nodeClassSingleStackV6, nodeClassPublicNetUnready]" for n
    by (cases "classifyNode n fb") auto
  then show ?thesis unfolding class_filter_def by simp
qed

lemma class_filter_partition:
  "mset nodes = mset (class_filter fb [nodeClassSingleStackV4, nodeClassDualStack] nodes) +
     mset (class_filter fb [nodeClassSingleStackV6, nodeClassPublicNetUnready] nodes)"
  using class_filter_disjoint
    [of "[nodeClassSingleStackV4, nodeClassDualStack]" "[nodeClassSingleStackV6, nodeClassPublicNetUnready]" fb nodes]
  by (simp add: class_filter_all)

lemma class_filter_pair:
  "c \<noteq> d \<Longrightarrow> mset (class_filter fb [c, d] nodes) =
     mset (class_filter fb [c] nodes) + mset (class_filter fb [d] nodes)"
  using class_filter_disjoint [of "[c]" "[d]" fb nodes] by simp

text \<open>
  Classification loses and duplicates no node: as multisets the nodes are the backends, the nodes
  with no usable address and the IPv6-only nodes; the counters are the lengths of their
  groups; for an external load balancer the backends are the IPv4-only and the dual-stack
  nodes, for an internal one they are all nodes, in order.\<close>

theorem filterAndClassifyNodes_partition:
  "let ns = filterAndClassifyNodes nodes lbType lbNetwork in
     mset nodes = mset (lbReadyNodes ns) + mset (publicNetUnreadyNodes ns) + mset (singleStackV6Nodes ns)
     \<and> filteredCount ns = length (publicNetUnreadyNodes ns) + length (singleStackV6Nodes ns)
     \<and> publicNetUnreadyCount ns = length (publicNetUnreadyNodes ns)
     \<and> (if lbNetwork = LoadBalancerNetworkTypeInternal then lbReadyNodes ns = nodes
        else mset (lbReadyNodes ns) = mset (singleStackV4Nodes ns) + mset (dualStackNodes ns))"
proof (cases "lbNetwork = LoadBalancerNetworkTypeInternal")
  case True
  then show ?thesis by (simp add: filterAndClassifyNodes_eq empty_nodeState_def)
next
  case False
  let ?fb = "allowsPrivateOnlyBackends lbType lbNetwork"
  have "length (class_filter ?fb [nodeClassSingleStackV6, nodeClassPublicNetUnready] nodes) =
      length (class_filter ?fb [nodeClassSingleStackV6] nodes)
      + length (class_filter ?fb [nodeClassPublicNetUnready] nodes)"
    using class_filter_pair [of nodeClassSingleStackV6 nodeClassPublicNetUnready ?fb nodes]
    by (metis size_mset size_union nodeClassification.distinct(9))
  with False show ?thesis
    using class_filter_partition [of nodes ?fb]
    by (simp add: filterAndClassifyNodes_eq Let_def class_filter_pair)
qed

text \<open>
  Which nodes back an external load balancer: those with an external address that is not
  IPv6; a REGIONAL load balancer also takes a node without any external address that has an
  internal address that is not IPv6.\<close>

theorem external_backends_iff:
  "node \<in> set (lbReadyNodes (filterAndClassifyNodes nodes lbType LoadBalancerNetworkTypeExternal)) \<longleftrightarrow>
     node \<in> set nodes \<and>
     (has_external node False \<or>
      (lbType = LoadBalancerTypeRegional \<and> \<not> has_external node True \<and> has_internal_v4 node))"
  by (auto simp: filterAndClassifyNodes_eq class_filter_def classifyNode_eq
      allowsPrivateOnlyBackends_def lb_const_defs Let_def)

section \<open>Readiness\<close>

lemma filterByReadiness_eq:
  "filterByReadiness ids nodes =
     (let ok = (\<lambda>n. is_admitted ids n \<or> (isNodeReady n \<and> \<not> hasPendingCriticalComponentsTaint n))
      in (filter ok nodes, filter (\<lambda>n. \<not> ok n) nodes))"
  by (induction nodes) (auto simp: Let_def)

lemma filterByReadiness_iff:
  assumes "filterByReadiness ids nodes = (admit, pending)"
  shows "n \<in> set admit \<longleftrightarrow> n \<in> set nodes \<and>
      (is_admitted ids n \<or> (isNodeReady n \<and> \<not> hasPendingCriticalComponentsTaint n))"
    and "n \<in> set pending \<longleftrightarrow> n \<in> set nodes \<and> n \<notin> set admit"
  using assms by (auto simp: filterByReadiness_eq Let_def)

lemma filterByReadiness_mset:
  "filterByReadiness ids nodes = (admit, pending) \<Longrightarrow> mset nodes = mset admit + mset pending"
  by (auto simp: filterByReadiness_eq Let_def)

lemma filterByReadiness_Nil [simp]: "filterByReadiness ids nodes = ([], p) \<Longrightarrow> p = nodes"
  by (auto simp: filterByReadiness_eq Let_def filter_empty_conv)

lemma is_admitted_iff:
  "is_admitted (admittedDropletIDSet lb) n \<longleftrightarrow>
     (\<exists>b i. lb = Some b \<and> dropletIDFromProviderID (node_ProviderID n) = Ok i \<and> i \<in> set (lb_DropletIDs b))"
  by (cases "dropletIDFromProviderID (node_ProviderID n)")
    (auto simp: is_admitted_def admittedDropletIDSet_def split: option.splits)

lemma pendingInitNodes_eq:
  "pendingInitNodes nodes =
     (filter nodeIntendsPublicNetwork nodes, filter (\<lambda>n. \<not> nodeIntendsPublicNetwork n) nodes)"
  by (induction nodes) auto

lemma prepareNodesForLBSync_Ok_iff:
  "prepareNodesForLBSync d s nodes = Ok pending \<longleftrightarrow>
     (\<exists>ns. classifyServiceNodes d s nodes = Ok ns
        \<and> pending = filter nodeIntendsPublicNetwork (publicNetUnreadyNodes ns)
        \<and> (lbReadyNodes ns = [] \<longrightarrow> pending = []))"
  by (auto simp: prepareNodesForLBSync_def outcome_simps pendingInitNodes_eq split: if_splits)


definition fresh_node :: Node where
  "fresh_node = example_node\<lparr>node_Name := ''worker-2'', node_ProviderID := ''digitalocean://43'',
     node_Addresses := [], node_Conditions := []\<rparr>"


lemma retryIfNodesPendingInit_eq_None: "retryIfNodesPendingInit s p q = None \<longleftrightarrow> p = [] \<and> q = []"
  by (auto simp: retryIfNodesPendingInit_def Let_def)

lemma retryIfNodesPendingInit_Some:
  "retryIfNodesPendingInit s p q = Some e \<Longrightarrow>
     errors_As_RetryError e = Some (if q = [] then 5 else 15)"
  by (auto simp: retryIfNodesPendingInit_def Let_def nodesNotYetLBReadyRetryAfter_def
      nodesNotYetReadyRetryAfter_def split: if_splits)

section \<open>Network stack\<close>

text \<open>
  The branch that reports a bug in the defaulting of the network stack is never reached, whatever
  the annotations, the load balancer type and the node state.\<close>

theorem getNetworkStack_never_bug:
  "getNetworkStack s lbType network nso \<noteq> Err (NewError bug_detected)"
proof -
  have "bug_detected \<noteq> ''no ready nodes available for load balancer''"
    "bug_detected \<noteq> ''only LB network stacks supported are ('' @
               LoadBalancerNetworkStackIPv4 @ '', '' @ LoadBalancerNetworkStackDualstack @ '')''"
    by (simp_all add: bug_detected_def)
  then show ?thesis
    by (auto simp: getNetworkStack_def defaultNetworkStack_def isAllDualStack_def Let_def
        LoadBalancerNetworkStackIPv4_def LoadBalancerNetworkStackDualstack_def
        split: option.splits if_splits)
qed


text \<open>
  A network stack the code settles on is one of the two supported values; an internal load
  balancer is IPv4; and a REGIONAL_NETWORK load balancer is dual stack only if every backend
  has both an external IPv4 and an external IPv6 address.\<close>

theorem getNetworkStack_sound:
  assumes "getNetworkStack s lbType lbNetwork (Some (filterAndClassifyNodes nodes lbType lbNetwork)) = Ok stack"
  shows "stack \<in> {LoadBalancerNetworkStackIPv4, LoadBalancerNetworkStackDualstack}
     \<and> lbReadyNodes (filterAndClassifyNodes nodes lbType lbNetwork) \<noteq> []
     \<and> (stack = LoadBalancerNetworkStackDualstack \<longrightarrow> lbNetwork \<noteq> LoadBalancerNetworkTypeInternal)
     \<and> (stack = LoadBalancerNetworkStackDualstack \<and> lbType = LoadBalancerTypeRegionalNetwork \<longrightarrow>
         (\<forall>n \<in> set (lbReadyNodes (filterAndClassifyNodes nodes lbType lbNetwork)).
            has_external n False \<and> has_external n True))"
proof -
  let ?ns = "filterAndClassifyNodes nodes lbType lbNetwork"
  have stack: "stack \<in> {LoadBalancerNetworkStackIPv4, LoadBalancerNetworkStackDualstack}"
    and ready: "lbReadyNodes ?ns \<noteq> []"
    and ext: "stack = LoadBalancerNetworkStackDualstack \<Longrightarrow> lbNetwork \<noteq> LoadBalancerNetworkTypeInternal"
    and v4: "stack = LoadBalancerNetworkStackDualstack \<Longrightarrow> lbType = LoadBalancerTypeRegionalNetwork
       \<Longrightarrow> \<not> hasSingleStackV4 ?ns"
    using assms by (auto simp: getNetworkStack_def Let_def split: if_splits)
  have "has_external n False \<and> has_external n True"
    if "stack = LoadBalancerNetworkStackDualstack" "lbType = LoadBalancerTypeRegionalNetwork"
      "n \<in> set (lbReadyNodes ?ns)" for n
    using that ext v4
    by (auto simp: filterAndClassifyNodes_eq class_filter_def classifyNode_eq Let_def
        hasSingleStackV4_def filter_empty_conv lb_const_defs allowsPrivateOnlyBackends_def split: if_splits)
  with stack ready ext show ?thesis by blast
qed

definition external_address :: "string \<Rightarrow> NodeAddress" where
  "external_address a = \<lparr>na_Type = NodeExternalIP, na_Address = a\<rparr>"

definition dual_stack_node :: Node where
  "dual_stack_node = example_node\<lparr>node_Addresses := map external_address [''192.0.2.1'', ''2001:db8::1'']\<rparr>"

theorem getNetworkStack_sound_witness:
  "getNetworkStack (example_service\<lparr>svc_Annotations := []\<rparr>) LoadBalancerTypeRegionalNetwork
     LoadBalancerNetworkTypeExternal (Some (filterAndClassifyNodes [dual_stack_node]
       LoadBalancerTypeRegionalNetwork LoadBalancerNetworkTypeExternal)) = Ok LoadBalancerNetworkStackDualstack
   \<and> has_external dual_stack_node False \<and> has_external dual_stack_node True"
proof -
  have run: "getNetworkStack (example_service\<lparr>svc_Annotations := []\<rparr>) LoadBalancerTypeRegionalNetwork
     LoadBalancerNetworkTypeExternal (Some (filterAndClassifyNodes [dual_stack_node]
       LoadBalancerTypeRegionalNetwork LoadBalancerNetworkTypeExternal)) = Ok LoadBalancerNetworkStackDualstack"
    by code_simp
  have "lbReadyNodes (filterAndClassifyNodes [dual_stack_node] LoadBalancerTypeRegionalNetwork
      LoadBalancerNetworkTypeExternal) = [dual_stack_node]"
    by code_simp
  with getNetworkStack_sound [OF run] run show ?thesis by simp
qed

end
