(* ===== verification/LB_Request.thy ===== *)
theory LB_Request
  imports LB_Nodes Pagination
begin

text \<open>
  The request that describes a load balancer to the DigitalOcean API: the droplets behind a
  set of nodes, the request built from the annotations of a service (with or without
  knowledge of the nodes), and the request for an actual synchronisation, which admits the
  backends, reports configuration errors as events and fills in the cluster's settings.
\<close>

section \<open>Configuration and shared helpers\<close>

text \<open>
  The fields of \<^verbatim>\<open>loadBalancers\<close> and of the \<^verbatim>\<open>resources\<close> it points to that are read.
\<close>

record 'w loadBalancers =
  l_client :: "'w client"
  l_clusterID :: string
  l_clusterVPCID :: string
  l_region :: string
  l_defaultLBType :: string

definition tagPrefixClusterID :: string where
  "tagPrefixClusterID = ''k8s''"

definition buildK8sTag :: "string \<Rightarrow> string" where
  "buildK8sTag val = tagPrefixClusterID @ '':'' @ val"

section \<open>From nodes to droplets\<close>

text \<open>
  The first loop of \<^verbatim>\<open>nodesToDropletIDs\<close>: provider IDs are parsed, the names of nodes
  without one are collected in the set \<^verbatim>\<open>missingDroplets\<close>.
\<close>

fun collectProviderIDs ::
    "Node list \<Rightarrow> int list \<Rightarrow> string list \<Rightarrow> (int list \<times> string list) outcome" where
  "collectProviderIDs [] dropletIDs missing = Ok (dropletIDs, missing)"
| "collectProviderIDs (node # nodes) dropletIDs missing =
     (if node_ProviderID node \<noteq> ''''
      then bindR
        (map_err (\<lambda>e. Errorf (''failed to parse provider ID '' @ quote (node_ProviderID node) @ '': '') e '''')
          (dropletIDFromProviderID (node_ProviderID node)))
        (\<lambda>dropletID. collectProviderIDs nodes (dropletIDs @ [dropletID]) missing)
      else collectProviderIDs nodes dropletIDs (List.insert (node_Name node) missing))"

text \<open>
  The second loop: a droplet is taken if its name is missing, or else if one of its addresses
  is the name of a missing node; in both cases the code deletes the droplet's name from the
  set.
\<close>

fun matchDroplets ::
    "Droplet list \<Rightarrow> int list \<Rightarrow> string list \<Rightarrow> (int list \<times> string list) outcome" where
  "matchDroplets [] dropletIDs missing = Ok (dropletIDs, missing)"
| "matchDroplets (droplet # droplets) dropletIDs missing =
     (if droplet_Name droplet \<in> set missing
      then matchDroplets droplets (dropletIDs @ [droplet_ID droplet])
             (removeAll (droplet_Name droplet) missing)
      else case nodeAddresses droplet of
        Ok addresses \<Rightarrow>
          if list_ex (\<lambda>address. na_Address address \<in> set missing) addresses
          then matchDroplets droplets (dropletIDs @ [droplet_ID droplet])
                 (removeAll (droplet_Name droplet) missing)
          else matchDroplets droplets dropletIDs missing
      | Err e \<Rightarrow> matchDroplets droplets dropletIDs missing
      | Panic p \<Rightarrow> Panic p
      | OutOfFuel \<Rightarrow> OutOfFuel)"

definition nodesToDropletIDs :: "'w client \<Rightarrow> Node list \<Rightarrow> ('w, int list) cmd" where
  "nodesToDropletIDs c nodes =
     bindM (liftR (collectProviderIDs nodes [] [])) (\<lambda>(dropletIDs, missing).
       if 0 < length missing
       then bindM (map_errM (\<lambda>e. Errorf ''failed to list all droplets: '' e '''')
                (allDropletList c (Droplets_List c))) (\<lambda>droplets.
              bindM (liftR (matchDroplets droplets dropletIDs missing)) (\<lambda>(ids, still_missing).
              returnM ids))
       else returnM dropletIDs)"

section \<open>The request for a service\<close>

definition buildLoadBalancerRequestWithNodeState ::
    "'w client \<Rightarrow> Service \<Rightarrow> string \<Rightarrow> nodeState option \<Rightarrow> ('w, LoadBalancerRequest) cmd" where
  "buildLoadBalancerRequestWithNodeState c service defaultLBType nso =
     bindM (liftR (getType service defaultLBType)) (\<lambda>lbType.
     bindM (liftR (getNetwork service)) (\<lambda>lbNetwork.
     bindM (liftR (getNetworkStack service lbType lbNetwork nso)) (\<lambda>lbNetworkStack.
     bindM (if lbType = LoadBalancerTypeRegionalNetwork
            then liftR (buildRegionalNetworkForwardingRule service)
            else buildForwardingRules c service) (\<lambda>forwardingRules.
     bindM (liftR (buildHealthCheck service)) (\<lambda>healthCheck.
     bindM (liftR (buildStickySessions service)) (\<lambda>stickySessions.
     bindM (liftR (getSizeSlug service)) (\<lambda>sizeSlug.
     bindM (liftR (getSizeUnit service)) (\<lambda>sizeUnit.
     if sizeSlug \<noteq> '''' \<and> sizeUnit > 0
     then liftR (Err (NewError ''only one of LB size slug and size unit can be provided''))
     else
     bindM (liftR (getRedirectHTTPToHTTPS service)) (\<lambda>redirectHTTPToHTTPS.
     bindM (liftR (getEnableProxyProtocol service)) (\<lambda>enableProxyProtocol.
     bindM (liftR (getEnableBackendKeepalive service)) (\<lambda>enableBackendKeepalive.
     bindM (liftR (getDisableLetsEncryptDNSRecords service)) (\<lambda>disableLetsEncryptDNSRecords.
     bindM (liftR (getHttpIdleTimeoutSeconds service)) (\<lambda>httpIdleTimeoutSeconds.
     bindM (liftR (buildFirewall c service)) (\<lambda>fw.
     returnM
       \<lparr>req_Name = getLoadBalancerName service, req_Algorithm = getAlgorithm service,
        req_Region = '''', req_SizeSlug = sizeSlug, req_SizeUnit = sizeUnit, req_Type = lbType,
        req_ForwardingRules = forwardingRules, req_HealthCheck = Some healthCheck,
        req_StickySessions = Some stickySessions, req_DropletIDs = [], req_Tags = [],
        req_RedirectHttpToHttps = redirectHTTPToHTTPS,
        req_EnableProxyProtocol = enableProxyProtocol,
        req_EnableBackendKeepalive = enableBackendKeepalive,
        req_VPCUUID = '''', req_VPCSubnetUUID = getSubnetUUID service,
        req_DisableLetsEncryptDNSRecords = Some disableLetsEncryptDNSRecords,
        req_ValidateOnly = False, req_HTTPIdleTimeoutSeconds = httpIdleTimeoutSeconds,
        req_Firewall = Some fw, req_Network = lbNetwork, req_NetworkStack = lbNetworkStack,
        req_IP = ''''\<rparr>))))))))))))))"

text \<open>The package-level \<^verbatim>\<open>buildLoadBalancerRequest\<close>, used by the admission webhook.\<close>

definition buildLoadBalancerRequest ::
    "'w client \<Rightarrow> Service \<Rightarrow> string \<Rightarrow> ('w, LoadBalancerRequest) cmd" where
  "buildLoadBalancerRequest c service defaultLBType =
     buildLoadBalancerRequestWithNodeState c service defaultLBType None"

text \<open>
  An event on the service. Its object name, which ends in the current time, and its time
  stamps are left out; the error of the call is ignored by the code.
\<close>

definition emitServiceEvent ::
    "'w client \<Rightarrow> Service \<Rightarrow> string \<Rightarrow> string \<Rightarrow> string \<Rightarrow> ('w, unit) cmd" where
  "emitServiceEvent c service eventType reason message =
     (\<lambda>w. (Ok (), Events_Create c
        \<lparr>ev_Namespace = svc_Namespace service, ev_Name = svc_Name service,
         ev_UID = svc_UID service, ev_Type = eventType, ev_Reason = reason,
         ev_Message = message\<rparr> w))"

definition errNoEligibleBackendsMsg :: string where
  "errNoEligibleBackendsMsg =
     ''REGIONAL_NETWORK EXTERNAL load balancers require at least one node with a public IPv4 address; no eligible backends found. For private-only nodes, set service.beta.kubernetes.io/do-loadbalancer-type to \"REGIONAL\" or service.beta.kubernetes.io/do-loadbalancer-network to \"INTERNAL\".''"

definition no_eligible_backends :: error where
  "no_eligible_backends = Wrapf '''' ErrNoEligibleBackends ('': '' @ errNoEligibleBackendsMsg)"

definition hold_back_message :: "Service \<Rightarrow> Node list \<Rightarrow> string" where
  "hold_back_message service pendingNotReady =
     ''service '' @ qualified_name service @ '': '' @ Itoa (int (length pendingNotReady)) @
     '' lb-ready-by-IP node(s) are not yet serving (NodeReady=True and critical components ready) and none is already admitted, retrying instead of writing an empty backend set: '' @
     formatNodeNames pendingNotReady 5"

text \<open>The method \<^verbatim>\<open>loadBalancers.buildLoadBalancerRequest\<close>.\<close>

definition lb_buildLoadBalancerRequest ::
    "'w loadBalancers \<Rightarrow> Service \<Rightarrow> Node list \<Rightarrow> int list \<Rightarrow>
     ('w, LoadBalancerRequest \<times> Node list) cmd" where
  "lb_buildLoadBalancerRequest l service nodes admittedIDs =
     bindM (liftR (getNetwork service)) (\<lambda>lbNetwork.
     bindM (liftR (getType service (l_defaultLBType l))) (\<lambda>lbType.
     let ns = filterAndClassifyNodes nodes lbType lbNetwork in
     if length (lbReadyNodes ns) = 0 \<and> publicNetUnreadyCount ns > 0 \<and>
        lbType = LoadBalancerTypeRegionalNetwork \<and> lbNetwork = LoadBalancerNetworkTypeExternal
     then bindM (emitServiceEvent (l_client l) service ''Warning'' ''LoadBalancerConfigError''
              (error_text no_eligible_backends)) (\<lambda>_.
            liftR (Err no_eligible_backends))
     else
     let (admit, pendingNotReady) = filterByReadiness admittedIDs (lbReadyNodes ns) in
     if length admit = 0 \<and> length pendingNotReady > 0
     then liftR (Err (RetryError (hold_back_message service pendingNotReady) nodesNotYetReadyRetryAfter))
     else
     let admitState = filterAndClassifyNodes admit lbType lbNetwork in
     bindM (\<lambda>w. case buildLoadBalancerRequestWithNodeState (l_client l) service
                       (l_defaultLBType l) (Some admitState) w of
              (Err e, w') \<Rightarrow>
                (if errors_Is e ErrNetworkStackConfig
                 then bindM (emitServiceEvent (l_client l) service ''Warning''
                        ''LoadBalancerConfigError'' (error_text e)) (\<lambda>_. liftR (Err e)) w'
                 else (Err e, w'))
            | r \<Rightarrow> r) (\<lambda>req.
     bindM (nodesToDropletIDs (l_client l) admit) (\<lambda>dropletIDs.
     returnM
       (req\<lparr>req_DropletIDs := dropletIDs,
            req_Tags := (if l_clusterID l \<noteq> '''' then [buildK8sTag (l_clusterID l)] else []),
            req_Region := l_region l, req_VPCUUID := l_clusterVPCID l\<rparr>,
        pendingNotReady)))))"

section \<open>Droplets behind nodes\<close>

lemma collectProviderIDs_Ok:
  "collectProviderIDs nodes ids missing = Ok (ids', missing') \<Longrightarrow>
     \<exists>new. ids' = ids @ new
       \<and> list_all2 (\<lambda>n i. dropletIDFromProviderID (node_ProviderID n) = Ok i)
            (filter (\<lambda>n. node_ProviderID n \<noteq> '''') nodes) new
       \<and> set missing' = set missing \<union> node_Name ` {n \<in> set nodes. node_ProviderID n = ''''}"
proof (induction nodes arbitrary: ids missing)
  case (Cons n nodes)
  show ?case
  proof (cases "node_ProviderID n = ''''")
    case True
    with Cons.IH [of ids "List.insert (node_Name n) missing"] Cons.prems show ?thesis by auto
  next
    case False
    with Cons.prems obtain i where i: "dropletIDFromProviderID (node_ProviderID n) = Ok i"
      "collectProviderIDs nodes (ids @ [i]) missing = Ok (ids', missing')"
      by (auto simp: outcome_simps)
    with Cons.IH [OF i(2)] False show ?thesis by fastforce
  qed
qed simp

lemma nodeAddresses_no_panic: "nodeAddresses d \<noteq> Panic p" "nodeAddresses d \<noteq> OutOfFuel"
  by (auto simp: nodeAddresses_def PrivateIPv4_def PublicIPv4_def PublicIPv6_def first_address_def
      outcome_simps split: option.splits if_splits)

lemma matchDroplets_Ok:
  "\<exists>new missing'. matchDroplets ds ids missing = Ok (ids @ new, missing')
     \<and> set new \<subseteq> droplet_ID ` set ds \<and> set missing' \<subseteq> set missing"
proof (induction ds arbitrary: ids missing)
  case (Cons d ds)
  obtain new1 m1 where taken:
    "matchDroplets ds (ids @ [droplet_ID d]) (removeAll (droplet_Name d) missing)
       = Ok ((ids @ [droplet_ID d]) @ new1, m1)"
    "set new1 \<subseteq> droplet_ID ` set ds" "set m1 \<subseteq> set (removeAll (droplet_Name d) missing)"
    using Cons.IH by blast
  obtain new2 m2 where skipped: "matchDroplets ds ids missing = Ok (ids @ new2, m2)"
    "set new2 \<subseteq> droplet_ID ` set ds" "set m2 \<subseteq> set missing"
    using Cons.IH by blast
  have "matchDroplets (d # ds) ids missing \<in>
      {Ok (ids @ droplet_ID d # new1, m1), Ok (ids @ new2, m2)}"
    using taken(1) skipped(1)
    by (auto simp: nodeAddresses_no_panic split: outcome.splits)
  with taken(2,3) skipped(2,3) show ?case by fastforce
qed simp

lemma nodesToDropletIDs_Ok:
  assumes "nodesToDropletIDs c nodes w = (Ok ids, w')"
  shows "\<exists>parsed found. ids = parsed @ found
       \<and> list_all2 (\<lambda>n i. dropletIDFromProviderID (node_ProviderID n) = Ok i)
            (filter (\<lambda>n. node_ProviderID n \<noteq> '''') nodes) parsed
       \<and> (list_all (\<lambda>n. node_ProviderID n \<noteq> '''') nodes \<longrightarrow> found = [] \<and> w' = w)"
proof -
  from assms obtain parsed missing where parse:
    "collectProviderIDs nodes [] [] = Ok (parsed, missing)"
    and rest: "if missing \<noteq> [] then \<exists>ds w1 m. allDropletList c (Droplets_List c) w = (Ok ds, w1)
        \<and> w' = w1 \<and> matchDroplets ds parsed missing = Ok (ids, m) else ids = parsed \<and> w' = w"
    by (auto simp: nodesToDropletIDs_def outcome_simps split: if_splits prod.splits)
  from collectProviderIDs_Ok [OF parse]
  have p: "list_all2 (\<lambda>n i. dropletIDFromProviderID (node_ProviderID n) = Ok i)
        (filter (\<lambda>n. node_ProviderID n \<noteq> '''') nodes) parsed"
    and m: "set missing = node_Name ` {n \<in> set nodes. node_ProviderID n = ''''}"
    by auto
  show ?thesis
  proof (cases "missing = []")
    case True
    with rest p show ?thesis by auto
  next
    case False
    with rest matchDroplets_Ok obtain found where "ids = parsed @ found" by (metis (no_types, lifting) outcome.inject(1) prod.inject)
    moreover from False have "set missing \<noteq> {}" by simp
    with m have "\<not> list_all (\<lambda>n. node_ProviderID n \<noteq> '''') nodes"
      by (auto simp: list_all_iff)
    ultimately show ?thesis using p by blast
  qed
qed

section \<open>The request\<close>

lemma buildRequest_Ok:
  assumes "buildLoadBalancerRequestWithNodeState c s d nso w = (Ok req, w')"
  shows "getType s d = Ok (req_Type req)" "getNetwork s = Ok (req_Network req)"
    "getNetworkStack s (req_Type req) (req_Network req) nso = Ok (req_NetworkStack req)"
    "\<not> (req_SizeSlug req \<noteq> '''' \<and> req_SizeUnit req > 0)"
    "req_Name req = getLoadBalancerName s" "req_IP req = ''''" "\<not> req_ValidateOnly req"
    "getSizeUnit s = Ok (req_SizeUnit req)"
  using assms
  by (auto simp: buildLoadBalancerRequestWithNodeState_def outcome_simps split: if_splits)

text \<open>
  Whatever the actual synchronisation accepts, the admission check accepts: if a request can
  be built for a node set, the request without node knowledge can be built from the same
  service, with the same effects on the outside world and the same content except for the
  network stack, which differs only where all backends of a REGIONAL_NETWORK load balancer
  are dual stack.\<close>

theorem admission_request_agrees:
  assumes "buildLoadBalancerRequestWithNodeState c s d (Some ns) w = (Ok req, w')"
  shows "\<exists>stack. buildLoadBalancerRequest c s d w = (Ok (req\<lparr>req_NetworkStack := stack\<rparr>), w')
     \<and> (stack = req_NetworkStack req
        \<or> req_Type req = LoadBalancerTypeRegionalNetwork \<and> isAllDualStack ns
          \<and> stack = LoadBalancerNetworkStackIPv4 \<and> req_NetworkStack req = LoadBalancerNetworkStackDualstack)"
proof -
  note parts = buildRequest_Ok [OF assms]
  obtain stack where stack: "getNetworkStack s (req_Type req) (req_Network req) None = Ok stack"
    "stack = req_NetworkStack req \<or> req_Type req = LoadBalancerTypeRegionalNetwork \<and> isAllDualStack ns
       \<and> stack = LoadBalancerNetworkStackIPv4 \<and> req_NetworkStack req = LoadBalancerNetworkStackDualstack"
    using parts(3)
    by (auto simp: getNetworkStack_def Let_def defaultNetworkStack_def
        LoadBalancerNetworkStackDualstack_def LoadBalancerNetworkStackIPv4_def split: if_splits)
  obtain t n where tn: "req_Type req = t" "req_Network req = n" by blast
  have "buildLoadBalancerRequest c s d w = (Ok (req\<lparr>req_NetworkStack := stack\<rparr>), w')"
    using assms stack(1) parts(1,2)
    unfolding buildLoadBalancerRequest_def buildLoadBalancerRequestWithNodeState_def tn
    by (auto simp: outcome_simps split: if_splits)
  with stack(2) show ?thesis by blast
qed

lemma getSizeUnit_nonneg: "getSizeUnit s = Ok n \<Longrightarrow> n \<ge> 0"
  using uint32_bounds by (auto simp: getSizeUnit_def outcome_simps split: option.splits if_splits)

lemma filterAndClassifyNodes_subset:
  "set (lbReadyNodes (filterAndClassifyNodes nodes t n)) \<subseteq> set nodes"
  by (auto simp: filterAndClassifyNodes_eq class_filter_def Let_def)

lemma filterAndClassifyNodes_again:
  assumes "set admit \<subseteq> set (lbReadyNodes (filterAndClassifyNodes nodes t n))"
  shows "lbReadyNodes (filterAndClassifyNodes admit t n) = admit"
  using assms
  by (auto simp: filterAndClassifyNodes_eq class_filter_def Let_def intro!: filter_True split: if_splits)

lemma lb_buildRequest_Ok:
  assumes "lb_buildLoadBalancerRequest l s nodes ids w = (Ok (req, pending), w')"
  obtains t n admit req0 w1 where
    "getNetwork s = Ok n" "getType s (l_defaultLBType l) = Ok t"
    "filterByReadiness ids (lbReadyNodes (filterAndClassifyNodes nodes t n)) = (admit, pending)"
    "admit \<noteq> []"
    "buildLoadBalancerRequestWithNodeState (l_client l) s (l_defaultLBType l)
       (Some (filterAndClassifyNodes admit t n)) w = (Ok req0, w1)"
    "nodesToDropletIDs (l_client l) admit w1 = (Ok (req_DropletIDs req), w')"
    "req = req0\<lparr>req_DropletIDs := req_DropletIDs req,
            req_Tags := (if l_clusterID l \<noteq> '''' then [buildK8sTag (l_clusterID l)] else []),
            req_Region := l_region l, req_VPCUUID := l_clusterVPCID l\<rparr>"
proof -
  from assms obtain t n where tn: "getNetwork s = Ok n" "getType s (l_defaultLBType l) = Ok t"
    by (auto simp: lb_buildLoadBalancerRequest_def outcome_simps)
  let ?ready = "lbReadyNodes (filterAndClassifyNodes nodes t n)"
  obtain admit p where fr: "filterByReadiness ids ?ready = (admit, p)" by fastforce
  with assms tn obtain req0 w1 dropletIDs where p: "p = pending"
    and ne: "\<not> (admit = [] \<and> pending \<noteq> [])"
    and b: "buildLoadBalancerRequestWithNodeState (l_client l) s (l_defaultLBType l)
       (Some (filterAndClassifyNodes admit t n)) w = (Ok req0, w1)"
    and d: "nodesToDropletIDs (l_client l) admit w1 = (Ok dropletIDs, w')"
    and req: "req = req0\<lparr>req_DropletIDs := dropletIDs,
            req_Tags := (if l_clusterID l \<noteq> '''' then [buildK8sTag (l_clusterID l)] else []),
            req_Region := l_region l, req_VPCUUID := l_clusterVPCID l\<rparr>"
    by (auto simp: lb_buildLoadBalancerRequest_def outcome_simps Let_def split: if_splits
        outcome.splits prod.splits)
  have "admit \<noteq> []"
  proof
    assume "admit = []"
    with buildRequest_Ok(3) [OF b] show False
      by (simp add: getNetworkStack_def filterAndClassifyNodes_eq class_filter_def empty_nodeState_def
          Let_def split: if_splits)
  qed
  with that [of n t admit req0 w1] tn fr p b d req show thesis by simp
qed

text \<open>
  C3: The backends of a request, for nodes that have provider IDs: they are, in order, the
  droplets of the nodes with a usable address that already back the load balancer or are
  ready and free of the critical-components taint; the nodes held back are exactly the other nodes with
  a usable address; and the backend set is never empty.\<close>

theorem request_backends_exact:
  assumes "lb_buildLoadBalancerRequest l s nodes admittedIDs w = (Ok (req, pending), w')"
    and "getType s (l_defaultLBType l) = Ok lbType" and "getNetwork s = Ok lbNetwork"
    and "list_all (\<lambda>n. node_ProviderID n \<noteq> '''') nodes"
  shows "let ready = lbReadyNodes (filterAndClassifyNodes nodes lbType lbNetwork);
             admit = (\<lambda>n. is_admitted admittedIDs n \<or> (isNodeReady n \<and> \<not> hasPendingCriticalComponentsTaint n))
         in map (\<lambda>n. dropletIDFromProviderID (node_ProviderID n)) (filter admit ready)
              = map Ok (req_DropletIDs req)
          \<and> pending = filter (\<lambda>n. \<not> admit n) ready
          \<and> req_DropletIDs req \<noteq> []"
proof -
  obtain admit w1 where
    fr: "filterByReadiness admittedIDs (lbReadyNodes (filterAndClassifyNodes nodes lbType lbNetwork)) = (admit, pending)"
    and ne: "admit \<noteq> []"
    and d: "nodesToDropletIDs (l_client l) admit w1 = (Ok (req_DropletIDs req), w')"
    using lb_buildRequest_Ok [OF assms(1)] assms(2,3) by (metis outcome.inject(1))
  have "set admit \<subseteq> set nodes"
    using filterByReadiness_iff(1) [OF fr] filterAndClassifyNodes_subset [of nodes] by blast
  with assms(4) have "list_all (\<lambda>n. node_ProviderID n \<noteq> '''') admit"
    by (auto simp: list_all_iff)
  then have "list_all2 (\<lambda>n i. dropletIDFromProviderID (node_ProviderID n) = Ok i) admit (req_DropletIDs req)"
    using nodesToDropletIDs_Ok [OF d] by (auto simp: list_all_iff)
  then have ids: "map (\<lambda>n. dropletIDFromProviderID (node_ProviderID n)) admit = map Ok (req_DropletIDs req)"
    and "length admit = length (req_DropletIDs req)"
    by (induction rule: list_all2_induct) simp_all
  with ne have "req_DropletIDs req \<noteq> []" by force
  with ids show ?thesis
    unfolding Let_def by (simp only: fr [unfolded filterByReadiness_eq Let_def prod.inject] simp_thms)
qed

definition example_lbs :: "'w client \<Rightarrow> 'w loadBalancers" where
  "example_lbs c = \<lparr>l_client = c, l_clusterID = ''cluster-1'', l_clusterVPCID = ''vpc-1'',
     l_region = ''nyc1'', l_defaultLBType = LoadBalancerTypeRegionalNetwork\<rparr>"

definition plain_service :: Service where
  "plain_service = example_service\<lparr>svc_Annotations := []\<rparr>"

definition tainted_node :: Node where
  "tainted_node = example_node\<lparr>node_Name := ''worker-3'', node_ProviderID := ''digitalocean://44'',
     node_Taints := [\<lparr>taint_Key = doksCriticalComponentsReadyTaintKey, taint_Value = '''',
       taint_Effect = ''NoSchedule'', taint_TimeAdded = None\<rparr>]\<rparr>"

definition synced_service :: Service where
  "synced_service = plain_service\<lparr>svc_Annotations :=
     [(annDOLoadBalancerID, ''lb-1''), (annDOType, ''REGIONAL_NETWORK'')]\<rparr>"

definition example_nodes :: "Node list" where
  "example_nodes = [tainted_node, fresh_node, example_node]"

definition example_health_check :: HealthCheck where
  "example_health_check =
     \<lparr>hc_Protocol = ''http'', hc_Port = 10256, hc_Path = ''/healthz'',
      hc_CheckIntervalSeconds = 3, hc_ResponseTimeoutSeconds = 5, hc_HealthyThreshold = 5,
      hc_UnhealthyThreshold = 3, hc_ProxyProtocol = Some False\<rparr>"

definition no_sticky_sessions :: StickySessions where
  "no_sticky_sessions = \<lparr>ss_Type = ''none'', ss_CookieName = [], ss_CookieTtlSeconds = 0\<rparr>"

definition example_request :: LoadBalancerRequest where
  "example_request =
     \<lparr>req_Name = ''aabc123def'', req_Algorithm = ''round_robin'', req_Region = ''nyc1'',
      req_SizeSlug = [], req_SizeUnit = 0, req_Type = LoadBalancerTypeRegionalNetwork,
      req_ForwardingRules =
        [\<lparr>fr_EntryProtocol = ''tcp'', fr_EntryPort = 443, fr_TargetProtocol = ''tcp'',
          fr_TargetPort = 443, fr_CertificateID = [], fr_TlsPassthrough = False\<rparr>,
         \<lparr>fr_EntryProtocol = ''udp'', fr_EntryPort = 53, fr_TargetProtocol = ''udp'',
          fr_TargetPort = 53, fr_CertificateID = [], fr_TlsPassthrough = False\<rparr>],
      req_HealthCheck = Some example_health_check, req_StickySessions = Some no_sticky_sessions,
      req_DropletIDs = [42], req_Tags = [''k8s:cluster-1''], req_RedirectHttpToHttps = False,
      req_EnableProxyProtocol = False, req_EnableBackendKeepalive = False,
      req_VPCUUID = ''vpc-1'', req_VPCSubnetUUID = [],
      req_DisableLetsEncryptDNSRecords = Some False, req_ValidateOnly = False,
      req_HTTPIdleTimeoutSeconds = None, req_Firewall = Some \<lparr>lbf_Allow = [], lbf_Deny = []\<rparr>,
      req_Network = LoadBalancerNetworkTypeExternal,
      req_NetworkStack = LoadBalancerNetworkStackIPv4, req_IP = []\<rparr>"

text \<open>
  The parts of the example request, evaluated for the service before and after its load
  balancer was recorded in the annotations.
\<close>

lemma example_parts:
  "list_all (\<lambda>s. getType s LoadBalancerTypeRegionalNetwork = Ok LoadBalancerTypeRegionalNetwork
     \<and> getNetwork s = Ok LoadBalancerNetworkTypeExternal
     \<and> getNetworkStack s LoadBalancerTypeRegionalNetwork LoadBalancerNetworkTypeExternal
         (Some (filterAndClassifyNodes [example_node] LoadBalancerTypeRegionalNetwork LoadBalancerNetworkTypeExternal)) = Ok LoadBalancerNetworkStackIPv4
     \<and> buildRegionalNetworkForwardingRule s = Ok (req_ForwardingRules example_request)
     \<and> buildHealthCheck s = Ok example_health_check
     \<and> buildStickySessions s = Ok no_sticky_sessions
     \<and> getSizeSlug s = Ok '''' \<and> getSizeUnit s = Ok 0
     \<and> getLoadBalancerName s = ''aabc123def'' \<and> getAlgorithm s = ''round_robin''
     \<and> getSubnetUUID s = '''')
     [plain_service, synced_service]"
  by code_simp

lemma example_flags:
  "list_all (\<lambda>s. getRedirectHTTPToHTTPS s = Ok False \<and> getEnableProxyProtocol s = Ok False
     \<and> getEnableBackendKeepalive s = Ok False \<and> getDisableLetsEncryptDNSRecords s = Ok False
     \<and> getHttpIdleTimeoutSeconds s = Ok None \<and> getStrings s annDOAllowRules = []
     \<and> getStrings s annDODenyRules = [])
     [plain_service, synced_service]"
  by code_simp

lemma example_nodes_state:
  "lbReadyNodes (filterAndClassifyNodes example_nodes LoadBalancerTypeRegionalNetwork LoadBalancerNetworkTypeExternal) = [tainted_node, example_node]"
  "filterByReadiness [] [tainted_node, example_node] = ([example_node], [tainted_node])"
  "filterByReadiness [42] [tainted_node, example_node] = ([example_node], [tainted_node])"
  "lbReadyNodes (filterAndClassifyNodes [example_node] LoadBalancerTypeRegionalNetwork
     LoadBalancerNetworkTypeExternal) = [example_node]"
  "filterByReadiness [] [example_node] = ([example_node], [])"
  "collectProviderIDs [example_node] [] [] = Ok ([42], [])"
  by code_simp+

definition example_base_request :: LoadBalancerRequest where
  "example_base_request =
     example_request\<lparr>req_DropletIDs := [], req_Tags := [], req_Region := '''', req_VPCUUID := ''''\<rparr>"

lemma example_base_request_built:
  assumes "s \<in> {plain_service, synced_service}"
  shows "buildLoadBalancerRequestWithNodeState c s LoadBalancerTypeRegionalNetwork
     (Some (filterAndClassifyNodes [example_node] LoadBalancerTypeRegionalNetwork
        LoadBalancerNetworkTypeExternal)) w = (Ok example_base_request, w)"
proof -
  from assms have srcs: "svc_LoadBalancerSourceRanges s = []"
    by (auto simp: plain_service_def synced_service_def example_service_def)
  from assms have mem: "s \<in> set [plain_service, synced_service]" by simp
  note parts = example_parts [unfolded list_all_iff, THEN bspec, OF mem]
    and flags = example_flags [unfolded list_all_iff, THEN bspec, OF mem]
  have fw: "buildFirewall c s = Ok \<lparr>lbf_Allow = [], lbf_Deny = []\<rparr>"
    by (simp add: buildFirewall_def getSourceRangeRules_def srcs flags)
  show ?thesis
    by (simp add: buildLoadBalancerRequestWithNodeState_def parts flags fw returnM_def
        cong: bindM_weak_cong) (simp add: example_base_request_def example_request_def)
qed

lemma example_request_from:
  assumes "s \<in> {plain_service, synced_service}"
    and "lbReadyNodes (filterAndClassifyNodes nodes LoadBalancerTypeRegionalNetwork
       LoadBalancerNetworkTypeExternal) = ready" "ready \<noteq> []"
    and "filterByReadiness ids ready = ([example_node], pending)"
  shows "lb_buildLoadBalancerRequest (example_lbs c) s nodes ids w = (Ok (example_request, pending), w)"
proof -
  from assms(1) have mem: "s \<in> set [plain_service, synced_service]" by simp
  note parts = example_parts [unfolded list_all_iff, THEN bspec, OF mem]
  show ?thesis
    using assms(3)
    by (simp add: lb_buildLoadBalancerRequest_def example_lbs_def parts assms(2,4) example_nodes_state(6)
        example_base_request_built [OF assms(1)]
        nodesToDropletIDs_def returnM_def bindM_def liftR_def Let_def
        del: filterByReadiness.simps collectProviderIDs.simps)
      (simp add: example_base_request_def example_request_def buildK8sTag_def tagPrefixClusterID_def)
qed

lemma example_request_built:
  assumes "s \<in> {plain_service, synced_service}" "ids \<in> {[], [42]}"
  shows "lb_buildLoadBalancerRequest (example_lbs c) s example_nodes ids w
      = (Ok (example_request, [tainted_node]), w)"
  by (rule example_request_from [OF assms(1) example_nodes_state(1)])
    (use assms(2) example_nodes_state(2,3) in blast)+

lemma example_request_built_one:
  "s \<in> {plain_service, synced_service} \<Longrightarrow>
     lb_buildLoadBalancerRequest (example_lbs c) s [example_node] [] w = (Ok (example_request, []), w)"
  by (rule example_request_from [OF _ example_nodes_state(4)]) (use example_nodes_state(5) in blast)+

theorem request_backends_exact_witness:
  "req_DropletIDs example_request = [42]"
proof -
  have t: "getType plain_service (l_defaultLBType (example_lbs (offline_client :: unit client)))
      = Ok LoadBalancerTypeRegionalNetwork"
    and n: "getNetwork plain_service = Ok LoadBalancerNetworkTypeExternal"
    and ids: "list_all (\<lambda>n. node_ProviderID n \<noteq> '''') example_nodes"
    and ready: "lbReadyNodes (filterAndClassifyNodes example_nodes
       LoadBalancerTypeRegionalNetwork LoadBalancerNetworkTypeExternal) = [tainted_node, example_node]"
    and adm: "\<not> is_admitted [] tainted_node" "hasPendingCriticalComponentsTaint tainted_node"
      "isNodeReady example_node" "\<not> hasPendingCriticalComponentsTaint example_node"
    and i: "dropletIDFromProviderID (node_ProviderID example_node) = Ok 42"
    by code_simp+
  have "lb_buildLoadBalancerRequest (example_lbs offline_client) plain_service example_nodes [] ()
      = (Ok (example_request, [tainted_node]), ())"
    by (rule example_request_built) simp_all
  from request_backends_exact [OF this t n ids] i
  show ?thesis by (auto simp: ready adm Let_def)
qed

text \<open>
  C39: Every request that is built is consistent: its type, network and network stack are
  supported values, a load balancer on the internal network is IPv4, and at most one of size slug and size
  unit is set; it never asks for a dry run or for a particular IP address.\<close>

theorem request_wellformed:
  assumes "buildLoadBalancerRequestWithNodeState c s d nso w = (Ok req, w')"
  shows "req_Type req \<in> {LoadBalancerTypeRegional, LoadBalancerTypeRegionalNetwork}
     \<and> req_Network req \<in> {LoadBalancerNetworkTypeExternal, LoadBalancerNetworkTypeInternal}
     \<and> req_NetworkStack req \<in> {LoadBalancerNetworkStackIPv4, LoadBalancerNetworkStackDualstack}
     \<and> (req_Network req = LoadBalancerNetworkTypeInternal \<longrightarrow>
          req_NetworkStack req = LoadBalancerNetworkStackIPv4)
     \<and> (req_SizeSlug req = '''' \<or> req_SizeUnit req = 0)
     \<and> \<not> req_ValidateOnly req \<and> req_IP req = ''''"
proof -
  note parts = buildRequest_Ok [OF assms]
  have "req_SizeUnit req \<ge> 0" by (rule getSizeUnit_nonneg [OF parts(8)])
  moreover have "req_NetworkStack req \<in> {LoadBalancerNetworkStackIPv4, LoadBalancerNetworkStackDualstack}
     \<and> (req_Network req = LoadBalancerNetworkTypeInternal \<longrightarrow>
          req_NetworkStack req = LoadBalancerNetworkStackIPv4)"
    using parts(3) by (auto simp: getNetworkStack_def Let_def split: if_splits option.splits)
  ultimately show ?thesis
    using parts getType_Ok_valid [OF parts(1)] getNetwork_Ok [OF parts(2)]
    by (auto simp: valid_lb_type_def)
qed

theorem request_wellformed_witness:
  "req_NetworkStack example_base_request = LoadBalancerNetworkStackIPv4
   \<and> req_IP example_base_request = ''''"
proof -
  have "buildLoadBalancerRequestWithNodeState (offline_client :: unit client) plain_service
     LoadBalancerTypeRegionalNetwork (Some (filterAndClassifyNodes [example_node]
        LoadBalancerTypeRegionalNetwork LoadBalancerNetworkTypeExternal)) () = (Ok example_base_request, ())"
    by (rule example_base_request_built) simp
  from request_wellformed [OF this] show ?thesis
    by (simp add: example_base_request_def example_request_def)
qed

theorem admission_request_agrees_witness:
  "\<exists>stack. buildLoadBalancerRequest (offline_client :: unit client) plain_service
     LoadBalancerTypeRegionalNetwork () = (Ok (example_base_request\<lparr>req_NetworkStack := stack\<rparr>), ())"
proof -
  have "buildLoadBalancerRequestWithNodeState (offline_client :: unit client) plain_service
     LoadBalancerTypeRegionalNetwork (Some (filterAndClassifyNodes [example_node]
        LoadBalancerTypeRegionalNetwork LoadBalancerNetworkTypeExternal)) () = (Ok example_base_request, ())"
    by (rule example_base_request_built) simp
  from admission_request_agrees [OF this] show ?thesis by blast
qed

text \<open>A droplet that already backs the load balancer stays in the request.\<close>

lemma admitted_backend_kept:
  assumes "lb_buildLoadBalancerRequest l s nodes (admittedDropletIDSet (Some lb)) w = (Ok (req, pending), w')"
    and "getType s (l_defaultLBType l) = Ok lbType" and "getNetwork s = Ok lbNetwork"
    and "node \<in> set (lbReadyNodes (filterAndClassifyNodes nodes lbType lbNetwork))"
    and "dropletIDFromProviderID (node_ProviderID node) = Ok i" and "i \<in> set (lb_DropletIDs lb)"
  shows "i \<in> set (req_DropletIDs req)"
proof -
  obtain admit w1 where
    fr: "filterByReadiness (admittedDropletIDSet (Some lb))
       (lbReadyNodes (filterAndClassifyNodes nodes lbType lbNetwork)) = (admit, pending)"
    and d: "nodesToDropletIDs (l_client l) admit w1 = (Ok (req_DropletIDs req), w')"
    using lb_buildRequest_Ok [OF assms(1)] assms(2,3) by (metis outcome.inject(1))
  have "node \<in> set admit"
    using filterByReadiness_iff(1) [OF fr] assms(4-6) by (simp add: is_admitted_iff)
  moreover have "node_ProviderID node \<noteq> ''''"
    using assms(5) by (auto simp: dropletIDFromProviderID_def)
  ultimately have "node \<in> set (filter (\<lambda>n. node_ProviderID n \<noteq> '''') admit)" by simp
  with nodesToDropletIDs_Ok [OF d] assms(5) show ?thesis
    by (auto dest!: list_all2_mem)
qed

text \<open>
  A node without provider ID whose name is an address is not crossed off when a droplet with
  that address is found: every droplet that has the address becomes a backend, and the node is
  still reported as missing.\<close>

theorem matchDroplets_address_not_removed:
  assumes "list_all (\<lambda>d. droplet_Name d \<noteq> a \<and>
     (case nodeAddresses d of Ok addrs \<Rightarrow> a \<in> set (map na_Address addrs) | _ \<Rightarrow> False)) ds"
  shows "matchDroplets ds ids [a] = Ok (ids @ map droplet_ID ds, [a])"
  using assms
proof (induction ds arbitrary: ids)
  case (Cons d ds)
  then show ?case by (auto simp: list_ex_iff split: outcome.splits)
qed simp

theorem matchDroplets_address_not_removed_witness:
  "let d = example_droplet\<lparr>droplet_Name := ''a'', droplet_ID := 1\<rparr>;
       e = example_droplet\<lparr>droplet_Name := ''b'', droplet_ID := 2\<rparr>
   in matchDroplets [d, e] [] [''10.0.0.2''] = Ok ([1, 2], [''10.0.0.2''])"
proof -
  let ?ds = "[example_droplet\<lparr>droplet_Name := ''a'', droplet_ID := 1\<rparr>,
     example_droplet\<lparr>droplet_Name := ''b'', droplet_ID := 2\<rparr>]"
  have "list_all (\<lambda>d. droplet_Name d \<noteq> ''10.0.0.2'' \<and>
     (case nodeAddresses d of Ok addrs \<Rightarrow> ''10.0.0.2'' \<in> set (map na_Address addrs) | _ \<Rightarrow> False)) ?ds"
    by code_simp
  from matchDroplets_address_not_removed [OF this, of "[]"] show ?thesis by simp
qed

text \<open>
  When no node can back an external REGIONAL_NETWORK load balancer and some node has no usable
  address, building the request fails with the error that names the missing backends, after exactly one warning event on
  the service, and no other call is made.\<close>

theorem no_eligible_backends_event:
  assumes "getType s (l_defaultLBType l) = Ok LoadBalancerTypeRegionalNetwork"
    and "getNetwork s = Ok LoadBalancerNetworkTypeExternal"
    and "lbReadyNodes (filterAndClassifyNodes nodes LoadBalancerTypeRegionalNetwork LoadBalancerNetworkTypeExternal) = []"
    and "publicNetUnreadyNodes (filterAndClassifyNodes nodes LoadBalancerTypeRegionalNetwork LoadBalancerNetworkTypeExternal) \<noteq> []"
  shows "\<exists>e. lb_buildLoadBalancerRequest l s nodes ids w =
      (Err e, Events_Create (l_client l)
         \<lparr>ev_Namespace = svc_Namespace s, ev_Name = svc_Name s, ev_UID = svc_UID s,
          ev_Type = ''Warning'', ev_Reason = ''LoadBalancerConfigError'',
          ev_Message = error_text e\<rparr> w)
    \<and> errors_Is e ErrNoEligibleBackends"
proof -
  have "publicNetUnreadyCount (filterAndClassifyNodes nodes LoadBalancerTypeRegionalNetwork LoadBalancerNetworkTypeExternal) > 0"
    using assms(4) by (auto simp: filterAndClassifyNodes_eq Let_def lb_const_defs)
  with assms show ?thesis
    by (simp add: lb_buildLoadBalancerRequest_def emitServiceEvent_def no_eligible_backends_def
        bindM_def liftR_def Let_def)
qed

theorem no_eligible_backends_event_witness:
  "\<exists>e. fst (lb_buildLoadBalancerRequest (example_lbs (offline_client :: unit client)) plain_service
       [fresh_node] [] ()) = Err e \<and> errors_Is e ErrNoEligibleBackends"
proof -
  have t: "getType plain_service (l_defaultLBType (example_lbs (offline_client :: unit client)))
     = Ok LoadBalancerTypeRegionalNetwork" by code_simp
  have n: "getNetwork plain_service = Ok LoadBalancerNetworkTypeExternal" by code_simp
  have r: "lbReadyNodes (filterAndClassifyNodes [fresh_node] LoadBalancerTypeRegionalNetwork
     LoadBalancerNetworkTypeExternal) = []" by code_simp
  have u: "publicNetUnreadyNodes (filterAndClassifyNodes [fresh_node] LoadBalancerTypeRegionalNetwork
     LoadBalancerNetworkTypeExternal) \<noteq> []" by code_simp
  from no_eligible_backends_event [OF t n r u, of "[]" "()"] show ?thesis by force
qed

end
