(* ===== verification/Settings.thy ===== *)
theory Settings
  imports Pagination LB_Config "HOL-Library.Word"
begin

text \<open>
  The environment the two programs are configured from: environment variables, the droplet
  metadata service, the default load balancer type, and the address the metrics are exposed
  on. \<^verbatim>\<open>metadata.go\<close> and the parts of \<^verbatim>\<open>cloud.go\<close> and of the admission server's \<^verbatim>\<open>main.go\<close>
  that read the environment.
\<close>

section \<open>The host\<close>

text \<open>
  What the programs use of the machine they run on. \<open>Getenv\<close> gives the empty string for an
  unset variable. \<open>http_Get\<close> is \<^verbatim>\<open>http.Get\<close>; the body of a response is the outcome of
  reading it to its end. A \<^verbatim>\<open>float64\<close> is its 64 bits, \<open>ParseFloat\<close> is \<^verbatim>\<open>strconv.ParseFloat\<close>,
  whose value is only handed to the API client. \<open>godo_New\<close> makes the client for an access token and options.
\<close>

type_synonym float64 = "64 word"

datatype ClientOpt =
    SetBaseURL string
  | SetUserAgent string
  | SetStaticRateLimit float64

record http_response =
  hr_StatusCode :: int
  hr_Body :: "string outcome"

record 'w host =
  Getenv :: "string \<Rightarrow> string"
  http_Get :: "string \<Rightarrow> ('w, http_response) cmd"
  ParseFloat :: "string \<Rightarrow> float64 outcome"
  godo_New :: "string \<Rightarrow> ClientOpt list \<Rightarrow> 'w client outcome"

named_theorems env_defs \<open>names of environment variables\<close>

text \<open>The token source handed to the oauth2 client; its token never expires and there is never an error.\<close>

record tokenSource =
  AccessToken :: string

definition Token :: "tokenSource \<Rightarrow> string" where
  [simp]: "Token t = AccessToken t"

definition doAccessTokenEnv :: string where [env_defs]: "doAccessTokenEnv = ''DO_ACCESS_TOKEN''"

definition doOverrideAPIURLEnv :: string where [env_defs]: "doOverrideAPIURLEnv = ''DO_OVERRIDE_URL''"

definition doClusterIDEnv :: string where [env_defs]: "doClusterIDEnv = ''DO_CLUSTER_ID''"

definition doClusterVPCIDEnv :: string where [env_defs]: "doClusterVPCIDEnv = ''DO_CLUSTER_VPC_ID''"

definition debugAddrEnv :: string where [env_defs]: "debugAddrEnv = ''DEBUG_ADDR''"

definition metricsAddrEnv :: string where [env_defs]: "metricsAddrEnv = ''METRICS_ADDR''"

definition publicAccessFirewallNameEnv :: string where
  [env_defs]: "publicAccessFirewallNameEnv = ''PUBLIC_ACCESS_FIREWALL_NAME''"

definition publicAccessFirewallTagsEnv :: string where
  [env_defs]: "publicAccessFirewallTagsEnv = ''PUBLIC_ACCESS_FIREWALL_TAGS''"

definition regionEnv :: string where [env_defs]: "regionEnv = ''REGION''"

definition doAPIRateLimitQPSEnv :: string where
  [env_defs]: "doAPIRateLimitQPSEnv = ''DO_API_RATE_LIMIT_QPS''"

definition defaultLBTypeEnv :: string where [env_defs]: "defaultLBTypeEnv = ''DEFAULT_LB_TYPE''"

section \<open>Region\<close>

definition dropletRegionMetadataURL :: string where
  "dropletRegionMetadataURL = ''http://169.254.169.254/metadata/v1/region''"

definition httpGet :: "'w host \<Rightarrow> string \<Rightarrow> ('w, string) cmd" where
  "httpGet h url =
     bindM (http_Get h url) (\<lambda>resp.
       if hr_StatusCode resp \<noteq> 200
       then liftR (Err (NewError (''droplet metadata returned non-200 status code: '' @ Itoa (hr_StatusCode resp))))
       else liftR (hr_Body resp))"

definition dropletRegion :: "'w host \<Rightarrow> 'w client \<Rightarrow> ('w, string) cmd" where
  "dropletRegion h c =
     (let region = Getenv h regionEnv in
      if region = '''' then httpGet h dropletRegionMetadataURL
      else bindM (map_errM (\<lambda>e. Errorf ''failed to determine if region is valid: '' e '''')
             (isValidRegion c region)) (\<lambda>validRegion.
        if \<not> validRegion then liftR (Err (NewError (''invalid region specified: '' @ region)))
        else returnM region))"

section \<open>Default load balancer type\<close>

text \<open>The same three lines in \<^verbatim>\<open>newCloud\<close> and in \<^verbatim>\<open>startAdmissionServer\<close>.\<close>

definition configuredLBType :: "'w host \<Rightarrow> string" where
  "configuredLBType h =
     (let lbType = Getenv h defaultLBTypeEnv in
      if lbType = LoadBalancerTypeRegional \<or> lbType = LoadBalancerTypeRegionalNetwork
      then lbType else LoadBalancerTypeRegionalNetwork)"

lemma configuredLBType_valid: "valid_lb_type (configuredLBType h)"
  by (simp add: configuredLBType_def valid_lb_type_def Let_def)

section \<open>Host and port\<close>

text \<open>
  \<^verbatim>\<open>net.SplitHostPort\<close>: the port starts after the last colon; a host in brackets has to end
  just before it, one without brackets contains no colon.
\<close>

definition addrErr :: "string \<Rightarrow> string \<Rightarrow> 'a outcome" where
  "addrErr addr why = Err (NewError (if addr \<noteq> '''' then ''address '' @ addr @ '': '' @ why else why))"

definition missingPort :: string where "missingPort = ''missing port in address''"

definition tooManyColons :: string where "tooManyColons = ''too many colons in address''"

definition IndexByte :: "char \<Rightarrow> string \<Rightarrow> nat option" where
  "IndexByte c s = (if c \<in> set s then Some (length (takeWhile (\<lambda>x. x \<noteq> c) s)) else None)"

definition LastIndexByte :: "char \<Rightarrow> string \<Rightarrow> nat option" where
  "LastIndexByte c s = map_option (\<lambda>i. length s - 1 - i) (IndexByte c (rev s))"

definition unexpectedBracket :: "string \<Rightarrow> nat \<Rightarrow> nat \<Rightarrow> string \<Rightarrow> nat \<Rightarrow> (string \<times> string) outcome" where
  "unexpectedBracket hostport j k hst i =
     (if CHR ''['' \<in> set (drop j hostport) then addrErr hostport ''unexpected '[' in address''
      else if CHR '']'' \<in> set (drop k hostport) then addrErr hostport ''unexpected ']' in address''
      else Ok (hst, drop (i + 1) hostport))"

definition SplitHostPort :: "string \<Rightarrow> (string \<times> string) outcome" where
  "SplitHostPort hostport =
     (case LastIndexByte (CHR '':'') hostport of
        None \<Rightarrow> addrErr hostport missingPort
      | Some i \<Rightarrow>
          if hostport ! 0 = CHR ''['' then
            (case IndexByte (CHR '']'') hostport of
               None \<Rightarrow> addrErr hostport ''missing ']' in address''
             | Some end' \<Rightarrow>
                 if end' + 1 = length hostport then addrErr hostport missingPort
                 else if end' + 1 = i
                 then unexpectedBracket hostport 1 (end' + 1) (drop 1 (take end' hostport)) i
                 else if hostport ! (end' + 1) = CHR '':'' then addrErr hostport tooManyColons
                 else addrErr hostport missingPort)
          else if CHR '':'' \<in> set (take i hostport) then addrErr hostport tooManyColons
          else unexpectedBracket hostport 0 0 (take i hostport) i)"

text \<open>The address of the metrics server, from the environment variable: empty when it is unset.\<close>

definition metricsAddress :: "'w host \<Rightarrow> string outcome" where
  "metricsAddress h =
     (let metricsAddr = Getenv h metricsAddrEnv in
      if metricsAddr \<noteq> '''' then
        bindR (map_err (\<lambda>e. Errorf (''environment variable '' @ quote metricsAddr @
            '' requires host and port in the format <host>:<port> when exposing metrics: '') e '''')
          (SplitHostPort metricsAddr)) (\<lambda>(addrHost, addrPort). Ok (addrHost @ '':'' @ addrPort))
      else Ok '''')"

section \<open>Splitting and joining addresses\<close>

lemma takeWhile_before: "c \<notin> set a \<Longrightarrow> takeWhile (\<lambda>x. x \<noteq> c) (a @ c # b) = a"
  by (induction a) auto

lemma IndexByte_append: "c \<notin> set a \<Longrightarrow> IndexByte c (a @ c # b) = Some (length a)"
  by (simp add: IndexByte_def takeWhile_before)

lemma IndexByte_None: "IndexByte c s = None \<longleftrightarrow> c \<notin> set s"
  by (simp add: IndexByte_def)

lemma IndexByte_Some: "IndexByte c s = Some i \<Longrightarrow> \<exists>a b. s = a @ c # b \<and> c \<notin> set a \<and> i = length a"
  by (force simp: IndexByte_def takeWhile_before split: if_splits dest!: split_list_first)

lemma LastIndexByte_append: "c \<notin> set b \<Longrightarrow> LastIndexByte c (a @ c # b) = Some (length a)"
  by (simp add: LastIndexByte_def IndexByte_append)

lemma LastIndexByte_Some: "LastIndexByte c s = Some i \<Longrightarrow> \<exists>a b. s = a @ c # b \<and> c \<notin> set b \<and> i = length a"
proof -
  assume "LastIndexByte c s = Some i"
  then obtain j where j: "IndexByte c (rev s) = Some j" "i = length s - 1 - j"
    by (auto simp: LastIndexByte_def)
  from IndexByte_Some [OF j(1)] obtain a b where "rev s = a @ c # b" "c \<notin> set a" "j = length a" by blast
  then have "s = rev b @ c # rev a" "c \<notin> set (rev a)" by (auto simp: rev_swap)
  with j(2) \<open>j = length a\<close> show ?thesis by (intro exI [of _ "rev b"] exI [of _ "rev a"]) simp
qed

lemma SplitHostPort_Ok:
  assumes "SplitHostPort s = Ok (h, p)"
  shows "CHR '':'' \<notin> set p" "CHR ''['' \<notin> set h \<union> set p" "CHR '']'' \<notin> set h \<union> set p"
    "s = h @ '':'' @ p \<and> CHR '':'' \<notin> set h \<or> s = ''['' @ h @ '']:'' @ p"
proof -
  from assms obtain i where i: "LastIndexByte (CHR '':'') s = Some i"
    by (auto simp: SplitHostPort_def addrErr_def split: option.splits)
  then obtain a b where ab: "s = a @ CHR '':'' # b" "CHR '':'' \<notin> set b" "i = length a"
    using LastIndexByte_Some by blast
  have *: "CHR '':'' \<notin> set p \<and> CHR ''['' \<notin> set h \<union> set p \<and> CHR '']'' \<notin> set h \<union> set p
    \<and> (s = h @ '':'' @ p \<and> CHR '':'' \<notin> set h \<or> s = ''['' @ h @ '']:'' @ p)"
  proof (cases "s ! 0 = CHR ''[''")
    case False
    with assms i have "CHR '':'' \<notin> set a" "unexpectedBracket s 0 0 a (length a) = Ok (h, p)"
      by (auto simp: SplitHostPort_def ab addrErr_def split: if_splits)
    with ab show ?thesis by (auto simp: unexpectedBracket_def addrErr_def split: if_splits)
  next
    case True
    then obtain e where e: "IndexByte (CHR '']'') s = Some e" "e + 1 = i"
      "unexpectedBracket s 1 i (drop 1 (take e s)) i = Ok (h, p)"
      using assms i by (auto simp: SplitHostPort_def addrErr_def split: option.splits if_splits)
    from IndexByte_Some [OF e(1)] obtain u v where uv: "s = u @ CHR '']'' # v" "CHR '']'' \<notin> set u" "e = length u"
      by blast
    with ab e(2) have "a = u @ '']''" "v = CHR '':'' # b"
      by (auto simp: append_eq_append_conv2 append_eq_Cons_conv Cons_eq_append_conv)
    moreover from True uv have "u \<noteq> []" by (cases u) auto
    then obtain hh where "u = CHR ''['' # hh" using True uv by (cases u) auto
    ultimately show ?thesis
      using e(3) ab uv by (auto simp: unexpectedBracket_def addrErr_def split: if_splits)
  qed
  then show "CHR '':'' \<notin> set p" "CHR ''['' \<notin> set h \<union> set p" "CHR '']'' \<notin> set h \<union> set p"
    "s = h @ '':'' @ p \<and> CHR '':'' \<notin> set h \<or> s = ''['' @ h @ '']:'' @ p" by blast+
qed

lemma SplitHostPort_join:
  assumes "CHR '':'' \<notin> set p" "CHR ''['' \<notin> set h \<union> set p" "CHR '']'' \<notin> set h \<union> set p"
  shows "SplitHostPort (h @ '':'' @ p) =
     (if CHR '':'' \<in> set h then addrErr (h @ '':'' @ p) tooManyColons else Ok (h, p))"
proof -
  have "LastIndexByte (CHR '':'') (h @ '':'' @ p) = Some (length h)"
    using LastIndexByte_append [OF assms(1)] by simp
  moreover have "(h @ '':'' @ p) ! 0 \<noteq> CHR ''[''" using assms by (cases h) auto
  ultimately show ?thesis using assms by (auto simp: SplitHostPort_def unexpectedBracket_def)
qed

text \<open>
  The metrics address that a valid METRICS_ADDR is turned into is again a valid address with
  the same host and port exactly when the host contains no colon: the brackets of an IPv6
  host are lost, and what is left is rejected for its colons.\<close>

theorem metricsAddress_listenable:
  assumes "metricsAddress h = Ok addr" and "SplitHostPort (Getenv h metricsAddrEnv) = Ok (hst, port)"
  shows "SplitHostPort addr = (if CHR '':'' \<in> set hst then addrErr addr tooManyColons else Ok (hst, port))"
proof -
  have "Getenv h metricsAddrEnv \<noteq> ''''"
    using assms(2) by (auto simp: SplitHostPort_def LastIndexByte_def IndexByte_def addrErr_def)
  with assms have "addr = hst @ '':'' @ port" by (simp add: metricsAddress_def Let_def)
  with SplitHostPort_Ok [OF assms(2)] SplitHostPort_join show ?thesis by metis
qed

definition example_host :: "(string \<times> string) list \<Rightarrow> 'w host" where
  "example_host env =
     \<lparr>Getenv = (\<lambda>k. mget env k), http_Get = (\<lambda>u w. (Err (OtherError ''no route''), w)),
      ParseFloat = (\<lambda>s. Err (NumError ''ParseFloat'' s ''invalid syntax'')),
      godo_New = (\<lambda>t opts. Ok offline_client)\<rparr>"

theorem metricsAddress_listenable_witness:
  "SplitHostPort ''::1:9090'' = addrErr ''::1:9090'' tooManyColons"
proof -
  have "metricsAddress (example_host [(metricsAddrEnv, ''[::1]:9090'')] :: unit host) = Ok ''::1:9090''"
    by code_simp
  moreover have "SplitHostPort (Getenv (example_host [(metricsAddrEnv, ''[::1]:9090'')] :: unit host) metricsAddrEnv)
      = Ok (''::1'', ''9090'')" by code_simp
  ultimately show ?thesis using metricsAddress_listenable by force
qed

section \<open>Region\<close>

text \<open>
  A region that is configured is used only when the API lists it, and then no other source
  is asked; without one the answer of the metadata service is used as it is.
\<close>

lemma dropletRegion_configured:
  assumes "Getenv h regionEnv = r" "r \<noteq> ''''" "dropletRegion h c w = (Ok region, w')"
  shows "region = r \<and> (\<exists>regions. listAllRegions c w = (Ok regions, w') \<and> r \<in> region_Slug ` set regions)"
  using assms
  by (force simp: dropletRegion_def isValidRegion_def Let_def outcome_simps list_ex_iff split: if_splits)

lemma dropletRegion_metadata:
  assumes "Getenv h regionEnv = ''''"
  shows "dropletRegion h c w = (Ok region, w') \<longleftrightarrow>
     (\<exists>resp. http_Get h dropletRegionMetadataURL w = (Ok resp, w') \<and> hr_StatusCode resp = 200
        \<and> hr_Body resp = Ok region)"
  using assms by (auto simp: dropletRegion_def httpGet_def outcome_simps split: if_splits)

end
