(* ===== verification/Admission.thy ===== *)
theory Admission
  imports LB_Request Settings
begin

text \<open>
  The admission webhook for services of type LoadBalancer: it builds the request that the
  controller would send, without node knowledge and marked as a dry run, lets the API
  validate it, and maps the answer to an admission response. lb_service_admission_handler.go
  and the admission server's main.go.
\<close>

section \<open>Requests and responses\<close>

text \<open>
  A raw object is the text of its JSON, empty or nil when it is absent; only for the old
  object does the code ask whether it is nil.
\<close>

record AdmissionRequest =
  areq_Object :: string
  areq_OldObject :: "string option"

record AdmissionResponse =
  ares_Allowed :: bool
  ares_Code :: int
  ares_Reason :: string
  ares_Message :: string

definition ValidationResponse :: "bool \<Rightarrow> string \<Rightarrow> AdmissionResponse" where
  "ValidationResponse allowed message =
     \<lparr>ares_Allowed = allowed, ares_Code = (if allowed then 200 else 403),
      ares_Reason = (if allowed then '''' else ''Forbidden''), ares_Message = message\<rparr>"

definition Allowed :: "string \<Rightarrow> AdmissionResponse" where
  "Allowed message = ValidationResponse True message"

definition Denied :: "string \<Rightarrow> AdmissionResponse" where
  "Denied message = ValidationResponse False message"

definition Errored :: "int \<Rightarrow> error \<Rightarrow> AdmissionResponse" where
  "Errored code err =
     \<lparr>ares_Allowed = False, ares_Code = code, ares_Reason = '''', ares_Message = error_text err\<rparr>"

section \<open>The handler\<close>

text \<open>
  \<open>adm_decoder\<close> parses the JSON of a service. \<open>adm_old_order\<close> is the order in which the loop over
  the source ranges of the old service visits its map; Go chooses an order for every loop, so it need
  not be the one of the loop for the new service.
\<close>

record 'w LBServiceAdmissionHandler =
  adm_godoClient :: "'w client"
  adm_decoder :: "string \<Rightarrow> Service outcome"
  adm_old_order :: "string list \<Rightarrow> string list"
  adm_region :: string
  adm_clusterID :: string
  adm_vpcID :: string
  adm_defaultLBType :: string

definition NewLBServiceAdmissionHandler ::
    "'w client \<Rightarrow> (string \<Rightarrow> Service outcome) \<Rightarrow> (string list \<Rightarrow> string list) \<Rightarrow> string \<Rightarrow>
     'w LBServiceAdmissionHandler" where
  "NewLBServiceAdmissionHandler godoClient decoder old_order defaultLBType =
     \<lparr>adm_godoClient = godoClient, adm_decoder = decoder, adm_old_order = old_order,
      adm_region = '''', adm_clusterID = '''', adm_vpcID = '''', adm_defaultLBType = defaultLBType\<rparr>"

definition WithRegion :: "'w host \<Rightarrow> 'w LBServiceAdmissionHandler \<Rightarrow> ('w, 'w LBServiceAdmissionHandler) cmd" where
  "WithRegion hst a =
     bindM (dropletRegion hst (adm_godoClient a)) (\<lambda>region. returnM (a\<lparr>adm_region := region\<rparr>))"

definition WithVPCID :: "string \<Rightarrow> 'w LBServiceAdmissionHandler \<Rightarrow> 'w LBServiceAdmissionHandler" where
  "WithVPCID vpcID a = a\<lparr>adm_vpcID := vpcID\<rparr>"

definition WithClusterID :: "string \<Rightarrow> 'w LBServiceAdmissionHandler \<Rightarrow> 'w LBServiceAdmissionHandler" where
  "WithClusterID clusterID a = a\<lparr>adm_clusterID := clusterID\<rparr>"

definition DecodeRaw :: "'w LBServiceAdmissionHandler \<Rightarrow> string \<Rightarrow> Service outcome" where
  "DecodeRaw h rawObj =
     (if length rawObj = 0 then Err (NewError ''there is no content to decode'') else adm_decoder h rawObj)"

definition mapGodoRespToAdmissionResp :: "Response option \<Rightarrow> error option \<Rightarrow> AdmissionResponse" where
  "mapGodoRespToAdmissionResp resp err =
     (case err of
        None \<Rightarrow> Allowed ''valid load balancer definition''
      | Some e \<Rightarrow>
          (case resp of
             None \<Rightarrow> Errored 500 (Errorf ''failed to get a response from DO API: '' e '''')
           | Some r \<Rightarrow>
               if resp_StatusCode r < 400 then Allowed ''valid load balancer definition''
               else if resp_StatusCode r < 500
               then Denied (''invalid load balancer definition: '' @ error_text e)
               else Allowed (''received unexpected status code ('' @ Itoa (resp_StatusCode r) @
                      '') from DO API, allowing to prevent blocking: '' @ error_text e)))"

definition adm_buildLoadBalancerRequest ::
    "'w LBServiceAdmissionHandler \<Rightarrow> Service \<Rightarrow> ('w, LoadBalancerRequest) cmd" where
  "adm_buildLoadBalancerRequest h svc =
     bindM (map_errM (\<lambda>e. Errorf ''failed to build base load balancer request: '' e '''')
         (buildLoadBalancerRequest (adm_godoClient h) svc (adm_defaultLBType h))) (\<lambda>lbReq.
     returnM (lbReq\<lparr>req_ValidateOnly := True, req_Region := adm_region h, req_VPCUUID := adm_vpcID h,
       req_Tags := (if adm_clusterID h \<noteq> '''' then [buildK8sTag (adm_clusterID h)] else req_Tags lbReq)\<rparr>))"

definition validateCreate :: "'w LBServiceAdmissionHandler \<Rightarrow> LoadBalancerRequest \<Rightarrow> ('w, AdmissionResponse) cmd" where
  "validateCreate h lbReq =
     bindM (api (LoadBalancers_Create (adm_godoClient h) lbReq)) (\<lambda>(_, resp, err).
     returnM (mapGodoRespToAdmissionResp resp err))"

definition with_old_order :: "'w LBServiceAdmissionHandler \<Rightarrow> 'w LBServiceAdmissionHandler" where
  "with_old_order h = h\<lparr>adm_godoClient := (adm_godoClient h)\<lparr>map_order := adm_old_order h\<rparr>\<rparr>"

definition validateUpdate ::
    "'w LBServiceAdmissionHandler \<Rightarrow> string \<Rightarrow> string \<Rightarrow> LoadBalancerRequest \<Rightarrow> ('w, AdmissionResponse) cmd" where
  "validateUpdate h oldObject lbID lbReq =
     bindM (attempt (liftR (DecodeRaw h oldObject))) (\<lambda>decoded.
     case decoded of
       Inl e \<Rightarrow> returnM (Errored 400 (Errorf ''failed to decode old object: '' e ''''))
     | Inr oldSvc \<Rightarrow>
         bindM (attempt (adm_buildLoadBalancerRequest (with_old_order h) oldSvc)) (\<lambda>built.
         let oldReq = (case built of Inl _ \<Rightarrow> None | Inr r \<Rightarrow> Some r) in
         if oldReq = Some lbReq then returnM (Allowed ''new service has irrelevant changes'')
         else
         let reqLbID = (if lbID = '''' then ann oldSvc annDOLoadBalancerID else lbID) in
         if reqLbID = '''' then validateCreate h lbReq
         else bindM (api (LoadBalancers_Update (adm_godoClient h) reqLbID lbReq)) (\<lambda>(_, resp, err).
           returnM (mapGodoRespToAdmissionResp resp err))))"

definition handle :: "'w LBServiceAdmissionHandler \<Rightarrow> AdmissionRequest \<Rightarrow> ('w, AdmissionResponse) cmd" where
  "handle h req =
     bindM (attempt (liftR (DecodeRaw h (areq_Object req)))) (\<lambda>decoded.
     case decoded of
       Inl e \<Rightarrow> returnM (Errored 500 (Errorf ''failed to decode admission request: '' e ''''))
     | Inr svc \<Rightarrow>
         if svc_Type svc \<noteq> ServiceTypeLoadBalancer
         then returnM (Allowed ''allowing service that is not a load balancer'')
         else if svc_DeletionTimestamp svc \<noteq> None
         then returnM (Allowed ''allowing service that is being deleted'')
         else
         let lbID = ann svc annDOLoadBalancerID in
         bindM (attempt (adm_buildLoadBalancerRequest h svc)) (\<lambda>built.
         case built of
           Inl e \<Rightarrow> returnM (Denied (''failed to build DO API request: '' @ error_text e))
         | Inr lbReq \<Rightarrow>
             (case areq_OldObject req of
                Some oldObject \<Rightarrow> validateUpdate h oldObject lbID lbReq
              | None \<Rightarrow> validateCreate h lbReq)))"

text \<open>\<^verbatim>\<open>Handle\<close> logs the response and returns it.\<close>

definition Handle :: "'w LBServiceAdmissionHandler \<Rightarrow> AdmissionRequest \<Rightarrow> ('w, AdmissionResponse) cmd" where
  "Handle h req = handle h req"

section \<open>The admission server\<close>

definition getGodoClient :: "'w host \<Rightarrow> 'w client outcome" where
  "getGodoClient hst =
     (let token = Getenv hst doAccessTokenEnv in
      if token = '''' then Err (NewError (''environment variable '' @ quote doAccessTokenEnv @ '' is required''))
      else
      let overrideURL = Getenv hst doOverrideAPIURLEnv;
          opts = (if overrideURL \<noteq> '''' then [SetBaseURL overrideURL] else [])
      in map_err (\<lambda>e. Errorf ''failed to initialize client: '' e '''') (godo_New hst (Token \<lparr>AccessToken = token\<rparr>) opts))"

text \<open>
  The handler that \<^verbatim>\<open>startAdmissionServer\<close> registers; serving it is left out.
\<close>

definition startAdmissionServer ::
    "'w host \<Rightarrow> (string \<Rightarrow> Service outcome) \<Rightarrow> (string list \<Rightarrow> string list) \<Rightarrow>
     ('w, 'w LBServiceAdmissionHandler) cmd" where
  "startAdmissionServer hst decoder old_order =
     bindM (liftR (map_err (\<lambda>e. Errorf ''failed to get godo client: '' e '''') (getGodoClient hst))) (\<lambda>godoClient.
     let defaultLBType = configuredLBType hst;
         lbAdmissionHandler = NewLBServiceAdmissionHandler godoClient decoder old_order defaultLBType in
     bindM (map_errM (\<lambda>e. Wrapf ''failed to inject region into lb service admission handler: '' e '''')
       (WithRegion hst lbAdmissionHandler)) (\<lambda>lbAdmissionHandler.
     returnM (WithVPCID (Getenv hst doClusterVPCIDEnv)
       (WithClusterID (Getenv hst doClusterIDEnv) lbAdmissionHandler))))"

section \<open>Verdicts\<close>

lemma Allowed_simps [simp]:
  "ares_Allowed (Allowed m)" "\<not> ares_Allowed (Denied m)" "\<not> ares_Allowed (Errored c e)"
  by (simp_all add: Allowed_def Denied_def Errored_def ValidationResponse_def)

text \<open>The answers of the API that let a service through: no error, or a status outside of 400 to 499.\<close>

definition api_accepts :: "Response option \<Rightarrow> error option \<Rightarrow> bool" where
  "api_accepts resp err \<longleftrightarrow>
     err = None \<or> (\<exists>r. resp = Some r \<and> (resp_StatusCode r < 400 \<or> 500 \<le> resp_StatusCode r))"

lemma mapGodoRespToAdmissionResp_Allowed:
  "ares_Allowed (mapGodoRespToAdmissionResp resp err) = api_accepts resp err"
  by (auto simp: mapGodoRespToAdmissionResp_def api_accepts_def split: option.splits)

lemma validateCreate_eq:
  "validateCreate h lbReq w =
     (case LoadBalancers_Create (adm_godoClient h) lbReq w of
        ((_, resp, err), w') \<Rightarrow> (Ok (mapGodoRespToAdmissionResp resp err), w'))"
  by (auto simp: validateCreate_def bindM_def api_def returnM_def split: prod.splits)

lemma with_old_order_fields [simp]:
  "adm_decoder (with_old_order h) = adm_decoder h" "adm_region (with_old_order h) = adm_region h"
  "adm_clusterID (with_old_order h) = adm_clusterID h" "adm_vpcID (with_old_order h) = adm_vpcID h"
  "adm_defaultLBType (with_old_order h) = adm_defaultLBType h"
  by (simp_all add: with_old_order_def)

section \<open>Dry runs\<close>

text \<open>
  Two clients that may differ in everything but the dry runs of load balancer requests and in
  reading certificates.
\<close>

definition same_dry_runs :: "'w client \<Rightarrow> 'w client \<Rightarrow> bool" where
  "same_dry_runs c c' \<longleftrightarrow>
     (\<forall>r. req_ValidateOnly r \<longrightarrow> LoadBalancers_Create c' r = LoadBalancers_Create c r
        \<and> (\<forall>i. LoadBalancers_Update c' i r = LoadBalancers_Update c i r))
     \<and> Certificates_ListByName c' = Certificates_ListByName c
     \<and> Certificates_Get c' = Certificates_Get c
     \<and> ParseCIDRSloppy c' = ParseCIDRSloppy c \<and> map_order c' = map_order c"

lemma buildRequest_same_reads:
  assumes "same_dry_runs c c'"
  shows "buildLoadBalancerRequest c' s d = buildLoadBalancerRequest c s d"
proof -
  have cert: "findCertificateID c' s = findCertificateID c s"
    using assms by (simp add: findCertificateID_def same_dry_runs_def Let_def)
  have h3: "buildHTTP3ForwardingRule c' s = buildHTTP3ForwardingRule c s"
    unfolding buildHTTP3ForwardingRule_def cert by (rule refl)
  have rules: "buildForwardingRules c' s = buildForwardingRules c s"
    unfolding buildForwardingRules_def cert h3 by (rule refl)
  have reads: "ParseCIDRSloppy c' = ParseCIDRSloppy c" "map_order c' = map_order c"
    using assms by (simp_all add: same_dry_runs_def)
  have fw: "buildFirewall c' s = buildFirewall c s"
    unfolding buildFirewall_def getSourceRangeRules_def ParseIPNets_def reads by (rule refl)
  show ?thesis
    unfolding buildLoadBalancerRequest_def buildLoadBalancerRequestWithNodeState_def rules fw by (rule refl)
qed

lemma adm_build_ValidateOnly:
  "adm_buildLoadBalancerRequest h svc w = (Ok lbReq, w') \<Longrightarrow> req_ValidateOnly lbReq"
  by (auto simp: adm_buildLoadBalancerRequest_def outcome_simps)

lemma adm_build_same_reads:
  assumes "same_dry_runs (adm_godoClient h) c'"
  shows "adm_buildLoadBalancerRequest (h\<lparr>adm_godoClient := c'\<rparr>) svc = adm_buildLoadBalancerRequest h svc"
    "adm_buildLoadBalancerRequest (with_old_order (h\<lparr>adm_godoClient := c'\<rparr>)) svc
       = adm_buildLoadBalancerRequest (with_old_order h) svc"
proof -
  have build: "adm_buildLoadBalancerRequest (g\<lparr>adm_godoClient := c\<rparr>) svc = adm_buildLoadBalancerRequest g svc"
    if "same_dry_runs (adm_godoClient g) c" for g :: "'a LBServiceAdmissionHandler" and c
    by (simp add: adm_buildLoadBalancerRequest_def buildRequest_same_reads [OF that] cong: if_cong)
  show "adm_buildLoadBalancerRequest (h\<lparr>adm_godoClient := c'\<rparr>) svc = adm_buildLoadBalancerRequest h svc"
    by (rule build [OF assms])
  have "same_dry_runs (adm_godoClient (with_old_order h)) (c'\<lparr>map_order := adm_old_order h\<rparr>)"
    using assms by (simp add: same_dry_runs_def with_old_order_def)
  from build [OF this]
  show "adm_buildLoadBalancerRequest (with_old_order (h\<lparr>adm_godoClient := c'\<rparr>)) svc
       = adm_buildLoadBalancerRequest (with_old_order h) svc"
    by (simp add: with_old_order_def)
qed

lemma validate_same_dry_runs:
  assumes "same_dry_runs (adm_godoClient h) c'" "req_ValidateOnly lbReq"
  shows "validateCreate (h\<lparr>adm_godoClient := c'\<rparr>) lbReq = validateCreate h lbReq"
    "validateUpdate (h\<lparr>adm_godoClient := c'\<rparr>) old i lbReq = validateUpdate h old i lbReq"
proof -
  show create: "validateCreate (h\<lparr>adm_godoClient := c'\<rparr>) lbReq = validateCreate h lbReq"
    using assms by (simp add: validateCreate_def same_dry_runs_def)
  have update: "LoadBalancers_Update (adm_godoClient (h\<lparr>adm_godoClient := c'\<rparr>)) j lbReq
      = LoadBalancers_Update (adm_godoClient h) j lbReq" for j
    using assms by (simp add: same_dry_runs_def)
  have decode: "DecodeRaw (h\<lparr>adm_godoClient := c'\<rparr>) old = DecodeRaw h old" by (simp add: DecodeRaw_def)
  show "validateUpdate (h\<lparr>adm_godoClient := c'\<rparr>) old i lbReq = validateUpdate h old i lbReq"
    unfolding validateUpdate_def create update decode adm_build_same_reads(2) [OF assms(1)] by (rule refl)
qed

text \<open>
  C20: The webhook never changes anything: its verdict and its effects on the outside world stay
  the same when every call of the API client other than the dry runs of load balancer
  requests and the certificate look-ups is replaced by an arbitrary one.\<close>

theorem webhook_only_dry_runs:
  assumes "same_dry_runs (adm_godoClient h) c'"
  shows "Handle (h\<lparr>adm_godoClient := c'\<rparr>) req w = Handle h req w"
  unfolding Handle_def handle_def
proof (rule bindM_run_cong, goal_cases)
  case (2 decoded u)
  show ?case
  proof (cases decoded)
    case (Inr svc)
    have "bindM (attempt (adm_buildLoadBalancerRequest (h\<lparr>adm_godoClient := c'\<rparr>) svc)) f u
        = bindM (attempt (adm_buildLoadBalancerRequest h svc)) g u"
      if "\<And>e. f (Inl e) = g (Inl e)" "\<And>r. req_ValidateOnly r \<Longrightarrow> f (Inr r) = g (Inr r)"
      for f g :: "error + LoadBalancerRequest \<Rightarrow> ('a, AdmissionResponse) cmd"
    proof (rule bindM_run_cong, goal_cases)
      case 1
      show ?case by (simp add: adm_build_same_reads [OF assms])
    next
      case (2 built v)
      then show ?case
        by (cases built) (auto simp: outcome_simps that dest: adm_build_ValidateOnly)
    qed
    then show ?thesis
      by (simp add: Inr Let_def validate_same_dry_runs [OF assms] split: option.splits)
  qed simp
qed (simp add: DecodeRaw_def)

section \<open>Verdicts of the webhook\<close>

text \<open>
  A service that is not of type LoadBalancer or that is being deleted is let through
  without any call.\<close>

theorem webhook_ignores:
  assumes "DecodeRaw h (areq_Object req) = Ok svc"
    and "svc_Type svc \<noteq> ServiceTypeLoadBalancer \<or> svc_DeletionTimestamp svc \<noteq> None"
  shows "\<exists>a. Handle h req w = (Ok a, w) \<and> ares_Allowed a"
  using assms by (auto simp: Handle_def handle_def attempt_def liftR_def bindM_def returnM_def)

lemma handle_built:
  assumes "DecodeRaw h (areq_Object req) = Ok svc"
    and "svc_Type svc = ServiceTypeLoadBalancer" and "svc_DeletionTimestamp svc = None"
    and "adm_buildLoadBalancerRequest h svc w = (Ok lbReq, w1)"
  shows "Handle h req w =
     (case areq_OldObject req of
        Some oldObject \<Rightarrow> validateUpdate h oldObject (ann svc annDOLoadBalancerID) lbReq w1
      | None \<Rightarrow> validateCreate h lbReq w1)"
  using assms by (auto simp: Handle_def handle_def attempt_def liftR_def bindM_def Let_def split: option.splits)

lemma attempt_liftR_Ok [simp]: "attempt (liftR (Ok x)) = returnM (Inr x)"
  by (simp add: attempt_def liftR_def returnM_def)

lemma bindM_api: "bindM (api c) f w = (case c w of (r, u) \<Rightarrow> f r u)"
  by (simp add: bindM_def api_def split: prod.splits)

lemma validateUpdate_eq:
  assumes "DecodeRaw h raw = Ok oldSvc"
    and "adm_buildLoadBalancerRequest (with_old_order h) oldSvc w = (oldBuilt, w2)"
    and "oldBuilt = Ok oldReq \<or> oldBuilt = Err e"
  shows "validateUpdate h raw lbID lbReq w =
     (if oldBuilt = Ok lbReq then (Ok (Allowed ''new service has irrelevant changes''), w2)
      else let i = (if lbID = '''' then ann oldSvc annDOLoadBalancerID else lbID) in
        case (if i = '''' then LoadBalancers_Create (adm_godoClient h) lbReq w2
              else LoadBalancers_Update (adm_godoClient h) i lbReq w2) of
          ((_, resp, err), w3) \<Rightarrow> (Ok (mapGodoRespToAdmissionResp resp err), w3))"
proof -
  have "attempt (adm_buildLoadBalancerRequest (with_old_order h) oldSvc) w
      = (Ok (case oldBuilt of Ok r \<Rightarrow> Inr r | Err e \<Rightarrow> Inl e), w2)"
    using assms(2,3) by (auto simp: attempt_def)
  with assms(1,3) show ?thesis
    by (auto simp: validateUpdate_def bindM_def [of "attempt _"] bindM_api
        returnM_def [of "Allowed _"] returnM_def [of "mapGodoRespToAdmissionResp _ _"]
        validateCreate_eq Let_def split: prod.splits)
qed

text \<open>
  C21: The verdict on an update whose new version can be built: if the request built from the old
  version is the same, it is let through without asking; otherwise exactly one dry run is
  sent, to the load balancer the new version names, or else the one the old version names, or
  else as a creation, and the service is rejected exactly when the API answers it with a
  client error or not at all. An old version that cannot be built does not block the update.\<close>

theorem webhook_update_verdict:
  assumes "DecodeRaw h (areq_Object req) = Ok svc"
    and "svc_Type svc = ServiceTypeLoadBalancer" and "svc_DeletionTimestamp svc = None"
    and "adm_buildLoadBalancerRequest h svc w = (Ok lbReq, w1)"
    and "areq_OldObject req = Some raw" and "DecodeRaw h raw = Ok oldSvc"
    and "adm_buildLoadBalancerRequest (with_old_order h) oldSvc w1 = (oldBuilt, w2)"
    and "oldBuilt = Ok oldReq \<or> oldBuilt = Err e"
  shows "if oldBuilt = Ok lbReq
     then \<exists>a. Handle h req w = (Ok a, w2) \<and> ares_Allowed a
     else let i = (if ann svc annDOLoadBalancerID \<noteq> '''' then ann svc annDOLoadBalancerID
                   else ann oldSvc annDOLoadBalancerID);
              (reply, w3) = (if i = '''' then LoadBalancers_Create (adm_godoClient h) lbReq w2
                             else LoadBalancers_Update (adm_godoClient h) i lbReq w2)
          in \<exists>a. Handle h req w = (Ok a, w3)
                 \<and> ares_Allowed a = api_accepts (fst (snd reply)) (snd (snd reply))"
proof -
  have "Handle h req w = validateUpdate h raw (ann svc annDOLoadBalancerID) lbReq w1"
    using handle_built [OF assms(1-4)] assms(5) by simp
  also have "\<dots> = (if oldBuilt = Ok lbReq then (Ok (Allowed ''new service has irrelevant changes''), w2)
      else let i = (if ann svc annDOLoadBalancerID = '''' then ann oldSvc annDOLoadBalancerID
                    else ann svc annDOLoadBalancerID) in
        case (if i = '''' then LoadBalancers_Create (adm_godoClient h) lbReq w2
              else LoadBalancers_Update (adm_godoClient h) i lbReq w2) of
          ((_, resp, err), w3) \<Rightarrow> (Ok (mapGodoRespToAdmissionResp resp err), w3))"
    by (rule validateUpdate_eq [OF assms(6-8)])
  finally show ?thesis
    by (auto simp: Let_def mapGodoRespToAdmissionResp_Allowed split: prod.splits)
qed

text \<open>
  What the controller can synchronise, the webhook does not refuse to build: if a request can
  be built for some set of nodes, the webhook asks the API about the creation of that service, with the
  same request up to the dry-run flag, the cluster's settings and the network stack, and lets it through unless
  the API answers with a client error or not at all.\<close>

theorem webhook_accepts_syncable:
  assumes "DecodeRaw h (areq_Object req) = Ok svc" and "areq_OldObject req = None"
    and "svc_Type svc = ServiceTypeLoadBalancer" and "svc_DeletionTimestamp svc = None"
    and "buildLoadBalancerRequestWithNodeState (adm_godoClient h) svc (adm_defaultLBType h) (Some ns) w
       = (Ok lbReq, w1)"
  shows "\<exists>stack tags. let r = lbReq\<lparr>req_NetworkStack := stack, req_ValidateOnly := True,
              req_Region := adm_region h, req_VPCUUID := adm_vpcID h, req_Tags := tags\<rparr>;
           ((lb, resp, err), w2) = LoadBalancers_Create (adm_godoClient h) r w1
     in \<exists>a. Handle h req w = (Ok a, w2) \<and> ares_Allowed a = api_accepts resp err"
proof -
  obtain stack where stack: "buildLoadBalancerRequest (adm_godoClient h) svc (adm_defaultLBType h) w
      = (Ok (lbReq\<lparr>req_NetworkStack := stack\<rparr>), w1)"
    using admission_request_agrees [OF assms(5)] by blast
  let ?tags = "if adm_clusterID h \<noteq> '''' then [buildK8sTag (adm_clusterID h)] else req_Tags lbReq"
  let ?r = "lbReq\<lparr>req_NetworkStack := stack, req_ValidateOnly := True,
              req_Region := adm_region h, req_VPCUUID := adm_vpcID h, req_Tags := ?tags\<rparr>"
  have "adm_buildLoadBalancerRequest h svc w = (Ok ?r, w1)"
    using stack by (simp add: adm_buildLoadBalancerRequest_def bindM_def map_errM_def returnM_def)
  from handle_built [OF assms(1,3,4) this] assms(2)
  have "Handle h req w = validateCreate h ?r w1" by simp
  then show ?thesis
    by (intro exI [of _ stack] exI [of _ ?tags])
      (auto simp: validateCreate_eq mapGodoRespToAdmissionResp_Allowed Let_def split: prod.splits)
qed

text \<open>
  Any error while building the request rejects the service, also one that comes from the API,
  such as a certificate look-up that fails with a server error.
\<close>

lemma webhook_denies_unbuildable:
  assumes "DecodeRaw h (areq_Object req) = Ok svc"
    and "svc_Type svc = ServiceTypeLoadBalancer" and "svc_DeletionTimestamp svc = None"
    and "adm_buildLoadBalancerRequest h svc w = (Err e, w1)"
  shows "Handle h req w = (Ok (Denied (''failed to build DO API request: '' @ error_text e)), w1)"
  using assms by (simp add: Handle_def handle_def attempt_def bindM_def returnM_def liftR_def Let_def)

section \<open>Examples\<close>

definition rejecting_client :: "unit client" where
  "rejecting_client =
     (let reject = (None, Some \<lparr>resp_StatusCode = 422, resp_Links = None\<rparr>, Some (ErrorResponse 422 ''invalid''))
      in offline_client\<lparr>LoadBalancers_Create := (\<lambda>r w. (reject, w)), LoadBalancers_Update := (\<lambda>i r w. (reject, w))\<rparr>)"

definition example_handler :: "unit client \<Rightarrow> unit LBServiceAdmissionHandler" where
  "example_handler c =
     \<lparr>adm_godoClient = c,
      adm_decoder = (\<lambda>raw. if raw = ''plain'' then Ok plain_service else if raw = ''synced'' then Ok synced_service
         else if raw = ''broken'' then Ok (plain_service\<lparr>svc_Annotations := [(annDOType, ''GLOBAL'')]\<rparr>)
         else if raw = ''pod'' then Ok (plain_service\<lparr>svc_Type := ''ClusterIP''\<rparr>)
         else Err (OtherError ''unexpected end of JSON input'')),
      adm_old_order = rev, adm_region = ''nyc1'', adm_clusterID = ''cluster-1'', adm_vpcID = ''vpc-1'',
      adm_defaultLBType = LoadBalancerTypeRegionalNetwork\<rparr>"

lemma example_decoded:
  "DecodeRaw (example_handler c) ''plain'' = Ok plain_service"
  "DecodeRaw (example_handler c) ''synced'' = Ok synced_service"
  "DecodeRaw (example_handler c) ''broken'' = Ok (plain_service\<lparr>svc_Annotations := [(annDOType, ''GLOBAL'')]\<rparr>)"
  "DecodeRaw (example_handler c) ''pod'' = Ok (plain_service\<lparr>svc_Type := ''ClusterIP''\<rparr>)"
  by (simp_all add: DecodeRaw_def example_handler_def)

lemma example_services:
  "svc_Type plain_service = ServiceTypeLoadBalancer" "svc_DeletionTimestamp plain_service = None"
  "svc_Type synced_service = ServiceTypeLoadBalancer" "svc_DeletionTimestamp synced_service = None"
  by code_simp+

lemma example_handler_built:
  assumes "s \<in> {plain_service, synced_service}"
  shows "\<exists>r. adm_buildLoadBalancerRequest (example_handler c) s () = (Ok r, ())"
proof -
  obtain stack where "buildLoadBalancerRequest c s LoadBalancerTypeRegionalNetwork ()
      = (Ok (example_base_request\<lparr>req_NetworkStack := stack\<rparr>), ())"
    using admission_request_agrees [OF example_base_request_built [OF assms, of c "()"]] by blast
  then show ?thesis
    by (simp add: adm_buildLoadBalancerRequest_def example_handler_def bindM_def map_errM_def returnM_def)
qed

lemma adm_build_bad_type:
  assumes "getType svc (adm_defaultLBType h) = Err e"
  shows "adm_buildLoadBalancerRequest h svc w = (Err (Errorf ''failed to build base load balancer request: '' e ''''), w)"
proof -
  have "buildLoadBalancerRequest (adm_godoClient h) svc (adm_defaultLBType h) w = (Err e, w)"
    unfolding buildLoadBalancerRequest_def buildLoadBalancerRequestWithNodeState_def assms
    by (simp add: outcome_simps)
  then show ?thesis by (simp add: adm_buildLoadBalancerRequest_def outcome_simps)
qed

theorem webhook_only_dry_runs_witness:
  "Handle (example_handler (rejecting_client\<lparr>LoadBalancers_Delete := (\<lambda>i w. undefined)\<rparr>)) \<lparr>areq_Object = ''plain'', areq_OldObject = None\<rparr> ()
     = Handle (example_handler rejecting_client) \<lparr>areq_Object = ''plain'', areq_OldObject = None\<rparr> ()"
proof -
  have "same_dry_runs (adm_godoClient (example_handler rejecting_client))
      (rejecting_client\<lparr>LoadBalancers_Delete := (\<lambda>i w. undefined)\<rparr>)"
    by (simp add: same_dry_runs_def example_handler_def)
  from webhook_only_dry_runs [OF this] show ?thesis by (simp add: example_handler_def)
qed

theorem webhook_update_verdict_witness:
  "\<exists>a. Handle (example_handler rejecting_client) \<lparr>areq_Object = ''synced'', areq_OldObject = Some ''broken''\<rparr> ()
     = (Ok a, ()) \<and> \<not> ares_Allowed a"
proof -
  obtain r where r: "adm_buildLoadBalancerRequest (example_handler rejecting_client) synced_service () = (Ok r, ())"
    using example_handler_built by blast
  let ?old = "plain_service\<lparr>svc_Annotations := [(annDOType, ''GLOBAL'')]\<rparr>"
  obtain e where e: "getType ?old LoadBalancerTypeRegionalNetwork = Err e"
    by (simp add: getType_def mget_def valid_lb_type_def lb_const_defs)
  then have "adm_buildLoadBalancerRequest (with_old_order (example_handler rejecting_client)) ?old ()
      = (Err (Errorf ''failed to build base load balancer request: '' e ''''), ())"
    by (intro adm_build_bad_type) (simp add: example_handler_def)
  from webhook_update_verdict [OF _ example_services(3,4) r _ example_decoded(3) this, of
      "\<lparr>areq_Object = ''synced'', areq_OldObject = Some ''broken''\<rparr>"]
  show ?thesis
    using example_decoded(2) [of rejecting_client]
    by (auto simp: example_handler_def rejecting_client_def api_accepts_def Let_def synced_service_def mget_def
        split: if_splits)
qed

theorem webhook_accepts_syncable_witness:
  "\<exists>a. fst (Handle (example_handler rejecting_client) \<lparr>areq_Object = ''plain'', areq_OldObject = None\<rparr> ()) = Ok a
     \<and> \<not> ares_Allowed a"
proof -
  have "buildLoadBalancerRequestWithNodeState (adm_godoClient (example_handler rejecting_client)) plain_service
      (adm_defaultLBType (example_handler rejecting_client))
      (Some (filterAndClassifyNodes [example_node] LoadBalancerTypeRegionalNetwork LoadBalancerNetworkTypeExternal)) ()
      = (Ok example_base_request, ())"
    by (simp add: example_handler_def example_base_request_built)
  from webhook_accepts_syncable [OF _ _ example_services(1,2) this, of
      "\<lparr>areq_Object = ''plain'', areq_OldObject = None\<rparr>"]
  show ?thesis
    using example_decoded(1) [of rejecting_client]
    by (auto simp: example_handler_def rejecting_client_def api_accepts_def Let_def)
qed

theorem webhook_ignores_witness:
  "\<exists>a. Handle (example_handler offline_client) \<lparr>areq_Object = ''pod'', areq_OldObject = None\<rparr> () = (Ok a, ())
     \<and> ares_Allowed a"
proof (rule webhook_ignores)
  show "DecodeRaw (example_handler offline_client) (areq_Object \<lparr>areq_Object = ''pod'', areq_OldObject = None\<rparr>)
      = Ok (plain_service\<lparr>svc_Type := ''ClusterIP''\<rparr>)"
    using example_decoded(4) by simp
qed (simp add: lb_const_defs)

end
