(* ===== verification/LoadBalancers.thy ===== *)
theory LoadBalancers
  imports LB_Request
begin

text \<open>
  The load balancer interface that the Kubernetes service controller calls: looking a load
  balancer up, ensuring, updating and deleting it, and the service patcher that records the
  annotations a call has set. The state of a call is the service object, which the code
  updates in place, together with the outside world.
\<close>

section \<open>State of a call\<close>

type_synonym ('w, 'a) svc_cmd = "(Service \<times> 'w, 'a) cmd"

definition on_world :: "('w, 'a) cmd \<Rightarrow> ('w, 'a) svc_cmd" where
  "on_world m = (\<lambda>(s, w). case m w of (r, w') \<Rightarrow> (r, (s, w')))"

definition get_service :: "('w, Service) svc_cmd" where
  "get_service = (\<lambda>(s, w). (Ok s, (s, w)))"

definition annotate :: "string \<Rightarrow> string \<Rightarrow> ('w, unit) svc_cmd" where
  "annotate k v = (\<lambda>(s, w). (Ok (), (updateServiceAnnotation s k v, w)))"

lemma on_world_iff [outcome_simps]:
  "on_world m (s, w) = (r, t) \<longleftrightarrow> (\<exists>w'. m w = (r, w') \<and> t = (s, w'))"
  by (auto simp: on_world_def split: prod.splits)

lemma get_service_iff [outcome_simps]: "get_service (s, w) = (r, t) \<longleftrightarrow> r = Ok s \<and> t = (s, w)"
  by (auto simp: get_service_def)

lemma annotate_iff [outcome_simps]:
  "annotate k v (s, w) = (r, t) \<longleftrightarrow> r = Ok () \<and> t = (updateServiceAnnotation s k v, w)"
  by (auto simp: annotate_def)

section \<open>Patching the service\<close>

text \<open>
  \<^verbatim>\<open>patchService\<close> computes the two-way merge patch of the serialised objects and submits it
  unless it is empty, which it is when the objects serialise to the same JSON text.
\<close>

definition same_json :: "Service \<Rightarrow> Service \<Rightarrow> bool" where
  "same_json cur mod' =
     (map_DeepEqual (svc_Annotations cur) (svc_Annotations mod')
      \<and> cur\<lparr>svc_Annotations := []\<rparr> = mod'\<lparr>svc_Annotations := []\<rparr>)"

definition patchService :: "'w client \<Rightarrow> Service \<Rightarrow> Service \<Rightarrow> 'w \<Rightarrow> error option \<times> 'w" where
  "patchService c cur mod' w =
     (if same_json cur mod' then (None, w)
      else case Services_Patch c cur mod' w of
        (None, w') \<Rightarrow> (None, w')
      | (Some e, w') \<Rightarrow>
          (Some (Errorf (''failed to patch service object '' @ qualified_name cur @ '': '') e ''''), w'))"

definition servicePatcher_Patch ::
    "'w client \<Rightarrow> Service \<Rightarrow> Service \<Rightarrow> error option \<Rightarrow> 'w \<Rightarrow> error option \<times> 'w" where
  "servicePatcher_Patch c base updated err w =
     (if map_DeepEqual (svc_Annotations base) (svc_Annotations updated) then (err, w)
      else case patchService c base updated w of
        (None, w') \<Rightarrow> (err, w')
      | (Some perr, w') \<Rightarrow> (NewAggregate [err, Some perr], w'))"

text \<open>
  A body that runs between \<^verbatim>\<open>newServicePatcher\<close> and the deferred \<^verbatim>\<open>Patch\<close>: the base is a
  copy of the service at the start, the patch is submitted also when the body panics, and
  the error that \<^verbatim>\<open>Patch\<close> returns replaces the result. A value returned along with a
  non-nil error is dropped, as the service controller does.
\<close>

definition with_patcher :: "'w client \<Rightarrow> ('w, 'a) svc_cmd \<Rightarrow> ('w, 'a) svc_cmd" where
  "with_patcher c body = (\<lambda>(base, w).
     case body (base, w) of
       (OutOfFuel, st) \<Rightarrow> (OutOfFuel, st)
     | (Panic p, (s', w')) \<Rightarrow> (Panic p, (s', snd (servicePatcher_Patch c base s' None w')))
     | (r, (s', w')) \<Rightarrow>
         (case servicePatcher_Patch c base s' (case r of Err e \<Rightarrow> Some e | _ \<Rightarrow> None) w' of
            (None, w'') \<Rightarrow> (r, (s', w''))
          | (Some e, w'') \<Rightarrow> (Err e, (s', w''))))"

section \<open>Looking load balancers up\<close>

definition findLoadBalancerByID :: "'w client \<Rightarrow> string \<Rightarrow> ('w, LoadBalancer option) cmd" where
  "findLoadBalancerByID c i =
     bindM (api (LoadBalancers_Get c i)) (\<lambda>(lb, resp, err).
       case err of
         Some e \<Rightarrow>
           if is_StatusNotFound resp then liftR (Err ErrLBNotFound)
           else liftR (Err (Errorf (''failed to get load-balancer by ID '' @ i @ '': '') e ''''))
       | None \<Rightarrow> returnM lb)"

definition findLoadBalancerByName :: "Service \<Rightarrow> LoadBalancer list \<Rightarrow> LoadBalancer option" where
  "findLoadBalancerByName service allLBs =
     (let customName = getLoadBalancerName service;
          legacyName = getLoadBalancerLegacyName service;
          candidates = (if legacyName \<noteq> customName then [customName, legacyName] else [customName])
      in find (\<lambda>lb. lb_Name lb \<in> set candidates) allLBs)"

definition findLoadBalancerID :: "Service \<Rightarrow> LoadBalancer list \<Rightarrow> string" where
  "findLoadBalancerID service allLBs =
     (let i = getLoadBalancerID service in
      if length i > 0 then i
      else case findLoadBalancerByName service allLBs of None \<Rightarrow> '''' | Some lb \<Rightarrow> lb_ID lb)"

definition retrieveLoadBalancer :: "'w client \<Rightarrow> Service \<Rightarrow> ('w, LoadBalancer option) cmd" where
  "retrieveLoadBalancer c service =
     (let i = getLoadBalancerID service in
      if length i > 0 then findLoadBalancerByID c i
      else bindM (allLoadBalancerList c) (\<lambda>allLBs.
        case findLoadBalancerByName service allLBs of
          None \<Rightarrow> liftR (Err ErrLBNotFound)
        | Some lb \<Rightarrow> returnM (Some lb)))"

definition retrieveAndAnnotateLoadBalancer :: "'w client \<Rightarrow> ('w, LoadBalancer) svc_cmd" where
  "retrieveAndAnnotateLoadBalancer c =
     bindM get_service (\<lambda>service.
     bindM (on_world (retrieveLoadBalancer c service)) (\<lambda>lbp.
     bindM (liftR (deref lbp)) (\<lambda>lb.
     bindM (annotate annDOLoadBalancerID (lb_ID lb)) (\<lambda>_.
     bindM (annotate annDOType (lb_Type lb)) (\<lambda>_.
     returnM lb)))))"

definition statusIngress :: "LoadBalancer \<Rightarrow> LoadBalancerIngress list" where
  "statusIngress lb =
     [\<lparr>ing_IP = lb_IP lb, ing_Hostname = ''''\<rparr>] @
     (if lb_IPv6 lb \<noteq> '''' then [\<lparr>ing_IP = lb_IPv6 lb, ing_Hostname = ''''\<rparr>] else [])"

definition GetLoadBalancer ::
    "'w loadBalancers \<Rightarrow> ('w, LoadBalancerIngress list option \<times> bool) svc_cmd" where
  "GetLoadBalancer l =
     with_patcher (l_client l)
       (bindM (attempt (retrieveAndAnnotateLoadBalancer (l_client l))) (\<lambda>res.
          case res of
            Inl e \<Rightarrow> if e = ErrLBNotFound then returnM (None, False) else liftR (Err e)
          | Inr lb \<Rightarrow> returnM (Some (statusIngress lb), True)))"

section \<open>Certificates\<close>

definition certTypeLetsEncrypt :: string where
  "certTypeLetsEncrypt = ''lets_encrypt''"

definition getCertificateIDFromLB :: "LoadBalancer \<Rightarrow> string" where
  "getCertificateIDFromLB lb =
     (case find (\<lambda>rule. fr_CertificateID rule \<noteq> '''') (lb_ForwardingRules lb) of
        None \<Rightarrow> '''' | Some rule \<Rightarrow> fr_CertificateID rule)"

definition cert_get_failed :: "error \<Rightarrow> error" where
  "cert_get_failed e = Errorf ''failed to get DO certificate for load-balancer: '' e ''''"

definition recordUpdatedLetsEncryptCert ::
    "'w client \<Rightarrow> string \<Rightarrow> string \<Rightarrow> ('w, unit) svc_cmd" where
  "recordUpdatedLetsEncryptCert c lbCertID serviceCertID =
     (if lbCertID \<noteq> '''' \<and> serviceCertID \<noteq> '''' \<and> lbCertID \<noteq> serviceCertID then
        bindM (on_world (api (Certificates_Get c lbCertID))) (\<lambda>(lbCertp, resp, err).
        case err of
          Some e \<Rightarrow> if as_ErrorResponse e = Some StatusNotFound then returnM ()
                     else liftR (Err (cert_get_failed e))
        | None \<Rightarrow>
            bindM (liftR (deref lbCertp)) (\<lambda>lbCert.
            if cert_Type lbCert \<noteq> certTypeLetsEncrypt then returnM ()
            else bindM (on_world (api (Certificates_Get c serviceCertID))) (\<lambda>(annCertp, resp2, err2).
              case err2 of
                Some e \<Rightarrow> if as_ErrorResponse e = Some StatusNotFound
                           then annotate annDOCertificateID lbCertID
                           else liftR (Err (cert_get_failed e))
              | None \<Rightarrow>
                  bindM (liftR (deref annCertp)) (\<lambda>annCert.
                  if cert_Name lbCert = cert_Name annCert
                  then annotate annDOCertificateID lbCertID
                  else returnM ()))))
      else returnM ())"

section \<open>Updating\<close>

definition updateLoadBalancer ::
    "'w loadBalancers \<Rightarrow> LoadBalancer \<Rightarrow> Node list \<Rightarrow> ('w, LoadBalancer option \<times> Node list) svc_cmd" where
  "updateLoadBalancer l lb nodes =
     (let admittedIDs = admittedDropletIDSet (Some lb) in
      bindM get_service (\<lambda>service.
      bindM (on_world (map_errM (\<lambda>e. Wrapf ''failed to build load-balancer request: '' e '''')
          (lb_buildLoadBalancerRequest l service nodes admittedIDs))) (\<lambda>_.
      bindM (on_world (findCertificateID (l_client l) service)) (\<lambda>serviceCertID.
      bindM (recordUpdatedLetsEncryptCert (l_client l) (getCertificateIDFromLB lb) serviceCertID) (\<lambda>_.
      bindM get_service (\<lambda>service.
      bindM (on_world (map_errM
          (\<lambda>e. Wrapf ''failed to build load-balancer request (post-certificate update): '' e '''')
          (lb_buildLoadBalancerRequest l service nodes admittedIDs))) (\<lambda>(lbRequest, pendingNotReady).
      bindM (on_world (api (LoadBalancers_Update (l_client l) (lb_ID lb) lbRequest))) (\<lambda>(lb', resp, err).
      case err of
        Some e \<Rightarrow> liftR (Err (Errorf (''failed to update load-balancer with ID '' @ lb_ID lb @ '': '') e ''''))
      | None \<Rightarrow> returnM (lb', pendingNotReady)))))))))"

text \<open>The disown annotation ends a call before anything else happens.\<close>

definition unless_disowned :: "(Service \<Rightarrow> 'a) \<Rightarrow> ('w, 'a) svc_cmd \<Rightarrow> ('w, 'a) svc_cmd" where
  "unless_disowned short_circuit body =
     bindM get_service (\<lambda>service.
     bindM (liftR (getDisownLB service)) (\<lambda>lbIsDisowned.
     if lbIsDisowned then returnM (short_circuit service) else body))"

text \<open>The part of \<^verbatim>\<open>UpdateLoadBalancer\<close> that runs under the service patcher.\<close>

definition updateBody :: "'w loadBalancers \<Rightarrow> Node list \<Rightarrow> ('w, unit) svc_cmd" where
  "updateBody l nodes =
     bindM (retrieveAndAnnotateLoadBalancer (l_client l)) (\<lambda>lb.
     bindM get_service (\<lambda>service.
     bindM (liftR (prepareNodesForLBSync (l_defaultLBType l) service nodes)) (\<lambda>pending.
     bindM (updateLoadBalancer l lb nodes) (\<lambda>(lb', pendingNotReady).
     bindM get_service (\<lambda>service.
     case retryIfNodesPendingInit service pending pendingNotReady of
       Some e \<Rightarrow> liftR (Err e)
     | None \<Rightarrow> returnM ())))))"

definition UpdateLoadBalancer :: "'w loadBalancers \<Rightarrow> Node list \<Rightarrow> ('w, unit) svc_cmd" where
  "UpdateLoadBalancer l nodes =
     unless_disowned (\<lambda>_. ()) (with_patcher (l_client l) (updateBody l nodes))"

section \<open>Ensuring and deleting\<close>

definition lbStatusNew :: string where "lbStatusNew = ''new''"

definition lbStatusActive :: string where "lbStatusActive = ''active''"

text \<open>The branch of \<^verbatim>\<open>EnsureLoadBalancer\<close> that creates a missing load balancer.\<close>

definition createLoadBalancer ::
    "'w loadBalancers \<Rightarrow> LoadBalancerRequest \<Rightarrow> ('w, LoadBalancer) svc_cmd" where
  "createLoadBalancer l lbRequest =
     bindM get_service (\<lambda>service.
     let ip = getLoadBalancerIP service;
         lbRequest = (if ip \<noteq> '''' then lbRequest\<lparr>req_IP := ip\<rparr> else lbRequest) in
     bindM (on_world (api (LoadBalancers_Create (l_client l) lbRequest))) (\<lambda>(lbp, resp, err).
     case err of
       Some e \<Rightarrow> liftR (Err (Errorf ''failed to create load-balancer: '' e ''''))
     | None \<Rightarrow>
         bindM (liftR (deref lbp)) (\<lambda>lb.
         bindM (annotate annDOLoadBalancerID (lb_ID lb)) (\<lambda>_.
         bindM (annotate annDOType (lb_Type lb)) (\<lambda>_.
         returnM lb)))))"

text \<open>
  The end of \<^verbatim>\<open>EnsureLoadBalancer\<close>, once the load balancer was created or updated.
\<close>

definition ensureStatus ::
    "Service \<Rightarrow> LoadBalancer \<Rightarrow> Node list \<Rightarrow> Node list \<Rightarrow> LoadBalancerIngress list outcome" where
  "ensureStatus service lb pending pendingNotReady =
     (if lb_Status lb = lbStatusNew
      then Err (RetryError ''load-balancer is currently being created'' 15)
      else if lb_Status lb \<noteq> lbStatusActive
      then Err (NewError (''load-balancer has unexpected status '' @ quote (lb_Status lb)))
      else case retryIfNodesPendingInit service pending pendingNotReady of
        Some e \<Rightarrow> Err e
      | None \<Rightarrow>
          let hostname = getHostname service in
          if hostname \<noteq> '''' then Ok [\<lparr>ing_IP = '''', ing_Hostname = hostname\<rparr>]
          else Ok (statusIngress lb))"

text \<open>The part of \<^verbatim>\<open>EnsureLoadBalancer\<close> that runs under the service patcher.\<close>

definition ensureBody :: "'w loadBalancers \<Rightarrow> Node list \<Rightarrow> ('w, LoadBalancerIngress list) svc_cmd" where
  "ensureBody l nodes =
     bindM get_service (\<lambda>service.
     bindM (liftR (prepareNodesForLBSync (l_defaultLBType l) service nodes)) (\<lambda>pending.
     bindM (attempt (retrieveAndAnnotateLoadBalancer (l_client l))) (\<lambda>found.
     if (case found of Inl lbErr \<Rightarrow> \<not> errors_Is lbErr ErrLBNotFound | Inr _ \<Rightarrow> False)
     then liftR (case found of Inl lbErr \<Rightarrow> Err lbErr | Inr _ \<Rightarrow> Ok [])
     else
     let lbp = (case found of Inl _ \<Rightarrow> None | Inr lb \<Rightarrow> Some lb) in
     bindM get_service (\<lambda>service.
     bindM (on_world (map_errM (\<lambda>e. Wrapf ''failed to build load-balancer request: '' e '''')
         (lb_buildLoadBalancerRequest l service nodes (admittedDropletIDSet lbp))))
       (\<lambda>(lbRequest, pendingNotReady).
     bindM
       (case found of
          Inl lbErr \<Rightarrow>
            if lbErr = ErrLBNotFound
            then bindM (createLoadBalancer l lbRequest) (\<lambda>lb. returnM (Some lb, pendingNotReady))
            else returnM (None, pendingNotReady)
        | Inr lb \<Rightarrow> updateLoadBalancer l lb nodes)
       (\<lambda>(lbp, pendingNotReady).
     bindM (liftR (deref lbp)) (\<lambda>lb.
     bindM get_service (\<lambda>service.
     liftR (ensureStatus service lb pending pendingNotReady)))))))))"

definition EnsureLoadBalancer ::
    "'w loadBalancers \<Rightarrow> Node list \<Rightarrow> ('w, LoadBalancerIngress list) svc_cmd" where
  "EnsureLoadBalancer l nodes =
     unless_disowned svc_Ingress (with_patcher (l_client l) (ensureBody l nodes))"

definition EnsureLoadBalancerDeleted :: "'w client \<Rightarrow> Service \<Rightarrow> ('w, unit) cmd" where
  "EnsureLoadBalancerDeleted c service =
     bindM (liftR (getDisownLB service)) (\<lambda>lbIsDisowned.
     if lbIsDisowned then returnM ()
     else
     bindM (attempt (retrieveLoadBalancer c service)) (\<lambda>found.
     case found of
       Inl e \<Rightarrow> if e = ErrLBNotFound then returnM () else liftR (Err e)
     | Inr lbp \<Rightarrow>
         bindM (liftR (deref lbp)) (\<lambda>lb.
         bindM (api (LoadBalancers_Delete c (lb_ID lb))) (\<lambda>(_, resp, err).
         case err of
           None \<Rightarrow> returnM ()
         | Some e \<Rightarrow>
             if is_StatusNotFound resp then returnM ()
             else liftR (Err (Errorf ''failed to delete load-balancer: '' e ''''))))))"

section \<open>What a call may change of the service\<close>

definition managed_keys :: "string list" where
  "managed_keys = [annDOLoadBalancerID, annDOType, annDOCertificateID]"

definition service_frame :: "string list \<Rightarrow> Service \<times> 'w \<Rightarrow> Service \<times> 'w \<Rightarrow> bool" where
  "service_frame ks st st' \<longleftrightarrow>
     (fst st')\<lparr>svc_Annotations := []\<rparr> = (fst st)\<lparr>svc_Annotations := []\<rparr>
     \<and> (\<forall>k. k \<notin> set ks \<longrightarrow> ann_lookup (fst st') k = ann_lookup (fst st) k)"

interpretation svc: state_frame "service_frame ks" for ks
  by unfold_locales (auto simp: service_frame_def)

lemma keeps_on_world: "svc.keeps ks (on_world m)"
  by (rule svc.keepsI) (auto simp: on_world_def service_frame_def split: prod.splits)

lemma keeps_get_service: "svc.keeps ks get_service"
  by (rule svc.keepsI) (auto simp: get_service_def service_frame_def)

lemma keeps_annotate: "k \<in> set ks \<Longrightarrow> svc.keeps ks (annotate k v)"
  by (rule svc.keepsI)
    (auto simp: annotate_def service_frame_def updateServiceAnnotation_def AList.update_conv' split: if_splits)

lemma with_patcher_state:
  "with_patcher c body (s, w) = (r, (s', w')) \<Longrightarrow> \<exists>r0 w0. body (s, w) = (r0, (s', w0))"
  by (auto simp: with_patcher_def split: prod.splits outcome.splits option.splits)

lemma keeps_with_patcher: "svc.keeps ks body \<Longrightarrow> svc.keeps ks (with_patcher c body)"
proof (rule svc.keepsI)
  fix st t r
  assume body: "svc.keeps ks body" and run: "with_patcher c body st = (r, t)"
  obtain s w s' w' where st: "st = (s, w)" "t = (s', w')" by fastforce
  from with_patcher_state [OF run [unfolded st]] obtain r0 w0 where b: "body (s, w) = (r0, (s', w0))"
    by blast
  from svc.keepsD [OF body b] show "service_frame ks st t" by (simp add: st service_frame_def)
qed

lemmas svc_keeps = keeps_on_world keeps_get_service keeps_annotate svc.keeps_rules

lemma keeps_retrieveAndAnnotate: "set managed_keys \<subseteq> set ks \<Longrightarrow> svc.keeps ks (retrieveAndAnnotateLoadBalancer c)"
  unfolding retrieveAndAnnotateLoadBalancer_def
  by (intro svc_keeps) (simp_all add: managed_keys_def)

lemma keeps_updateLoadBalancer: "annDOCertificateID \<in> set ks \<Longrightarrow> svc.keeps ks (updateLoadBalancer l lb nodes)"
  unfolding updateLoadBalancer_def recordUpdatedLetsEncryptCert_def Let_def
  by (intro svc_keeps) (simp_all add: managed_keys_def)

lemma keeps_createLoadBalancer: "set managed_keys \<subseteq> set ks \<Longrightarrow> svc.keeps ks (createLoadBalancer l req)"
  unfolding createLoadBalancer_def Let_def
  by (intro svc_keeps) (simp_all add: managed_keys_def)

lemma keeps_unless_disowned: "svc.keeps ks body \<Longrightarrow> svc.keeps ks (unless_disowned f body)"
  unfolding unless_disowned_def by (intro svc_keeps)

lemmas handler_keeps = keeps_unless_disowned keeps_with_patcher keeps_retrieveAndAnnotate
  keeps_updateLoadBalancer keeps_createLoadBalancer svc_keeps

lemma keeps_EnsureLoadBalancer: "svc.keeps managed_keys (EnsureLoadBalancer l nodes)"
  unfolding EnsureLoadBalancer_def ensureBody_def Let_def by (intro handler_keeps) (simp_all add: managed_keys_def)

lemma keeps_UpdateLoadBalancer: "svc.keeps managed_keys (UpdateLoadBalancer l nodes)"
  unfolding UpdateLoadBalancer_def updateBody_def by (intro handler_keeps) (simp_all add: managed_keys_def)

lemma keeps_GetLoadBalancer: "svc.keeps managed_keys (GetLoadBalancer l)"
  unfolding GetLoadBalancer_def by (intro handler_keeps) (simp_all add: managed_keys_def)

text \<open>
  C18: Whatever they return, and also when they fail or panic, the three calls that may write to a service
  change nothing of it but the annotations for the load balancer ID, the load balancer type
  and the certificate ID.\<close>

theorem handlers_frame:
  "service_frame managed_keys (s, w) (snd (EnsureLoadBalancer l nodes (s, w)))
   \<and> service_frame managed_keys (s, w) (snd (UpdateLoadBalancer l nodes (s, w)))
   \<and> service_frame managed_keys (s, w) (snd (GetLoadBalancer l (s, w)))"
  using svc.keepsD [OF keeps_EnsureLoadBalancer] svc.keepsD [OF keeps_UpdateLoadBalancer]
    svc.keepsD [OF keeps_GetLoadBalancer]
  by (metis prod.collapse)

text \<open>
  C37: A disowned service is left alone: ensuring and updating return at once with the service and the
  outside world as they were, deleting makes no call.\<close>

theorem disowned_untouched:
  assumes "getDisownLB s = Ok True"
  shows "EnsureLoadBalancer l nodes (s, w) = (Ok (svc_Ingress s), (s, w))
     \<and> UpdateLoadBalancer l nodes (s, w) = (Ok (), (s, w))
     \<and> EnsureLoadBalancerDeleted (l_client l) s w = (Ok (), w)"
  using assms
  by (simp add: EnsureLoadBalancer_def UpdateLoadBalancer_def EnsureLoadBalancerDeleted_def
      unless_disowned_def get_service_def bindM_def liftR_def returnM_def)

theorem disowned_untouched_witness:
  "let s = example_service\<lparr>svc_Annotations := [(annDODisownLB, ''true'')]\<rparr> in
     UpdateLoadBalancer (example_lbs offline_client) [] (s, ()) = (Ok (), (s, ()))"
proof -
  have "getDisownLB (example_service\<lparr>svc_Annotations := [(annDODisownLB, ''true'')]\<rparr>) = Ok True"
    by code_simp
  from disowned_untouched [OF this, of "example_lbs offline_client" "[]" "()"] show ?thesis by simp
qed

section \<open>The patcher\<close>

text \<open>
  The deferred patch returns the error of the call untouched when there was nothing to patch or
  the patch succeeded, so that the service controller sees a retry error; when the patch
  fails too, both errors are reported, the error of the call can still be recognised by
  \<^verbatim>\<open>errors.Is\<close>, but a retry error is hidden.\<close>

theorem Patch_result:
  "case servicePatcher_Patch c base updated err w of (err', w') \<Rightarrow>
     if map_DeepEqual (svc_Annotations base) (svc_Annotations updated) then err' = err \<and> w' = w
     else case Services_Patch c base updated w of
       (None, w1) \<Rightarrow> err' = err \<and> w' = w1
     | (Some perr, w1) \<Rightarrow> w' = w1 \<and>
         (\<exists>e'. err' = Some e' \<and> errors_As_RetryError e' = None
           \<and> (case err of None \<Rightarrow> True | Some e \<Rightarrow> \<forall>t. errors_Is e' t \<or> \<not> errors_Is e t))"
  by (cases "Services_Patch c base updated w"; cases "fst (Services_Patch c base updated w)"; cases err)
    (auto simp: servicePatcher_Patch_def patchService_def same_json_def NewAggregate_def map_filter_simps)

theorem Patch_result_witness:
  "\<exists>e. fst (servicePatcher_Patch (offline_client :: unit client) plain_service synced_service
       (Some (RetryError ''later'' 5)) ()) = Some e
     \<and> errors_As_RetryError e = None \<and> errors_Is e (RetryError ''later'' 5)"
proof -
  have ne: "\<not> map_DeepEqual (svc_Annotations plain_service) (svc_Annotations synced_service)"
    by code_simp
  show ?thesis
    using Patch_result [where c = "offline_client :: unit client" and base = plain_service
      and updated = synced_service and err = "Some (RetryError ''later'' 5)" and w = "()"]
    by (simp add: ne offline_client_def Let_def split: prod.splits)
      (metis errors_Is.simps(9))
qed

section \<open>Lookup and deletion\<close>

lemma retrieveAndAnnotate_Ok:
  "retrieveAndAnnotateLoadBalancer c (s, w) = (Ok lb, (s', w')) \<longleftrightarrow>
     retrieveLoadBalancer c s w = (Ok (Some lb), w')
     \<and> s' = updateServiceAnnotation (updateServiceAnnotation s annDOLoadBalancerID (lb_ID lb)) annDOType (lb_Type lb)"
  by (auto simp: retrieveAndAnnotateLoadBalancer_def outcome_simps)

lemma retrieveAndAnnotate_Err:
  "retrieveAndAnnotateLoadBalancer c (s, w) = (Err e, (s', w')) \<longleftrightarrow>
     retrieveLoadBalancer c s w = (Err e, w') \<and> s' = s"
  by (auto simp: retrieveAndAnnotateLoadBalancer_def outcome_simps)

lemma findLoadBalancerByName_Some:
  "findLoadBalancerByName s lbs = Some lb \<Longrightarrow> lb \<in> set lbs \<and>
     (lb_Name lb = getLoadBalancerName s \<or> lb_Name lb = getLoadBalancerLegacyName s)"
  by (auto simp: findLoadBalancerByName_def Let_def dest!: find_SomeD split: if_splits)

lemma findLoadBalancerByName_None:
  "findLoadBalancerByName s lbs = None \<longleftrightarrow>
     (\<forall>lb \<in> set lbs. lb_Name lb \<noteq> getLoadBalancerName s \<and> lb_Name lb \<noteq> getLoadBalancerLegacyName s)"
  by (auto simp: findLoadBalancerByName_def Let_def find_None_iff)

lemma EnsureLoadBalancerDeleted_Ok_iff:
  assumes "getDisownLB s = Ok False"
  shows "EnsureLoadBalancerDeleted c s w = (Ok (), w') \<longleftrightarrow>
     retrieveLoadBalancer c s w = (Err ErrLBNotFound, w')
     \<or> (\<exists>lb w1 resp err. retrieveLoadBalancer c s w = (Ok (Some lb), w1)
          \<and> LoadBalancers_Delete c (lb_ID lb) w1 = (((), resp, err), w')
          \<and> (err = None \<or> is_StatusNotFound resp))"
proof (cases "retrieveLoadBalancer c s w")
  case (Pair r w1)
  note run = EnsureLoadBalancerDeleted_def bindM_def attempt_def liftR_def returnM_def api_def deref_def
  show ?thesis
  proof (cases r)
    case (Ok lbp)
    then show ?thesis
      using assms Pair by (cases lbp) (auto simp: run split: prod.splits option.splits if_splits)
  qed (use assms Pair in \<open>auto simp: run\<close>)
qed

text \<open>
  C17: Deleting is idempotent: for a service that is not disowned the call succeeds exactly when
  the lookup reports that there is no load balancer, in which case no deletion is requested,
  or the load balancer that was found was deleted or was already gone (status 404).\<close>

theorem EnsureLoadBalancerDeleted_succeeds_iff:
  assumes "getDisownLB s = Ok False"
  shows "EnsureLoadBalancerDeleted c s w = (Ok (), w') \<longleftrightarrow>
     retrieveLoadBalancer c s w = (Err ErrLBNotFound, w')
     \<or> (\<exists>lb w1 resp err. retrieveLoadBalancer c s w = (Ok (Some lb), w1)
          \<and> LoadBalancers_Delete c (lb_ID lb) w1 = (((), resp, err), w')
          \<and> (err = None \<or> is_StatusNotFound resp))"
  by (rule EnsureLoadBalancerDeleted_Ok_iff [OF assms])

text \<open>
  The certificate annotation follows a renewal and nothing else: it changes only to the
  certificate the load balancer uses, only if that is a Let's Encrypt certificate, and only
  if the annotated certificate no longer exists or has the same name.\<close>

theorem recordUpdatedLetsEncryptCert_only_renewals:
  assumes "recordUpdatedLetsEncryptCert c lbCertID serviceCertID (s, w) = (r, (s', w'))"
    and "s' \<noteq> s"
  shows "s' = updateServiceAnnotation s annDOCertificateID lbCertID
     \<and> (\<exists>lbCert resp w1. Certificates_Get c lbCertID w = ((Some lbCert, resp, None), w1)
          \<and> cert_Type lbCert = certTypeLetsEncrypt
          \<and> (\<exists>annCert resp2 err2. Certificates_Get c serviceCertID w1 = ((annCert, resp2, err2), w')
               \<and> (case err2 of Some e \<Rightarrow> as_ErrorResponse e = Some StatusNotFound
                   | None \<Rightarrow> \<exists>ac. annCert = Some ac \<and> cert_Name ac = cert_Name lbCert)))"
proof -
  obtain lbCertp resp err w1 where g1: "Certificates_Get c lbCertID w = ((lbCertp, resp, err), w1)"
    by (metis prod.collapse)
  obtain annCertp resp2 err2 w2 where g2: "Certificates_Get c serviceCertID w1 = ((annCertp, resp2, err2), w2)"
    by (metis prod.collapse)
  from assms g1 g2 show ?thesis
    by (simp add: recordUpdatedLetsEncryptCert_def bindM_def on_world_def api_def annotate_def
        returnM_def liftR_def deref_def split: if_split_asm option.split_asm)
qed

section \<open>Updating and ensuring\<close>

lemma updateLoadBalancer_Ok:
  assumes "updateLoadBalancer l lb nodes (s, w) = (Ok (lb', pnr), (s', w'))"
  shows "\<exists>req w0 w1 resp.
     lb_buildLoadBalancerRequest l s' nodes (admittedDropletIDSet (Some lb)) w0 = (Ok (req, pnr), w1)
     \<and> LoadBalancers_Update (l_client l) (lb_ID lb) req w1 = ((lb', resp, None), w')"
proof -
  from assms obtain req w0 w1 where
    build: "lb_buildLoadBalancerRequest l s' nodes (admittedDropletIDSet (Some lb)) w0 = (Ok (req, pnr), w1)"
    and "\<exists>resp err. LoadBalancers_Update (l_client l) (lb_ID lb) req w1 = ((lb', resp, err), w') \<and> err = None"
    by (clarsimp simp: updateLoadBalancer_def Let_def outcome_simps)
      (clarsimp simp: outcome_simps split: option.split_asm)
  then show ?thesis by blast
qed

lemma lb_buildRequest_no_ip:
  assumes "lb_buildLoadBalancerRequest l s nodes ids w = (Ok (req, pending), w')"
  shows "req_IP req = ''''"
proof (rule lb_buildRequest_Ok [OF assms])
  fix t n admit req0 w1
  assume built: "buildLoadBalancerRequestWithNodeState (l_client l) s (l_defaultLBType l)
       (Some (filterAndClassifyNodes admit t n)) w = (Ok req0, w1)"
    and req: "req = req0\<lparr>req_DropletIDs := req_DropletIDs req,
            req_Tags := (if l_clusterID l \<noteq> '''' then [buildK8sTag (l_clusterID l)] else []),
            req_Region := l_region l, req_VPCUUID := l_clusterVPCID l\<rparr>"
  have "req_IP req = req_IP req0" by (subst req) simp
  with buildRequest_Ok(6) [OF built] show ?thesis by simp
qed

text \<open>
  C2: No backend is evicted by a readiness flap, and an update never carries an IP address: the
  request that a successful update sends keeps every droplet that already backs the load
  balancer and whose node is listed with a usable address, whatever the conditions and
  taints of the node.\<close>

theorem update_keeps_backends:
  assumes "updateLoadBalancer l lb nodes (s, w) = (Ok (lb', pnr), (s', w'))"
    and "getType s' (l_defaultLBType l) = Ok lbType" and "getNetwork s' = Ok lbNetwork"
  shows "\<exists>req w1 resp. LoadBalancers_Update (l_client l) (lb_ID lb) req w1 = ((lb', resp, None), w')
     \<and> req_IP req = ''''
     \<and> (\<forall>node \<in> set (lbReadyNodes (filterAndClassifyNodes nodes lbType lbNetwork)).
          \<forall>i \<in> set (lb_DropletIDs lb).
            dropletIDFromProviderID (node_ProviderID node) = Ok i \<longrightarrow> i \<in> set (req_DropletIDs req))"
proof -
  from updateLoadBalancer_Ok [OF assms(1)] obtain req w0 w1 resp where
    build: "lb_buildLoadBalancerRequest l s' nodes (admittedDropletIDSet (Some lb)) w0 = (Ok (req, pnr), w1)"
    and upd: "LoadBalancers_Update (l_client l) (lb_ID lb) req w1 = ((lb', resp, None), w')"
    by blast
  from upd lb_buildRequest_no_ip [OF build] admitted_backend_kept [OF build assms(2,3)]
  show ?thesis by blast
qed

lemma with_patcher_Ok:
  "with_patcher c body (s, w) = (Ok x, (s', w')) \<Longrightarrow> \<exists>w0. body (s, w) = (Ok x, (s', w0))"
  by (auto simp: with_patcher_def servicePatcher_Patch_def NewAggregate_def map_filter_simps
      split: prod.splits outcome.splits option.splits if_splits)

lemma ensureStatus_Ok:
  "ensureStatus s lb pending pnr = Ok ing \<Longrightarrow>
     lb_Status lb = lbStatusActive \<and> pending = [] \<and> pnr = []
     \<and> ing = (if getHostname s \<noteq> '''' then [\<lparr>ing_IP = '''', ing_Hostname = getHostname s\<rparr>] else statusIngress lb)"
  using retryIfNodesPendingInit_eq_None [of s pending pnr]
  by (auto simp: ensureStatus_def Let_def split: if_splits option.splits)

lemma createLoadBalancer_Ok:
  assumes "createLoadBalancer l req (s, w) = (Ok lb, (s', w'))"
  shows "s' = updateServiceAnnotation (updateServiceAnnotation s annDOLoadBalancerID (lb_ID lb)) annDOType (lb_Type lb)
     \<and> (\<exists>resp. LoadBalancers_Create (l_client l)
          (if getLoadBalancerIP s \<noteq> '''' then req\<lparr>req_IP := getLoadBalancerIP s\<rparr> else req) w = ((Some lb, resp, None), w'))"
  using assms
  by (auto simp: createLoadBalancer_def Let_def bindM_def get_service_def on_world_def api_def deref_def
      annotate_def returnM_def liftR_def split: prod.splits option.splits)

lemma managed_keys_neq [simp]:
  "annDOLoadBalancerID \<noteq> annDOType" "annDOLoadBalancerID \<noteq> annDOCertificateID"
  "annDOType \<noteq> annDOCertificateID"
  by (simp_all add: ann_defs)

definition records_lb :: "Service \<Rightarrow> LoadBalancer \<Rightarrow> bool" where
  "records_lb s lb \<longleftrightarrow> ann_lookup s annDOLoadBalancerID = Some (lb_ID lb) \<and> ann_lookup s annDOType = Some (lb_Type lb)"

lemma records_lb_annotated:
  "records_lb (updateServiceAnnotation (updateServiceAnnotation s annDOLoadBalancerID (lb_ID lb)) annDOType (lb_Type lb)) lb"
  by (simp add: records_lb_def svc_ann.look_upd)

lemma records_lb_update:
  assumes "updateLoadBalancer l lb nodes (s, w) = (r, (s', w'))" and "records_lb s lb0"
  shows "records_lb s' lb0"
proof -
  have "svc.keeps [annDOCertificateID] (updateLoadBalancer l lb nodes)"
    by (rule keeps_updateLoadBalancer) simp
  from svc.keepsD [OF this assms(1)] assms(2) show ?thesis
    by (simp add: service_frame_def records_lb_def)
qed


text \<open>
  The API call that wrote the load balancer, with a request that held no node back: a
  creation for the service as it was given, or an update of the load balancer that the
  service records.
\<close>

definition created_with :: "'w loadBalancers \<Rightarrow> Node list \<Rightarrow> Service \<Rightarrow> LoadBalancer \<Rightarrow> bool" where
  "created_with l nodes s lb \<longleftrightarrow> (\<exists>req wa wb wc resp.
     lb_buildLoadBalancerRequest l s nodes [] wa = (Ok (req, []), wb)
     \<and> LoadBalancers_Create (l_client l)
          (if getLoadBalancerIP s \<noteq> '''' then req\<lparr>req_IP := getLoadBalancerIP s\<rparr> else req) wb
        = ((Some lb, resp, None), wc))"

definition updated_with ::
    "'w loadBalancers \<Rightarrow> Node list \<Rightarrow> Service \<Rightarrow> LoadBalancer \<Rightarrow> LoadBalancer \<Rightarrow> bool" where
  "updated_with l nodes s lb0 lb \<longleftrightarrow> (\<exists>req wa wb wc resp.
     lb_buildLoadBalancerRequest l s nodes (admittedDropletIDSet (Some lb0)) wa = (Ok (req, []), wb)
     \<and> LoadBalancers_Update (l_client l) (lb_ID lb0) req wb = ((Some lb, resp, None), wc))"

lemma ensureBody_created:
  assumes "createLoadBalancer l req (s, w1) = (Ok lb, (s', w2))"
    and "lb_buildLoadBalancerRequest l s nodes (admittedDropletIDSet None) w0 = (Ok (req, []), w1)"
  shows "records_lb s' lb \<and> created_with l nodes s lb"
proof -
  have "admittedDropletIDSet None = []" by (simp add: admittedDropletIDSet_def)
  with assms(2) createLoadBalancer_Ok [OF assms(1)] records_lb_annotated show ?thesis
    unfolding created_with_def by metis
qed

lemma ensureBody_updated:
  assumes "retrieveAndAnnotateLoadBalancer c (s, w0) = (Ok lb0, (s1, w1))"
    and "updateLoadBalancer l lb0 nodes (s1, w2) = (Ok (Some lb, []), (s', w3))"
  shows "records_lb s' lb0 \<and> updated_with l nodes s' lb0 lb"
proof -
  from assms(1) have "records_lb s1 lb0"
    by (auto simp: retrieveAndAnnotate_Ok intro: records_lb_annotated)
  with records_lb_update [OF assms(2)] updateLoadBalancer_Ok [OF assms(2)] show ?thesis
    unfolding updated_with_def by blast
qed

lemma ensureBody_Ok:
  assumes "ensureBody l nodes (s, w) = (Ok ing, (s', w'))"
  shows "\<exists>lb lb0. lb_Status lb = lbStatusActive
     \<and> ing = (if getHostname s' \<noteq> '''' then [\<lparr>ing_IP = '''', ing_Hostname = getHostname s'\<rparr>]
              else statusIngress lb)
     \<and> prepareNodesForLBSync (l_defaultLBType l) s nodes = Ok []
     \<and> records_lb s' lb0
     \<and> (created_with l nodes s lb \<and> lb0 = lb \<or> updated_with l nodes s' lb0 lb)"
proof -
  from assms obtain pending found s1 w1 req pnr0 w2 lb pnr where
    prep: "prepareNodesForLBSync (l_defaultLBType l) s nodes = Ok pending"
    and found: "attempt (retrieveAndAnnotateLoadBalancer (l_client l)) (s, w) = (Ok found, (s1, w1))"
    and build: "lb_buildLoadBalancerRequest l s1 nodes
       (admittedDropletIDSet (case found of Inl _ \<Rightarrow> None | Inr lb \<Rightarrow> Some lb)) w1 = (Ok (req, pnr0), w2)"
    and wr: "(case found of
          Inl lbErr \<Rightarrow>
            if lbErr = ErrLBNotFound
            then bindM (createLoadBalancer l req) (\<lambda>lb. returnM (Some lb, pnr0))
            else returnM (None, pnr0)
        | Inr lb \<Rightarrow> updateLoadBalancer l lb nodes) (s1, w2) = (Ok (Some lb, pnr), (s', w'))"
    and status: "ensureStatus s' lb pending pnr = Ok ing"
    by (clarsimp simp: ensureBody_def Let_def outcome_simps)
      (clarsimp simp: outcome_simps split: if_split_asm sum.split_asm)
  note st = ensureStatus_Ok [OF status]
  show ?thesis
  proof (cases found)
    case (Inl e)
    with wr st have e: "createLoadBalancer l req (s1, w2) = (Ok lb, (s', w'))" "pnr0 = []"
      by (auto simp: outcome_simps split: if_split_asm)
    moreover from found Inl have "s1 = s"
      by (auto simp: outcome_simps retrieveAndAnnotate_Err)
    ultimately show ?thesis
      using ensureBody_created [of l req s w2 lb s' w' nodes w1] build Inl prep st by auto
  next
    case (Inr lb0)
    with found have "retrieveAndAnnotateLoadBalancer (l_client l) (s, w) = (Ok lb0, (s1, w1))"
      by (simp add: outcome_simps)
    from ensureBody_updated [OF this, of l nodes w2 lb s' w'] wr Inr st prep show ?thesis by auto
  qed
qed


section \<open>Example runs\<close>

definition ok_response :: "Response option" where
  "ok_response = Some \<lparr>resp_StatusCode = 200, resp_Links = None\<rparr>"

definition not_found_response :: "Response option" where
  "not_found_response = Some \<lparr>resp_StatusCode = 404, resp_Links = None\<rparr>"

definition active_lb :: LoadBalancer where
  "active_lb = \<lparr>lb_ID = ''lb-1'', lb_Name = ''aabc123def'', lb_IP = ''198.51.100.4'', lb_IPv6 = '''',
     lb_Type = ''REGIONAL_NETWORK'', lb_Status = ''active'', lb_ForwardingRules = [],
     lb_DropletIDs = [42]\<rparr>"

text \<open>An account that has no load balancer until one is created.\<close>

definition lb_client :: "unit client" where
  "lb_client = offline_client\<lparr>
     LoadBalancers_List := (\<lambda>p n w. (([], ok_response, None), w)),
     LoadBalancers_Get := (\<lambda>i w. ((None, not_found_response, Some (ErrorResponse 404 ''gone'')), w)),
     LoadBalancers_Create := (\<lambda>r w. ((Some active_lb, ok_response, None), w)),
     LoadBalancers_Update := (\<lambda>i r w. ((Some active_lb, ok_response, None), w)),
     Services_Patch := (\<lambda>b u w. (None, w))\<rparr>"

lemma lb_client_lookup:
  "retrieveLoadBalancer lb_client synced_service () = (Err ErrLBNotFound, ())"
  "retrieveLoadBalancer lb_client plain_service () = (Err ErrLBNotFound, ())"
proof -
  have ids: "getLoadBalancerID synced_service = ''lb-1''" "getLoadBalancerID plain_service = ''''"
    by code_simp+
  have none: "findLoadBalancerByName plain_service [] = None"
    by (simp add: findLoadBalancerByName_def Let_def)
  have fuel: "page_fuel lb_client = Suc 9" by (simp add: lb_client_def offline_client_def Let_def)
  have calls: "LoadBalancers_Get lb_client i w = ((None, not_found_response, Some (ErrorResponse 404 ''gone'')), w)"
    "LoadBalancers_List lb_client p n w = (([], ok_response, None), w)" for i p n w
    by (simp_all add: lb_client_def)
  have list: "allLoadBalancerList lb_client () = (Ok [], ())"
    unfolding allLoadBalancerList_def fuel allLoadBalancerList_loop.simps
    by (simp add: bindM_def api_def calls ok_response_def returnM_def)
  show "retrieveLoadBalancer lb_client synced_service () = (Err ErrLBNotFound, ())"
    by (simp add: retrieveLoadBalancer_def ids findLoadBalancerByID_def bindM_def api_def calls
        is_StatusNotFound_def not_found_response_def StatusNotFound_def liftR_def)
  show "retrieveLoadBalancer lb_client plain_service () = (Err ErrLBNotFound, ())"
    by (simp add: retrieveLoadBalancer_def ids list bindM_def none liftR_def)
qed

theorem EnsureLoadBalancerDeleted_succeeds_iff_witness:
  "EnsureLoadBalancerDeleted lb_client synced_service () = (Ok (), ())"
proof -
  have owned: "getDisownLB synced_service = Ok False" by code_simp
  have gone: "retrieveLoadBalancer lb_client synced_service () = (Err ErrLBNotFound, ())"
    by (rule lb_client_lookup)
  show ?thesis by (simp add: EnsureLoadBalancerDeleted_succeeds_iff [OF owned] gone)
qed

definition renewed_certs_client :: "unit client" where
  "renewed_certs_client = offline_client\<lparr>Certificates_Get := (\<lambda>i w.
     ((Some \<lparr>cert_ID = i, cert_Name = ''site'', cert_Type = ''lets_encrypt''\<rparr>, ok_response, None), w))\<rparr>"

theorem recordUpdatedLetsEncryptCert_only_renewals_witness:
  "\<exists>s'. recordUpdatedLetsEncryptCert renewed_certs_client ''new'' ''old'' (plain_service, ()) = (Ok (), (s', ()))
     \<and> s' = updateServiceAnnotation plain_service annDOCertificateID ''new''"
proof -
  let ?s = "plain_service\<lparr>svc_Annotations := [(annDOCertificateID, ''new'')]\<rparr>"
  have run: "recordUpdatedLetsEncryptCert renewed_certs_client ''new'' ''old'' (plain_service, ()) = (Ok (), (?s, ()))"
    by code_simp
  have "?s \<noteq> plain_service" by code_simp
  from recordUpdatedLetsEncryptCert_only_renewals [OF run this] run show ?thesis by blast
qed

lemma example_update_run:
  "updateLoadBalancer (example_lbs lb_client) active_lb example_nodes (synced_service, ())
     = (Ok (Some active_lb, [tainted_node]), (synced_service, ()))"
proof -
  have ids: "admittedDropletIDSet (Some active_lb) \<in> {[], [42]}" by code_simp
  have cert: "getCertificateIDFromLB active_lb = ''''" "findCertificateID lb_client synced_service () = (Ok '''', ())"
    by code_simp+
  have build: "lb_buildLoadBalancerRequest (example_lbs lb_client) synced_service example_nodes
     (admittedDropletIDSet (Some active_lb)) () = (Ok (example_request, [tainted_node]), ())"
    by (rule example_request_built [OF _ ids]) simp
  have client: "l_client (example_lbs lb_client) = lb_client" by (simp add: example_lbs_def)
  have "LoadBalancers_Update lb_client i r w = ((Some active_lb, ok_response, None), w)" for i r w
    by (simp add: lb_client_def)
  then show ?thesis
    by (simp add: updateLoadBalancer_def Let_def bindM_def get_service_def on_world_def map_errM_def build
        client cert recordUpdatedLetsEncryptCert_def returnM_def api_def)
qed

theorem update_keeps_backends_witness:
  "\<exists>req w1 resp. LoadBalancers_Update lb_client ''lb-1'' req w1 = ((Some active_lb, resp, None), ())
     \<and> req_IP req = '''' \<and> 42 \<in> set (req_DropletIDs req)"
proof -
  have t: "getType synced_service (l_defaultLBType (example_lbs lb_client)) = Ok LoadBalancerTypeRegionalNetwork"
    and n: "getNetwork synced_service = Ok LoadBalancerNetworkTypeExternal"
    and i: "dropletIDFromProviderID (node_ProviderID example_node) = Ok 42"
    and m: "42 \<in> set (lb_DropletIDs active_lb)" "lb_ID active_lb = ''lb-1''"
    and c: "example_node \<in> set (lbReadyNodes (filterAndClassifyNodes example_nodes
       LoadBalancerTypeRegionalNetwork LoadBalancerNetworkTypeExternal))"
    by code_simp+
  have client: "l_client (example_lbs lb_client) = lb_client" by (simp add: example_lbs_def)
  from update_keeps_backends [OF example_update_run t n] show ?thesis
    unfolding client m(2) using i m(1) c by blast
qed

lemma example_ensure_run:
  "EnsureLoadBalancer (example_lbs lb_client) [example_node] (plain_service, ())
     = (Ok [\<lparr>ing_IP = ''198.51.100.4'', ing_Hostname = ''''\<rparr>], (synced_service, ()))"
proof -
  have own: "getDisownLB plain_service = Ok False"
    and prep: "prepareNodesForLBSync LoadBalancerTypeRegionalNetwork plain_service [example_node] = Ok []"
    and make: "createLoadBalancer (example_lbs lb_client) example_request (plain_service, ())
       = (Ok active_lb, (synced_service, ()))"
    and status: "ensureStatus synced_service active_lb [] [] = Ok [\<lparr>ing_IP = ''198.51.100.4'', ing_Hostname = ''''\<rparr>]"
    and patch: "servicePatcher_Patch lb_client plain_service synced_service None () = (None, ())"
    by code_simp+
  have build: "lb_buildLoadBalancerRequest (example_lbs lb_client) plain_service [example_node]
     (admittedDropletIDSet None) () = (Ok (example_request, []), ())"
    by (simp add: admittedDropletIDSet_def example_request_built_one)
  have look: "retrieveAndAnnotateLoadBalancer lb_client (plain_service, ()) = (Err ErrLBNotFound, (plain_service, ()))"
    by (simp add: retrieveAndAnnotate_Err lb_client_lookup)
  have config: "l_client (example_lbs lb_client) = lb_client"
    "l_defaultLBType (example_lbs lb_client) = LoadBalancerTypeRegionalNetwork"
    by (simp_all add: example_lbs_def)
  have body: "ensureBody (example_lbs lb_client) [example_node] (plain_service, ())
     = (Ok [\<lparr>ing_IP = ''198.51.100.4'', ing_Hostname = ''''\<rparr>], (synced_service, ()))"
    by (simp add: ensureBody_def Let_def bindM_def get_service_def on_world_def map_errM_def attempt_def
        liftR_def returnM_def build look make status prep config)
  show ?thesis
    by (simp add: EnsureLoadBalancer_def unless_disowned_def bindM_def get_service_def liftR_def own
        with_patcher_def body patch config)
qed


end
