(* ===== verification/Resources.thy ===== *)
theory Resources
  imports LoadBalancers
begin

text \<open>
  The resources controller of resources.go: the settings shared by the parts of the cloud
  provider, the periodic synchroniser, and the task it runs, which tags the load balancers of
  the cluster's services with the cluster ID.
\<close>

section \<open>Settings and state\<close>

record publicAccessFirewall =
  paf_name :: string
  paf_tags :: "string list"

text \<open>The Kubernetes client, set when the provider is initialised, is part of the API client here.\<close>

record 'w resources =
  r_clusterID :: string
  r_clusterVPCID :: string
  r_firewall :: publicAccessFirewall
  r_gclient :: "'w client"

definition newResources ::
    "string \<Rightarrow> string \<Rightarrow> publicAccessFirewall \<Rightarrow> 'w client \<Rightarrow> 'w resources" where
  "newResources clusterID clusterVPCID publicAccessFW gclient =
     \<lparr>r_clusterID = clusterID, r_clusterVPCID = clusterVPCID, r_firewall = publicAccessFW,
      r_gclient = gclient\<rparr>"

record 'w ResourcesController =
  rc_resources :: "'w resources"
  rc_svcLister :: "'w \<Rightarrow> Service list \<times> error option"

definition NewResourcesController ::
    "'w resources \<Rightarrow> ('w \<Rightarrow> Service list \<times> error option) \<Rightarrow> 'w ResourcesController" where
  "NewResourcesController r lister = \<lparr>rc_resources = r, rc_svcLister = lister\<rparr>"

section \<open>Tagging\<close>

definition LoadBalancerResourceType :: string where
  "LoadBalancerResourceType = ''load_balancer''"

definition tagResources :: "'w ResourcesController \<Rightarrow> Resource list \<Rightarrow> ('w, unit) cmd" where
  "tagResources rc res =
     (let tag = buildK8sTag (r_clusterID (rc_resources rc)) in
      bindM (api (Tags_TagResources (r_gclient (rc_resources rc)) tag res)) (\<lambda>(_, resp, err).
      if is_StatusNotFound resp
      then liftR (Err (TagMissingError (NewError (''tag '' @ quote tag @ '' does not exist''))))
      else case err of None \<Rightarrow> returnM () | Some e \<Rightarrow> liftR (Err e)))"

fun is_tagMissingError :: "error \<Rightarrow> bool" where
  "is_tagMissingError (TagMissingError e) = True"
| "is_tagMissingError _ = False"

definition show_resource :: "Resource \<Rightarrow> string" where
  "show_resource r = ''{'' @ res_ID r @ '' '' @ res_Type r @ ''}''"

definition loadBalancerServices :: "Service list \<Rightarrow> Service list" where
  "loadBalancerServices svcs = filter (\<lambda>svc. svc_Type svc = ServiceTypeLoadBalancer) svcs"

definition tagTargets :: "Service list \<Rightarrow> LoadBalancer list \<Rightarrow> Resource list" where
  "tagTargets lbSvcs lbs =
     List.map_filter (\<lambda>svc.
       let i = findLoadBalancerID svc lbs in
       if i \<noteq> '''' then Some \<lparr>res_ID = i, res_Type = LoadBalancerResourceType\<rparr> else None) lbSvcs"

definition syncTags :: "'w ResourcesController \<Rightarrow> ('w, unit) cmd" where
  "syncTags rc =
     bindM get_state (\<lambda>w.
     case rc_svcLister rc w of (svcs, err) \<Rightarrow>
       (case err of
          Some e \<Rightarrow> liftR (Err (Errorf ''failed to list services: '' e ''''))
        | None \<Rightarrow>
            let lbSvcs = loadBalancerServices svcs; c = r_gclient (rc_resources rc) in
            if length lbSvcs = 0 then returnM ()
            else
            bindM (map_errM (\<lambda>e. Errorf ''failed to list load-balancers: '' e '''') (allLoadBalancerList c)) (\<lambda>lbs.
            let res = tagTargets lbSvcs lbs in
            if length res = 0 then returnM ()
            else
            let tag = buildK8sTag (r_clusterID (rc_resources rc)) in
            bindM (attempt (tagResources rc res)) (\<lambda>tagged.
            bindM
              (case tagged of
                 Inl e \<Rightarrow>
                   if is_tagMissingError e
                   then bindM (api (Tags_Create c tag)) (\<lambda>(_, resp, err).
                     case err of
                       Some e \<Rightarrow> liftR (Err (Errorf (''failed to create tag '' @ quote tag @ '': '') e ''''))
                     | None \<Rightarrow> attempt (tagResources rc res))
                   else returnM (Inl e)
               | Inr _ \<Rightarrow> returnM tagged)
              (\<lambda>tagged.
            case tagged of
              Inl e \<Rightarrow> liftR (Err (Errorf (''failed to tag LB resource(s) '' @ show_list (map show_resource res) @
                 '' with tag '' @ quote tag @ '': '') e ''''))
            | Inr _ \<Rightarrow> returnM ())))))"

section \<open>The periodic synchroniser\<close>

text \<open>
  What the select statements of \<^verbatim>\<open>tickerSyncer.Sync\<close> can receive. The ticker runs from the
  start and its channel holds one tick, so of the ticks during the initial delay one is left
  when it is over. The synchroniser returns when it is stopped; the end of the list of events is
  where it is still waiting. An error of the task is logged; a panic ends the program.
\<close>

datatype syncEvent = InitialDelayOver | TickerFired | StopRequested

definition sync_call :: "('s, unit) cmd \<Rightarrow> ('s, unit) cmd" where
  "sync_call fn = bindM (attempt fn) (\<lambda>_. returnM ())"

fun sync_loop :: "('s, unit) cmd \<Rightarrow> syncEvent list \<Rightarrow> ('s, unit) cmd" where
  "sync_loop fn [] = returnM ()"
| "sync_loop fn (TickerFired # evs) = bindM (sync_call fn) (\<lambda>_. sync_loop fn evs)"
| "sync_loop fn (StopRequested # evs) = returnM ()"
| "sync_loop fn (InitialDelayOver # evs) = sync_loop fn evs"

fun sync_delay :: "('s, unit) cmd \<Rightarrow> bool \<Rightarrow> syncEvent list \<Rightarrow> ('s, unit) cmd" where
  "sync_delay fn tick [] = returnM ()"
| "sync_delay fn tick (InitialDelayOver # evs) = sync_loop fn (if tick then TickerFired # evs else evs)"
| "sync_delay fn tick (StopRequested # evs) = returnM ()"
| "sync_delay fn tick (TickerFired # evs) = sync_delay fn True evs"

definition Sync :: "('s, unit) cmd \<Rightarrow> syncEvent list \<Rightarrow> ('s, unit) cmd" where
  "Sync fn evs = bindM (sync_call fn) (\<lambda>_. sync_delay fn False evs)"

definition ResourcesController_Run :: "'w ResourcesController \<Rightarrow> syncEvent list \<Rightarrow> ('w, unit) cmd" where
  "ResourcesController_Run rc evs =
     (if r_clusterID (rc_resources rc) = '''' then returnM () else Sync (syncTags rc) evs)"

section \<open>What is tagged\<close>

lemma tagTargets_iff:
  "r \<in> set (tagTargets svcs lbs) \<longleftrightarrow>
     (\<exists>s \<in> set svcs. findLoadBalancerID s lbs = res_ID r) \<and> res_ID r \<noteq> '''' \<and> res_Type r = LoadBalancerResourceType"
  by (cases r) (auto simp: tagTargets_def mem_map_filter Let_def split: if_splits)

lemma tagResources_cases:
  assumes "Tags_TagResources (r_gclient (rc_resources rc)) (buildK8sTag (r_clusterID (rc_resources rc))) res w
     = ((x, resp, err), w')"
  shows "tagResources rc res w =
     (if is_StatusNotFound resp
      then Err (TagMissingError (NewError (''tag '' @ quote (buildK8sTag (r_clusterID (rc_resources rc))) @ '' does not exist'')))
      else case err of None \<Rightarrow> Ok () | Some e \<Rightarrow> Err e, w')"
  using assms by (auto simp: tagResources_def bindM_def api_def liftR_def returnM_def Let_def split: option.splits)

text \<open>
  The calls a successful run makes: the known load balancers are tagged; when the API reports
  the tag as missing, it is created once and the same load balancers are tagged again.
\<close>

definition tagged_ok :: "'w client \<Rightarrow> string \<Rightarrow> Resource list \<Rightarrow> 'w \<Rightarrow> 'w \<Rightarrow> bool" where
  "tagged_ok c tag res w w' \<longleftrightarrow>
     (\<exists>resp. Tags_TagResources c tag res w = (((), resp, None), w') \<and> \<not> is_StatusNotFound resp)"

definition tag_missing :: "'w client \<Rightarrow> string \<Rightarrow> Resource list \<Rightarrow> 'w \<Rightarrow> 'w \<Rightarrow> bool" where
  "tag_missing c tag res w w' \<longleftrightarrow>
     (\<exists>resp err. Tags_TagResources c tag res w = (((), resp, err), w') \<and> is_StatusNotFound resp)"

lemma tagResources_reply:
  assumes "Tags_TagResources (r_gclient (rc_resources rc)) (buildK8sTag (r_clusterID (rc_resources rc))) res w
     = ((x, resp, err), u)"
  shows "attempt (tagResources rc res) w =
     (Ok (if is_StatusNotFound resp
          then Inl (TagMissingError (NewError (''tag '' @ quote (buildK8sTag (r_clusterID (rc_resources rc))) @ '' does not exist'')))
          else case err of None \<Rightarrow> Inr () | Some e \<Rightarrow> Inl e), u)"
  using tagResources_cases [OF assms] by (auto simp: attempt_def split: option.splits)


section \<open>Runs of the synchroniser\<close>

text \<open>A task that does not crash: it returns, with or without an error.\<close>

definition returns :: "('s, unit) cmd \<Rightarrow> bool" where
  "returns fn \<longleftrightarrow> (\<forall>s. \<exists>t. fn s = (Ok (), t) \<or> (\<exists>e. fn s = (Err e, t)))"

lemma sync_call_returns: "returns fn \<Longrightarrow> sync_call fn s = (Ok (), snd (fn s))"
  by (auto simp: returns_def sync_call_def attempt_def bindM_def returnM_def split: prod.splits outcome.splits)
    (metis outcome.distinct fst_conv)+

lemma sync_loop_ticks:
  "returns fn \<Longrightarrow>
   sync_loop fn (replicate n TickerFired @ evs) s = sync_loop fn evs (((\<lambda>s. snd (fn s)) ^^ n) s)"
proof (induction n arbitrary: s)
  case (Suc n)
  then show ?case by (simp add: bindM_def sync_call_returns funpow_Suc_right del: funpow.simps)
qed simp

lemma sync_delay_ticks: "sync_delay fn b (replicate k TickerFired @ evs) = sync_delay fn (b \<or> 0 < k) evs"
  by (induction k arbitrary: b) auto

text \<open>
  The synchroniser keeps running when its task fails: the task runs once at the start and once for each
  tick that is received until it is stopped, whatever the earlier runs have returned; the ticks
  of the initial delay count as one, and nothing runs after the stop.\<close>

theorem Sync_runs:
  assumes "returns fn"
  shows "Sync fn (replicate k TickerFired @ InitialDelayOver # replicate n TickerFired @ StopRequested # rest) s
     = (Ok (), ((\<lambda>s. snd (fn s)) ^^ (1 + min k 1 + n)) s)"
proof -
  have stop: "sync_loop fn (replicate m TickerFired @ StopRequested # rest) t
      = (Ok (), ((\<lambda>s. snd (fn s)) ^^ m) t)" for m t
    by (simp add: sync_loop_ticks [OF assms] returnM_def)
  have "(if 0 < k then TickerFired # replicate n TickerFired @ StopRequested # rest
       else replicate n TickerFired @ StopRequested # rest)
     = replicate (min k 1 + n) TickerFired @ StopRequested # rest"
    by (cases k) simp_all
  then show ?thesis
    by (simp add: Sync_def bindM_def sync_call_returns [OF assms] sync_delay_ticks stop funpow_Suc_right
        del: replicate.simps funpow.simps)
qed

text \<open>Without LoadBalancer services, and without a cluster ID, nothing is called.\<close>

lemma syncTags_idle:
  "rc_svcLister rc w = (svcs, None) \<Longrightarrow> loadBalancerServices svcs = [] \<Longrightarrow> syncTags rc w = (Ok (), w)"
  by (simp add: syncTags_def returnM_def)

lemma Run_without_cluster_ID:
  "r_clusterID (rc_resources rc) = '''' \<Longrightarrow> ResourcesController_Run rc evs w = (Ok (), w)"
  by (simp add: ResourcesController_Run_def returnM_def)

section \<open>Examples\<close>

text \<open>An API in which the world is whether the tag exists.\<close>

definition tag_client :: "bool client" where
  "tag_client = offline_client
     \<lparr>LoadBalancers_List := (\<lambda>p n w. (([], Some \<lparr>resp_StatusCode = 200, resp_Links = None\<rparr>, None), w)),
      Tags_Create := (\<lambda>t w. (((), Some \<lparr>resp_StatusCode = 201, resp_Links = None\<rparr>, None), True)),
      Tags_TagResources := (\<lambda>t r w. (if w then ((), Some \<lparr>resp_StatusCode = 204, resp_Links = None\<rparr>, None)
         else ((), Some \<lparr>resp_StatusCode = 404, resp_Links = None\<rparr>, Some (ErrorResponse 404 ''no such tag'')), w))\<rparr>"

definition example_rc :: "bool ResourcesController" where
  "example_rc = NewResourcesController
     (newResources ''cluster-1'' ''vpc-1'' \<lparr>paf_name = '''', paf_tags = []\<rparr> tag_client) (\<lambda>w. ([synced_service], None))"


theorem Sync_runs_witness:
  "Sync (\<lambda>s. (Err (OtherError ''down''), s + 1))
     [TickerFired, InitialDelayOver, TickerFired, TickerFired, StopRequested, TickerFired] (0 :: nat) = (Ok (), 4)"
proof -
  have "returns (\<lambda>s :: nat. (Err (OtherError ''down''), s + 1))" by (simp add: returns_def)
  from Sync_runs [OF this, of 1 2 "[TickerFired]" 0] show ?thesis by (simp add: numeral_2_eq_2)
qed

end
