(* ===== verification/Firewall_Diff.thy ===== *)
theory Firewall_Diff
  imports Cloud_Types
begin

text \<open>
  Printing and comparing firewalls: firewall_controller_print.go and
  firewall_controller_diff.go. Two firewalls are equal when their names and tags are equal
  and their rules match after sorting by the printed form; of a rule's sources and
  destinations only the addresses and the load balancers count.
\<close>

section \<open>Printing\<close>

definition missingFirewallLabel :: string where "missingFirewallLabel = ''<n/a>''"

definition ruleOpeningToken :: string where "ruleOpeningToken = ''<''"

definition ruleClosingToken :: string where "ruleClosingToken = ''>''"

text \<open>An empty port range and \<^verbatim>\<open>all\<close> mean all ports, which responses write as \<^verbatim>\<open>0\<close>.\<close>

definition sanitizePortRange :: "string \<Rightarrow> string" where
  "sanitizePortRange pr = (if pr = '''' \<or> pr = ''all'' then ''0'' else pr)"

definition printInboundRule :: "InboundRule \<Rightarrow> string" where
  "printInboundRule r =
     ruleOpeningToken @ ''Proto:'' @ ir_Protocol r @ '' PortRange:'' @ sanitizePortRange (ir_PortRange r) @
     (case ir_Sources r of
        None \<Rightarrow> ''''
      | Some src \<Rightarrow>
          (if length (src_Addresses src) > 0 then '' AddrSources:'' @ show_list (src_Addresses src) else '''') @
          (if length (src_LoadBalancerUIDs src) > 0
           then '' LoadBalancerUIDsSources:'' @ show_list (src_LoadBalancerUIDs src) else '''')) @
     ruleClosingToken"

definition printOutboundRule :: "OutboundRule \<Rightarrow> string" where
  "printOutboundRule r =
     ruleOpeningToken @ ''Proto:'' @ or_Protocol r @ '' PortRange:'' @ sanitizePortRange (or_PortRange r) @
     (case or_Destinations r of
        None \<Rightarrow> ''''
      | Some dst \<Rightarrow> '' AddrDestinations:'' @ show_list (src_Addresses dst)) @
     ruleClosingToken"

definition printInboundRules :: "InboundRule list \<Rightarrow> string" where
  "printInboundRules rules = join '' '' (sort_Strings (map printInboundRule rules))"

definition printOutboundRules :: "OutboundRule list \<Rightarrow> string" where
  "printOutboundRules rules = join '' '' (sort_Strings (map printOutboundRule rules))"

definition printFirewallParts ::
    "string \<Rightarrow> InboundRule list \<Rightarrow> OutboundRule list \<Rightarrow> string list \<Rightarrow> string" where
  "printFirewallParts name inboundRules outboundRules tags =
     join '' '' [''Name:'' @ name, ''inRules:['' @ printInboundRules inboundRules @ '']'',
       ''outRules:['' @ printOutboundRules outboundRules @ '']'', ''Tags:'' @ show_list tags]"

definition printRelevantFirewallParts :: "Firewall option \<Rightarrow> string" where
  "printRelevantFirewallParts fwp =
     (case fwp of None \<Rightarrow> missingFirewallLabel
      | Some fw \<Rightarrow> printFirewallParts (fw_Name fw) (fw_InboundRules fw) (fw_OutboundRules fw) (fw_Tags fw))"

definition printRelevantFirewallRequestParts :: "FirewallRequest option \<Rightarrow> string" where
  "printRelevantFirewallRequestParts frp =
     (case frp of None \<Rightarrow> missingFirewallLabel
      | Some fr \<Rightarrow> printFirewallParts (fwr_Name fr) (fwr_InboundRules fr) (fwr_OutboundRules fr) (fwr_Tags fr))"

section \<open>Comparing\<close>

record comparableFirewall =
  cf_Name :: string
  cf_InboundRules :: "InboundRule list"
  cf_OutboundRules :: "OutboundRule list"
  cf_Tags :: "string list"

definition compFirewallFromFirewall :: "Firewall option \<Rightarrow> comparableFirewall option" where
  "compFirewallFromFirewall fwp =
     map_option (\<lambda>fw. \<lparr>cf_Name = fw_Name fw, cf_InboundRules = fw_InboundRules fw,
       cf_OutboundRules = fw_OutboundRules fw, cf_Tags = fw_Tags fw\<rparr>) fwp"

definition compFirewallFromFirewallRequest :: "FirewallRequest option \<Rightarrow> comparableFirewall option" where
  "compFirewallFromFirewallRequest frp =
     map_option (\<lambda>fr. \<lparr>cf_Name = fwr_Name fr, cf_InboundRules = fwr_InboundRules fr,
       cf_OutboundRules = fwr_OutboundRules fr, cf_Tags = fwr_Tags fr\<rparr>) frp"

text \<open>
  What go-cmp compares under the options of \<^verbatim>\<open>compFirewallsEqual\<close>: a pointer to sources is
  compared with its target, both nil or both set; of the target the addresses and load
  balancer IDs are compared in order; port ranges are compared after sanitizing; the
  remaining fields of a rule are compared as they are.
\<close>

definition sources_equal :: "Sources option \<Rightarrow> Sources option \<Rightarrow> bool" where
  "sources_equal p q =
     (case (p, q) of
        (None, None) \<Rightarrow> True
      | (Some s, Some t) \<Rightarrow>
          src_Addresses s = src_Addresses t \<and> src_LoadBalancerUIDs s = src_LoadBalancerUIDs t
      | _ \<Rightarrow> False)"

definition inbound_equal :: "InboundRule \<Rightarrow> InboundRule \<Rightarrow> bool" where
  "inbound_equal r s =
     (ir_Protocol r = ir_Protocol s
      \<and> sanitizePortRange (ir_PortRange r) = sanitizePortRange (ir_PortRange s)
      \<and> sources_equal (ir_Sources r) (ir_Sources s) \<and> ir_Action r = ir_Action s)"

definition outbound_equal :: "OutboundRule \<Rightarrow> OutboundRule \<Rightarrow> bool" where
  "outbound_equal r s =
     (or_Protocol r = or_Protocol s
      \<and> sanitizePortRange (or_PortRange r) = sanitizePortRange (or_PortRange s)
      \<and> sources_equal (or_Destinations r) (or_Destinations s) \<and> or_Action r = or_Action s)"

text \<open>
  \<^verbatim>\<open>cmpopts.SortSlices\<close> sorts stably by the printed rule; slices that are already sorted are
  compared as they are, which is the same.
\<close>

definition sorterInboundRules :: "InboundRule list \<Rightarrow> InboundRule list" where
  "sorterInboundRules rules = sort_key printInboundRule rules"

definition sorterOutboundRules :: "OutboundRule list \<Rightarrow> OutboundRule list" where
  "sorterOutboundRules rules = sort_key printOutboundRule rules"

text \<open>The textual diff that accompanies the result is only logged and is left out.\<close>

definition compFirewallsEqual :: "comparableFirewall option \<Rightarrow> comparableFirewall option \<Rightarrow> bool" where
  "compFirewallsEqual cf1 cf2 =
     (case (cf1, cf2) of
        (None, None) \<Rightarrow> True
      | (Some a, Some b) \<Rightarrow>
          cf_Name a = cf_Name b
          \<and> list_all2 inbound_equal (sorterInboundRules (cf_InboundRules a)) (sorterInboundRules (cf_InboundRules b))
          \<and> list_all2 outbound_equal (sorterOutboundRules (cf_OutboundRules a)) (sorterOutboundRules (cf_OutboundRules b))
          \<and> cf_Tags a = cf_Tags b
      | _ \<Rightarrow> False)"

definition firewallRequestEqual :: "Firewall option \<Rightarrow> FirewallRequest option \<Rightarrow> bool" where
  "firewallRequestEqual fw fr =
     compFirewallsEqual (compFirewallFromFirewall fw) (compFirewallFromFirewallRequest fr)"

definition firewallsEqual :: "Firewall option \<Rightarrow> Firewall option \<Rightarrow> bool" where
  "firewallsEqual fw1 fw2 =
     compFirewallsEqual (compFirewallFromFirewall fw1) (compFirewallFromFirewall fw2)"

section \<open>Equivalence\<close>

text \<open>
  The contract of a rule comparison: an equivalence under which equal rules print the same.
  Lists compared after sorting by the printed form are then compared by an equivalence, and
  a list equals its permutations as long as rules that print the same are equal.
\<close>

locale rule_comparison =
  slice_order shown sorted_slice for shown :: "'r \<Rightarrow> string" and sorted_slice +
  fixes eqv :: "'r \<Rightarrow> 'r \<Rightarrow> bool"
  assumes eqv_refl: "eqv r r"
    and eqv_sym: "eqv r s \<Longrightarrow> eqv s r"
    and eqv_trans: "eqv r s \<Longrightarrow> eqv s t \<Longrightarrow> eqv r t"
    and eqv_shown: "eqv r s \<Longrightarrow> shown r = shown s"
begin

lemma rules_refl: "list_all2 eqv (sorted_slice xs) (sorted_slice xs)"
  by (simp add: list_all2_same eqv_refl)

lemma rules_sym:
  "list_all2 eqv (sorted_slice xs) (sorted_slice ys) \<Longrightarrow> list_all2 eqv (sorted_slice ys) (sorted_slice xs)"
  by (auto simp: list_all2_conv_all_nth intro: eqv_sym)

lemma rules_trans:
  "list_all2 eqv (sorted_slice xs) (sorted_slice ys) \<Longrightarrow> list_all2 eqv (sorted_slice ys) (sorted_slice zs)
   \<Longrightarrow> list_all2 eqv (sorted_slice xs) (sorted_slice zs)"
  by (rule list_all2_trans [of eqv eqv eqv]) (auto intro: eqv_trans)

lemma rules_shown:
  "list_all2 eqv (sorted_slice xs) (sorted_slice ys) \<Longrightarrow> mset (map shown xs) = mset (map shown ys)"
proof -
  assume "list_all2 eqv (sorted_slice xs) (sorted_slice ys)"
  then have "map shown (sorted_slice xs) = map shown (sorted_slice ys)"
    by (induction rule: list_all2_induct) (auto dest: eqv_shown)
  then show ?thesis by (metis mset_map sorted_slice_mset)
qed

lemma rules_perm:
  assumes "mset xs = mset ys"
    and "\<And>r s. r \<in> set xs \<Longrightarrow> s \<in> set xs \<Longrightarrow> shown r = shown s \<Longrightarrow> eqv r s"
  shows "list_all2 eqv (sorted_slice xs) (sorted_slice ys)"
proof -
  from assms(1) have keys: "map shown (sorted_slice xs) = map shown (sorted_slice ys)"
    by (intro sorted_slice_keys_perm) simp
  from assms(1) have sets: "set ys = set xs" by (metis set_mset_mset)
  from keys have len: "length (sorted_slice xs) = length (sorted_slice ys)"
    by (rule map_eq_imp_length_eq)
  have "eqv (sorted_slice xs ! i) (sorted_slice ys ! i)" if i: "i < length (sorted_slice xs)" for i
  proof (rule assms(2))
    show "sorted_slice xs ! i \<in> set xs" using i nth_mem sorted_slice_set by blast
    show "sorted_slice ys ! i \<in> set xs" using i len nth_mem sorted_slice_set sets by metis
    show "shown (sorted_slice xs ! i) = shown (sorted_slice ys ! i)" using keys i len by (metis nth_map)
  qed
  with len show ?thesis by (simp add: list_all2_conv_all_nth)
qed

end

lemma sources_equal_equiv:
  "sources_equal p p" "sources_equal p q \<Longrightarrow> sources_equal q p"
  "sources_equal p q \<Longrightarrow> sources_equal q r \<Longrightarrow> sources_equal p r"
  by (auto simp: sources_equal_def split: option.splits)

interpretation inb: rule_comparison printInboundRule sorterInboundRules inbound_equal
  by unfold_locales
    (auto simp: sorterInboundRules_def inbound_equal_def printInboundRule_def sources_equal_def
      split: option.splits)

interpretation outb: rule_comparison printOutboundRule sorterOutboundRules outbound_equal
  by unfold_locales
    (auto simp: sorterOutboundRules_def outbound_equal_def printOutboundRule_def sources_equal_def
      split: option.splits)

lemma compFirewallsEqual_refl [simp]: "compFirewallsEqual cf cf"
  by (auto simp: compFirewallsEqual_def inb.rules_refl outb.rules_refl split: option.splits)

lemma compFirewallsEqual_sym: "compFirewallsEqual a b \<Longrightarrow> compFirewallsEqual b a"
  by (auto simp: compFirewallsEqual_def intro: inb.rules_sym outb.rules_sym split: option.splits)

lemma compFirewallsEqual_trans:
  "compFirewallsEqual a b \<Longrightarrow> compFirewallsEqual b c \<Longrightarrow> compFirewallsEqual a c"
  by (auto simp: compFirewallsEqual_def intro: inb.rules_trans outb.rules_trans split: option.splits)

lemma print_rules_cong:
  "list_all2 inbound_equal (sorterInboundRules xs) (sorterInboundRules ys)
     \<Longrightarrow> printInboundRules xs = printInboundRules ys"
  "list_all2 outbound_equal (sorterOutboundRules us) (sorterOutboundRules vs)
     \<Longrightarrow> printOutboundRules us = printOutboundRules vs"
  unfolding printInboundRules_def printOutboundRules_def
  by (metis inb.rules_shown sort_Strings_perm, metis outb.rules_shown sort_Strings_perm)

text \<open>
  The comparison of firewalls is an equivalence relation, and it is finer than equality of the
  printed form: an update that is skipped never hides a difference that would be printed.\<close>

theorem firewallsEqual_equivalence:
  "equivp firewallsEqual
   \<and> firewallsEqual \<le> (\<lambda>fw1 fw2. printRelevantFirewallParts fw1 = printRelevantFirewallParts fw2)"
proof
  show "equivp firewallsEqual"
    by (rule equivpI)
      (auto simp: firewallsEqual_def reflp_def symp_def transp_def
        intro: compFirewallsEqual_sym compFirewallsEqual_trans)
  show "firewallsEqual \<le> (\<lambda>fw1 fw2. printRelevantFirewallParts fw1 = printRelevantFirewallParts fw2)"
    by (auto simp: firewallsEqual_def compFirewallsEqual_def compFirewallFromFirewall_def
        printRelevantFirewallParts_def printFirewallParts_def print_rules_cong split: option.splits)
qed

end
