(* ===== verification/Work_Queue.thy ===== *)
theory Work_Queue
  imports Cloud_Types
begin

text \<open>
  The rate limited work queue of client-go that the firewall controller runs on: a queue of
  items, the set of dirty items, the set of items being processed, the items that wait for
  a delay to pass, and the failure counts of the rate limiter. Sets are lists, locks are the
  atomicity of an operation, and the passing of a delay is a step of its own.
\<close>

record workqueue =
  wq_queue :: "string list"
  wq_dirty :: "string list"
  wq_processing :: "string list"
  wq_shuttingDown :: bool
  wq_waiting :: "string list"
  wq_failures :: "(string \<times> nat) list"

definition wq_empty :: workqueue where
  "wq_empty = \<lparr>wq_queue = [], wq_dirty = [], wq_processing = [], wq_shuttingDown = False,
     wq_waiting = [], wq_failures = []\<rparr>"

definition wq_Add :: "string \<Rightarrow> workqueue \<Rightarrow> workqueue" where
  "wq_Add item q =
     (if wq_shuttingDown q then q
      else if item \<in> set (wq_dirty q) then q
      else let q = q\<lparr>wq_dirty := item # wq_dirty q\<rparr> in
        if item \<in> set (wq_processing q) then q
        else q\<lparr>wq_queue := wq_queue q @ [item]\<rparr>)"

text \<open>
  \<^verbatim>\<open>Get\<close> blocks on an empty queue until it is shut down: \<open>None\<close> means that it blocks,
  \<open>Some (None, _)\<close> that it reports the shutdown.
\<close>

definition wq_Get :: "workqueue \<Rightarrow> (string option \<times> workqueue) option" where
  "wq_Get q =
     (case wq_queue q of
        [] \<Rightarrow> if wq_shuttingDown q then Some (None, q) else None
      | item # items \<Rightarrow>
          Some (Some item, q\<lparr>wq_queue := items, wq_processing := item # wq_processing q,
                             wq_dirty := removeAll item (wq_dirty q)\<rparr>))"

definition wq_Done :: "string \<Rightarrow> workqueue \<Rightarrow> workqueue" where
  "wq_Done item q =
     (let q = q\<lparr>wq_processing := removeAll item (wq_processing q)\<rparr> in
      if item \<in> set (wq_dirty q) then q\<lparr>wq_queue := wq_queue q @ [item]\<rparr> else q)"

definition wq_ShutDown :: "workqueue \<Rightarrow> workqueue" where
  "wq_ShutDown q = q\<lparr>wq_shuttingDown := True\<rparr>"

definition wq_AddAfter :: "string \<Rightarrow> int \<Rightarrow> workqueue \<Rightarrow> workqueue" where
  "wq_AddAfter item duration q =
     (if wq_shuttingDown q then q
      else if duration \<le> 0 then wq_Add item q
      else q\<lparr>wq_waiting := List.insert item (wq_waiting q)\<rparr>)"

text \<open>The delay of a waiting item has passed.\<close>

definition wq_Ready :: "string \<Rightarrow> workqueue \<Rightarrow> workqueue" where
  "wq_Ready item q = (wq_Add item q)\<lparr>wq_waiting := removeAll item (wq_waiting q)\<rparr>"

section \<open>The rate limiter\<close>

text \<open>
  Delays are in nanoseconds. The floating point product of the code is exact: the base delay
  times a power of two. \<^verbatim>\<open>math.MaxInt64\<close> as a float is \<open>2 ^ 63\<close>, which no delay of the
  controller reaches exactly, its base being \<open>10 ^ 9\<close>.
\<close>

definition failures :: "string \<Rightarrow> workqueue \<Rightarrow> nat" where
  "failures item q = (case map_of (wq_failures q) item of None \<Rightarrow> 0 | Some n \<Rightarrow> n)"

definition backoff_delay :: "int \<Rightarrow> int \<Rightarrow> nat \<Rightarrow> int" where
  "backoff_delay baseDelay maxDelay exp =
     (let backoff = baseDelay * 2 ^ exp in
      if backoff > 2 ^ 63 then maxDelay
      else if backoff > maxDelay then maxDelay else backoff)"

definition wq_When :: "int \<Rightarrow> int \<Rightarrow> string \<Rightarrow> workqueue \<Rightarrow> int \<times> workqueue" where
  "wq_When baseDelay maxDelay item q =
     (let exp = failures item q in
      (backoff_delay baseDelay maxDelay exp, q\<lparr>wq_failures := AList.update item (exp + 1) (wq_failures q)\<rparr>))"

definition wq_AddRateLimited :: "int \<Rightarrow> int \<Rightarrow> string \<Rightarrow> workqueue \<Rightarrow> workqueue" where
  "wq_AddRateLimited baseDelay maxDelay item q =
     (let (duration, q') = wq_When baseDelay maxDelay item q in wq_AddAfter item duration q')"

definition wq_Forget :: "string \<Rightarrow> workqueue \<Rightarrow> workqueue" where
  "wq_Forget item q = q\<lparr>wq_failures := AList.delete item (wq_failures q)\<rparr>"

lemma backoff_delay_bounds:
  assumes "0 < baseDelay" "baseDelay \<le> maxDelay"
  shows "baseDelay \<le> backoff_delay baseDelay maxDelay n \<and> backoff_delay baseDelay maxDelay n \<le> maxDelay"
proof -
  have "1 \<le> (2::int) ^ n" by simp
  then have "baseDelay \<le> baseDelay * 2 ^ n" using assms(1) by (simp add: mult_le_cancel_left1)
  with assms show ?thesis by (auto simp: backoff_delay_def Let_def)
qed

lemma backoff_delay_mono:
  assumes "0 < baseDelay" "baseDelay \<le> maxDelay" "m \<le> n"
  shows "backoff_delay baseDelay maxDelay m \<le> backoff_delay baseDelay maxDelay n"
proof -
  obtain a b where ab: "a = baseDelay * 2 ^ m" "b = baseDelay * 2 ^ n" by blast
  then have "a \<le> b" using assms by (simp add: power_increasing)
  then show ?thesis unfolding backoff_delay_def Let_def ab [symmetric] by auto
qed

section \<open>Invariant and contract\<close>

definition wq_inv :: "workqueue \<Rightarrow> bool" where
  "wq_inv q \<longleftrightarrow>
     distinct (wq_queue q)
     \<and> set (wq_queue q) \<subseteq> set (wq_dirty q)
     \<and> set (wq_queue q) \<inter> set (wq_processing q) = {}
     \<and> set (wq_dirty q) \<subseteq> set (wq_queue q) \<union> set (wq_processing q)
     \<and> distinct (wq_processing q)"

lemma wq_inv_empty: "wq_inv wq_empty"
  by (simp add: wq_inv_def wq_empty_def)

lemma wq_inv_Add: "wq_inv q \<Longrightarrow> wq_inv (wq_Add item q)"
  by (auto simp: wq_inv_def wq_Add_def Let_def)

lemma wq_inv_Get: "wq_inv q \<Longrightarrow> wq_Get q = Some (k, q') \<Longrightarrow> wq_inv q'"
  by (auto simp: wq_inv_def wq_Get_def split: list.splits if_splits)

lemma wq_inv_Done: "wq_inv q \<Longrightarrow> item \<in> set (wq_processing q) \<Longrightarrow> wq_inv (wq_Done item q)"
  by (auto simp: wq_inv_def wq_Done_def Let_def distinct_removeAll)

lemma wq_inv_AddAfter: "wq_inv q \<Longrightarrow> wq_inv (wq_AddAfter item d q)"
  using wq_inv_Add by (auto simp: wq_AddAfter_def wq_inv_def)

lemma wq_inv_AddRateLimited: "wq_inv q \<Longrightarrow> wq_inv (wq_AddRateLimited b m item q)"
  by (auto simp: wq_AddRateLimited_def wq_When_def Let_def intro!: wq_inv_AddAfter) (simp add: wq_inv_def)

lemma wq_inv_other:
  "wq_inv q \<Longrightarrow> wq_inv (wq_Forget item q)" "wq_inv q \<Longrightarrow> wq_inv (wq_ShutDown q)"
  "wq_inv q \<Longrightarrow> wq_inv (wq_Ready item q)"
  using wq_inv_Add by (auto simp: wq_Forget_def wq_ShutDown_def wq_Ready_def wq_inv_def)

text \<open>
  What a client relies on: an added item stays pending until it is taken, no item is taken
  while it is being processed, and a pending item that is not being processed can be taken.
\<close>

locale exclusive_queue =
  fixes inv :: "'q \<Rightarrow> bool"
    and stopped :: "'q \<Rightarrow> bool"
    and pending busy :: "'q \<Rightarrow> string \<Rightarrow> bool"
    and add finish :: "string \<Rightarrow> 'q \<Rightarrow> 'q"
    and get :: "'q \<Rightarrow> (string option \<times> 'q) option"
  assumes add_pending: "\<not> stopped q \<Longrightarrow> pending (add k q) k"
    and add_keeps: "pending q k' \<Longrightarrow> pending (add k q) k'"
    and get_not_busy: "inv q \<Longrightarrow> get q = Some (Some k, q') \<Longrightarrow> \<not> busy q k \<and> pending q k \<and> busy q' k"
    and get_pending: "get q = Some (r, q') \<Longrightarrow> pending q k' \<Longrightarrow> r \<noteq> Some k' \<Longrightarrow> pending q' k'"
    and done_pending: "pending q k' \<Longrightarrow> pending (finish k q) k'"
    and done_free: "\<not> busy (finish k q) k"
    and takeable: "inv q \<Longrightarrow> pending q k \<Longrightarrow> \<not> busy q k \<Longrightarrow> \<exists>k' q'. get q = Some (Some k', q')"
begin

lemma add_while_busy_survives_done: "\<not> stopped q \<Longrightarrow> pending (finish k' (add k q)) k"
  by (simp add: add_pending done_pending)

lemma pending_never_blocks: "inv q \<Longrightarrow> pending q k \<Longrightarrow> \<not> busy q k \<Longrightarrow> get q \<noteq> None"
  using takeable by fastforce

end

interpretation wq: exclusive_queue wq_inv wq_shuttingDown "\<lambda>q k. k \<in> set (wq_dirty q)"
  "\<lambda>q k. k \<in> set (wq_processing q)" wq_Add wq_Done wq_Get
  by unfold_locales
    (auto simp: wq_Add_def wq_Done_def wq_Get_def wq_inv_def Let_def split: list.splits if_splits)

end
