(* ===== verification/Firewall_Controller.thy ===== *)
theory Firewall_Controller
  imports Firewall_Diff Work_Queue LB_Config Pagination
begin

text \<open>
  The firewall controller: the cache of the public access firewall, the manager that reads
  and writes it through the API, the firewall request computed from all services, and the
  reconcile and resync operations. firewall_controller.go and firewall_controller_cache.go.
\<close>

section \<open>State\<close>

record firewallCache =
  fcache_firewall :: "Firewall option"
  fcache_isSet :: bool

text \<open>An increment of a counter vector, with its label values.\<close>

datatype metricEvent =
    apiOperationsTotal string string string
  | resourceSyncsTotal string
  | reconcilesTotal string string

record 'w fwState =
  fs_cache :: firewallCache
  fs_metrics :: "metricEvent list"
  fs_queue :: workqueue
  fs_world :: 'w

type_synonym ('w, 'a) fw_cmd = "('w fwState, 'a) cmd"

text \<open>
  A key of the map \<^verbatim>\<open>loadBalancerPorts\<close>. Keys with sources hold a fresh pointer and never
  coincide; keys without are equal when port and protocol are.
\<close>

record portProtocol =
  pp_port :: int
  pp_protocol :: string
  pp_sources :: "Sources option"

text \<open>
  The manager's configuration. \<open>fm_range\<close> is the order in which a range loop visits the keys of
  \<^verbatim>\<open>loadBalancerPorts\<close>, which Go leaves open.
\<close>

record 'w firewallManager =
  fm_client :: "'w client"
  fm_workerFirewallName :: string
  fm_workerFirewallTags :: "string list"
  fm_defaultLBType :: string
  fm_range :: "portProtocol list \<Rightarrow> portProtocol list"

text \<open>
  The controller: the lister reads the informer's copy of the services, \<open>fc_ctxErr\<close> tells
  whether the context of the call has ended.
\<close>

record 'w FirewallController =
  fc_fwManager :: "'w firewallManager"
  fc_serviceLister :: "'w \<Rightarrow> Service list \<times> error option"
  fc_ctxErr :: "'w \<Rightarrow> bool"

definition on_fw_world :: "('w, 'a) cmd \<Rightarrow> ('w, 'a) fw_cmd" where
  "on_fw_world m = (\<lambda>st. case m (fs_world st) of (r, w') \<Rightarrow> (r, st\<lparr>fs_world := w'\<rparr>))"

definition record_metric :: "metricEvent \<Rightarrow> 'w fwState \<Rightarrow> 'w fwState" where
  "record_metric ev st = st\<lparr>fs_metrics := fs_metrics st @ [ev]\<rparr>"

section \<open>The cache\<close>

definition getCachedFirewall :: "firewallCache \<Rightarrow> Firewall option \<times> bool" where
  "getCachedFirewall c = (fcache_firewall c, fcache_isSet c)"

definition updateCache :: "Firewall option \<Rightarrow> firewallCache \<Rightarrow> firewallCache" where
  "updateCache currentFirewall c =
     (let c = c\<lparr>fcache_isSet := True\<rparr> in
      if \<not> firewallsEqual (fcache_firewall c) currentFirewall
      then c\<lparr>fcache_firewall := currentFirewall\<rparr> else c)"

section \<open>API operations\<close>

definition firewallOperationGetByID :: string where "firewallOperationGetByID = ''get_by_id''"

definition firewallOperationGetByList :: string where "firewallOperationGetByList = ''get_by_list''"

definition firewallOperationCreate :: string where "firewallOperationCreate = ''create''"

definition firewallOperationUpdate :: string where "firewallOperationUpdate = ''update''"

text \<open>
  The counter is incremented by a deferred function, with the labels set so far: also when
  the operation panics.
\<close>

definition executeInstrumentedFirewallOperation ::
    "string \<Rightarrow> ('w, Firewall option reply) cmd \<Rightarrow> ('w, Firewall option reply) fw_cmd" where
  "executeInstrumentedFirewallOperation fwOp f = (\<lambda>st.
     case on_fw_world f st of
       (Ok (fw, resp, err), st') \<Rightarrow>
         (Ok (fw, resp, err), record_metric (apiOperationsTotal fwOp
            (if err \<noteq> None then ''failed'' else ''succeeded'')
            (case resp of None \<Rightarrow> '''' | Some r \<Rightarrow> Itoa (resp_StatusCode r))) st')
     | (Panic p, st') \<Rightarrow> (Panic p, record_metric (apiOperationsTotal fwOp ''succeeded'' '''') st')
     | (r, st') \<Rightarrow> (r, st'))"

definition executeInstrumentedFirewallOperationGetByID ::
    "'w firewallManager \<Rightarrow> string \<Rightarrow> ('w, Firewall option reply) fw_cmd" where
  "executeInstrumentedFirewallOperationGetByID fm fwID =
     executeInstrumentedFirewallOperation firewallOperationGetByID (api (Firewalls_Get (fm_client fm) fwID))"

definition executeInstrumentedFirewallOperationGetByList ::
    "'w firewallManager \<Rightarrow> ('w, Firewall option \<times> error option) fw_cmd" where
  "executeInstrumentedFirewallOperationGetByList fm =
     bindM (executeInstrumentedFirewallOperation firewallOperationGetByList
              (filterFirewallList (fm_client fm) (\<lambda>fw. fw_Name fw = fm_workerFirewallName fm)))
       (\<lambda>(fw, resp, err). returnM (fw, err))"

definition createFirewall ::
    "'w firewallManager \<Rightarrow> FirewallRequest \<Rightarrow> ('w, Firewall option \<times> error option) fw_cmd" where
  "createFirewall fm fr =
     bindM (executeInstrumentedFirewallOperation firewallOperationCreate (api (Firewalls_Create (fm_client fm) fr)))
       (\<lambda>(fw, resp, err). returnM (fw, err))"

definition updateFirewall ::
    "'w firewallManager \<Rightarrow> string \<Rightarrow> FirewallRequest \<Rightarrow> ('w, Firewall option reply) fw_cmd" where
  "updateFirewall fm fwID fr =
     executeInstrumentedFirewallOperation firewallOperationUpdate (api (Firewalls_Update (fm_client fm) fwID fr))"

text \<open>
  The deferred cache update of \<^verbatim>\<open>Get\<close>: on success with the firewall returned; when the body
  panics, the named error is still nil and the named firewall is the cached one.
\<close>

definition get_and_cache :: "('w, Firewall option) fw_cmd \<Rightarrow> ('w, Firewall option) fw_cmd" where
  "get_and_cache body = (\<lambda>st.
     case body st of
       (Ok fw, st') \<Rightarrow> (Ok fw, st'\<lparr>fs_cache := updateCache fw (fs_cache st')\<rparr>)
     | (Panic p, st') \<Rightarrow> (Panic p, st'\<lparr>fs_cache := updateCache (fcache_firewall (fs_cache st)) (fs_cache st')\<rparr>)
     | (r, st') \<Rightarrow> (r, st'))"

definition getByList :: "'w firewallManager \<Rightarrow> ('w, Firewall option) fw_cmd" where
  "getByList fm =
     bindM (executeInstrumentedFirewallOperationGetByList fm) (\<lambda>(fw, err).
       case err of
         Some e \<Rightarrow> liftR (Err (Errorf ''failed to retrieve list of firewalls from DO API: '' e ''''))
       | None \<Rightarrow> returnM fw)"

definition Get :: "'w firewallManager \<Rightarrow> ('w, Firewall option) fw_cmd" where
  "Get fm = get_and_cache (bindM get_state (\<lambda>st.
     case fst (getCachedFirewall (fs_cache st)) of
        None \<Rightarrow> getByList fm
      | Some cached \<Rightarrow>
          bindM (executeInstrumentedFirewallOperationGetByID fm (fw_ID cached)) (\<lambda>(fw, resp, err).
            if err \<noteq> None \<and> \<not> is_StatusNotFound resp
            then liftR (Err (Errorf ''could not get firewall: '' (the err) ''''))
            else bindM (liftR (deref resp)) (\<lambda>_.
              case fw of None \<Rightarrow> getByList fm | Some f \<Rightarrow> returnM (Some f)))))"

definition GetPreferFromCache :: "'w firewallManager \<Rightarrow> ('w, Firewall option) fw_cmd" where
  "GetPreferFromCache fm =
     bindM get_state (\<lambda>st.
     case getCachedFirewall (fs_cache st) of
       (fw, isSet) \<Rightarrow> if isSet then returnM fw else Get fm)"

definition store_in_cache :: "Firewall option \<Rightarrow> ('w, unit) fw_cmd" where
  "store_in_cache fw = (\<lambda>st. (Ok (), st\<lparr>fs_cache := updateCache fw (fs_cache st)\<rparr>))"

definition setByCreating :: "'w firewallManager \<Rightarrow> FirewallRequest \<Rightarrow> ('w, unit) fw_cmd" where
  "setByCreating fm fr =
     bindM (createFirewall fm fr) (\<lambda>(created, err).
       case err of
         Some e \<Rightarrow> liftR (Err (Errorf ''failed to create firewall: '' e ''''))
       | None \<Rightarrow> store_in_cache created)"

definition Set :: "'w firewallManager \<Rightarrow> string \<Rightarrow> FirewallRequest \<Rightarrow> ('w, unit) fw_cmd" where
  "Set fm fwID fr =
     (if fwID \<noteq> '''' then
        bindM (updateFirewall fm fwID fr) (\<lambda>(updated, resp, err).
          case err of
            None \<Rightarrow> store_in_cache updated
          | Some e \<Rightarrow>
              if \<not> is_StatusNotFound resp
              then liftR (Err (Errorf ''failed to update firewall: '' e ''''))
              else setByCreating fm fr)
      else setByCreating fm fr)"

section \<open>The request for all services\<close>

definition annotationDOFirewallManaged :: string where
  "annotationDOFirewallManaged = ''kubernetes.digitalocean.com/firewall-managed''"

definition isManaged :: "Service \<Rightarrow> bool outcome" where
  "isManaged s =
     bindR (getBool (svc_Annotations s) annotationDOFirewallManaged) (\<lambda>(val, found). Ok (\<not> found \<or> val))"

definition from_anywhere :: Sources where
  "from_anywhere = \<lparr>src_Addresses = [''0.0.0.0/0'', ''::/0''], src_Tags = [], src_DropletIDs = [],
     src_LoadBalancerUIDs = [], src_KubernetesIDs = []\<rparr>"

definition from_load_balancer :: "string \<Rightarrow> Sources" where
  "from_load_balancer lbID = \<lparr>src_Addresses = [], src_Tags = [], src_DropletIDs = [],
     src_LoadBalancerUIDs = [lbID], src_KubernetesIDs = []\<rparr>"

definition allowAllOutboundRules :: "OutboundRule list" where
  "allowAllOutboundRules =
     [\<lparr>or_Protocol = ''tcp'', or_PortRange = ''all'', or_Destinations = Some from_anywhere, or_Action = ''''\<rparr>,
      \<lparr>or_Protocol = ''udp'', or_PortRange = ''all'', or_Destinations = Some from_anywhere, or_Action = ''''\<rparr>,
      \<lparr>or_Protocol = ''icmp'', or_PortRange = '''', or_Destinations = Some from_anywhere, or_Action = ''''\<rparr>]"

definition servicePortProtocol :: "ServicePort \<Rightarrow> string option" where
  "servicePortProtocol p =
     (if sp_Protocol p = ProtocolTCP then Some ''tcp''
      else if sp_Protocol p = ProtocolUDP then Some ''udp'' else None)"

definition inbound_rule :: "string \<Rightarrow> int \<Rightarrow> Sources \<Rightarrow> InboundRule" where
  "inbound_rule protocol port srcs =
     \<lparr>ir_Protocol = protocol, ir_PortRange = Itoa port, ir_Sources = Some srcs, ir_Action = ''''\<rparr>"

definition nodePortRules :: "Service \<Rightarrow> InboundRule list" where
  "nodePortRules svc =
     List.map_filter (\<lambda>servicePort.
       if sp_NodePort servicePort = 0 then None
       else map_option (\<lambda>protocol. inbound_rule protocol (sp_NodePort servicePort) from_anywhere)
              (servicePortProtocol servicePort)) (svc_Ports svc)"

definition add_port :: "portProtocol list \<Rightarrow> portProtocol \<Rightarrow> portProtocol list" where
  "add_port ports pp = (if pp_sources pp = None \<and> pp \<in> set ports then ports else ports @ [pp])"

definition healthCheckSource :: "Service \<Rightarrow> portProtocol" where
  "healthCheckSource svc =
     \<lparr>pp_port = snd (healthCheckPathAndPort svc), pp_protocol = ''tcp'',
      pp_sources = (if ann svc annDOLoadBalancerID \<noteq> ''''
                    then Some (from_load_balancer (ann svc annDOLoadBalancerID)) else None)\<rparr>"

definition loadBalancerServicePorts :: "Service \<Rightarrow> portProtocol list" where
  "loadBalancerServicePorts svc =
     List.map_filter (\<lambda>servicePort.
       map_option (\<lambda>protocol. \<lparr>pp_port = sp_Port servicePort, pp_protocol = protocol, pp_sources = None\<rparr>)
         (servicePortProtocol servicePort)) (svc_Ports svc)"

text \<open>The loop over the services, with the rules and the map keys collected so far.\<close>

fun collectRules ::
    "string \<Rightarrow> Service list \<Rightarrow> InboundRule list \<Rightarrow> portProtocol list \<Rightarrow>
     (InboundRule list \<times> portProtocol list) outcome" where
  "collectRules defaultLBType [] rules ports = Ok (rules, ports)"
| "collectRules defaultLBType (svc # svcs) rules ports =
     (if svc_Type svc = ServiceTypeNodePort then
        (let managed = (case isManaged svc of Ok m \<Rightarrow> m | _ \<Rightarrow> True) in
         if \<not> managed then collectRules defaultLBType svcs rules ports
         else collectRules defaultLBType svcs (rules @ nodePortRules svc) ports)
      else if svc_Type svc = ServiceTypeLoadBalancer then
        bindR (map_err (\<lambda>e. Errorf (''failed to get load balancer type for service '' @
                 svc_Namespace svc @ ''/'' @ svc_Name svc @ '': '') e '''')
                (getType svc defaultLBType)) (\<lambda>lbType.
        bindR (map_err (\<lambda>e. Errorf (''failed to get load balancer network for service '' @
                 svc_Namespace svc @ ''/'' @ svc_Name svc @ '': '') e '''')
                (getNetwork svc)) (\<lambda>lbNetwork.
        if lbType = LoadBalancerTypeRegionalNetwork \<and> lbNetwork = LoadBalancerNetworkTypeExternal
        then if snd (healthCheckPathAndPort svc) = 0 then collectRules defaultLBType svcs rules ports
             else collectRules defaultLBType svcs rules
                    (foldl add_port ports (healthCheckSource svc # loadBalancerServicePorts svc))
        else collectRules defaultLBType svcs rules ports))
      else collectRules defaultLBType svcs rules ports)"

definition portRule :: "portProtocol \<Rightarrow> InboundRule" where
  "portRule p = inbound_rule (pp_protocol p) (pp_port p)
     (case pp_sources p of None \<Rightarrow> from_anywhere | Some srcs \<Rightarrow> srcs)"

definition sortInboundRules :: "InboundRule list \<Rightarrow> InboundRule list" where
  "sortInboundRules rules = sort_key (\<lambda>r. (ir_Protocol r, ir_PortRange r)) rules"

definition createReconciledFirewallRequest ::
    "'w firewallManager \<Rightarrow> Service list \<Rightarrow> FirewallRequest outcome" where
  "createReconciledFirewallRequest fm serviceList =
     bindR (collectRules (fm_defaultLBType fm) serviceList [] []) (\<lambda>(rules, ports).
     Ok \<lparr>fwr_Name = fm_workerFirewallName fm,
         fwr_InboundRules = sortInboundRules (rules @ map portRule (fm_range fm ports)),
         fwr_OutboundRules = allowAllOutboundRules,
         fwr_Tags = fm_workerFirewallTags fm\<rparr>)"

section \<open>Reconciling\<close>

definition ensureReconciledFirewall :: "'w FirewallController \<Rightarrow> ('w, bool) fw_cmd" where
  "ensureReconciledFirewall fc =
     bindM get_state (\<lambda>st.
     case fc_serviceLister fc (fs_world st) of (serviceList, err) \<Rightarrow>
       (case err of
         Some e \<Rightarrow> liftR (Err (Errorf ''failed to list services: '' e ''''))
       | None \<Rightarrow>
         bindM (liftR (map_err (\<lambda>e. Errorf ''failed to create reconciled firewall request: '' e '''')
                  (createReconciledFirewallRequest (fc_fwManager fc) serviceList))) (\<lambda>fr.
         bindM (map_errM (\<lambda>e. Errorf ''failed to get firewall (preferred from cache): '' e '''')
                  (GetPreferFromCache (fc_fwManager fc))) (\<lambda>fw.
         if firewallRequestEqual fw (Some fr) then returnM True
         else let fwID = (case fw of None \<Rightarrow> '''' | Some f \<Rightarrow> fw_ID f) in
           bindM (map_errM (\<lambda>e. Errorf ''failed to set firewall: '' e '''')
                    (Set (fc_fwManager fc) fwID fr)) (\<lambda>_.
           returnM False)))))"

definition ensureReconciledFirewallInstrumented :: "'w FirewallController \<Rightarrow> ('w, unit) fw_cmd" where
  "ensureReconciledFirewallInstrumented fc = (\<lambda>st.
     case ensureReconciledFirewall fc st of
       (Ok skipped, st') \<Rightarrow>
         (Ok (), record_metric (reconcilesTotal (if skipped then ''skipped'' else ''reconciled'') '''') st')
     | (Err e, st') \<Rightarrow>
         (Err e, record_metric (reconcilesTotal ''failed''
            (if fc_ctxErr fc (fs_world st') then ''timeout'' else ''generic'')) st')
     | (Panic p, st') \<Rightarrow> (Panic p, record_metric (reconcilesTotal ''reconciled'' '''') st')
     | (OutOfFuel, st') \<Rightarrow> (OutOfFuel, st'))"

definition queueKey :: string where "queueKey = ''service''"

text \<open>Delays in nanoseconds: one second and five minutes.\<close>

definition minRetryDelay :: int where "minRetryDelay = 1000000000"

definition maxRetryDelay :: int where "maxRetryDelay = 300000000000"

definition syncResource :: "'w FirewallController \<Rightarrow> ('w, unit) fw_cmd" where
  "syncResource fc = (\<lambda>st.
     case Get (fc_fwManager fc) st of
       (Ok _, st') \<Rightarrow>
         (Ok (), record_metric (resourceSyncsTotal ''updated'')
            (st'\<lparr>fs_queue := wq_Add queueKey (fs_queue st')\<rparr>))
     | (Err e, st') \<Rightarrow>
         (Err e, record_metric (resourceSyncsTotal
            (if fc_ctxErr fc (fs_world st') then ''canceled'' else ''failed'')) st')
     | (Panic p, st') \<Rightarrow> (Panic p, record_metric (resourceSyncsTotal ''updated'') st')
     | (OutOfFuel, st') \<Rightarrow> (OutOfFuel, st'))"

text \<open>
  One round of the worker; \<open>None\<close> when it blocks on the empty queue. \<^verbatim>\<open>Done\<close> is deferred, so it
  runs last and also when the reconcile panics.
\<close>

definition processNextItem :: "'w FirewallController \<Rightarrow> 'w fwState \<Rightarrow> (bool outcome \<times> 'w fwState) option" where
  "processNextItem fc st =
     (case wq_Get (fs_queue st) of
        None \<Rightarrow> None
      | Some (None, q) \<Rightarrow> Some (Ok False, st\<lparr>fs_queue := q\<rparr>)
      | Some (Some key, q) \<Rightarrow> Some
          (case ensureReconciledFirewallInstrumented fc (st\<lparr>fs_queue := q\<rparr>) of
             (Ok _, st') \<Rightarrow>
               (Ok True, st'\<lparr>fs_queue := wq_Done key (wq_Forget key (fs_queue st'))\<rparr>)
           | (Err e, st') \<Rightarrow>
               (Ok True, st'\<lparr>fs_queue := wq_Done key
                  (wq_AddRateLimited minRetryDelay maxRetryDelay key (fs_queue st'))\<rparr>)
           | (Panic p, st') \<Rightarrow> (Panic p, st'\<lparr>fs_queue := wq_Done key (fs_queue st')\<rparr>)
           | (OutOfFuel, st') \<Rightarrow> (OutOfFuel, st')))"

section \<open>The cache\<close>

text \<open>
  What the manager relies on: after a write the cache is set and holds a value equal to the
  one written, equality being the comparison of firewalls; a second write of an equal value
  changes nothing.
\<close>

locale value_cache =
  fixes look :: "'c \<Rightarrow> 'v \<times> bool"
    and store :: "'v \<Rightarrow> 'c \<Rightarrow> 'c"
    and same :: "'v \<Rightarrow> 'v \<Rightarrow> bool"
  assumes same_equiv: "equivp same"
    and look_store: "look (store v c) = (if same (fst (look c)) v then fst (look c) else v, True)"
begin

lemma store_set: "snd (look (store v c))"
  by (simp add: look_store)

lemma store_same: "same (fst (look (store v c))) v"
  using same_equiv by (simp add: look_store equivp_reflp)

lemma store_again: "same u v \<Longrightarrow> look (store u (store v c)) = look (store v c)"
  using same_equiv by (auto simp: look_store dest: equivp_symp equivp_transp elim: equivp_reflp)

end

interpretation fwc: value_cache getCachedFirewall updateCache firewallsEqual
proof unfold_locales
  show "equivp firewallsEqual"
    by (rule equivpI)
      (auto simp: firewallsEqual_def reflp_def symp_def transp_def
        intro: compFirewallsEqual_sym compFirewallsEqual_trans)
  show "getCachedFirewall (updateCache v c) =
      (if firewallsEqual (fst (getCachedFirewall c)) v then fst (getCachedFirewall c) else v, True)" for v c
    by (simp add: getCachedFirewall_def updateCache_def Let_def)
qed

section \<open>Collected rules\<close>

definition service_rules :: "Service \<Rightarrow> InboundRule list" where
  "service_rules svc =
     (if svc_Type svc = ServiceTypeNodePort \<and> (case isManaged svc of Ok m \<Rightarrow> m | _ \<Rightarrow> True)
      then nodePortRules svc else [])"

definition service_ports :: "string \<Rightarrow> Service \<Rightarrow> portProtocol list" where
  "service_ports d svc =
     (if svc_Type svc = ServiceTypeLoadBalancer \<and> getType svc d = Ok LoadBalancerTypeRegionalNetwork
         \<and> getNetwork svc = Ok LoadBalancerNetworkTypeExternal \<and> snd (healthCheckPathAndPort svc) \<noteq> 0
      then healthCheckSource svc # loadBalancerServicePorts svc else [])"

definition service_ok :: "string \<Rightarrow> Service \<Rightarrow> bool" where
  "service_ok d svc \<longleftrightarrow> svc_Type svc = ServiceTypeLoadBalancer \<longrightarrow>
     (\<exists>t n. getType svc d = Ok t \<and> getNetwork svc = Ok n)"

lemma service_types_differ [simp]:
  "ServiceTypeNodePort \<noteq> ServiceTypeLoadBalancer" "ServiceTypeLoadBalancer \<noteq> ServiceTypeNodePort"
  by (simp_all add: lb_const_defs)

lemma collectRules_Ok:
  "collectRules d svcs rules ports = Ok (rules', ports') \<longleftrightarrow>
     list_all (service_ok d) svcs
     \<and> rules' = rules @ concat (map service_rules svcs)
     \<and> ports' = foldl add_port ports (concat (map (service_ports d) svcs))"
proof (induction svcs arbitrary: rules ports)
  case (Cons svc svcs)
  consider "svc_Type svc = ServiceTypeNodePort" | "svc_Type svc = ServiceTypeLoadBalancer"
    | "svc_Type svc \<noteq> ServiceTypeNodePort" "svc_Type svc \<noteq> ServiceTypeLoadBalancer" by blast
  then show ?case
  proof cases
    case 2
    then show ?thesis
      by (auto simp: Cons.IH service_ok_def service_rules_def service_ports_def outcome_simps split: if_splits)
  qed (auto simp: Cons.IH service_ok_def service_rules_def service_ports_def Let_def split: outcome.splits)
qed auto

definition from_lb :: "portProtocol \<Rightarrow> bool" where
  "from_lb pp \<longleftrightarrow> pp_sources pp \<noteq> None"

lemma add_ports_filter:
  "filter from_lb (foldl add_port ports pps) = filter from_lb (ports @ pps)"
  "set (foldl add_port ports pps) = set ports \<union> set pps"
  "distinct (filter (\<lambda>p. \<not> from_lb p) ports) \<Longrightarrow>
     distinct (filter (\<lambda>p. \<not> from_lb p) (foldl add_port ports pps))"
  by (induction pps arbitrary: ports) (auto simp: add_port_def from_lb_def)

lemma add_ports_perm:
  assumes "mset pps = mset qqs"
  shows "mset (foldl add_port [] pps) = mset (foldl add_port [] qqs)"
proof -
  have split: "mset xs = mset (filter from_lb xs) + mset (filter (\<lambda>p. \<not> from_lb p) xs)"
    for xs :: "portProtocol list" by simp
  from assms have sets: "set pps = set qqs" by (metis set_mset_mset)
  have "mset (filter from_lb (foldl add_port [] pps)) = mset (filter from_lb (foldl add_port [] qqs))"
    using assms by (simp add: add_ports_filter(1))
  moreover have "mset (filter (\<lambda>p. \<not> from_lb p) (foldl add_port [] pps)) =
      mset (filter (\<lambda>p. \<not> from_lb p) (foldl add_port [] qqs))"
    using add_ports_filter(2,3) [of "[]"] sets
    by (intro set_eq_iff_mset_eq_distinct [THEN iffD1]) auto
  ultimately show ?thesis by (metis split)
qed

text \<open>The rules of a request are all of one of two shapes.\<close>

definition generated_rule :: "InboundRule \<Rightarrow> bool" where
  "generated_rule r \<longleftrightarrow> (\<exists>protocol port srcs. r = inbound_rule protocol port srcs
     \<and> protocol \<in> {''tcp'', ''udp''} \<and> (srcs = from_anywhere \<or> (\<exists>i. srcs = from_load_balancer i)))"

lemma servicePortProtocol_Some: "servicePortProtocol p = Some protocol \<Longrightarrow> protocol \<in> {''tcp'', ''udp''}"
  by (auto simp: servicePortProtocol_def split: if_splits)

lemma nodePortRules_generated: "r \<in> set (nodePortRules svc) \<Longrightarrow> generated_rule r"
  using servicePortProtocol_Some
  by (fastforce simp: nodePortRules_def mem_map_filter generated_rule_def split: if_splits)

lemma service_ports_generated: "pp \<in> set (service_ports d svc) \<Longrightarrow> generated_rule (portRule pp)"
  using servicePortProtocol_Some
  by (fastforce simp: service_ports_def healthCheckSource_def loadBalancerServicePorts_def mem_map_filter
      portRule_def generated_rule_def split: if_splits)

lemma Itoa_no_space: "CHR '' '' \<notin> set (Itoa n)"
proof -
  have "digit (CHR '' '') = None" by (simp add: digit_def)
  then show ?thesis
    using nat_to_dec_digits [of "- n" "CHR '' ''"] nat_to_dec_digits [of n "CHR '' ''"]
    by (auto simp: Itoa_def)
qed

lemma sanitize_Itoa [simp]: "sanitizePortRange (Itoa n) = Itoa n"
proof -
  have "CHR ''a'' \<notin> set (Itoa n)"
    using nat_to_dec_digits [of "- n" "CHR ''a''"] nat_to_dec_digits [of n "CHR ''a''"]
    by (auto simp: Itoa_def digit_def)
  then show ?thesis by (auto simp: sanitizePortRange_def)
qed

lemma append_space_inject:
  assumes "xs @ CHR '' '' # us = ys @ CHR '' '' # vs" "CHR '' '' \<notin> set xs" "CHR '' '' \<notin> set ys"
  shows "xs = ys \<and> us = vs"
  using assms
proof (induction xs arbitrary: ys)
  case Nil
  then show ?case by (cases ys) auto
next
  case (Cons x xs)
  then show ?case by (cases ys) auto
qed

lemma print_generated:
  assumes "generated_rule r" "generated_rule s" "printInboundRule r = printInboundRule s"
  shows "inbound_equal r s"
proof -
  obtain p n a q m b where r: "r = inbound_rule p n a" and s: "s = inbound_rule q m b"
    and pq: "p \<in> {''tcp'', ''udp''}" "q \<in> {''tcp'', ''udp''}"
    and ab: "a = from_anywhere \<or> (\<exists>i. a = from_load_balancer i)" "b = from_anywhere \<or> (\<exists>i. b = from_load_balancer i)"
    using assms(1,2) unfolding generated_rule_def by blast
  have shown: "p @ '' PortRange:'' @ Itoa n @ (if a = from_anywhere then '' AddrSources:[0.0.0.0/0 ::/0]''
         else '' LoadBalancerUIDsSources:'' @ show_list (src_LoadBalancerUIDs a)) =
      q @ '' PortRange:'' @ Itoa m @ (if b = from_anywhere then '' AddrSources:[0.0.0.0/0 ::/0]''
         else '' LoadBalancerUIDsSources:'' @ show_list (src_LoadBalancerUIDs b))"
    using assms(3) ab
    by (auto simp: r s printInboundRule_def inbound_rule_def from_anywhere_def from_load_balancer_def
        ruleOpeningToken_def ruleClosingToken_def show_list_def)
  then have "p = q" using pq by auto
  with shown have "Itoa n @ CHR '' '' # tl (if a = from_anywhere then '' AddrSources:[0.0.0.0/0 ::/0]''
         else '' LoadBalancerUIDsSources:'' @ show_list (src_LoadBalancerUIDs a)) =
      Itoa m @ CHR '' '' # tl (if b = from_anywhere then '' AddrSources:[0.0.0.0/0 ::/0]''
         else '' LoadBalancerUIDsSources:'' @ show_list (src_LoadBalancerUIDs b))"
    by (auto split: if_splits)
  from append_space_inject [OF this Itoa_no_space Itoa_no_space]
  have "Itoa n = Itoa m" and "sources_equal (Some a) (Some b)"
    using ab by (auto simp: sources_equal_def show_list_def from_load_balancer_def split: if_splits)
  with \<open>p = q\<close> show ?thesis by (simp add: r s inbound_equal_def inbound_rule_def)
qed

definition firewall_of_request :: "string \<Rightarrow> FirewallRequest \<Rightarrow> Firewall" where
  "firewall_of_request i fr = \<lparr>fw_ID = i, fw_Name = fwr_Name fr, fw_InboundRules = fwr_InboundRules fr,
     fw_OutboundRules = fwr_OutboundRules fr, fw_Tags = fwr_Tags fr\<rparr>"

lemma request_rules:
  assumes "createReconciledFirewallRequest fm svcs = Ok fr"
  shows "fwr_InboundRules fr = sortInboundRules (concat (map service_rules svcs) @
      map portRule (fm_range fm (foldl add_port [] (concat (map (service_ports (fm_defaultLBType fm)) svcs)))))"
    and "fwr_Name fr = fm_workerFirewallName fm" "fwr_Tags fr = fm_workerFirewallTags fm"
    "fwr_OutboundRules fr = allowAllOutboundRules"
  using assms by (auto simp: createReconciledFirewallRequest_def outcome_simps collectRules_Ok)

text \<open>A range loop over a map visits every key once, in some order.\<close>

definition visits_all :: "'w firewallManager \<Rightarrow> bool" where
  "visits_all fm \<longleftrightarrow> (\<forall>ports. mset (fm_range fm ports) = mset ports)"

lemma request_rules_mset:
  assumes "createReconciledFirewallRequest fm svcs = Ok fr" "visits_all fm"
  shows "mset (fwr_InboundRules fr) = mset (concat (map service_rules svcs)) +
      image_mset portRule (mset (foldl add_port [] (concat (map (service_ports (fm_defaultLBType fm)) svcs))))"
  using assms(2) by (simp add: request_rules(1) [OF assms(1)] sortInboundRules_def visits_all_def)

lemma request_rules_generated:
  assumes "createReconciledFirewallRequest fm svcs = Ok fr" "visits_all fm"
    and "r \<in> set (fwr_InboundRules fr)"
  shows "generated_rule r"
proof -
  from assms(3) have "r \<in># mset (fwr_InboundRules fr)" by simp
  then show ?thesis
    unfolding request_rules_mset [OF assms(1,2)]
    using nodePortRules_generated service_ports_generated
    by (auto simp: service_rules_def add_ports_filter(2) split: if_splits)
qed

lemma mset_concat_map_perm: "mset xs = mset ys \<Longrightarrow> mset (concat (map f xs)) = mset (concat (map f ys))"
  by (metis mset_concat mset_map sum_mset_sum_list)

text \<open>
  C16: The firewall that a reconcile aims at does not depend on the order in which the lister returns the
  services or on the order in which Go visits the keys of a map: a firewall with the content of one
  request is found equal to any other request for the same services, so no update is
  triggered by reordering.\<close>

theorem reconciled_request_order_free:
  assumes "createReconciledFirewallRequest fm svcs = Ok fr"
    and "createReconciledFirewallRequest (fm\<lparr>fm_range := other_order\<rparr>) svcs' = Ok fr'"
    and "visits_all fm" and "visits_all (fm\<lparr>fm_range := other_order\<rparr>)"
    and "mset svcs = mset svcs'"
  shows "firewallRequestEqual (Some (firewall_of_request i fr)) (Some fr')"
proof -
  have "mset (fwr_InboundRules fr) = mset (fwr_InboundRules fr')"
    unfolding request_rules_mset [OF assms(1,3)] request_rules_mset [OF assms(2,4)]
    using mset_concat_map_perm [OF assms(5), of service_rules]
      add_ports_perm [OF mset_concat_map_perm [OF assms(5)]] by simp
  then have "list_all2 inbound_equal (sorterInboundRules (fwr_InboundRules fr)) (sorterInboundRules (fwr_InboundRules fr'))"
    using request_rules_generated [OF assms(1,3)] by (intro inb.rules_perm) (auto intro: print_generated)
  then show ?thesis
    using request_rules(2-4) [OF assms(1)] request_rules(2-4) [OF assms(2)]
    by (simp add: firewallRequestEqual_def compFirewallsEqual_def compFirewallFromFirewall_def
        compFirewallFromFirewallRequest_def firewall_of_request_def outb.rules_refl)
qed

definition example_fm :: "'w client \<Rightarrow> 'w firewallManager" where
  "example_fm c = \<lparr>fm_client = c, fm_workerFirewallName = ''k8s-public-access'',
     fm_workerFirewallTags = [''k8s:worker''], fm_defaultLBType = LoadBalancerTypeRegionalNetwork,
     fm_range = (\<lambda>ports. ports)\<rparr>"

definition node_port_service :: Service where
  "node_port_service = example_service\<lparr>svc_Type := ServiceTypeNodePort, svc_Annotations := []\<rparr>"

definition network_lb_service :: Service where
  "network_lb_service = example_service\<lparr>svc_Annotations := [(annDOLoadBalancerID, ''lb-1'')]\<rparr>"

definition example_fw_request :: FirewallRequest where
  "example_fw_request = \<lparr>fwr_Name = ''k8s-public-access'',
     fwr_InboundRules = [inbound_rule ''tcp'' 10256 (from_load_balancer ''lb-1''),
       inbound_rule ''tcp'' 30443 from_anywhere, inbound_rule ''tcp'' 443 from_anywhere,
       inbound_rule ''udp'' 30053 from_anywhere, inbound_rule ''udp'' 53 from_anywhere],
     fwr_OutboundRules = allowAllOutboundRules, fwr_Tags = [''k8s:worker'']\<rparr>"

lemma example_fw_request_built:
  "createReconciledFirewallRequest (example_fm c) [node_port_service, network_lb_service] = Ok example_fw_request"
  "createReconciledFirewallRequest (example_fm c\<lparr>fm_range := rev\<rparr>) [network_lb_service, node_port_service]
     = Ok example_fw_request"
  by code_simp+

theorem reconciled_request_order_free_witness:
  "firewallRequestEqual (Some (firewall_of_request ''fw-1'' example_fw_request)) (Some example_fw_request)"
proof (rule reconciled_request_order_free)
  let ?fm = "example_fm (offline_client :: unit client)"
  show "createReconciledFirewallRequest ?fm [node_port_service, network_lb_service] = Ok example_fw_request"
    "createReconciledFirewallRequest (?fm\<lparr>fm_range := rev\<rparr>) [network_lb_service, node_port_service]
     = Ok example_fw_request"
    by (rule example_fw_request_built)+
  show "visits_all ?fm" "visits_all (?fm\<lparr>fm_range := rev\<rparr>)"
    by (simp_all add: visits_all_def example_fm_def)
  show "mset [node_port_service, network_lb_service] = mset [network_lb_service, node_port_service]" by simp
qed



section \<open>Reading and writing the firewall\<close>

definition stored :: "Firewall option \<Rightarrow> 'w fwState \<Rightarrow> 'w fwState" where
  "stored fw st = st\<lparr>fs_cache := updateCache fw (fs_cache st)\<rparr>"

lemma createFirewall_run:
  assumes "Firewalls_Create (fm_client fm) fr (fs_world st) = ((fw, resp, err), w')"
  shows "createFirewall fm fr st = (Ok (fw, err), record_metric (apiOperationsTotal ''create''
      (if err \<noteq> None then ''failed'' else ''succeeded'')
      (case resp of None \<Rightarrow> '''' | Some r \<Rightarrow> Itoa (resp_StatusCode r))) (st\<lparr>fs_world := w'\<rparr>))"
  using assms
  by (simp add: createFirewall_def executeInstrumentedFirewallOperation_def on_fw_world_def api_def
      bindM_def returnM_def firewallOperationCreate_def)

lemma updateFirewall_run:
  assumes "Firewalls_Update (fm_client fm) i fr (fs_world st) = ((fw, resp, err), w')"
  shows "updateFirewall fm i fr st = (Ok (fw, resp, err), record_metric (apiOperationsTotal ''update''
      (if err \<noteq> None then ''failed'' else ''succeeded'')
      (case resp of None \<Rightarrow> '''' | Some r \<Rightarrow> Itoa (resp_StatusCode r))) (st\<lparr>fs_world := w'\<rparr>))"
  using assms
  by (simp add: updateFirewall_def executeInstrumentedFirewallOperation_def on_fw_world_def api_def
      firewallOperationUpdate_def)

lemma record_metric_frame [simp]:
  "fs_world (record_metric ev st) = fs_world st" "fs_cache (record_metric ev st) = fs_cache st"
  "fs_queue (record_metric ev st) = fs_queue st"
  by (simp_all add: record_metric_def)

text \<open>
  A firewall that was deleted behind the controller's back is created again: when the update reports
  that the firewall does not exist, the same request is sent as a creation, and on success
  the cache holds a firewall equal to the one created; any other failure of the update is returned
  and the cache stays as it was.\<close>

theorem Set_recreates_deleted:
  assumes "fwID \<noteq> ''''"
    and "Firewalls_Update (fm_client fm) fwID fr (fs_world st) = ((u, resp, Some e), w1)"
    and "Firewalls_Create (fm_client fm) fr w1 = ((created, resp2, None), w2)"
  shows "case Set fm fwID fr st of (r, st') \<Rightarrow>
     if is_StatusNotFound resp
     then r = Ok () \<and> fs_world st' = w2 \<and> fcache_isSet (fs_cache st')
       \<and> firewallsEqual (fcache_firewall (fs_cache st')) created
     else r = Err (Errorf ''failed to update firewall: '' e '''') \<and> fs_world st' = w1
       \<and> fs_cache st' = fs_cache st"
proof -
  have look: "fcache_isSet c = snd (getCachedFirewall c)" "fcache_firewall c = fst (getCachedFirewall c)" for c
    by (simp_all add: getCachedFirewall_def)
  show ?thesis
    using assms fwc.store_set fwc.store_same
    by (simp add: Set_def bindM_def updateFirewall_run setByCreating_def createFirewall_run
        store_in_cache_def liftR_def look)
qed

definition example_state :: "Firewall option \<Rightarrow> unit fwState" where
  "example_state fw = \<lparr>fs_cache = \<lparr>fcache_firewall = fw, fcache_isSet = True\<rparr>, fs_metrics = [],
     fs_queue = wq_empty, fs_world = ()\<rparr>"

definition status :: "int \<Rightarrow> Response option" where
  "status code = Some \<lparr>resp_StatusCode = code, resp_Links = None\<rparr>"

text \<open>An account whose firewall was deleted; creating one gives it the ID fw-2.\<close>

definition deleted_fw_client :: "unit client" where
  "deleted_fw_client = offline_client\<lparr>
     Firewalls_Get := (\<lambda>i w. ((None, status 404, Some (ErrorResponse 404 ''gone'')), w)),
     Firewalls_Update := (\<lambda>i r w. ((None, status 404, Some (ErrorResponse 404 ''gone'')), w)),
     Firewalls_Create := (\<lambda>r w. ((Some (firewall_of_request ''fw-2'' r), status 202, None), w)),
     Firewalls_List := (\<lambda>p n w. (([firewall_of_request ''fw-2'' example_fw_request], status 200, None), w))\<rparr>"

theorem Set_recreates_deleted_witness:
  "case Set (example_fm deleted_fw_client) ''fw-1'' example_fw_request (example_state None) of (r, st') \<Rightarrow>
     r = Ok () \<and> firewallsEqual (fcache_firewall (fs_cache st')) (Some (firewall_of_request ''fw-2'' example_fw_request))"
proof -
  have "(''fw-1'' :: string) \<noteq> ''''" by simp
  moreover have "Firewalls_Update (fm_client (example_fm deleted_fw_client)) ''fw-1'' example_fw_request
       (fs_world (example_state None)) = ((None, status 404, Some (ErrorResponse 404 ''gone'')), ())"
    by (simp add: example_fm_def deleted_fw_client_def)
  moreover have "Firewalls_Create (fm_client (example_fm deleted_fw_client)) example_fw_request ()
       = ((Some (firewall_of_request ''fw-2'' example_fw_request), status 202, None), ())"
    by (simp add: example_fm_def deleted_fw_client_def)
  ultimately have "case Set (example_fm deleted_fw_client) ''fw-1'' example_fw_request (example_state None) of (r, st') \<Rightarrow>
     if is_StatusNotFound (status 404)
     then r = Ok () \<and> fs_world st' = () \<and> fcache_isSet (fs_cache st')
       \<and> firewallsEqual (fcache_firewall (fs_cache st')) (Some (firewall_of_request ''fw-2'' example_fw_request))
     else r = Err (Errorf ''failed to update firewall: '' (ErrorResponse 404 ''gone'') '''') \<and> fs_world st' = ()
       \<and> fs_cache st' = fs_cache (example_state None)"
    by (rule Set_recreates_deleted)
  then show ?thesis by (simp add: is_StatusNotFound_def status_def StatusNotFound_def split: prod.splits)
qed

text \<open>
  The cache can keep the ID of a firewall that no longer exists: when the cached firewall is gone and another one
  with the same name, rules and tags is found by listing, it is returned, but the cache
  still holds the old firewall with its old ID.\<close>

theorem Get_keeps_stale_id:
  assumes "fcache_firewall (fs_cache st) = Some old"
    and "Firewalls_Get (fm_client fm) (fw_ID old) (fs_world st) = ((None, Some r, Some e), w1)"
    and "resp_StatusCode r = StatusNotFound"
    and "filterFirewallList (fm_client fm) (\<lambda>fw. fw_Name fw = fm_workerFirewallName fm) w1
       = (Ok (Some new, resp, None), w2)"
    and "firewallsEqual (Some old) (Some new)"
  shows "case Get fm st of (res, st') \<Rightarrow>
     res = Ok (Some new) \<and> fcache_firewall (fs_cache st') = Some old"
  using assms
  by (simp add: Get_def get_and_cache_def getCachedFirewall_def bindM_def get_state_def liftR_def returnM_def getByList_def
      executeInstrumentedFirewallOperationGetByID_def executeInstrumentedFirewallOperationGetByList_def
      executeInstrumentedFirewallOperation_def on_fw_world_def api_def is_StatusNotFound_def
      record_metric_def updateCache_def)

theorem Get_keeps_stale_id_witness:
  "case Get (example_fm deleted_fw_client) (example_state (Some (firewall_of_request ''fw-1'' example_fw_request))) of
     (res, st') \<Rightarrow> res = Ok (Some (firewall_of_request ''fw-2'' example_fw_request))
       \<and> map_option fw_ID (fcache_firewall (fs_cache st')) = Some ''fw-1''"
proof -
  let ?old = "firewall_of_request ''fw-1'' example_fw_request"
  let ?new = "firewall_of_request ''fw-2'' example_fw_request"
  have cached: "fcache_firewall (fs_cache (example_state (Some ?old))) = Some ?old"
    by (simp add: example_state_def)
  have byid: "Firewalls_Get (fm_client (example_fm deleted_fw_client)) (fw_ID ?old) (fs_world (example_state (Some ?old)))
      = ((None, Some \<lparr>resp_StatusCode = 404, resp_Links = None\<rparr>, Some (ErrorResponse 404 ''gone'')), ())"
    by (simp add: example_fm_def deleted_fw_client_def status_def)
  have fuel: "page_fuel (fm_client (example_fm deleted_fw_client)) = Suc 9"
    by (simp add: example_fm_def deleted_fw_client_def offline_client_def Let_def)
  have bylist: "filterFirewallList (fm_client (example_fm deleted_fw_client))
      (\<lambda>fw. fw_Name fw = fm_workerFirewallName (example_fm deleted_fw_client)) ()
      = (Ok (Some ?new, status 200, None), ())"
    unfolding filterFirewallList_def fuel filterFirewallList_loop.simps
    by (simp add: bindM_def api_def returnM_def example_fm_def deleted_fw_client_def firewall_of_request_def
        example_fw_request_def)
  have same: "firewallsEqual (Some ?old) (Some ?new)"
    by (simp add: firewallsEqual_def compFirewallFromFirewall_def firewall_of_request_def)
  have "resp_StatusCode \<lparr>resp_StatusCode = 404, resp_Links = None\<rparr> = StatusNotFound"
    by (simp add: StatusNotFound_def)
  from Get_keeps_stale_id [OF cached byid this bylist same] show ?thesis
    by (simp add: firewall_of_request_def split: prod.splits)
qed

section \<open>Reconciling twice\<close>

text \<open>The API returns the firewall it stored, with the content of the request.\<close>

definition api_echoes :: "'w client \<Rightarrow> bool" where
  "api_echoes c \<longleftrightarrow>
     (\<forall>fr w fw resp w'. Firewalls_Create c fr w = ((fw, resp, None), w') \<longrightarrow> firewallRequestEqual fw (Some fr))
     \<and> (\<forall>i fr w fw resp w'. Firewalls_Update c i fr w = ((fw, resp, None), w') \<longrightarrow> firewallRequestEqual fw (Some fr))"

lemma cache_stored:
  "fcache_isSet (updateCache fw c)" "firewallsEqual (fcache_firewall (updateCache fw c)) fw"
  using fwc.store_set [of fw c] fwc.store_same [of fw c] by (simp_all add: getCachedFirewall_def)

lemma request_equal_trans: "firewallsEqual a b \<Longrightarrow> firewallRequestEqual b fr \<Longrightarrow> firewallRequestEqual a fr"
  by (auto simp: firewallsEqual_def firewallRequestEqual_def intro: compFirewallsEqual_trans)

lemma Get_Ok:
  "Get fm st = (Ok fw, st') \<Longrightarrow> fcache_isSet (fs_cache st') \<and> firewallsEqual (fcache_firewall (fs_cache st')) fw"
  by (auto simp: Get_def get_and_cache_def cache_stored split: prod.splits outcome.splits)

lemma GetPreferFromCache_Ok:
  "GetPreferFromCache fm st = (Ok fw, st') \<Longrightarrow>
     fcache_isSet (fs_cache st') \<and> firewallsEqual (fcache_firewall (fs_cache st')) fw"
  by (auto simp: GetPreferFromCache_def getCachedFirewall_def firewallsEqual_def returnM_def
      dest: Get_Ok split: if_splits)

lemma setByCreating_Ok:
  assumes "setByCreating fm fr st = (Ok (), st')" "api_echoes (fm_client fm)"
  shows "fcache_isSet (fs_cache st') \<and> firewallRequestEqual (fcache_firewall (fs_cache st')) (Some fr)"
proof -
  obtain fw resp err w1 where c: "Firewalls_Create (fm_client fm) fr (fs_world st) = ((fw, resp, err), w1)"
    by (metis prod.collapse)
  from assms(1) createFirewall_run [OF c] have "err = None" "fs_cache st' = updateCache fw (fs_cache st)"
    by (auto simp: setByCreating_def bindM_def store_in_cache_def liftR_def split: option.splits)
  with c assms(2) show ?thesis
    using cache_stored request_equal_trans unfolding api_echoes_def by metis
qed

lemma Set_Ok:
  assumes "Set fm i fr st = (Ok (), st')" "api_echoes (fm_client fm)"
  shows "fcache_isSet (fs_cache st') \<and> firewallRequestEqual (fcache_firewall (fs_cache st')) (Some fr)"
proof (cases "i = ''''")
  case True
  with assms show ?thesis by (simp add: Set_def setByCreating_Ok)
next
  case False
  obtain fw resp err w1 where c: "Firewalls_Update (fm_client fm) i fr (fs_world st) = ((fw, resp, err), w1)"
    by (metis prod.collapse)
  show ?thesis
  proof (cases err)
    case None
    with assms(1) False updateFirewall_run [OF c] have "fs_cache st' = updateCache fw (fs_cache st)"
      by (auto simp: Set_def bindM_def store_in_cache_def)
    with c None assms(2) show ?thesis
      using cache_stored request_equal_trans unfolding api_echoes_def by metis
  next
    case (Some e)
    with assms(1) False updateFirewall_run [OF c] have "\<exists>st1. setByCreating fm fr st1 = (Ok (), st')"
      by (auto simp: Set_def bindM_def liftR_def split: if_splits)
    with assms(2) setByCreating_Ok show ?thesis by blast
  qed
qed

text \<open>
  C6: Reconciling is idempotent: once a reconcile has succeeded, and as long as the services stay the
  same, the next one is skipped and makes no API call at all, provided that the API returns firewalls
  with the content it was sent.\<close>

theorem reconcile_then_skip:
  assumes "api_echoes (fm_client (fc_fwManager fc))"
    and "fc_serviceLister fc = (\<lambda>w. (svcs, None))"
    and "ensureReconciledFirewall fc st = (Ok skipped, st')"
  shows "ensureReconciledFirewall fc st' = (Ok True, st')"
proof -
  let ?fm = "fc_fwManager fc"
  from assms(2,3) obtain fr fw st1 where fr: "createReconciledFirewallRequest ?fm svcs = Ok fr"
    and get: "GetPreferFromCache ?fm st = (Ok fw, st1)"
    and rest: "if firewallRequestEqual fw (Some fr) then st' = st1
       else Set ?fm (case fw of None \<Rightarrow> '''' | Some f \<Rightarrow> fw_ID f) fr st1 = (Ok (), st')"
    by (auto simp: ensureReconciledFirewall_def outcome_simps Let_def split: if_splits)
  have "fcache_isSet (fs_cache st') \<and> firewallRequestEqual (fcache_firewall (fs_cache st')) (Some fr)"
  proof (cases "firewallRequestEqual fw (Some fr)")
    case True
    with rest GetPreferFromCache_Ok [OF get] request_equal_trans show ?thesis by auto
  next
    case False
    with rest Set_Ok [OF _ assms(1)] show ?thesis by auto
  qed
  with fr assms(2) show ?thesis
    by (simp add: ensureReconciledFirewall_def bindM_def get_state_def liftR_def GetPreferFromCache_def
        getCachedFirewall_def map_errM_def returnM_def)
qed

definition echo_client :: "unit client" where
  "echo_client = offline_client\<lparr>
     Firewalls_Update := (\<lambda>i r w. ((Some (firewall_of_request i r), status 200, None), w)),
     Firewalls_Create := (\<lambda>r w. ((Some (firewall_of_request ''fw-1'' r), status 202, None), w))\<rparr>"

definition example_fc :: "unit FirewallController" where
  "example_fc = \<lparr>fc_fwManager = example_fm echo_client,
     fc_serviceLister = (\<lambda>w. ([node_port_service, network_lb_service], None)), fc_ctxErr = (\<lambda>w. False)\<rparr>"

lemma echo_client_echoes: "api_echoes echo_client"
  by (auto simp: api_echoes_def echo_client_def firewallRequestEqual_def compFirewallFromFirewall_def
      compFirewallFromFirewallRequest_def firewall_of_request_def)

lemma example_reconcile_run:
  "\<exists>st'. ensureReconciledFirewall example_fc ((example_state None)\<lparr>fs_queue := q\<rparr>) = (Ok False, st')"
proof -
  have ne: "\<not> firewallRequestEqual None (Some fr)" for fr
    by (simp add: firewallRequestEqual_def compFirewallsEqual_def compFirewallFromFirewall_def
        compFirewallFromFirewallRequest_def)
  have "Firewalls_Create (fm_client (example_fm echo_client)) fr w
      = ((Some (firewall_of_request ''fw-1'' fr), status 202, None), w)" for fr w
    by (simp add: example_fm_def echo_client_def)
  from createFirewall_run [OF this] show ?thesis
    by (simp add: ensureReconciledFirewall_def example_fc_def example_fw_request_built bindM_def get_state_def liftR_def
        map_errM_def GetPreferFromCache_def getCachedFirewall_def example_state_def ne Set_def
        setByCreating_def store_in_cache_def returnM_def)
qed

theorem reconcile_then_skip_witness:
  "\<exists>st'. ensureReconciledFirewall example_fc (example_state None) = (Ok False, st')
     \<and> ensureReconciledFirewall example_fc st' = (Ok True, st')"
proof -
  obtain st' where run: "ensureReconciledFirewall example_fc (example_state None) = (Ok False, st')"
    using example_reconcile_run [of wq_empty] by (auto simp: example_state_def)
  have "api_echoes (fm_client (fc_fwManager example_fc))"
    by (simp add: example_fc_def example_fm_def echo_client_echoes)
  moreover have "fc_serviceLister example_fc = (\<lambda>w. ([node_port_service, network_lb_service], None))"
    by (simp add: example_fc_def)
  ultimately have "ensureReconciledFirewall example_fc st' = (Ok True, st')"
    using run by (rule reconcile_then_skip)
  with run show ?thesis by blast
qed

section \<open>Metrics\<close>

fun is_api_metric :: "metricEvent \<Rightarrow> bool" where
  "is_api_metric (apiOperationsTotal op result code) = True"
| "is_api_metric _ = False"

text \<open>Below the instrumented entry points, calls leave the queue alone and count API operations only.\<close>

definition counts_api_only :: "'w fwState \<Rightarrow> 'w fwState \<Rightarrow> bool" where
  "counts_api_only st st' \<longleftrightarrow> fs_queue st' = fs_queue st
     \<and> (\<exists>evs. fs_metrics st' = fs_metrics st @ evs \<and> list_all is_api_metric evs)"

interpretation fw: state_frame counts_api_only
proof unfold_locales
  show "counts_api_only s s" for s :: "'w fwState" by (simp add: counts_api_only_def)
  show "counts_api_only s u" if "counts_api_only s t" "counts_api_only t u" for s t u :: "'w fwState"
    using that by (force simp: counts_api_only_def)
qed

lemma fw_keeps_operation: "fw.keeps (executeInstrumentedFirewallOperation op f)"
  by (rule fw.keepsI)
    (auto simp: executeInstrumentedFirewallOperation_def on_fw_world_def record_metric_def counts_api_only_def
      split: prod.splits outcome.splits)

lemma fw_keeps_store: "fw.keeps (store_in_cache v)"
  by (rule fw.keepsI) (auto simp: store_in_cache_def counts_api_only_def)

lemma fw_keeps_get_and_cache: "fw.keeps body \<Longrightarrow> fw.keeps (get_and_cache body)"
  by (fastforce simp: fw.keeps_def get_and_cache_def counts_api_only_def split: prod.splits outcome.splits)

lemmas fw_keeps = fw.keeps_rules fw_keeps_operation fw_keeps_store

lemma fw_keeps_getByList: "fw.keeps (getByList fm)"
  unfolding getByList_def executeInstrumentedFirewallOperationGetByList_def by (intro fw_keeps)

lemma fw_keeps_Get: "fw.keeps (Get fm)"
  unfolding Get_def executeInstrumentedFirewallOperationGetByID_def
  by (intro fw_keeps_get_and_cache fw_keeps_getByList fw_keeps)

lemma fw_keeps_Set: "fw.keeps (Set fm i fr)"
  unfolding Set_def setByCreating_def updateFirewall_def createFirewall_def by (intro fw_keeps)

lemma fw_keeps_ensure: "fw.keeps (ensureReconciledFirewall fc)"
  unfolding ensureReconciledFirewall_def GetPreferFromCache_def Let_def
  by (intro fw_keeps fw_keeps_Get fw_keeps_Set)

text \<open>
  Every reconcile is counted once, after the API operations it made, with its
  result: reconciled or skipped when it succeeds, failed with the error type otherwise; the work queue is not
  touched. A reconcile that panics is counted as reconciled.\<close>

theorem reconcile_counted_once:
  "case ensureReconciledFirewallInstrumented fc st of (r, st') \<Rightarrow>
     fs_queue st' = fs_queue st \<and>
     (\<exists>evs counted. list_all is_api_metric evs \<and> fs_metrics st' = fs_metrics st @ evs @ counted
        \<and> counted \<in> (case r of
              Ok _ \<Rightarrow> {[reconcilesTotal ''reconciled'' ''''], [reconcilesTotal ''skipped'' '''']}
            | Err _ \<Rightarrow> {[reconcilesTotal ''failed'' ''timeout''], [reconcilesTotal ''failed'' ''generic'']}
            | Panic _ \<Rightarrow> {[reconcilesTotal ''reconciled'' '''']}
            | OutOfFuel \<Rightarrow> {[]}))"
proof -
  obtain r st1 where run: "ensureReconciledFirewall fc st = (r, st1)" by fastforce
  from fw.keepsD [OF fw_keeps_ensure run] obtain evs where
    "fs_queue st1 = fs_queue st" "fs_metrics st1 = fs_metrics st @ evs" "list_all is_api_metric evs"
    by (auto simp: counts_api_only_def)
  with run show ?thesis
    by (cases r) (auto simp: ensureReconciledFirewallInstrumented_def record_metric_def)
qed

end
