(* ===== verification/Firewall_Queue.thy ===== *)
theory Firewall_Queue
  imports Firewall_Controller
begin

text \<open>
  The firewall controller as a state machine: the handlers of service events, the periodic
  resync, the worker and the timers of the rate limiter run concurrently and meet in the work
  queue. The machine has one step per queue operation of the code; two ghost flags tell
  whether a change of the services has not been read by the worker yet and whether a
  reconcile is in flight.
\<close>

record controller =
  ctl_queue :: workqueue
  ctl_unsynced :: bool
  ctl_inflight :: bool

definition ctl_init :: controller where
  "ctl_init = \<lparr>ctl_queue = wq_empty, ctl_unsynced = False, ctl_inflight = False\<rparr>"

inductive ctl_step :: "controller \<Rightarrow> controller \<Rightarrow> bool" where
  service_event:
    "ctl_step c (c\<lparr>ctl_queue := wq_Add queueKey (ctl_queue c), ctl_unsynced := True\<rparr>)"
| resync:
    "ctl_step c (c\<lparr>ctl_queue := wq_Add queueKey (ctl_queue c)\<rparr>)"
| worker_start:
    "wq_Get (ctl_queue c) = Some (Some key, q') \<Longrightarrow>
     ctl_step c (c\<lparr>ctl_queue := q', ctl_unsynced := False, ctl_inflight := True\<rparr>)"
| worker_succeeded:
    "key \<in> set (wq_processing (ctl_queue c)) \<Longrightarrow>
     ctl_step c (c\<lparr>ctl_queue := wq_Done key (wq_Forget key (ctl_queue c)), ctl_inflight := False\<rparr>)"
| worker_failed:
    "key \<in> set (wq_processing (ctl_queue c)) \<Longrightarrow>
     ctl_step c (c\<lparr>ctl_queue := wq_Done key (wq_AddRateLimited minRetryDelay maxRetryDelay key (ctl_queue c)),
                   ctl_unsynced := True, ctl_inflight := False\<rparr>)"
| delay_over:
    "key \<in> set (wq_waiting (ctl_queue c)) \<Longrightarrow>
     ctl_step c (c\<lparr>ctl_queue := wq_Ready key (ctl_queue c)\<rparr>)"
| shut_down:
    "ctl_step c (c\<lparr>ctl_queue := wq_ShutDown (ctl_queue c)\<rparr>)"

inductive_cases ctl_stepE: "ctl_step c c'"

definition reachable :: "controller \<Rightarrow> bool" where
  "reachable c \<longleftrightarrow> ctl_step\<^sup>*\<^sup>* ctl_init c"

section \<open>Invariant\<close>

definition only_key :: "workqueue \<Rightarrow> bool" where
  "only_key q \<longleftrightarrow> set (wq_queue q) \<union> set (wq_dirty q) \<union> set (wq_processing q) \<union> set (wq_waiting q) \<subseteq> {queueKey}"

definition ctl_inv :: "controller \<Rightarrow> bool" where
  "ctl_inv c \<longleftrightarrow> wq_inv (ctl_queue c) \<and> only_key (ctl_queue c)
     \<and> (ctl_inflight c \<longleftrightarrow> queueKey \<in> set (wq_processing (ctl_queue c)))
     \<and> (ctl_unsynced c \<longrightarrow> wq_shuttingDown (ctl_queue c)
          \<or> queueKey \<in> set (wq_dirty (ctl_queue c)) \<or> queueKey \<in> set (wq_waiting (ctl_queue c)))"

lemma retry_delays: "0 < minRetryDelay" "minRetryDelay \<le> maxRetryDelay"
  by (simp_all add: minRetryDelay_def maxRetryDelay_def)

lemma retry_delay_positive: "\<not> backoff_delay minRetryDelay maxRetryDelay n \<le> 0"
  using backoff_delay_bounds [OF retry_delays, of n] retry_delays(1) by linarith

lemma AddRateLimited_eq:
  "wq_AddRateLimited minRetryDelay maxRetryDelay k q =
     (if wq_shuttingDown q then q else q\<lparr>wq_waiting := List.insert k (wq_waiting q)\<rparr>)
       \<lparr>wq_failures := AList.update k (failures k q + 1) (wq_failures q)\<rparr>"
  by (simp add: wq_AddRateLimited_def wq_When_def wq_AddAfter_def Let_def retry_delay_positive)

lemma wq_Add_frame [simp]:
  "wq_processing (wq_Add k q) = wq_processing q" "wq_waiting (wq_Add k q) = wq_waiting q"
  "wq_shuttingDown (wq_Add k q) = wq_shuttingDown q"
  by (simp_all add: wq_Add_def Let_def)

lemma wq_Done_frame [simp]:
  "wq_dirty (wq_Done k q) = wq_dirty q" "wq_waiting (wq_Done k q) = wq_waiting q"
  "wq_shuttingDown (wq_Done k q) = wq_shuttingDown q"
  "wq_processing (wq_Done k q) = removeAll k (wq_processing q)"
  by (simp_all add: wq_Done_def Let_def)

lemma wq_Ready_frame [simp]:
  "wq_dirty (wq_Ready k q) = wq_dirty (wq_Add k q)" "wq_processing (wq_Ready k q) = wq_processing q"
  "wq_shuttingDown (wq_Ready k q) = wq_shuttingDown q" "wq_queue (wq_Ready k q) = wq_queue (wq_Add k q)"
  "wq_waiting (wq_Ready k q) = removeAll k (wq_waiting q)"
  by (simp_all add: wq_Ready_def)

lemma only_key_ops:
  "only_key q \<Longrightarrow> only_key (wq_Add queueKey q)"
  "only_key q \<Longrightarrow> only_key (wq_Done k q)"
  "only_key q \<Longrightarrow> only_key (wq_Forget k q)"
  "only_key q \<Longrightarrow> only_key (wq_ShutDown q)"
  "only_key q \<Longrightarrow> wq_Get q = Some (r, q') \<Longrightarrow> only_key q'"
  by (auto simp: only_key_def wq_Add_def wq_Done_def wq_Forget_def wq_ShutDown_def wq_Get_def Let_def
      split: list.splits if_splits)

lemma ctl_inv_init: "ctl_inv ctl_init"
  by (simp add: ctl_inv_def ctl_init_def wq_inv_empty only_key_def) (simp add: wq_empty_def)

lemma inv_add:
  "ctl_inv c \<Longrightarrow> ctl_inv (c\<lparr>ctl_queue := wq_Add queueKey (ctl_queue c), ctl_unsynced := u\<rparr>)"
  using wq.add_pending [of "ctl_queue c" queueKey]
  by (auto simp: ctl_inv_def wq_inv_Add only_key_ops)

lemma inv_start:
  assumes "ctl_inv c" "wq_Get (ctl_queue c) = Some (Some k, q')"
  shows "ctl_inv (c\<lparr>ctl_queue := q', ctl_unsynced := False, ctl_inflight := True\<rparr>)"
proof -
  from assms(1) have inv: "wq_inv (ctl_queue c)" "only_key (ctl_queue c)" by (simp_all add: ctl_inv_def)
  have "wq_inv q'" by (rule wq_inv_Get [OF inv(1) assms(2)])
  moreover have "only_key q'" by (rule only_key_ops(5) [OF inv(2) assms(2)])
  moreover from this wq.get_not_busy [OF inv(1) assms(2)] have "queueKey \<in> set (wq_processing q')"
    by (auto simp: only_key_def)
  ultimately show ?thesis by (simp add: ctl_inv_def)
qed

lemma processing_key: "ctl_inv c \<Longrightarrow> k \<in> set (wq_processing (ctl_queue c)) \<Longrightarrow> k = queueKey"
  by (auto simp: ctl_inv_def only_key_def)

lemma inv_succeeded:
  assumes "ctl_inv c" "k \<in> set (wq_processing (ctl_queue c))"
  shows "ctl_inv (c\<lparr>ctl_queue := wq_Done k (wq_Forget k (ctl_queue c)), ctl_inflight := False\<rparr>)"
proof -
  have "k \<in> set (wq_processing (wq_Forget k (ctl_queue c)))" using assms(2) by (simp add: wq_Forget_def)
  with assms processing_key [OF assms] show ?thesis
    by (auto simp: ctl_inv_def only_key_ops wq_inv_Done wq_inv_other) (auto simp: wq_Forget_def)
qed

lemma inv_failed:
  assumes "ctl_inv c" "k \<in> set (wq_processing (ctl_queue c))"
  shows "ctl_inv (c\<lparr>ctl_queue := wq_Done k (wq_AddRateLimited minRetryDelay maxRetryDelay k (ctl_queue c)),
     ctl_unsynced := True, ctl_inflight := False\<rparr>)"
proof -
  let ?q = "wq_AddRateLimited minRetryDelay maxRetryDelay k (ctl_queue c)"
  have k: "k = queueKey" by (rule processing_key [OF assms])
  have "k \<in> set (wq_processing ?q)" using assms(2) by (simp add: AddRateLimited_eq)
  moreover have "only_key ?q" using assms(1) k by (auto simp: ctl_inv_def only_key_def AddRateLimited_eq)
  ultimately have "wq_inv (wq_Done k ?q)" "only_key (wq_Done k ?q)"
    using assms(1) by (auto simp: ctl_inv_def only_key_ops wq_inv_Done wq_inv_AddRateLimited)
  with k show ?thesis by (auto simp: ctl_inv_def AddRateLimited_eq)
qed

lemma inv_delay_over:
  assumes "ctl_inv c" "k \<in> set (wq_waiting (ctl_queue c))"
  shows "ctl_inv (c\<lparr>ctl_queue := wq_Ready k (ctl_queue c)\<rparr>)"
proof -
  from assms have k: "k = queueKey" by (auto simp: ctl_inv_def only_key_def)
  have "only_key (wq_Ready k (ctl_queue c))"
    using assms(1) k by (auto simp: ctl_inv_def only_key_def wq_Ready_def wq_Add_def Let_def split: if_splits)
  with assms(1) k wq.add_pending [of "ctl_queue c" queueKey] show ?thesis
    by (auto simp: ctl_inv_def wq_inv_other)
qed

lemma ctl_inv_step: "ctl_step c c' \<Longrightarrow> ctl_inv c \<Longrightarrow> ctl_inv c'"
proof (induction rule: ctl_step.induct)
  case (resync c)
  then show ?case using inv_add [of c "ctl_unsynced c"] by simp
next
  case (shut_down c)
  then show ?case by (auto simp: ctl_inv_def wq_inv_other only_key_ops) (auto simp: wq_ShutDown_def)
qed (auto intro: inv_add inv_start inv_succeeded inv_failed inv_delay_over)

lemma reachable_inv: "reachable c \<Longrightarrow> ctl_inv c"
  unfolding reachable_def
  by (induction rule: rtranclp_induct) (auto intro: ctl_inv_init ctl_inv_step)

text \<open>
  C4: No change is lost: in every reachable state of the controller that is not shutting down, a
  change of the services that no reconcile has picked up yet, or whose reconcile has failed, is
  marked for processing or waits for its retry; a reconcile is in flight exactly when the item
  is being processed; and the item is never queued while it is being processed and at most once at any time.\<close>

theorem no_lost_update:
  assumes "reachable c"
  shows "(ctl_unsynced c \<and> \<not> wq_shuttingDown (ctl_queue c) \<longrightarrow>
            queueKey \<in> set (wq_dirty (ctl_queue c)) \<or> queueKey \<in> set (wq_waiting (ctl_queue c)))
     \<and> (ctl_inflight c \<longleftrightarrow> queueKey \<in> set (wq_processing (ctl_queue c)))
     \<and> length (wq_queue (ctl_queue c)) + length (wq_processing (ctl_queue c)) \<le> 1"
proof -
  from reachable_inv [OF assms] have inv: "ctl_inv c" .
  have one: "length xs \<le> 1" if "distinct xs" "set xs \<subseteq> {queueKey}" for xs
    using that card_mono [of "{queueKey}" "set xs"] by (simp add: distinct_card)
  from inv have "distinct (wq_queue (ctl_queue c) @ wq_processing (ctl_queue c))"
    "set (wq_queue (ctl_queue c) @ wq_processing (ctl_queue c)) \<subseteq> {queueKey}"
    by (auto simp: ctl_inv_def wq_inv_def only_key_def)
  from one [OF this] inv show ?thesis by (auto simp: ctl_inv_def)
qed

text \<open>A run in which a change arrives while the worker is busy with an earlier one.\<close>

definition busy_controller :: controller where
  "busy_controller = \<lparr>ctl_queue = \<lparr>wq_queue = [], wq_dirty = [queueKey], wq_processing = [queueKey],
     wq_shuttingDown = False, wq_waiting = [], wq_failures = []\<rparr>, ctl_unsynced = True, ctl_inflight = True\<rparr>"

lemma reachable_step: "reachable c \<Longrightarrow> ctl_step c c' \<Longrightarrow> reachable c'"
  unfolding reachable_def by (rule rtranclp.rtrancl_into_rtrancl)

lemma busy_controller_reachable: "reachable busy_controller"
proof -
  let ?q1 = "wq_Add queueKey wq_empty"
  let ?c1 = "ctl_init\<lparr>ctl_queue := ?q1, ctl_unsynced := True\<rparr>"
  let ?q2 = "?q1\<lparr>wq_queue := [], wq_processing := [queueKey], wq_dirty := []\<rparr>"
  let ?c2 = "?c1\<lparr>ctl_queue := ?q2, ctl_unsynced := False, ctl_inflight := True\<rparr>"
  have "reachable ctl_init" by (simp add: reachable_def)
  moreover have "ctl_step ctl_init ?c1"
    using ctl_step.service_event [of ctl_init] by (simp add: ctl_init_def)
  moreover have "ctl_step ?c1 ?c2"
    by (rule ctl_step.worker_start [of _ queueKey]) (simp add: wq_Get_def wq_Add_def wq_empty_def)
  moreover have "ctl_step ?c2 busy_controller"
    using ctl_step.service_event [of ?c2]
    by (simp add: busy_controller_def wq_Add_def wq_empty_def ctl_init_def)
  ultimately show ?thesis using reachable_step by blast
qed

theorem no_lost_update_witness:
  "reachable busy_controller \<and> ctl_unsynced busy_controller
   \<and> (queueKey \<in> set (wq_dirty (ctl_queue busy_controller)) \<or> queueKey \<in> set (wq_waiting (ctl_queue busy_controller)))"
  using no_lost_update [OF busy_controller_reachable] busy_controller_reachable
  by (simp add: busy_controller_def)

section \<open>Convergence\<close>

lemma finish_inflight:
  assumes "ctl_inv c" "ctl_inflight c"
  shows "\<exists>c'. ctl_step c c' \<and> ctl_inv c' \<and> \<not> ctl_inflight c' \<and> ctl_unsynced c' = ctl_unsynced c
     \<and> wq_shuttingDown (ctl_queue c') = wq_shuttingDown (ctl_queue c)"
proof -
  from assms have "queueKey \<in> set (wq_processing (ctl_queue c))" by (simp add: ctl_inv_def)
  note busy = this
  show ?thesis
    by (rule exI [of _ "c\<lparr>ctl_queue := wq_Done queueKey (wq_Forget queueKey (ctl_queue c)), ctl_inflight := False\<rparr>"])
      (use ctl_step.worker_succeeded [OF busy] inv_succeeded [OF assms(1) busy] in \<open>simp add: wq_Forget_def\<close>)
qed

lemma start_pending:
  assumes "ctl_inv c" "\<not> ctl_inflight c" "queueKey \<in> set (wq_dirty (ctl_queue c))"
  shows "\<exists>c'. ctl_step c c' \<and> ctl_inv c' \<and> ctl_inflight c' \<and> \<not> ctl_unsynced c'"
proof -
  from assms obtain k q' where "wq_Get (ctl_queue c) = Some (Some k, q')"
    using wq.takeable [of "ctl_queue c" queueKey] by (auto simp: ctl_inv_def)
  note get = this
  show ?thesis
    by (rule exI [of _ "c\<lparr>ctl_queue := q', ctl_unsynced := False, ctl_inflight := True\<rparr>"])
      (use ctl_step.worker_start [OF get] inv_start [OF assms(1) get] in simp)
qed

lemma drain_pending:
  assumes "ctl_inv c" "\<not> ctl_inflight c" "queueKey \<in> set (wq_dirty (ctl_queue c))"
  shows "\<exists>c'. ctl_step\<^sup>*\<^sup>* c c' \<and> \<not> ctl_unsynced c' \<and> \<not> ctl_inflight c'"
proof -
  from start_pending [OF assms] obtain c1 where c1: "ctl_step c c1" "ctl_inv c1" "ctl_inflight c1"
    "\<not> ctl_unsynced c1" by blast
  from finish_inflight [OF c1(2,3)] obtain c2 where "ctl_step c1 c2" "\<not> ctl_inflight c2"
    "ctl_unsynced c2 = ctl_unsynced c1" by blast
  with c1 show ?thesis by (meson converse_rtranclp_into_rtranclp rtranclp.rtrancl_refl)
qed

lemma drain_idle:
  assumes "ctl_inv c" "\<not> ctl_inflight c" "\<not> wq_shuttingDown (ctl_queue c)"
  shows "\<exists>c'. ctl_step\<^sup>*\<^sup>* c c' \<and> \<not> ctl_unsynced c' \<and> \<not> ctl_inflight c'"
proof -
  consider "\<not> ctl_unsynced c" | "queueKey \<in> set (wq_dirty (ctl_queue c))"
    | "queueKey \<in> set (wq_waiting (ctl_queue c))"
    using assms(1,3) by (auto simp: ctl_inv_def)
  then show ?thesis
  proof cases
    case 1
    with assms(2) show ?thesis by blast
  next
    case 2
    with assms show ?thesis by (intro drain_pending)
  next
    case 3
    let ?c = "c\<lparr>ctl_queue := wq_Ready queueKey (ctl_queue c)\<rparr>"
    have "ctl_step c ?c" using 3 by (rule ctl_step.delay_over)
    moreover have "\<exists>c'. ctl_step\<^sup>*\<^sup>* ?c c' \<and> \<not> ctl_unsynced c' \<and> \<not> ctl_inflight c'"
      using inv_delay_over [OF assms(1) 3] assms(2,3) wq.add_pending [of "ctl_queue c" queueKey]
      by (intro drain_pending) auto
    ultimately show ?thesis by (meson converse_rtranclp_into_rtranclp)
  qed
qed



section \<open>The worker implements the machine\<close>

lemma instrumented_queue:
  "ensureReconciledFirewallInstrumented fc st = (r, st') \<Longrightarrow> fs_queue st' = fs_queue st"
  using fw.keepsD [OF fw_keeps_ensure, of fc st]
  by (cases "ensureReconciledFirewall fc st"; cases "fst (ensureReconciledFirewall fc st)")
    (auto simp: ensureReconciledFirewallInstrumented_def counts_api_only_def)

text \<open>
  C32: A round of the worker is a run of the machine: it takes the item and finishes it, successfully or
  with a rate limited retry exactly when the reconcile returned an error.\<close>

theorem processNextItem_refines:
  assumes "processNextItem fc st = Some (Ok True, st')"
  shows "\<exists>key q r st1. wq_Get (fs_queue st) = Some (Some key, q)
     \<and> ensureReconciledFirewallInstrumented fc (st\<lparr>fs_queue := q\<rparr>) = (r, st1)
     \<and> ctl_step\<^sup>*\<^sup>*
         \<lparr>ctl_queue = fs_queue st, ctl_unsynced = u, ctl_inflight = False\<rparr>
         \<lparr>ctl_queue = fs_queue st', ctl_unsynced = (\<exists>e. r = Err e), ctl_inflight = False\<rparr>"
proof -
  from assms obtain key q where get: "wq_Get (fs_queue st) = Some (Some key, q)"
    by (auto simp: processNextItem_def split: option.splits)
  obtain r st1 where run: "ensureReconciledFirewallInstrumented fc (st\<lparr>fs_queue := q\<rparr>) = (r, st1)" by fastforce
  from instrumented_queue [OF run] have q: "fs_queue st1 = q" by simp
  let ?c0 = "\<lparr>ctl_queue = fs_queue st, ctl_unsynced = u, ctl_inflight = False\<rparr>"
  let ?c1 = "\<lparr>ctl_queue = q, ctl_unsynced = False, ctl_inflight = True\<rparr>"
  have start: "ctl_step ?c0 ?c1" using ctl_step.worker_start [of ?c0 key q] get by simp
  have busy: "key \<in> set (wq_processing q)" using get by (auto simp: wq_Get_def split: list.splits if_splits)
  have "ctl_step\<^sup>*\<^sup>* ?c0 \<lparr>ctl_queue = fs_queue st', ctl_unsynced = (\<exists>e. r = Err e), ctl_inflight = False\<rparr>"
  proof (cases r)
    case (Ok x)
    with assms get run q have "fs_queue st' = wq_Done key (wq_Forget key q)"
      by (auto simp: processNextItem_def)
    with ctl_step.worker_succeeded [of key ?c1] busy
    have "ctl_step ?c1 \<lparr>ctl_queue = fs_queue st', ctl_unsynced = False, ctl_inflight = False\<rparr>" by simp
    with start Ok show ?thesis by (simp add: converse_rtranclp_into_rtranclp)
  next
    case (Err e)
    with assms get run q have "fs_queue st' = wq_Done key (wq_AddRateLimited minRetryDelay maxRetryDelay key q)"
      by (auto simp: processNextItem_def)
    with ctl_step.worker_failed [of key ?c1] busy
    have "ctl_step ?c1 \<lparr>ctl_queue = fs_queue st', ctl_unsynced = True, ctl_inflight = False\<rparr>" by simp
    with start Err show ?thesis by (simp add: converse_rtranclp_into_rtranclp)
  qed (use assms get run in \<open>auto simp: processNextItem_def\<close>)
  with get run show ?thesis by blast
qed

theorem processNextItem_refines_witness:
  "\<exists>st' failed. processNextItem example_fc ((example_state None)\<lparr>fs_queue := wq_Add queueKey wq_empty\<rparr>)
       = Some (Ok True, st')
     \<and> ctl_step\<^sup>*\<^sup>* \<lparr>ctl_queue = wq_Add queueKey wq_empty, ctl_unsynced = True, ctl_inflight = False\<rparr>
          \<lparr>ctl_queue = fs_queue st', ctl_unsynced = failed, ctl_inflight = False\<rparr>"
proof -
  let ?q = "(wq_Add queueKey wq_empty)\<lparr>wq_queue := [], wq_processing := [queueKey], wq_dirty := []\<rparr>"
  have get: "wq_Get (wq_Add queueKey wq_empty) = Some (Some queueKey, ?q)"
    by (simp add: wq_Get_def wq_Add_def wq_empty_def)
  obtain st1 where "ensureReconciledFirewall example_fc ((example_state None)\<lparr>fs_queue := ?q\<rparr>) = (Ok False, st1)"
    using example_reconcile_run by blast
  then have "\<exists>st'. processNextItem example_fc ((example_state None)\<lparr>fs_queue := wq_Add queueKey wq_empty\<rparr>)
       = Some (Ok True, st')"
    by (simp add: processNextItem_def get ensureReconciledFirewallInstrumented_def)
  then obtain st' where run: "processNextItem example_fc ((example_state None)\<lparr>fs_queue := wq_Add queueKey wq_empty\<rparr>)
       = Some (Ok True, st')" by blast
  from processNextItem_refines [OF run, of True] run show ?thesis by auto
qed


end
