(* ===== verification/Firewall_Worker.thy ===== *)
theory Firewall_Worker
  imports Firewall_Queue
begin

text \<open>
  The goroutines of the firewall controller: its construction with the handlers of service
  events, the resync loop, which shuts the queue down when it is stopped, and the worker,
  which runs until then.
\<close>

definition firewallReconcileFrequency :: int where
  "firewallReconcileFrequency = 300000000000"

definition NewFirewallController ::
    "('w \<Rightarrow> Service list \<times> error option) \<Rightarrow> ('w \<Rightarrow> bool) \<Rightarrow> 'w firewallManager \<Rightarrow>
     'w FirewallController" where
  "NewFirewallController lister ctxErr fwManager =
     \<lparr>fc_fwManager = fwManager, fc_serviceLister = lister, fc_ctxErr = ctxErr\<rparr>"

text \<open>The same handler runs for added, updated and deleted services.\<close>

definition serviceEventHandler :: "('w, unit) fw_cmd" where
  "serviceEventHandler = (\<lambda>st. (Ok (), st\<lparr>fs_queue := wq_Add queueKey (fs_queue st)\<rparr>))"

text \<open>
  \<^verbatim>\<open>Run\<close> polls until it is stopped, \<open>polls\<close> times here. The error of a poll is logged and
  polling goes on; at the end the queue is shut down.
\<close>

fun poll_loop :: "'w FirewallController \<Rightarrow> nat \<Rightarrow> ('w, unit) fw_cmd" where
  "poll_loop fc 0 = returnM ()"
| "poll_loop fc (Suc n) = bindM (attempt (syncResource fc)) (\<lambda>_. poll_loop fc n)"

definition FirewallController_Run :: "'w FirewallController \<Rightarrow> nat \<Rightarrow> ('w, unit) fw_cmd" where
  "FirewallController_Run fc polls =
     bindM (poll_loop fc polls) (\<lambda>_ st. (Ok (), st\<lparr>fs_queue := wq_ShutDown (fs_queue st)\<rparr>))"

text \<open>
  The worker loop, with fuel for its rounds; \<open>None\<close> when it blocks on an empty queue that
  nothing is added to.
\<close>

fun runWorker :: "nat \<Rightarrow> 'w FirewallController \<Rightarrow> 'w fwState \<Rightarrow> (unit outcome \<times> 'w fwState) option" where
  "runWorker 0 fc st = Some (OutOfFuel, st)"
| "runWorker (Suc n) fc st =
     (case processNextItem fc st of
        None \<Rightarrow> None
      | Some (Ok again, st') \<Rightarrow> if again then runWorker n fc st' else Some (Ok (), st')
      | Some (Err e, st') \<Rightarrow> Some (Err e, st')
      | Some (Panic p, st') \<Rightarrow> Some (Panic p, st')
      | Some (OutOfFuel, st') \<Rightarrow> Some (OutOfFuel, st'))"

section \<open>Shutdown\<close>

definition reconcile_returns :: "'w FirewallController \<Rightarrow> bool" where
  "reconcile_returns fc \<longleftrightarrow>
     (\<forall>st. \<exists>st'. ensureReconciledFirewallInstrumented fc st = (Ok (), st')
        \<or> (\<exists>e. ensureReconciledFirewallInstrumented fc st = (Err e, st')))"

lemma processNextItem_shutting_down:
  assumes "reconcile_returns fc" "wq_inv (fs_queue st)" "wq_processing (fs_queue st) = []"
    "wq_shuttingDown (fs_queue st)" "wq_queue (fs_queue st) = key # items"
  shows "\<exists>st'. processNextItem fc st = Some (Ok True, st') \<and> wq_queue (fs_queue st') = items
     \<and> wq_inv (fs_queue st') \<and> wq_processing (fs_queue st') = [] \<and> wq_shuttingDown (fs_queue st')"
proof -
  let ?q = "(fs_queue st)\<lparr>wq_queue := items, wq_processing := [key], wq_dirty := removeAll key (wq_dirty (fs_queue st))\<rparr>"
  have get: "wq_Get (fs_queue st) = Some (Some key, ?q)" using assms(3,5) by (simp add: wq_Get_def)
  from wq_inv_Get [OF assms(2) get] have inv: "wq_inv ?q" .
  obtain r st1 where run: "ensureReconciledFirewallInstrumented fc (st\<lparr>fs_queue := ?q\<rparr>) = (r, st1)"
    and r: "r = Ok () \<or> (\<exists>e. r = Err e)"
    using assms(1) unfolding reconcile_returns_def by metis
  from instrumented_queue [OF run] have q: "fs_queue st1 = ?q" by simp
  have "wq_inv (wq_Done key (wq_Forget key ?q))"
    "wq_inv (wq_Done key (wq_AddRateLimited minRetryDelay maxRetryDelay key ?q))"
    using wq_inv_Done [OF wq_inv_other(1) [OF inv], of key key]
      wq_inv_Done [OF wq_inv_AddRateLimited [OF inv], of key minRetryDelay maxRetryDelay key] assms(4)
    by (simp_all add: wq_Forget_def AddRateLimited_eq)
  with r run q assms(4) show ?thesis
    by (auto simp: processNextItem_def get) (auto simp: wq_Done_def wq_Forget_def AddRateLimited_eq)
qed

text \<open>
  Once the queue is shut down, the worker terminates: it finishes the items that are still
  queued, each once and whether or not their reconcile fails, and returns with an empty
  queue. One unit of fuel per queued item and one for the last look at the queue is enough.\<close>

lemma runWorker_stops:
  assumes "reconcile_returns fc" "wq_inv (fs_queue st)" "wq_processing (fs_queue st) = []"
    "wq_shuttingDown (fs_queue st)" "length (wq_queue (fs_queue st)) < n"
  shows "\<exists>st'. runWorker n fc st = Some (Ok (), st') \<and> wq_queue (fs_queue st') = []
     \<and> wq_processing (fs_queue st') = []"
  using assms
proof (induction n arbitrary: st)
  case (Suc n)
  show ?case
  proof (cases "wq_queue (fs_queue st)")
    case Nil
    with Suc.prems(3,4) show ?thesis by (simp add: processNextItem_def wq_Get_def)
  next
    case (Cons key items)
    from processNextItem_shutting_down [OF Suc.prems(1-4) Cons] obtain st1 where
      st1: "processNextItem fc st = Some (Ok True, st1)" "wq_queue (fs_queue st1) = items"
      "wq_inv (fs_queue st1)" "wq_processing (fs_queue st1) = []" "wq_shuttingDown (fs_queue st1)" by blast
    with Suc.IH [OF Suc.prems(1) st1(3-5)] Suc.prems(5) Cons show ?thesis by simp
  qed
qed simp

lemma syncResource_queue:
  assumes "syncResource fc st = (r, st')"
  shows "fs_queue st' = fs_queue st \<or> fs_queue st' = wq_Add queueKey (fs_queue st)"
proof -
  obtain r1 st1 where run: "Get (fc_fwManager fc) st = (r1, st1)" by fastforce
  with fw.keepsD [OF fw_keeps_Get run] assms show ?thesis
    by (cases r1) (auto simp: syncResource_def counts_api_only_def record_metric_def)
qed

lemma poll_loop_queue:
  "poll_loop fc n st = (r, st') \<Longrightarrow> wq_inv (fs_queue st) \<Longrightarrow>
     wq_inv (fs_queue st') \<and> wq_processing (fs_queue st') = wq_processing (fs_queue st)"
proof (induction n arbitrary: st)
  case (Suc n)
  obtain r1 st1 where run: "syncResource fc st = (r1, st1)" by fastforce
  from syncResource_queue [OF run] Suc.prems(2)
  have "wq_inv (fs_queue st1)" "wq_processing (fs_queue st1) = wq_processing (fs_queue st)"
    by (auto simp: wq_inv_Add)
  with Suc run show ?case by (cases r1) (auto simp: bindM_def attempt_def)
qed (simp add: returnM_def)

text \<open>
  C33: Stopping the resync loop stops the worker: after \<open>Run\<close> has returned, an idle worker
  finishes the items left in the queue and returns.\<close>

theorem Run_then_worker_stops:
  assumes "FirewallController_Run fc polls st = (Ok (), st1)" "reconcile_returns fc"
    "wq_inv (fs_queue st)" "wq_processing (fs_queue st) = []"
  shows "\<exists>st2. runWorker (length (wq_queue (fs_queue st1)) + 1) fc st1 = Some (Ok (), st2)
     \<and> wq_queue (fs_queue st2) = []"
proof -
  from assms(1) obtain st0 where "poll_loop fc polls st = (Ok (), st0)"
    and st1: "st1 = st0\<lparr>fs_queue := wq_ShutDown (fs_queue st0)\<rparr>"
    by (auto simp: FirewallController_Run_def outcome_simps)
  from poll_loop_queue [OF this(1) assms(3)] assms(4)
  have "wq_inv (fs_queue st0)" "wq_processing (fs_queue st0) = []" by simp_all
  with st1 have "wq_inv (fs_queue st1)" "wq_processing (fs_queue st1) = []" "wq_shuttingDown (fs_queue st1)"
    by (simp_all add: wq_inv_other(2)) (simp_all add: wq_ShutDown_def)
  from runWorker_stops [OF assms(2) this, of "length (wq_queue (fs_queue st1)) + 1"] show ?thesis by auto
qed

text \<open>A controller whose API and whose lister of services are down.\<close>

definition down_fc :: "unit FirewallController" where
  "down_fc = NewFirewallController (\<lambda>w. ([], Some (OtherError ''down''))) (\<lambda>w. False)
     (example_fm offline_client)"

theorem Run_then_worker_stops_witness:
  "\<exists>st1 st2. FirewallController_Run down_fc 1 ((example_state None)\<lparr>fs_queue := wq_Add queueKey wq_empty\<rparr>) = (Ok (), st1)
     \<and> runWorker (length (wq_queue (fs_queue st1)) + 1) down_fc st1 = Some (Ok (), st2) \<and> wq_queue (fs_queue st2) = []"
proof -
  let ?st = "(example_state None)\<lparr>fs_queue := wq_Add queueKey wq_empty\<rparr>"
  have rec: "reconcile_returns down_fc"
    by (simp add: reconcile_returns_def ensureReconciledFirewallInstrumented_def ensureReconciledFirewall_def
        down_fc_def NewFirewallController_def liftR_def)
  have fuel: "page_fuel (offline_client :: unit client) = Suc 9" by (simp add: offline_client_def Let_def)
  have list: "filterFirewallList (offline_client :: unit client) f () = (Ok (None, None, Some (OtherError ''offline'')), ())" for f
    unfolding filterFirewallList_def fuel filterFirewallList_loop.simps
    by (simp add: offline_client_def Let_def bindM_def api_def returnM_def)
  have "\<exists>e st'. syncResource down_fc ?st = (Err e, st')"
    by (simp add: syncResource_def Get_def get_and_cache_def getCachedFirewall_def getByList_def example_state_def
        executeInstrumentedFirewallOperationGetByList_def executeInstrumentedFirewallOperation_def on_fw_world_def
        down_fc_def NewFirewallController_def example_fm_def list bindM_def returnM_def liftR_def get_state_def record_metric_def)
  then obtain e st' where sync: "syncResource down_fc ?st = (Err e, st')" by blast
  have poll: "poll_loop down_fc 1 ?st = (Ok (), st')"
    using sync by (simp add: bindM_def attempt_def returnM_def)
  have "\<exists>st1. FirewallController_Run down_fc 1 ?st = (Ok (), st1)"
    unfolding FirewallController_Run_def bindM_def poll by simp
  then obtain st1 where run: "FirewallController_Run down_fc 1 ?st = (Ok (), st1)" by blast
  have "\<exists>st2. runWorker (length (wq_queue (fs_queue st1)) + 1) down_fc st1 = Some (Ok (), st2)
      \<and> wq_queue (fs_queue st2) = []"
    by (rule Run_then_worker_stops [OF run rec]) (simp_all add: wq_inv_Add wq_inv_empty, simp add: wq_empty_def)
  with run show ?thesis by blast
qed

end
