(* ===== verification/Metrics.thy ===== *)
theory Metrics
  imports Firewall_Controller Complex_Main
begin

text \<open>
  The metrics of metrics.go on top of what the vendored Prometheus client does with them: the
  vectors and their labels, how a vector picks the child for a set of labels, which panics when
  the labels do not match, counters and histograms, and the registration of the vectors. The counted
  events of the firewall controller are shown to be accepted by the vectors.
\<close>

section \<open>UTF-8\<close>

text \<open>\<^verbatim>\<open>utf8.ValidString\<close> on the bytes of a string.\<close>

definition cont_byte :: "nat \<Rightarrow> bool" where
  "cont_byte b \<longleftrightarrow> 0x80 \<le> b \<and> b \<le> 0xBF"

fun valid_utf8 :: "nat list \<Rightarrow> bool" where
  "valid_utf8 [] = True"
| "valid_utf8 (a # bs) =
     (if a < 0x80 then valid_utf8 bs
      else if 0xC2 \<le> a \<and> a \<le> 0xDF then
        (case bs of b # bs' \<Rightarrow> cont_byte b \<and> valid_utf8 bs' | _ \<Rightarrow> False)
      else if 0xE0 \<le> a \<and> a \<le> 0xEF then
        (case bs of
           b # c # bs' \<Rightarrow>
             cont_byte b \<and> cont_byte c \<and> (a = 0xE0 \<longrightarrow> 0xA0 \<le> b) \<and> (a = 0xED \<longrightarrow> b \<le> 0x9F) \<and> valid_utf8 bs'
         | _ \<Rightarrow> False)
      else if 0xF0 \<le> a \<and> a \<le> 0xF4 then
        (case bs of
           b # c # d # bs' \<Rightarrow>
             cont_byte b \<and> cont_byte c \<and> cont_byte d \<and> (a = 0xF0 \<longrightarrow> 0x90 \<le> b) \<and> (a = 0xF4 \<longrightarrow> b \<le> 0x8F)
             \<and> valid_utf8 bs'
         | _ \<Rightarrow> False)
      else False)"

definition ValidString :: "string \<Rightarrow> bool" where
  "ValidString s = valid_utf8 (map of_char s)"

section \<open>Vectors\<close>

text \<open>
  A histogram vector has bucket bounds, a counter vector has none. Floating point numbers are
  rationals; the bounds of the code are multiples of one half and are represented exactly.
\<close>

record MetricVec =
  mv_fqName :: string
  mv_help :: string
  mv_labels :: "string list"
  mv_buckets :: "rat list option"

definition BuildFQName :: "string \<Rightarrow> string \<Rightarrow> string \<Rightarrow> string" where
  "BuildFQName namespace subsystem name =
     (if name = '''' then ''''
      else (if namespace \<noteq> '''' then namespace @ ''_'' else '''') @
           (if subsystem \<noteq> '''' then subsystem @ ''_'' else '''') @ name)"

fun bucket_bounds :: "rat \<Rightarrow> rat \<Rightarrow> nat \<Rightarrow> rat list" where
  "bucket_bounds start width 0 = []"
| "bucket_bounds start width (Suc n) = start # bucket_bounds (start + width) width n"

definition LinearBuckets :: "rat \<Rightarrow> rat \<Rightarrow> nat \<Rightarrow> rat list outcome" where
  "LinearBuckets start width n =
     (if n < 1 then Panic ''LinearBuckets needs a positive count'' else Ok (bucket_bounds start width n))"

definition NewHistogramVec :: "string \<Rightarrow> string \<Rightarrow> string \<Rightarrow> rat list \<Rightarrow> string list \<Rightarrow> MetricVec" where
  "NewHistogramVec namespace name help buckets labelNames =
     \<lparr>mv_fqName = BuildFQName namespace '''' name, mv_help = help, mv_labels = labelNames, mv_buckets = Some buckets\<rparr>"

definition NewCounterVec :: "string \<Rightarrow> string \<Rightarrow> string \<Rightarrow> string list \<Rightarrow> MetricVec" where
  "NewCounterVec namespace name help labelNames =
     \<lparr>mv_fqName = BuildFQName namespace '''' name, mv_help = help, mv_labels = labelNames, mv_buckets = None\<rparr>"

definition apiOperationDurationWidth :: rat where "apiOperationDurationWidth = 9 / 2"

definition resourceSyncDurationWidth :: rat where "resourceSyncDurationWidth = 15"

definition reconcileDurationWidth :: rat where "reconcileDurationWidth = 15"

text \<open>The package variables; initialising them fails if \<^verbatim>\<open>LinearBuckets\<close> panics.\<close>

definition durationVec :: "string \<Rightarrow> string \<Rightarrow> rat \<Rightarrow> string list \<Rightarrow> MetricVec outcome" where
  "durationVec name help width labelNames =
     bindR (LinearBuckets 1 width 21) (\<lambda>buckets. Ok (NewHistogramVec ''firewall'' name help buckets labelNames))"

definition apiOperationDuration :: "MetricVec outcome" where
  "apiOperationDuration = durationVec ''api_operation_duration_seconds''
     ''Histogram for tracking the duration of firewall API operations.''
     apiOperationDurationWidth [''operation'', ''result'', ''http_response_code'']"

definition apiOperationsTotalVec :: MetricVec where
  "apiOperationsTotalVec = NewCounterVec ''firewall'' ''api_operations_total''
     ''The total number of firewall API operations executed.'' [''operation'', ''result'', ''http_response_code'']"

definition resourceSyncDuration :: "MetricVec outcome" where
  "resourceSyncDuration = durationVec ''resource_sync_duration_seconds''
     ''Histogram for tracking the duration of remote firewall resource synchronizations.''
     resourceSyncDurationWidth [''result'']"

definition resourceSyncsTotalVec :: MetricVec where
  "resourceSyncsTotalVec = NewCounterVec ''firewall'' ''resource_syncs_total''
     ''The total number of remote firewall resource synchronizations executed.'' [''result'']"

definition reconcileDuration :: "MetricVec outcome" where
  "reconcileDuration = durationVec ''reconcile_duration_seconds''
     ''Histogram for tracking the duration of firewall reconciles.''
     reconcileDurationWidth [''result'', ''error_type'']"

definition reconcilesTotalVec :: MetricVec where
  "reconcilesTotalVec = NewCounterVec ''firewall'' ''reconciles_total''
     ''The total number of firewall reconciles executed.'' [''result'', ''error_type'']"

record metrics =
  m_host :: string
  m_apiOperationDuration :: MetricVec
  m_apiOperationsTotal :: MetricVec
  m_resourceSyncDuration :: MetricVec
  m_resourceSyncsTotal :: MetricVec
  m_reconcileDuration :: MetricVec
  m_reconcilesTotal :: MetricVec

definition newMetrics :: "string \<Rightarrow> metrics outcome" where
  "newMetrics hst =
     bindR apiOperationDuration (\<lambda>apiDuration.
     bindR resourceSyncDuration (\<lambda>syncDuration.
     bindR reconcileDuration (\<lambda>recDuration.
     Ok \<lparr>m_host = hst, m_apiOperationDuration = apiDuration, m_apiOperationsTotal = apiOperationsTotalVec,
         m_resourceSyncDuration = syncDuration, m_resourceSyncsTotal = resourceSyncsTotalVec,
         m_reconcileDuration = recDuration, m_reconcilesTotal = reconcilesTotalVec\<rparr>)))"

section \<open>Children of a vector\<close>

text \<open>
  The metrics that have been used so far, by the name of their vector and the values of the
  labels in the order of the vector: the values of the counters; count, sum and bucket counts of the histograms.
\<close>

type_synonym child = "string \<times> string list"

record histogram =
  h_count :: nat
  h_sum :: rat
  h_buckets :: "nat list"

record promStore =
  ps_counter :: "child \<Rightarrow> nat"
  ps_histogram :: "child \<Rightarrow> histogram option"

text \<open>\<^verbatim>\<open>With\<close> panics where \<^verbatim>\<open>GetMetricWith\<close> returns an error.\<close>

definition With :: "MetricVec \<Rightarrow> (string \<times> string) list \<Rightarrow> child outcome" where
  "With v labels =
     (if length labels \<noteq> length (mv_labels v) then Panic ''inconsistent label cardinality''
      else if \<not> list_all (\<lambda>(name, val). ValidString val) labels then Panic ''label value is not valid UTF-8''
      else if \<not> list_all (\<lambda>name. map_of labels name \<noteq> None) (mv_labels v) then Panic ''label name missing in label map''
      else Ok (mv_fqName v, map (\<lambda>name. the (map_of labels name)) (mv_labels v)))"

definition Inc :: "child \<Rightarrow> promStore \<Rightarrow> promStore" where
  "Inc c s = s\<lparr>ps_counter := (ps_counter s)(c := ps_counter s c + 1)\<rparr>"

fun linear_search :: "rat \<Rightarrow> rat list \<Rightarrow> nat" where
  "linear_search v [] = 0"
| "linear_search v (b # bounds) = (if v \<le> b then 0 else Suc (linear_search v bounds))"

text \<open>From 35 bounds on the code searches binarily for the same index; its vectors have 21.\<close>

definition findBucket :: "rat list \<Rightarrow> rat \<Rightarrow> nat" where
  "findBucket bounds v =
     (let n = length bounds in
      if n = 0 then 0
      else if v \<le> bounds ! 0 then 0
      else if v > bounds ! (n - 1) then n
      else linear_search v bounds)"

text \<open>
  \<^verbatim>\<open>newHistogram\<close>, which a vector calls for a new child, refuses the label of the buckets and requires
  increasing bounds. The default for an empty list of bounds is left out: \<^verbatim>\<open>LinearBuckets\<close> gives none.
\<close>

definition newHistogram :: "string list \<Rightarrow> rat list \<Rightarrow> histogram outcome" where
  "newHistogram labelNames bounds =
     (if ''le'' \<in> set labelNames then Panic ''le is not allowed as label name in histograms''
      else if sorted_wrt (<) bounds
      then Ok \<lparr>h_count = 0, h_sum = 0, h_buckets = replicate (length bounds) 0\<rparr>
      else Panic ''histogram buckets must be in increasing order'')"

definition observe :: "rat list \<Rightarrow> rat \<Rightarrow> histogram \<Rightarrow> histogram" where
  "observe bounds v h =
     (let bucket = findBucket bounds v in
      \<lparr>h_count = h_count h + 1, h_sum = h_sum h + v,
       h_buckets = (if bucket < length (h_buckets h) then (h_buckets h)[bucket := h_buckets h ! bucket + 1]
                    else h_buckets h)\<rparr>)"

definition Observe :: "MetricVec \<Rightarrow> child \<Rightarrow> rat \<Rightarrow> promStore \<Rightarrow> promStore outcome" where
  "Observe v c x s =
     (case mv_buckets v of
        None \<Rightarrow> Panic ''not an observer''
      | Some bounds \<Rightarrow>
          bindR (case ps_histogram s c of Some h \<Rightarrow> Ok h | None \<Rightarrow> newHistogram (mv_labels v) bounds) (\<lambda>h.
          Ok (s\<lparr>ps_histogram := (ps_histogram s)(c \<mapsto> observe bounds x h)\<rparr>)))"

section \<open>Recording\<close>

text \<open>The label maps of the three instrumented operations.\<close>

fun event_labels :: "metricEvent \<Rightarrow> (string \<times> string) list" where
  "event_labels (apiOperationsTotal operation result code) =
     [(''operation'', operation), (''result'', result), (''http_response_code'', code)]"
| "event_labels (resourceSyncsTotal result) = [(''result'', result)]"
| "event_labels (reconcilesTotal result error_type) = [(''result'', result), (''error_type'', error_type)]"

fun event_vecs :: "metrics \<Rightarrow> metricEvent \<Rightarrow> MetricVec \<times> MetricVec" where
  "event_vecs m (apiOperationsTotal operation result code) = (m_apiOperationDuration m, m_apiOperationsTotal m)"
| "event_vecs m (resourceSyncsTotal result) = (m_resourceSyncDuration m, m_resourceSyncsTotal m)"
| "event_vecs m (reconcilesTotal result error_type) = (m_reconcileDuration m, m_reconcilesTotal m)"

text \<open>
  The deferred function of an instrumented operation that has taken \<open>seconds\<close>: the duration is
  observed with the labels as they are then, and the counter of the same labels is incremented.
\<close>

definition record_event :: "metrics \<Rightarrow> metricEvent \<Rightarrow> rat \<Rightarrow> promStore \<Rightarrow> promStore outcome" where
  "record_event m ev seconds s =
     (case event_vecs m ev of (durations, totals) \<Rightarrow>
        bindR (With durations (event_labels ev)) (\<lambda>c.
        bindR (Observe durations c seconds s) (\<lambda>s.
        bindR (With totals (event_labels ev)) (\<lambda>c.
        Ok (Inc c s)))))"

fun record_all :: "metrics \<Rightarrow> (metricEvent \<times> rat) list \<Rightarrow> promStore \<Rightarrow> promStore outcome" where
  "record_all m [] s = Ok s"
| "record_all m ((ev, seconds) # evs) s = bindR (record_event m ev seconds s) (record_all m evs)"

section \<open>Registration\<close>

text \<open>
  \<^verbatim>\<open>NewDesc\<close> keeps the error of an invalid name in the descriptor, \<^verbatim>\<open>Register\<close> reports it. The
  identity of a descriptor is its name, its dimensions are the help text and the sorted
  label names; the code compares hashes of these.
\<close>

definition checkLabelName :: "string \<Rightarrow> bool" where
  "checkLabelName l = (l \<noteq> '''' \<and> ValidString l \<and> take 2 l \<noteq> ''__'')"

definition desc_ok :: "MetricVec \<Rightarrow> bool" where
  "desc_ok v = (mv_fqName v \<noteq> '''' \<and> ValidString (mv_fqName v) \<and> list_all checkLabelName (mv_labels v)
     \<and> distinct (mv_labels v))"

definition Register :: "MetricVec \<Rightarrow> MetricVec list \<Rightarrow> MetricVec list outcome" where
  "Register v registry =
     (if \<not> desc_ok v then Err (NewError (''descriptor '' @ mv_fqName v @ '' is invalid''))
      else case find (\<lambda>u. mv_fqName u = mv_fqName v) registry of
        Some u \<Rightarrow>
          if mv_help u \<noteq> mv_help v \<or> sort_Strings (mv_labels u) \<noteq> sort_Strings (mv_labels v)
          then Err (NewError (''a previously registered descriptor with the same fully-qualified name as '' @
            mv_fqName v @ '' has different label names or a different help string''))
          else Err (NewError ''duplicate metrics collector registration attempted'')
      | None \<Rightarrow> Ok (registry @ [v]))"

definition MustRegister :: "MetricVec \<Rightarrow> MetricVec list \<Rightarrow> MetricVec list outcome" where
  "MustRegister v registry =
     (case Register v registry of Err e \<Rightarrow> Panic (error_text e) | r \<Rightarrow> r)"

fun MustRegister_all :: "MetricVec list \<Rightarrow> MetricVec list \<Rightarrow> MetricVec list outcome" where
  "MustRegister_all [] registry = Ok registry"
| "MustRegister_all (v # vs) registry = bindR (MustRegister v registry) (MustRegister_all vs)"

definition metric_vecs :: "metrics \<Rightarrow> MetricVec list" where
  "metric_vecs m =
     [m_apiOperationDuration m, m_apiOperationsTotal m, m_resourceSyncDuration m, m_resourceSyncsTotal m,
      m_reconcileDuration m, m_reconcilesTotal m]"


text \<open>The registrations of \<^verbatim>\<open>serveMetrics\<close>, on the package variables.\<close>

definition registerMetrics :: "MetricVec list \<Rightarrow> MetricVec list outcome" where
  "registerMetrics registry =
     bindR apiOperationDuration (\<lambda>v. bindR (MustRegister v registry) (\<lambda>registry.
     bindR (MustRegister apiOperationsTotalVec registry) (\<lambda>registry.
     bindR resourceSyncDuration (\<lambda>v. bindR (MustRegister v registry) (\<lambda>registry.
     bindR (MustRegister resourceSyncsTotalVec registry) (\<lambda>registry.
     bindR reconcileDuration (\<lambda>v. bindR (MustRegister v registry) (\<lambda>registry.
     bindR (MustRegister reconcilesTotalVec registry) (\<lambda>registry.
     Ok registry)))))))))"
section \<open>Label values\<close>

definition ascii :: "string \<Rightarrow> bool" where
  "ascii s = list_all (\<lambda>c. (of_char c :: nat) < 128) s"

lemma ascii_valid: "ascii s \<Longrightarrow> ValidString s"
  by (induction s) (simp_all add: ascii_def ValidString_def)

lemma nat_to_dec_ascii: "0 \<le> n \<Longrightarrow> ascii (nat_to_dec n)"
proof -
  assume "0 \<le> n"
  have "(of_char c :: nat) < 128" if "c \<in> set (nat_to_dec n)" for c
  proof -
    from nat_to_dec_digits [OF \<open>0 \<le> n\<close> that] have "(of_char c :: int) \<le> 57"
      by (auto simp: digit_def Let_def split: if_splits)
    then have "int (of_char c) \<le> 57" unfolding of_nat_of_char .
    then show ?thesis by linarith
  qed
  then show ?thesis by (simp add: ascii_def list_all_iff)
qed

lemma Itoa_valid: "ValidString (Itoa n)"
  using nat_to_dec_ascii [of n] nat_to_dec_ascii [of "- n"]
  by (intro ascii_valid) (auto simp: Itoa_def ascii_def)

section \<open>The vectors of the package\<close>

lemma bucket_bounds_above: "0 < width \<Longrightarrow> b \<in> set (bucket_bounds start width n) \<Longrightarrow> start \<le> b"
  by (induction n arbitrary: start) fastforce+

lemma bucket_bounds_increasing: "0 < width \<Longrightarrow> sorted_wrt (<) (bucket_bounds start width n)"
proof (induction n arbitrary: start)
  case (Suc n)
  have "start < b" if "b \<in> set (bucket_bounds (start + width) width n)" for b
    using bucket_bounds_above [OF Suc.prems that] Suc.prems by simp
  with Suc show ?case by simp
qed simp

lemma durationVec_eq:
  "durationVec name help width ls = Ok (NewHistogramVec ''firewall'' name help (bucket_bounds 1 width 21) ls)"
  by (simp add: durationVec_def LinearBuckets_def)

text \<open>The bucket is the first whose bound is not below the value, also where the search is cut short.\<close>

lemma linear_search_none: "(\<forall>b \<in> set bounds. b < v) \<Longrightarrow> linear_search v bounds = length bounds"
  by (induction bounds) auto

lemma findBucket_linear:
  assumes "sorted_wrt (<) bounds"
  shows "findBucket bounds v = linear_search v bounds"
proof (cases bounds)
  case (Cons a bs)
  have "c < v" if "last bounds < v" "c \<in> set bounds" for c
    using assms that by (cases bounds rule: rev_cases) (auto simp: sorted_wrt_append)
  then have "linear_search v bounds = length bounds" if "last bounds < v"
    using that linear_search_none by blast
  moreover have "v \<le> a \<Longrightarrow> linear_search v bounds = 0" by (simp add: Cons)
  moreover have "bounds ! (length bounds - 1) = last bounds" "bounds ! 0 = a" "length bounds \<noteq> 0"
    by (simp_all add: Cons last_conv_nth)
  ultimately show ?thesis by (auto simp: findBucket_def Let_def)
qed (simp add: findBucket_def)

lemma findBucket_first:
  assumes "sorted_wrt (<) bounds" and "i = findBucket bounds v"
  shows "(\<forall>j < i. bounds ! j < v) \<and> (i < length bounds \<longrightarrow> v \<le> bounds ! i)"
proof -
  have "(\<forall>j < linear_search v bounds. bounds ! j < v)
      \<and> (linear_search v bounds < length bounds \<longrightarrow> v \<le> bounds ! linear_search v bounds)"
    by (induction bounds) (auto simp: less_Suc_eq_0_disj)
  with assms show ?thesis by (simp add: findBucket_linear)
qed

text \<open>The name of the counter and of the duration histogram of an event.\<close>

fun total_name duration_name :: "metricEvent \<Rightarrow> string" where
  "total_name (apiOperationsTotal operation result code) = ''firewall_api_operations_total''"
| "total_name (resourceSyncsTotal result) = ''firewall_resource_syncs_total''"
| "total_name (reconcilesTotal result error_type) = ''firewall_reconciles_total''"
| "duration_name (apiOperationsTotal operation result code) = ''firewall_api_operation_duration_seconds''"
| "duration_name (resourceSyncsTotal result) = ''firewall_resource_sync_duration_seconds''"
| "duration_name (reconcilesTotal result error_type) = ''firewall_reconcile_duration_seconds''"

definition total_child :: "metricEvent \<Rightarrow> child" where
  "total_child ev = (total_name ev, map snd (event_labels ev))"

definition duration_child :: "metricEvent \<Rightarrow> child" where
  "duration_child ev = (duration_name ev, map snd (event_labels ev))"

lemma child_inject [simp]:
  "total_child ev = total_child ev' \<longleftrightarrow> ev = ev'" "duration_child ev = duration_child ev' \<longleftrightarrow> ev = ev'"
  by (cases ev; cases ev'; simp add: total_child_def duration_child_def)+

lemma newMetrics_eq:
  "newMetrics hst = Ok \<lparr>m_host = hst,
     m_apiOperationDuration = NewHistogramVec ''firewall'' ''api_operation_duration_seconds''
       ''Histogram for tracking the duration of firewall API operations.''
       (bucket_bounds 1 apiOperationDurationWidth 21) [''operation'', ''result'', ''http_response_code''],
     m_apiOperationsTotal = apiOperationsTotalVec,
     m_resourceSyncDuration = NewHistogramVec ''firewall'' ''resource_sync_duration_seconds''
       ''Histogram for tracking the duration of remote firewall resource synchronizations.''
       (bucket_bounds 1 resourceSyncDurationWidth 21) [''result''],
     m_resourceSyncsTotal = resourceSyncsTotalVec,
     m_reconcileDuration = NewHistogramVec ''firewall'' ''reconcile_duration_seconds''
       ''Histogram for tracking the duration of firewall reconciles.''
       (bucket_bounds 1 reconcileDurationWidth 21) [''result'', ''error_type''],
     m_reconcilesTotal = reconcilesTotalVec\<rparr>"
  by (simp add: newMetrics_def apiOperationDuration_def resourceSyncDuration_def reconcileDuration_def durationVec_eq)

lemmas vec_defs = apiOperationsTotalVec_def resourceSyncsTotalVec_def reconcilesTotalVec_def NewHistogramVec_def
  NewCounterVec_def BuildFQName_def

lemma widths_positive: "0 < apiOperationDurationWidth" "0 < resourceSyncDurationWidth" "0 < reconcileDurationWidth"
  by (simp_all add: apiOperationDurationWidth_def resourceSyncDurationWidth_def reconcileDurationWidth_def)

lemma newMetrics_vecs:
  assumes "newMetrics hst = Ok m"
  shows "mv_fqName (snd (event_vecs m ev)) = total_name ev" "mv_fqName (fst (event_vecs m ev)) = duration_name ev"
    "mv_labels (snd (event_vecs m ev)) = map fst (event_labels ev)"
    "mv_labels (fst (event_vecs m ev)) = map fst (event_labels ev)"
    "\<exists>bs. mv_buckets (fst (event_vecs m ev)) = Some bs \<and> sorted_wrt (<) bs"
proof -
  show "mv_fqName (snd (event_vecs m ev)) = total_name ev" "mv_fqName (fst (event_vecs m ev)) = duration_name ev"
    "mv_labels (snd (event_vecs m ev)) = map fst (event_labels ev)"
    "mv_labels (fst (event_vecs m ev)) = map fst (event_labels ev)"
    "\<exists>bs. mv_buckets (fst (event_vecs m ev)) = Some bs \<and> sorted_wrt (<) bs"
    using assms [unfolded newMetrics_eq outcome.inject, symmetric] widths_positive
    by (cases ev; simp add: vec_defs bucket_bounds_increasing)+
qed

section \<open>Recording never panics\<close>

definition known_event :: "metricEvent \<Rightarrow> bool" where
  "known_event ev = list_all (\<lambda>(name, val). ValidString val) (event_labels ev)"

lemma With_event:
  assumes "mv_labels v = map fst (event_labels ev)" and "known_event ev"
  shows "With v (event_labels ev) = Ok (mv_fqName v, map snd (event_labels ev))"
  using assms by (cases ev) (auto simp: With_def known_event_def)

definition total :: "promStore \<Rightarrow> metricEvent \<Rightarrow> nat" where
  "total s ev = ps_counter s (total_child ev)"

definition observed :: "promStore \<Rightarrow> metricEvent \<Rightarrow> nat" where
  "observed s ev = (case ps_histogram s (duration_child ev) of None \<Rightarrow> 0 | Some h \<Rightarrow> h_count h)"

lemma record_event_Ok:
  assumes "newMetrics hst = Ok m" and "known_event ev"
  shows "\<exists>s'. record_event m ev seconds s = Ok s'
     \<and> (\<forall>ev'. total s' ev' = total s ev' + (if ev' = ev then 1 else 0))
     \<and> (\<forall>ev'. observed s' ev' = observed s ev' + (if ev' = ev then 1 else 0))"
proof -
  note vecs = newMetrics_vecs [OF assms(1), of ev]
  from vecs(5) obtain bs where bs: "mv_buckets (fst (event_vecs m ev)) = Some bs" "sorted_wrt (<) bs" by blast
  have le: "''le'' \<notin> set (map fst (event_labels ev))" by (cases ev) simp_all
  obtain h where h: "(case ps_histogram s (duration_child ev) of Some h \<Rightarrow> Ok h
      | None \<Rightarrow> newHistogram (mv_labels (fst (event_vecs m ev))) bs) = Ok h"
    "h_count h = observed s ev"
    using bs(2) le vecs(4) by (cases "ps_histogram s (duration_child ev)") (auto simp: newHistogram_def observed_def)
  have "record_event m ev seconds s
      = Ok (Inc (total_child ev) (s\<lparr>ps_histogram := (ps_histogram s)(duration_child ev \<mapsto> observe bs seconds h)\<rparr>))"
    using h bs(1) vecs(1,2)
    by (simp add: record_event_def case_prod_beta With_event [OF vecs(3) assms(2)] With_event [OF vecs(4) assms(2)]
        Observe_def total_child_def duration_child_def)
  then show ?thesis
    using h(2) by (auto simp: total_def observed_def Inc_def observe_def Let_def)
qed

lemma record_all_Ok:
  assumes "newMetrics hst = Ok m"
  shows "list_all known_event (map fst evs) \<Longrightarrow> \<exists>s'. record_all m evs s = Ok s'
     \<and> (\<forall>ev. total s' ev = total s ev + count_list (map fst evs) ev)
     \<and> (\<forall>ev. observed s' ev = observed s ev + count_list (map fst evs) ev)"
proof (induction evs arbitrary: s)
  case (Cons e evs)
  obtain ev seconds where e: "e = (ev, seconds)" by fastforce
  with Cons.prems have known: "known_event ev" "list_all known_event (map fst evs)" by simp_all
  from record_event_Ok [OF assms known(1), of seconds s] obtain s1 where
    "record_event m ev seconds s = Ok s1"
    "\<forall>ev'. total s1 ev' = total s ev' + (if ev' = ev then 1 else 0)"
    "\<forall>ev'. observed s1 ev' = observed s ev' + (if ev' = ev then 1 else 0)" by blast
  with Cons.IH [OF known(2), of s1] e show ?case by (auto split: if_splits)
qed simp

section \<open>What the controller records\<close>

text \<open>The relation of the states before and after: the events counted in between have valid labels.\<close>

definition counts_known :: "'w fwState \<Rightarrow> 'w fwState \<Rightarrow> bool" where
  "counts_known st st' \<longleftrightarrow> (\<exists>evs. fs_metrics st' = fs_metrics st @ evs \<and> list_all known_event evs)"

interpretation mt: state_frame counts_known
proof unfold_locales
  show "counts_known s s" for s :: "'w fwState" by (simp add: counts_known_def)
  show "counts_known s u" if "counts_known s t" "counts_known t u" for s t u :: "'w fwState"
    using that by (force simp: counts_known_def)
qed

text \<open>The label values of the code, apart from the response codes.\<close>

definition label_values :: "string list" where
  "label_values = [firewallOperationGetByID, firewallOperationGetByList, firewallOperationCreate, firewallOperationUpdate,
     ''succeeded'', ''failed'', ''updated'', ''canceled'', ''reconciled'', ''skipped'', ''timeout'', ''generic'', '''']"

lemma label_values_valid: "x \<in> set label_values \<Longrightarrow> ValidString x"
proof -
  have "list_all ascii label_values"
    by (simp add: label_values_def ascii_def firewallOperationGetByID_def firewallOperationGetByList_def
        firewallOperationCreate_def firewallOperationUpdate_def)
  then show "x \<in> set label_values \<Longrightarrow> ValidString x" by (auto simp: list_all_iff intro: ascii_valid)
qed

lemma event_known:
  "op \<in> set label_values \<Longrightarrow> res \<in> set label_values \<Longrightarrow> ValidString code \<Longrightarrow> known_event (apiOperationsTotal op res code)"
  "res \<in> set label_values \<Longrightarrow> known_event (resourceSyncsTotal res)"
  "res \<in> set label_values \<Longrightarrow> ty \<in> set label_values \<Longrightarrow> known_event (reconcilesTotal res ty)"
  by (simp_all add: known_event_def label_values_valid)

lemma counts_known_record:
  "counts_known st st' \<Longrightarrow> known_event ev \<Longrightarrow> counts_known st (record_metric ev st')"
  by (auto simp: counts_known_def record_metric_def)

lemma counts_known_fields [simp]:
  "counts_known st (st'\<lparr>fs_world := w\<rparr>) = counts_known st st'" "counts_known st (st'\<lparr>fs_cache := c\<rparr>) = counts_known st st'"
  "counts_known st (st'\<lparr>fs_queue := q\<rparr>) = counts_known st st'"
  by (simp_all add: counts_known_def)

lemma values_in [simp]:
  "''succeeded'' \<in> set label_values" "''failed'' \<in> set label_values" "''updated'' \<in> set label_values"
  "''canceled'' \<in> set label_values" "''reconciled'' \<in> set label_values" "''skipped'' \<in> set label_values"
  "''timeout'' \<in> set label_values" "''generic'' \<in> set label_values" "'''' \<in> set label_values"
  "firewallOperationGetByID \<in> set label_values" "firewallOperationGetByList \<in> set label_values"
  "firewallOperationCreate \<in> set label_values" "firewallOperationUpdate \<in> set label_values"
  by (simp_all add: label_values_def)

lemma mt_keeps_operation:
  "op \<in> set label_values \<Longrightarrow> mt.keeps (executeInstrumentedFirewallOperation op f)"
  by (rule mt.keepsI)
    (auto simp: executeInstrumentedFirewallOperation_def on_fw_world_def label_values_valid Itoa_valid mt.frame_refl
      split: prod.splits outcome.splits option.splits intro!: counts_known_record event_known)

lemma mt_keeps_store: "mt.keeps (store_in_cache v)"
  by (rule mt.keepsI) (auto simp: store_in_cache_def mt.frame_refl)

lemma mt_keeps_get_and_cache: "mt.keeps body \<Longrightarrow> mt.keeps (get_and_cache body)"
  by (fastforce simp: mt.keeps_def get_and_cache_def split: prod.splits outcome.splits)

lemmas mt_keeps = mt.keeps_rules mt_keeps_operation mt_keeps_store

lemma mt_keeps_getByList: "mt.keeps (getByList fm)"
  unfolding getByList_def executeInstrumentedFirewallOperationGetByList_def by (intro mt_keeps values_in)

lemma mt_keeps_Get: "mt.keeps (Get fm)"
  unfolding Get_def executeInstrumentedFirewallOperationGetByID_def
  by (intro mt_keeps_get_and_cache mt_keeps_getByList mt_keeps values_in)

lemma mt_keeps_Set: "mt.keeps (Set fm i fr)"
  unfolding Set_def setByCreating_def updateFirewall_def createFirewall_def by (intro mt_keeps values_in)

lemma mt_keeps_ensure: "mt.keeps (ensureReconciledFirewall fc)"
  unfolding ensureReconciledFirewall_def GetPreferFromCache_def Let_def
  by (intro mt_keeps mt_keeps_Get mt_keeps_Set)

lemma mt_keeps_instrumented: "mt.keeps (ensureReconciledFirewallInstrumented fc)"
proof (rule mt.keepsI)
  fix s r t assume run: "ensureReconciledFirewallInstrumented fc s = (r, t)"
  obtain r1 t1 where ens: "ensureReconciledFirewall fc s = (r1, t1)" by fastforce
  note mt.keepsD [OF mt_keeps_ensure ens]
  with run ens show "counts_known s t"
    by (cases r1) (auto simp: ensureReconciledFirewallInstrumented_def intro!: counts_known_record event_known)
qed

lemma mt_keeps_syncResource: "mt.keeps (syncResource fc)"
proof (rule mt.keepsI)
  fix s r t assume run: "syncResource fc s = (r, t)"
  obtain r1 t1 where get: "Get (fc_fwManager fc) s = (r1, t1)" by fastforce
  note mt.keepsD [OF mt_keeps_Get get]
  with run get show "counts_known s t"
    by (cases r1) (auto simp: syncResource_def intro!: counts_known_record event_known)
qed

text \<open>
  C29: The instrumentation never panics. Whatever the API and the lister answer, and also when the
  operation fails or panics, the events that a reconcile or a resync counts
  are accepted by the vectors of \<^verbatim>\<open>newMetrics\<close>: their labels have the right names and number and
  their values are valid UTF-8. Recording them, with any durations and in any
  state of the registry, succeeds, and every counter and every
  histogram count grows by the number of events of its labels, so that the two agree.\<close>

theorem instrumentation_never_panics:
  assumes "newMetrics hst = Ok m"
    and "op \<in> {ensureReconciledFirewallInstrumented fc, syncResource fc}" and "op st = (r, st')"
  shows "\<exists>evs. fs_metrics st' = fs_metrics st @ evs \<and>
     (\<forall>durations s. length durations = length evs \<longrightarrow>
        (\<exists>s'. record_all m (zip evs durations) s = Ok s' \<and>
           (\<forall>ev. total s' ev = total s ev + count_list evs ev) \<and>
           (\<forall>ev. observed s' ev = observed s ev + count_list evs ev)))"
proof -
  from assms(2,3) have "counts_known st st'"
    using mt.keepsD [OF mt_keeps_instrumented] mt.keepsD [OF mt_keeps_syncResource] by blast
  then obtain evs where evs: "fs_metrics st' = fs_metrics st @ evs" "list_all known_event evs"
    by (auto simp: counts_known_def)
  have "\<exists>s'. record_all m (zip evs durations) s = Ok s' \<and> (\<forall>ev. total s' ev = total s ev + count_list evs ev)
      \<and> (\<forall>ev. observed s' ev = observed s ev + count_list evs ev)"
    if "length durations = length evs" for durations s
    using record_all_Ok [OF assms(1), of "zip evs durations" s] evs(2) that by simp
  with evs(1) show ?thesis by blast
qed

text \<open>A store with no metrics used so far.\<close>

definition empty_store :: promStore where
  "empty_store = \<lparr>ps_counter = (\<lambda>c. 0), ps_histogram = Map.empty\<rparr>"

theorem instrumentation_never_panics_witness:
  "\<exists>m r st' evs s'. newMetrics '''' = Ok m \<and> syncResource example_fc (example_state None) = (r, st')
     \<and> fs_metrics st' = fs_metrics (example_state None) @ evs
     \<and> record_all m (zip evs (replicate (length evs) (1 / 2))) empty_store = Ok s'
     \<and> (\<forall>ev. total s' ev = observed s' ev)"
proof -
  obtain m where m: "newMetrics '''' = Ok m" using newMetrics_eq by blast
  obtain r st' where run: "syncResource example_fc (example_state None) = (r, st')" by fastforce
  have "syncResource example_fc \<in> {ensureReconciledFirewallInstrumented example_fc, syncResource example_fc}" by simp
  from instrumentation_never_panics [OF m this run] obtain evs where
    evs: "fs_metrics st' = fs_metrics (example_state None) @ evs"
    and rec: "\<And>durations s. length durations = length evs \<Longrightarrow>
       \<exists>s'. record_all m (zip evs durations) s = Ok s' \<and> (\<forall>ev. total s' ev = total s ev + count_list evs ev)
         \<and> (\<forall>ev. observed s' ev = observed s ev + count_list evs ev)"
    by blast
  from rec [of "replicate (length evs) (1 / 2)" empty_store] obtain s' where
    "record_all m (zip evs (replicate (length evs) (1 / 2))) empty_store = Ok s'"
    "\<forall>ev. total s' ev = total empty_store ev + count_list evs ev"
    "\<forall>ev. observed s' ev = observed empty_store ev + count_list evs ev" by auto
  with m run evs show ?thesis by (auto simp: total_def observed_def empty_store_def)
qed

section \<open>Registering the vectors\<close>

lemma MustRegister_cases:
  "desc_ok v \<Longrightarrow> mv_fqName v \<notin> mv_fqName ` set registry \<Longrightarrow> MustRegister v registry = Ok (registry @ [v])"
  "mv_fqName v \<in> mv_fqName ` set registry \<Longrightarrow> \<exists>p. MustRegister v registry = Panic p"
proof -
  show "MustRegister v registry = Ok (registry @ [v])" if "desc_ok v" "mv_fqName v \<notin> mv_fqName ` set registry"
  proof -
    from that(2) have "find (\<lambda>u. mv_fqName u = mv_fqName v) registry = None"
      unfolding find_None_iff image_iff by metis
    with that(1) show ?thesis by (simp add: MustRegister_def Register_def)
  qed
  show "\<exists>p. MustRegister v registry = Panic p" if "mv_fqName v \<in> mv_fqName ` set registry"
  proof -
    from that obtain u where "find (\<lambda>u. mv_fqName u = mv_fqName v) registry = Some u"
      by (cases "find (\<lambda>u. mv_fqName u = mv_fqName v) registry") (force simp: find_None_iff)+
    then show ?thesis by (simp add: MustRegister_def Register_def)
  qed
qed

definition name_free :: "MetricVec list \<Rightarrow> MetricVec list \<Rightarrow> bool" where
  "name_free vs registry = (mv_fqName ` set vs \<inter> mv_fqName ` set registry = {})"

lemma MustRegister_all_Ok:
  "list_all desc_ok vs \<Longrightarrow> distinct (map mv_fqName vs) \<Longrightarrow> name_free vs registry \<Longrightarrow>
     MustRegister_all vs registry = Ok (registry @ vs)"
proof (induction vs arbitrary: registry)
  case (Cons v vs)
  then have "MustRegister v registry = Ok (registry @ [v])" by (intro MustRegister_cases) (auto simp: name_free_def)
  moreover have "MustRegister_all vs (registry @ [v]) = Ok ((registry @ [v]) @ vs)"
    using Cons.prems by (intro Cons.IH) (auto simp: name_free_def)
  ultimately show ?case by simp
qed simp

lemma MustRegister_all_Panic:
  "list_all desc_ok vs \<Longrightarrow> \<not> name_free vs registry \<Longrightarrow> \<exists>p. MustRegister_all vs registry = Panic p"
proof (induction vs arbitrary: registry)
  case (Cons v vs)
  show ?case
  proof (cases "mv_fqName v \<in> mv_fqName ` set registry")
    case True
    then show ?thesis using MustRegister_cases(2) by fastforce
  next
    case False
    with Cons.prems have "MustRegister v registry = Ok (registry @ [v])" by (intro MustRegister_cases) auto
    moreover have "\<exists>p. MustRegister_all vs (registry @ [v]) = Panic p"
      using Cons.prems False by (intro Cons.IH) (auto simp: name_free_def)
    ultimately show ?thesis by simp
  qed
qed (simp add: name_free_def)

lemma desc_ok_ascii:
  "mv_fqName v \<noteq> '''' \<Longrightarrow> ascii (mv_fqName v) \<Longrightarrow> list_all (\<lambda>l. l \<noteq> '''' \<and> ascii l \<and> take 2 l \<noteq> ''__'') (mv_labels v)
     \<Longrightarrow> distinct (mv_labels v) \<Longrightarrow> desc_ok v"
  by (auto simp: desc_ok_def list_all_iff checkLabelName_def intro: ascii_valid)

lemma metric_vecs_ok:
  assumes "newMetrics hst = Ok m"
  shows "list_all desc_ok (metric_vecs m)" "distinct (map mv_fqName (metric_vecs m))"
proof -
  note m = assms [unfolded newMetrics_eq outcome.inject, symmetric]
  show "distinct (map mv_fqName (metric_vecs m))" unfolding m by (simp add: metric_vecs_def vec_defs)
  have "desc_ok v" if "v \<in> set (metric_vecs m)" for v
    using that unfolding m
    by (intro desc_ok_ascii) (auto simp: metric_vecs_def vec_defs ascii_def)
  then show "list_all desc_ok (metric_vecs m)" by (simp add: list_all_iff)
qed

lemma MustRegister_all_fun:
  "MustRegister_all [] = Ok"
  "MustRegister_all (v # vs) = (\<lambda>registry. bindR (MustRegister v registry) (MustRegister_all vs))"
  by (simp_all add: fun_eq_iff)

lemma registerMetrics_eq:
  assumes "newMetrics hst = Ok m"
  shows "registerMetrics registry = MustRegister_all (metric_vecs m) registry"
proof -
  have vecs: "apiOperationDuration = Ok (m_apiOperationDuration m)" "apiOperationsTotalVec = m_apiOperationsTotal m"
    "resourceSyncDuration = Ok (m_resourceSyncDuration m)" "resourceSyncsTotalVec = m_resourceSyncsTotal m"
    "reconcileDuration = Ok (m_reconcileDuration m)" "reconcilesTotalVec = m_reconcilesTotal m"
    using assms by (auto simp: newMetrics_def outcome_simps)
  show ?thesis
    unfolding registerMetrics_def metric_vecs_def MustRegister_all_fun by (simp only: vecs bindR.simps)
qed

lemma registerMetrics_cases:
  assumes "newMetrics hst = Ok m"
  shows "name_free (metric_vecs m) registry \<Longrightarrow> registerMetrics registry = Ok (registry @ metric_vecs m)"
    and "\<not> name_free (metric_vecs m) registry \<Longrightarrow> \<exists>p. registerMetrics registry = Panic p"
  using MustRegister_all_Ok MustRegister_all_Panic metric_vecs_ok [OF assms] registerMetrics_eq [OF assms] by simp_all
end
