(* ===== verification/Cloud.thy ===== *)
theory Cloud
  imports Admission Resources Firewall_Worker Droplets Metrics
begin

text \<open>
  The cloud provider of cloud.go: how the environment configures it, which goroutines its
  initialisation starts, the health check and the methods of the provider interface; and what the
  configuration guarantees to the components it is handed to.
\<close>

section \<open>Construction\<close>

text \<open>\<^verbatim>\<open>newInstances\<close>: the resources and the region, which the methods of \<^verbatim>\<open>instances\<close> do not read.\<close>

record 'w instances =
  inst_resources :: "'w resources"
  inst_region :: string

definition newInstances :: "'w resources \<Rightarrow> string \<Rightarrow> 'w instances" where
  "newInstances r region = \<lparr>inst_resources = r, inst_region = region\<rparr>"

definition newLoadBalancers :: "'w resources \<Rightarrow> string \<Rightarrow> string \<Rightarrow> 'w loadBalancers" where
  "newLoadBalancers r region defaultLBType =
     \<lparr>l_client = r_gclient r, l_clusterID = r_clusterID r, l_clusterVPCID = r_clusterVPCID r,
      l_region = region, l_defaultLBType = defaultLBType\<rparr>"

text \<open>The provider; of the debug server, if there is one, its address.\<close>

record 'w cloud =
  c_client :: "'w client"
  c_instances :: "'w instances"
  c_loadbalancers :: "'w loadBalancers"
  c_metrics :: metrics
  c_defaultLBType :: string
  c_resources :: "'w resources"
  c_httpServer :: "string option"

definition clientOpts :: "string \<Rightarrow> string \<Rightarrow> float64 option \<Rightarrow> ClientOpt list" where
  "clientOpts overrideURL version qps =
     (if overrideURL \<noteq> '''' then [SetBaseURL overrideURL] else []) @
     [SetUserAgent (''digitalocean-cloud-controller-manager/'' @ (if version = '''' then ''dev'' else version))] @
     (case qps of None \<Rightarrow> [] | Some q \<Rightarrow> [SetStaticRateLimit q])"

definition rateLimit :: "'w host \<Rightarrow> float64 option outcome" where
  "rateLimit h =
     (let qpsRaw = Getenv h doAPIRateLimitQPSEnv in
      if qpsRaw \<noteq> ''''
      then bindR (map_err (\<lambda>e. Errorf (''failed to parse value from environment variable '' @
               doAPIRateLimitQPSEnv @ '': '') e '''') (ParseFloat h qpsRaw)) (\<lambda>qps. Ok (Some qps))
      else Ok None)"

definition firewallSettings :: "'w host \<Rightarrow> publicAccessFirewall outcome" where
  "firewallSettings h =
     (let firewallName = Getenv h publicAccessFirewallNameEnv;
          firewallTags = Getenv h publicAccessFirewallTagsEnv;
          required = (\<lambda>env. Err (NewError (''environment variable '' @ quote env @ '' is required when managing firewalls''))) in
      if firewallName = '''' \<and> firewallTags \<noteq> '''' then required publicAccessFirewallNameEnv
      else if firewallName \<noteq> '''' \<and> firewallTags = '''' then required publicAccessFirewallTagsEnv
      else Ok \<lparr>paf_name = firewallName, paf_tags = Split1 (CHR '','') firewallTags\<rparr>)"

text \<open>
  The parameter \<open>version\<close> is the variable that the linker sets. \<^verbatim>\<open>newMetrics\<close> fails where the
  initialisation of the package variables does.
\<close>

definition newCloud :: "'w host \<Rightarrow> string \<Rightarrow> ('w, 'w cloud) cmd" where
  "newCloud h version =
     (let token = Getenv h doAccessTokenEnv in
      if token = '''' then liftR (Err (NewError (''environment variable '' @ quote doAccessTokenEnv @ '' is required'')))
      else
      bindM (liftR (rateLimit h)) (\<lambda>qps.
      bindM (liftR (map_err (\<lambda>e. Errorf ''failed to create godo client: '' e '''')
          (godo_New h (Token \<lparr>AccessToken = token\<rparr>) (clientOpts (Getenv h doOverrideAPIURLEnv) version qps)))) (\<lambda>doClient.
      bindM (map_errM (\<lambda>e. Errorf ''failed to determine region: '' e '''') (dropletRegion h doClient)) (\<lambda>region.
      bindM (liftR (firewallSettings h)) (\<lambda>firewall.
      let resources = newResources (Getenv h doClusterIDEnv) (Getenv h doClusterVPCIDEnv) firewall doClient;
          debugAddr = Getenv h debugAddrEnv;
          httpServer = (if debugAddr \<noteq> '''' then Some debugAddr else None) in
      bindM (liftR (metricsAddress h)) (\<lambda>addr.
      let defaultLBType = configuredLBType h in
      bindM (liftR (newMetrics addr)) (\<lambda>metrics.
      returnM
        \<lparr>c_client = doClient, c_instances = newInstances resources region,
         c_loadbalancers = newLoadBalancers resources region defaultLBType,
         c_metrics = metrics, c_defaultLBType = defaultLBType, c_resources = resources,
         c_httpServer = httpServer\<rparr>)))))))"

section \<open>Initialisation\<close>

text \<open>
  The goroutines that are started, with what they run on; without a debug server
  \<^verbatim>\<open>serveDebug\<close> returns at once.
\<close>

datatype 'w goroutine =
    RunResources "'w ResourcesController"
  | ServeDebug string
  | ServeMetrics "'w cloud"
  | RunWorker "'w FirewallController"
  | RunFirewall "'w FirewallController" int

fun is_ServeMetrics :: "'w goroutine \<Rightarrow> bool" where
  "is_ServeMetrics (ServeMetrics c) = True"
| "is_ServeMetrics _ = False"

definition serveDebug :: "'w cloud \<Rightarrow> 'w goroutine list" where
  "serveDebug c = (case c_httpServer c of None \<Rightarrow> [] | Some addr \<Rightarrow> [ServeDebug addr])"

text \<open>
  \<^verbatim>\<open>http.Handle\<close> on the default multiplexer, whose patterns here are plain paths: registering one twice panics.
  \<^verbatim>\<open>http.ListenAndServe\<close> listens on port http of every address when it is given the empty one.
\<close>

definition http_Handle :: "string \<Rightarrow> string list \<Rightarrow> string list outcome" where
  "http_Handle pattern patterns =
     (if pattern \<in> set patterns then Panic (''http: multiple registrations for '' @ pattern)
      else Ok (patterns @ [pattern]))"

definition listenAddress :: "string \<Rightarrow> string" where
  "listenAddress addr = (if addr = '''' then '':http'' else addr)"

text \<open>
  The body of the goroutine on the patterns and the registry of the process, up to the call that serves: the result is the
  address it listens on. The error with which that call returns is logged.
\<close>

definition serveMetrics :: "'w cloud \<Rightarrow> string list \<times> MetricVec list \<Rightarrow> (string \<times> string list \<times> MetricVec list) outcome" where
  "serveMetrics c = (\<lambda>(patterns, registry).
     bindR (http_Handle ''/metrics'' patterns) (\<lambda>patterns.
     bindR (registerMetrics registry) (\<lambda>registry.
     Ok (listenAddress (m_host (c_metrics c)), patterns, registry))))"

definition managedFirewall :: "'w cloud \<Rightarrow> (portProtocol list \<Rightarrow> portProtocol list) \<Rightarrow> 'w firewallManager" where
  "managedFirewall c range_order =
     \<lparr>fm_client = c_client c, fm_workerFirewallName = paf_name (r_firewall (c_resources c)),
      fm_workerFirewallTags = paf_tags (r_firewall (c_resources c)), fm_defaultLBType = c_defaultLBType c,
      fm_range = range_order\<rparr>"

definition Initialize ::
    "('w \<Rightarrow> Service list \<times> error option) \<Rightarrow> ('w \<Rightarrow> bool) \<Rightarrow> (portProtocol list \<Rightarrow> portProtocol list) \<Rightarrow>
     'w cloud \<Rightarrow> 'w goroutine list" where
  "Initialize lister ctxErr range_order c =
     [RunResources (NewResourcesController (c_resources c) lister)] @ serveDebug c @ [ServeMetrics c] @
     (if paf_name (r_firewall (c_resources c)) = '''' then []
      else let fc = NewFirewallController lister ctxErr (managedFirewall c range_order) in
        [RunWorker fc, RunFirewall fc firewallReconcileFrequency])"

section \<open>Health check and provider interface\<close>

text \<open>The status and the body of the answer; \<open>account_get\<close> is the API call \<^verbatim>\<open>Account.Get\<close>.\<close>

definition ServeHTTP :: "('w, unit) call \<Rightarrow> ('w, int \<times> string) cmd" where
  "ServeHTTP account_get =
     bindM (api account_get) (\<lambda>(_, _, err).
     case err of
       Some e \<Rightarrow> returnM (500, ''health check failed: '' @ error_text e)
     | None \<Rightarrow> returnM (200, ''''))"

definition LoadBalancer :: "'w cloud \<Rightarrow> 'w loadBalancers \<times> bool" where
  "LoadBalancer c = (c_loadbalancers c, True)"

definition InstancesV2 :: "'w cloud \<Rightarrow> 'w instances \<times> bool" where
  "InstancesV2 c = (c_instances c, True)"

definition ProviderName :: string where
  "ProviderName = ''digitalocean''"

text \<open>The parts of the interface that are not supported, and the name servers, which are dropped.\<close>

definition Instances :: "'w cloud \<Rightarrow> unit option \<times> bool" where
  "Instances c = (None, False)"

definition Zones :: "'w cloud \<Rightarrow> unit option \<times> bool" where
  "Zones c = (None, False)"

definition Clusters :: "'w cloud \<Rightarrow> unit option \<times> bool" where
  "Clusters c = (None, False)"

definition Routes :: "'w cloud \<Rightarrow> unit option \<times> bool" where
  "Routes c = (None, False)"

definition ScrubDNS :: "'w cloud \<Rightarrow> string list \<Rightarrow> string list \<Rightarrow> string list \<times> string list" where
  "ScrubDNS c nameservers searches = ([], [])"

definition HasClusterID :: "'w cloud \<Rightarrow> bool" where
  "HasClusterID c = False"

section \<open>What a configured provider guarantees\<close>

lemma newCloud_run:
  assumes "newCloud h version w = (Ok c, w')"
  shows "\<exists>qps doClient region fw addr m.
     Getenv h doAccessTokenEnv \<noteq> '''' \<and> rateLimit h = Ok qps
     \<and> godo_New h (Getenv h doAccessTokenEnv) (clientOpts (Getenv h doOverrideAPIURLEnv) version qps) = Ok doClient
     \<and> dropletRegion h doClient w = (Ok region, w') \<and> firewallSettings h = Ok fw \<and> metricsAddress h = Ok addr
     \<and> newMetrics addr = Ok m
     \<and> (let r = newResources (Getenv h doClusterIDEnv) (Getenv h doClusterVPCIDEnv) fw doClient in
        c = \<lparr>c_client = doClient, c_instances = newInstances r region,
          c_loadbalancers = newLoadBalancers r region (configuredLBType h),
          c_metrics = m, c_defaultLBType = configuredLBType h, c_resources = r,
          c_httpServer = (if Getenv h debugAddrEnv \<noteq> '''' then Some (Getenv h debugAddrEnv) else None)\<rparr>)"
  using assms unfolding newCloud_def Let_def
  by (simp only: outcome_simps outcome.inject split: if_split_asm) auto

lemma newCloud_Ok:
  assumes "newCloud h version w = (Ok c, w')"
  shows "Getenv h doAccessTokenEnv \<noteq> ''''" "c_defaultLBType c = configuredLBType h"
    "\<exists>opts. godo_New h (Getenv h doAccessTokenEnv) opts = Ok (c_client c)"
    "\<exists>region. dropletRegion h (c_client c) w = (Ok region, w') \<and> inst_region (c_instances c) = region
       \<and> c_loadbalancers c = newLoadBalancers (c_resources c) region (c_defaultLBType c)"
    "firewallSettings h = Ok (r_firewall (c_resources c))" "r_gclient (c_resources c) = c_client c"
    "metricsAddress h = Ok (m_host (c_metrics c))" "inst_resources (c_instances c) = c_resources c"
    "r_clusterID (c_resources c) = Getenv h doClusterIDEnv"
    "r_clusterVPCID (c_resources c) = Getenv h doClusterVPCIDEnv"
    "\<exists>addr. newMetrics addr = Ok (c_metrics c)"
  using newCloud_run [OF assms]
  by (auto simp: Let_def newResources_def newInstances_def newMetrics_eq)

lemma firewallSettings_Ok:
  "firewallSettings h = Ok fw \<Longrightarrow>
     paf_name fw = Getenv h publicAccessFirewallNameEnv
     \<and> join '','' (paf_tags fw) = Getenv h publicAccessFirewallTagsEnv
     \<and> (paf_name fw = '''' \<longleftrightarrow> Getenv h publicAccessFirewallTagsEnv = '''')"
  by (auto simp: firewallSettings_def Let_def join_Split1 split: if_splits)

text \<open>
  A provider that starts is configured consistently: its load balancers use the API client,
  the cluster settings and the default type of the provider, the type is a supported one, the
  region is one the API lists when it comes from the environment, and either both
  firewall settings are given or neither, and then no firewall is managed.\<close>

theorem newCloud_consistent:
  assumes "newCloud h version w = (Ok c, w')"
  shows "valid_lb_type (c_defaultLBType c)
     \<and> l_defaultLBType (c_loadbalancers c) = c_defaultLBType c
     \<and> l_client (c_loadbalancers c) = c_client c
     \<and> l_clusterID (c_loadbalancers c) = Getenv h doClusterIDEnv
     \<and> l_region (c_loadbalancers c) = inst_region (c_instances c)
     \<and> (Getenv h regionEnv \<noteq> '''' \<longrightarrow> l_region (c_loadbalancers c) = Getenv h regionEnv
          \<and> (\<exists>regions. listAllRegions (c_client c) w = (Ok regions, w')
               \<and> Getenv h regionEnv \<in> region_Slug ` set regions))
     \<and> (Getenv h publicAccessFirewallNameEnv = '''' \<longleftrightarrow> Getenv h publicAccessFirewallTagsEnv = '''')
     \<and> (RunWorker fc \<in> set (Initialize lister ctxErr order c) \<longrightarrow> Getenv h publicAccessFirewallNameEnv \<noteq> ''''
          \<and> join '','' (fm_workerFirewallTags (fc_fwManager fc)) = Getenv h publicAccessFirewallTagsEnv)"
proof -
  note ok = newCloud_Ok [OF assms]
  from ok(4) obtain region where r: "dropletRegion h (c_client c) w = (Ok region, w')"
    "inst_region (c_instances c) = region"
    "c_loadbalancers c = newLoadBalancers (c_resources c) region (c_defaultLBType c)" by blast
  have "Getenv h regionEnv \<noteq> '''' \<Longrightarrow> region = Getenv h regionEnv
      \<and> (\<exists>regions. listAllRegions (c_client c) w = (Ok regions, w') \<and> Getenv h regionEnv \<in> region_Slug ` set regions)"
    using dropletRegion_configured [OF refl _ r(1)] by blast
  moreover have "RunWorker fc \<in> set (Initialize lister ctxErr order c) \<Longrightarrow>
      paf_name (r_firewall (c_resources c)) \<noteq> '''' \<and> fm_workerFirewallTags (fc_fwManager fc) = paf_tags (r_firewall (c_resources c))"
    by (auto simp: Initialize_def serveDebug_def Let_def managedFirewall_def NewFirewallController_def
        split: if_splits option.splits)
  ultimately show ?thesis
    using ok r firewallSettings_Ok [OF ok(5)] configuredLBType_valid [of h]
    by (auto simp: newLoadBalancers_def)
qed

lemma startAdmissionServer_Ok:
  assumes "startAdmissionServer h decoder old_order w = (Ok a, w')"
  shows "adm_defaultLBType a = configuredLBType h" "adm_clusterID a = Getenv h doClusterIDEnv"
    "adm_vpcID a = Getenv h doClusterVPCIDEnv"
    "\<exists>godo. getGodoClient h = Ok godo \<and> adm_godoClient a = godo \<and> dropletRegion h godo w = (Ok (adm_region a), w')"
  using assms
  by (auto simp: startAdmissionServer_def WithRegion_def WithVPCID_def WithClusterID_def
      NewLBServiceAdmissionHandler_def outcome_simps Let_def)


text \<open>
  No service can make a started program panic over its load balancer type: for the
  default type that the environment configures, reading the type of any service gives a
  supported type or an error, in the load balancer controller, in the firewall controller and in the webhook.\<close>

theorem configured_type_never_panics:
  assumes "newCloud h version w = (Ok c, w')" and "startAdmissionServer h decoder old_order v = (Ok a, v')"
    and "d \<in> {l_defaultLBType (c_loadbalancers c), fm_defaultLBType (managedFirewall c order), adm_defaultLBType a}"
  shows "(\<exists>t. getType s d = Ok t \<and> valid_lb_type t) \<or> (\<exists>e. getType s d = Err e)"
proof -
  have "d = configuredLBType h"
    using assms(3) newCloud_Ok [OF assms(1)] startAdmissionServer_Ok [OF assms(2)]
    by (auto simp: newLoadBalancers_def managedFirewall_def)
  with configuredLBType_valid [of h] show ?thesis
    by (auto simp: getType_def Let_def)
qed

text \<open>
  A started provider serves its metrics in one goroutine. It registers the six vectors and
  the handler of the path /metrics, after which it listens on the configured address, or, when none is
  configured, on port http of every address. It panics exactly when the path or one of the six names
  is taken, in particular when it runs a second time in the same process.\<close>

theorem serveMetrics_registers:
  assumes "newCloud h version w = (Ok c, w')"
  shows "filter is_ServeMetrics (Initialize lister ctxErr order c) = [ServeMetrics c]
     \<and> (case serveMetrics c (patterns, registry) of
          Ok (addr, patterns', registry') \<Rightarrow>
            ''/metrics'' \<notin> set patterns \<and> name_free (metric_vecs (c_metrics c)) registry
            \<and> metricsAddress h = Ok (m_host (c_metrics c)) \<and> addr = listenAddress (m_host (c_metrics c))
            \<and> patterns' = patterns @ [''/metrics''] \<and> registry' = registry @ metric_vecs (c_metrics c)
            \<and> (\<exists>p. serveMetrics c (patterns', registry') = Panic p)
        | Panic p \<Rightarrow> ''/metrics'' \<in> set patterns \<or> \<not> name_free (metric_vecs (c_metrics c)) registry
        | _ \<Rightarrow> False)"
proof -
  from newCloud_Ok(11) [OF assms] obtain addr where m: "newMetrics addr = Ok (c_metrics c)" by blast
  have one: "filter is_ServeMetrics (Initialize lister ctxErr order c) = [ServeMetrics c]"
    by (simp add: Initialize_def serveDebug_def Let_def split: option.splits)
  consider "''/metrics'' \<in> set patterns" | "''/metrics'' \<notin> set patterns" "name_free (metric_vecs (c_metrics c)) registry"
    | p where "''/metrics'' \<notin> set patterns" "\<not> name_free (metric_vecs (c_metrics c)) registry" "registerMetrics registry = Panic p"
    using registerMetrics_cases(2) [OF m] by blast
  then show ?thesis
    by cases (simp_all add: one serveMetrics_def http_Handle_def registerMetrics_cases(1) [OF m] newCloud_Ok(7) [OF assms])
qed

text \<open>Without a metrics address the metrics are served all the same, on every address.\<close>

lemma metrics_without_address:
  assumes "newCloud h version w = (Ok c, w')" and "Getenv h metricsAddrEnv = ''''"
    and "serveMetrics c s = Ok (addr, s')"
  shows "addr = '':http''"
  using newCloud_Ok(7) [OF assms(1)] assms(2,3)
  by (cases s) (auto simp: metricsAddress_def serveMetrics_def listenAddress_def outcome_simps)

section \<open>Examples\<close>

definition example_env :: "(string \<times> string) list" where
  "example_env =
     [(doAccessTokenEnv, ''token''), (doClusterIDEnv, ''cluster-1''), (doClusterVPCIDEnv, ''vpc-1''),
      (publicAccessFirewallNameEnv, ''workers''), (publicAccessFirewallTagsEnv, ''a,b''),
      (metricsAddrEnv, ''127.0.0.1:9090''), (defaultLBTypeEnv, ''GLOBAL'')]"

definition metadata_host :: "unit host" where
  "metadata_host = (example_host example_env)
     \<lparr>http_Get := (\<lambda>u w. (Ok \<lparr>hr_StatusCode = 200, hr_Body = Ok ''nyc1''\<rparr>, w))\<rparr>"

lemma metadata_host_env:
  "Getenv metadata_host doAccessTokenEnv = ''token''" "Getenv metadata_host regionEnv = ''''"
  "Getenv metadata_host doClusterIDEnv = ''cluster-1''" "configuredLBType metadata_host = LoadBalancerTypeRegionalNetwork"
  "rateLimit metadata_host = Ok None" "firewallSettings metadata_host = Ok \<lparr>paf_name = ''workers'', paf_tags = [''a'', ''b'']\<rparr>"
  "metricsAddress metadata_host = Ok ''127.0.0.1:9090''"
  by code_simp+

lemma metadata_host_client: "godo_New metadata_host t opts = Ok offline_client"
  by (simp add: metadata_host_def example_host_def)

lemma metadata_host_region: "dropletRegion metadata_host c () = (Ok ''nyc1'', ())"
  by (simp add: dropletRegion_metadata metadata_host_env(2)) (simp add: metadata_host_def)

lemma metadata_host_newCloud: "\<exists>c. newCloud metadata_host '''' () = (Ok c, ())"
  by (simp add: newCloud_def metadata_host_env metadata_host_client metadata_host_region bindM_def map_errM_def
      liftR_def returnM_def newMetrics_eq Let_def)

lemma metadata_host_server: "\<exists>a. startAdmissionServer metadata_host decoder order () = (Ok a, ())"
  by (simp add: startAdmissionServer_def getGodoClient_def metadata_host_env metadata_host_client WithRegion_def
      metadata_host_region bindM_def map_errM_def liftR_def returnM_def Let_def)

theorem serveMetrics_registers_witness:
  "\<exists>c reg p. newCloud metadata_host '''' () = (Ok c, ())
     \<and> serveMetrics c ([], []) = Ok (''127.0.0.1:9090'', [''/metrics''], reg) \<and> length reg = 6
     \<and> serveMetrics c ([''/metrics''], reg) = Panic p"
proof -
  obtain c where c: "newCloud metadata_host '''' () = (Ok c, ())" using metadata_host_newCloud by blast
  note reg = serveMetrics_registers [OF c, of "\<lambda>w. ([], None)" "\<lambda>w. False" id "[]" "[]"]
  have "name_free (metric_vecs (c_metrics c)) []" by (simp add: name_free_def)
  with reg show ?thesis
    using c by (auto simp: metadata_host_env listenAddress_def metric_vecs_def split: outcome.splits)
qed

theorem newCloud_consistent_witness:
  "\<exists>c. newCloud metadata_host '''' () = (Ok c, ()) \<and> valid_lb_type (c_defaultLBType c)
     \<and> l_clusterID (c_loadbalancers c) = ''cluster-1''"
  using metadata_host_newCloud newCloud_consistent [of metadata_host "''''" "()" _ "()"] metadata_host_env(3) by metis


theorem configured_type_never_panics_witness:
  "\<exists>c. newCloud metadata_host '''' () = (Ok c, ())
     \<and> ((\<exists>t. getType plain_service (l_defaultLBType (c_loadbalancers c)) = Ok t \<and> valid_lb_type t)
        \<or> (\<exists>e. getType plain_service (l_defaultLBType (c_loadbalancers c)) = Err e))"
proof -
  obtain c a where c: "newCloud metadata_host '''' () = (Ok c, ())"
    and a: "startAdmissionServer metadata_host (\<lambda>raw. Ok plain_service) rev () = (Ok a, ())"
    using metadata_host_newCloud metadata_host_server by blast
  from configured_type_never_panics [OF c a, of "l_defaultLBType (c_loadbalancers c)" id plain_service] c
  show ?thesis by blast
qed

end
