(* ===== verification/Service_Controller.thy ===== *)
theory Service_Controller
  imports LoadBalancers Work_Queue
begin

text \<open>
  The service controller of k8s.io/cloud-provider, which the manager's command runs with the
  load balancers of this provider: what it does with a service taken from its queue, which errors of the
  provider it retries and when, how the cleanup finalizer is kept, and when a change of the
  nodes reaches the load balancers. The provider is used through its interface, a record of four
  calls; the contract of the interface is the locale \<open>service_balancer\<close>.
\<close>

section \<open>Objects and the provider interface\<close>

text \<open>What the controller reads of a service and of a node beside the fields the provider reads.\<close>

record kService =
  ks_service :: Service
  ks_Finalizers :: "string list"
  ks_LoadBalancerClass :: "string option"

record kNode =
  kn_node :: Node
  kn_DeletionTimestamp :: "string option"

record 'w balancer =
  b_GetLoadBalancer :: "('w, LoadBalancerIngress list option \<times> bool) svc_cmd"
  b_EnsureLoadBalancer :: "Node list \<Rightarrow> ('w, LoadBalancerIngress list) svc_cmd"
  b_UpdateLoadBalancer :: "Node list \<Rightarrow> ('w, unit) svc_cmd"
  b_EnsureLoadBalancerDeleted :: "('w, unit) svc_cmd"

definition providerBalancer :: "'w loadBalancers \<Rightarrow> 'w balancer" where
  "providerBalancer l =
     \<lparr>b_GetLoadBalancer = GetLoadBalancer l, b_EnsureLoadBalancer = EnsureLoadBalancer l,
      b_UpdateLoadBalancer = UpdateLoadBalancer l,
      b_EnsureLoadBalancerDeleted =
        bindM get_service (\<lambda>service. on_world (EnsureLoadBalancerDeleted (l_client l) service))\<rparr>"

text \<open>
  The controller: the provider, the listers, which read the informers' copies, the patch of a
  service that the API server performs on the object before and the object after, and the
  order in which a range loop visits the cached services.
\<close>

record 'w svcCtl =
  sc_balancer :: "'w balancer"
  sc_serviceGet :: "string \<Rightarrow> string \<Rightarrow> 'w \<Rightarrow> kService outcome"
  sc_nodeLister :: "'w \<Rightarrow> kNode list outcome"
  sc_Patch :: "kService \<Rightarrow> kService \<Rightarrow> 'w \<Rightarrow> error option \<times> 'w"
  sc_order :: "string list \<Rightarrow> string list"

text \<open>
  Its state: the queues, the service cache, whose entries are created empty, the nodes each
  service was last synced with, the events recorded so far, and the outside world.
\<close>

record 'w svcState =
  ss_serviceQueue :: workqueue
  ss_nodeQueue :: workqueue
  ss_cache :: "(string \<times> kService option) list"
  ss_lastSyncedNodes :: "(string \<times> kNode list) list"
  ss_events :: "Event list"
  ss_world :: 'w

type_synonym ('w, 'a) sc_cmd = "('w svcState, 'a) cmd"

text \<open>Code that works on a service object, which the provider changes in place.\<close>

type_synonym ('w, 'a) sync_cmd = "(kService \<times> 'w svcState, 'a) cmd"

definition get_object :: "('w, kService) sync_cmd" where
  "get_object = (\<lambda>(k, st). (Ok k, (k, st)))"

definition on_state :: "('w, 'a) sc_cmd \<Rightarrow> ('w, 'a) sync_cmd" where
  "on_state m = (\<lambda>(k, st). case m st of (r, st') \<Rightarrow> (r, (k, st')))"

definition call_balancer :: "('w, 'a) svc_cmd \<Rightarrow> ('w, 'a) sync_cmd" where
  "call_balancer m = (\<lambda>(k, st).
     case m (ks_service k, ss_world st) of
       (r, (s', w')) \<Rightarrow> (r, (k\<lparr>ks_service := s'\<rparr>, st\<lparr>ss_world := w'\<rparr>)))"

definition sc_event :: "string \<Rightarrow> string \<Rightarrow> string \<Rightarrow> ('w, unit) sync_cmd" where
  "sc_event evType reason msg = (\<lambda>(k, st).
     let s = ks_service k in
     (Ok (), (k, st\<lparr>ss_events := ss_events st @
        [\<lparr>ev_Namespace = svc_Namespace s, ev_Name = svc_Name s, ev_UID = svc_UID s,
          ev_Type = evType, ev_Reason = reason, ev_Message = msg\<rparr>]\<rparr>)))"

definition kube_patch :: "'w svcCtl \<Rightarrow> kService \<Rightarrow> ('w, unit) sync_cmd" where
  "kube_patch sc updated = (\<lambda>(k, st).
     case sc_Patch sc k updated (ss_world st) of
       (None, w') \<Rightarrow> (Ok (), (k, st\<lparr>ss_world := w'\<rparr>))
     | (Some e, w') \<Rightarrow> (Err e, (k, st\<lparr>ss_world := w'\<rparr>)))"

section \<open>Errors of the Kubernetes API\<close>

fun as_APIStatus :: "error \<Rightarrow> (string \<times> int) option" where
  "as_APIStatus (StatusError reason code m) = Some (reason, code)"
| "as_APIStatus (Wrapf p e s) = as_APIStatus e"
| "as_APIStatus _ = None"

definition knownReasons :: "string list" where
  "knownReasons = [''Unauthorized'', ''Forbidden'', ''NotFound'', ''AlreadyExists'', ''Conflict'', ''Gone'',
     ''Invalid'', ''ServerTimeout'', ''StorageReadError'', ''Timeout'', ''TooManyRequests'', ''BadRequest'',
     ''MethodNotAllowed'', ''NotAcceptable'', ''RequestEntityTooLarge'', ''UnsupportedMediaType'',
     ''InternalError'', ''Expired'', ''ServiceUnavailable'']"

definition IsNotFound :: "error \<Rightarrow> bool" where
  "IsNotFound e =
     (case as_APIStatus e of
        None \<Rightarrow> False
      | Some (reason, code) \<Rightarrow>
          reason = ''NotFound'' \<or> reason \<notin> set knownReasons \<and> code = StatusNotFound)"

section \<open>Keys\<close>

definition MetaNamespaceKey :: "Service \<Rightarrow> string" where
  "MetaNamespaceKey s =
     (if length (svc_Namespace s) > 0 then svc_Namespace s @ ''/'' @ svc_Name s else svc_Name s)"

definition SplitMetaNamespaceKey :: "string \<Rightarrow> (string \<times> string) outcome" where
  "SplitMetaNamespaceKey key =
     (case Split1 (CHR ''/'') key of
        [name] \<Rightarrow> Ok ('''', name)
      | [namespace, name] \<Rightarrow> Ok (namespace, name)
      | _ \<Rightarrow> Err (NewError (''unexpected key format: '' @ quote key)))"

section \<open>Predicates\<close>

definition LoadBalancerCleanupFinalizer :: string where
  "LoadBalancerCleanupFinalizer = ''service.kubernetes.io/load-balancer-cleanup''"

definition HasLBFinalizer :: "kService \<Rightarrow> bool" where
  "HasLBFinalizer k = (LoadBalancerCleanupFinalizer \<in> set (ks_Finalizers k))"

definition wantsLoadBalancer :: "kService \<Rightarrow> bool" where
  "wantsLoadBalancer k = (svc_Type (ks_service k) = ServiceTypeLoadBalancer \<and> ks_LoadBalancerClass k = None)"

definition needsCleanup :: "kService \<Rightarrow> bool" where
  "needsCleanup k =
     (if \<not> HasLBFinalizer k then False
      else if svc_DeletionTimestamp (ks_service k) \<noteq> None then True
      else svc_Type (ks_service k) \<noteq> ServiceTypeLoadBalancer)"

definition LabelNodeExcludeBalancers :: string where
  "LabelNodeExcludeBalancers = ''node.kubernetes.io/exclude-from-external-load-balancers''"

definition ToBeDeletedTaint :: string where
  "ToBeDeletedTaint = ''ToBeDeletedByClusterAutoscaler''"

definition nodeIncludedPredicate :: "kNode \<Rightarrow> bool" where
  "nodeIncludedPredicate n =
     (case map_of (node_Labels (kn_node n)) LabelNodeExcludeBalancers of
        Some v \<Rightarrow> (case ParseBool v of Ok b \<Rightarrow> \<not> b | _ \<Rightarrow> False)
      | None \<Rightarrow> True)"

definition nodeUnTaintedPredicate :: "kNode \<Rightarrow> bool" where
  "nodeUnTaintedPredicate n = (\<not> list_ex (\<lambda>t. taint_Key t = ToBeDeletedTaint) (node_Taints (kn_node n)))"

definition nodeNotDeletedPredicate :: "kNode \<Rightarrow> bool" where
  "nodeNotDeletedPredicate n = (kn_DeletionTimestamp n = None)"

definition respectsPredicates :: "kNode \<Rightarrow> (kNode \<Rightarrow> bool) list \<Rightarrow> bool" where
  "respectsPredicates n predicates = list_all (\<lambda>p. p n) predicates"

definition filterWithPredicates :: "kNode list \<Rightarrow> (kNode \<Rightarrow> bool) list \<Rightarrow> kNode list" where
  "filterWithPredicates nodes predicates = filter (\<lambda>n. respectsPredicates n predicates) nodes"

definition stableNodeSetPredicates :: "(kNode \<Rightarrow> bool) list" where
  "stableNodeSetPredicates = [nodeNotDeletedPredicate, nodeIncludedPredicate, nodeUnTaintedPredicate]"

definition shouldSyncUpdatedNode :: "kNode \<Rightarrow> kNode \<Rightarrow> bool" where
  "shouldSyncUpdatedNode oldNode newNode =
     (nodeIncludedPredicate oldNode \<noteq> nodeIncludedPredicate newNode
      \<or> node_ProviderID (kn_node oldNode) \<noteq> node_ProviderID (kn_node newNode))"

text \<open>The maps from names to provider IDs are built by overwriting, so the last node of a name counts.\<close>

definition protoNodes :: "kNode list \<Rightarrow> (string \<times> string) list" where
  "protoNodes nodes =
     fold (\<lambda>n m. AList.update (node_Name (kn_node n)) (node_ProviderID (kn_node n)) m) nodes []"

definition nodesSufficientlyEqual :: "kNode list \<Rightarrow> kNode list \<Rightarrow> bool" where
  "nodesSufficientlyEqual oldNodes newNodes =
     (if length oldNodes \<noteq> length newNodes then False
      else map_DeepEqual (protoNodes oldNodes) (protoNodes newNodes))"

section \<open>Syncing a load balancer\<close>

definition addFinalizer :: "'w svcCtl \<Rightarrow> ('w, unit) sync_cmd" where
  "addFinalizer sc =
     bindM get_object (\<lambda>k.
     if HasLBFinalizer k then returnM ()
     else kube_patch sc (k\<lparr>ks_Finalizers := ks_Finalizers k @ [LoadBalancerCleanupFinalizer]\<rparr>))"

definition removeFinalizer :: "'w svcCtl \<Rightarrow> ('w, unit) sync_cmd" where
  "removeFinalizer sc =
     bindM get_object (\<lambda>k.
     if \<not> HasLBFinalizer k then returnM ()
     else kube_patch sc (k\<lparr>ks_Finalizers := filter (\<lambda>f. f \<noteq> LoadBalancerCleanupFinalizer) (ks_Finalizers k)\<rparr>))"

definition patchStatus ::
    "'w svcCtl \<Rightarrow> LoadBalancerIngress list \<Rightarrow> LoadBalancerIngress list \<Rightarrow> ('w, unit) sync_cmd" where
  "patchStatus sc previousStatus newStatus =
     bindM get_object (\<lambda>k.
     if previousStatus = newStatus then returnM ()
     else kube_patch sc (k\<lparr>ks_service := (ks_service k)\<lparr>svc_Ingress := newStatus\<rparr>\<rparr>))"

definition storeLastSyncedNodes :: "kNode list \<Rightarrow> ('w, unit) sync_cmd" where
  "storeLastSyncedNodes nodes = (\<lambda>(k, st).
     (Ok (), (k, st\<lparr>ss_lastSyncedNodes :=
        AList.update (MetaNamespaceKey (ks_service k)) nodes (ss_lastSyncedNodes st)\<rparr>)))"

definition listWithPredicates :: "'w svcCtl \<Rightarrow> (kNode \<Rightarrow> bool) list \<Rightarrow> ('w, kNode list) sync_cmd" where
  "listWithPredicates sc predicates = (\<lambda>(k, st).
     (bindR (sc_nodeLister sc (ss_world st)) (\<lambda>nodes. Ok (filterWithPredicates nodes predicates)), (k, st)))"

definition sc_ensureLoadBalancer :: "'w svcCtl \<Rightarrow> ('w, LoadBalancerIngress list) sync_cmd" where
  "sc_ensureLoadBalancer sc =
     bindM (listWithPredicates sc stableNodeSetPredicates) (\<lambda>nodes.
     bindM (if nodes = [] then sc_event ''Warning'' ''UnAvailableLoadBalancer''
              ''There are no available nodes for LoadBalancer'' else returnM ()) (\<lambda>_.
     bindM (storeLastSyncedNodes nodes) (\<lambda>_.
     call_balancer (b_EnsureLoadBalancer (sc_balancer sc) (map kn_node nodes)))))"

datatype loadBalancerOperation = deleteLoadBalancer | ensureLoadBalancer

text \<open>The branch of \<^verbatim>\<open>syncLoadBalancerIfNeeded\<close> for a service without need of a load balancer.\<close>

definition cleanUp :: "'w svcCtl \<Rightarrow> ('w, unit) sync_cmd" where
  "cleanUp sc =
     bindM (map_errM (\<lambda>e. Errorf ''failed to check if load balancer exists before cleanup: '' e '''')
         (call_balancer (b_GetLoadBalancer (sc_balancer sc)))) (\<lambda>(_, exists).
     bindM
       (if exists then
          bindM (sc_event ''Normal'' ''DeletingLoadBalancer'' ''Deleting load balancer'') (\<lambda>_.
          bindM (attempt (call_balancer (b_EnsureLoadBalancerDeleted (sc_balancer sc)))) (\<lambda>deleted.
          case deleted of
            Inl e \<Rightarrow> if e = ImplementedElsewhere then returnM ()
                      else liftR (Err (Errorf ''failed to delete load balancer: '' e ''''))
          | Inr _ \<Rightarrow> returnM ()))
        else returnM ()) (\<lambda>_.
     bindM (map_errM (\<lambda>e. Errorf ''failed to remove load balancer cleanup finalizer: '' e '''')
         (removeFinalizer sc)) (\<lambda>_.
     sc_event ''Normal'' ''DeletedLoadBalancer'' ''Deleted load balancer'')))"

text \<open>
  The end of \<^verbatim>\<open>syncLoadBalancerIfNeeded\<close>: a service that has gone in the meantime cannot be
  patched, and this is no error.
\<close>

definition finishStatus ::
    "'w svcCtl \<Rightarrow> LoadBalancerIngress list \<Rightarrow> LoadBalancerIngress list \<Rightarrow> loadBalancerOperation \<Rightarrow>
     ('w, loadBalancerOperation) sync_cmd" where
  "finishStatus sc previousStatus newStatus operation =
     bindM (attempt (patchStatus sc previousStatus newStatus)) (\<lambda>patched.
     case patched of
       Inl e \<Rightarrow> if IsNotFound e then returnM operation
                 else liftR (Err (Errorf ''failed to update load balancer status: '' e ''''))
     | Inr _ \<Rightarrow> returnM operation)"

definition syncLoadBalancerIfNeeded :: "'w svcCtl \<Rightarrow> ('w, loadBalancerOperation) sync_cmd" where
  "syncLoadBalancerIfNeeded sc =
     bindM get_object (\<lambda>k.
     let previousStatus = svc_Ingress (ks_service k) in
     if \<not> wantsLoadBalancer k \<or> needsCleanup k
     then bindM (cleanUp sc) (\<lambda>_. finishStatus sc previousStatus [] deleteLoadBalancer)
     else
       bindM (sc_event ''Normal'' ''EnsuringLoadBalancer'' ''Ensuring load balancer'') (\<lambda>_.
       bindM (map_errM (\<lambda>e. Errorf ''failed to add load balancer cleanup finalizer: '' e '''')
           (addFinalizer sc)) (\<lambda>_.
       bindM (attempt (sc_ensureLoadBalancer sc)) (\<lambda>ensured.
       case ensured of
         Inl e \<Rightarrow> if e = ImplementedElsewhere then returnM ensureLoadBalancer
                   else liftR (Err (Wrapf ''failed to ensure load balancer: '' e ''''))
       | Inr newStatus \<Rightarrow>
           bindM (sc_event ''Normal'' ''EnsuredLoadBalancer'' ''Ensured load balancer'') (\<lambda>_.
           finishStatus sc previousStatus newStatus ensureLoadBalancer)))))"

section \<open>Processing a service\<close>

definition processLoadBalancerDelete :: "'w svcCtl \<Rightarrow> ('w, unit) sync_cmd" where
  "processLoadBalancerDelete sc =
     bindM get_object (\<lambda>k.
     if \<not> wantsLoadBalancer k then returnM ()
     else
       bindM (sc_event ''Normal'' ''DeletingLoadBalancer'' ''Deleting load balancer'') (\<lambda>_.
       bindM (attempt (call_balancer (b_EnsureLoadBalancerDeleted (sc_balancer sc)))) (\<lambda>deleted.
       case deleted of
         Inl e \<Rightarrow>
           bindM (sc_event ''Warning'' ''DeleteLoadBalancerFailed''
             (''Error deleting load balancer: '' @ error_text e)) (\<lambda>_. liftR (Err e))
       | Inr _ \<Rightarrow> sc_event ''Normal'' ''DeletedLoadBalancer'' ''Deleted load balancer'')))"

definition cache_set :: "string \<Rightarrow> kService option \<Rightarrow> 'w svcState \<Rightarrow> 'w svcState" where
  "cache_set key v st = st\<lparr>ss_cache := AList.update key v (ss_cache st)\<rparr>"

definition cache_delete :: "string \<Rightarrow> 'w svcState \<Rightarrow> 'w svcState" where
  "cache_delete key st = st\<lparr>ss_cache := AList.delete key (ss_cache st)\<rparr>"

definition getOrCreate :: "string \<Rightarrow> 'w svcState \<Rightarrow> kService option \<times> 'w svcState" where
  "getOrCreate key st =
     (case map_of (ss_cache st) key of
        Some v \<Rightarrow> (v, st)
      | None \<Rightarrow> (None, cache_set key None st))"

text \<open>
  The cache holds a pointer to the object: what a call writes to the object while it is cached is
  also found in the cache afterwards, whatever the outcome of the call.
\<close>

definition on_cached :: "string \<Rightarrow> ('w, 'a) sync_cmd \<Rightarrow> kService \<Rightarrow> ('w, 'a) sc_cmd" where
  "on_cached key m k = (\<lambda>st. case m (k, st) of (r, (k', st')) \<Rightarrow> (r, cache_set key (Some k') st'))"

text \<open>\<^verbatim>\<open>processServiceCreateOrUpdate\<close> after the object of the service has been cached.\<close>

definition syncCached :: "'w svcCtl \<Rightarrow> ('w, loadBalancerOperation) sync_cmd" where
  "syncCached sc =
     bindM (attempt (syncLoadBalancerIfNeeded sc)) (\<lambda>synced.
     case synced of
       Inl e \<Rightarrow> bindM (sc_event ''Warning'' ''SyncLoadBalancerFailed''
                    (''Error syncing load balancer: '' @ error_text e)) (\<lambda>_. liftR (Err e))
     | Inr operation \<Rightarrow> returnM operation)"

definition processServiceCreateOrUpdate :: "'w svcCtl \<Rightarrow> kService \<Rightarrow> string \<Rightarrow> ('w, unit) sc_cmd" where
  "processServiceCreateOrUpdate sc service key = (\<lambda>st.
     case getOrCreate key st of (cached, st) \<Rightarrow>
     bindM
       (case cached of
          None \<Rightarrow> returnM ()
        | Some old \<Rightarrow>
            if svc_UID (ks_service old) \<noteq> svc_UID (ks_service service)
            then on_cached key (processLoadBalancerDelete sc) old else returnM ())
       (\<lambda>_. bindM (on_cached key (syncCached sc) service) (\<lambda>operation st.
          (Ok (), if operation = deleteLoadBalancer then cache_delete key st else st))) st)"

definition processServiceDeletion :: "'w svcCtl \<Rightarrow> string \<Rightarrow> ('w, unit) sc_cmd" where
  "processServiceDeletion sc key = (\<lambda>st.
     case map_of (ss_cache st) key of
       None \<Rightarrow> (Ok (), st)
     | Some None \<Rightarrow> (Panic ''nil pointer dereference'', st)
     | Some (Some k) \<Rightarrow>
         bindM (on_cached key (processLoadBalancerDelete sc) k) (\<lambda>_ st. (Ok (), cache_delete key st)) st)"

definition syncService :: "'w svcCtl \<Rightarrow> string \<Rightarrow> ('w, unit) sc_cmd" where
  "syncService sc key =
     bindM (liftR (SplitMetaNamespaceKey key)) (\<lambda>(namespace, name).
     bindM get_state (\<lambda>st.
     case sc_serviceGet sc namespace name (ss_world st) of
       Err e \<Rightarrow> if IsNotFound e then processServiceDeletion sc key else liftR (Err e)
     | Ok service \<Rightarrow> processServiceCreateOrUpdate sc service key
     | Panic p \<Rightarrow> liftR (Panic p)
     | OutOfFuel \<Rightarrow> liftR OutOfFuel))"

text \<open>Delays in nanoseconds; a retry error holds seconds.\<close>

definition svc_minRetryDelay :: int where "svc_minRetryDelay = 5000000000"

definition svc_maxRetryDelay :: int where "svc_maxRetryDelay = 300000000000"

definition second :: int where "second = 1000000000"

text \<open>How a failed service comes back to the queue.\<close>

definition requeue :: "string \<Rightarrow> error \<Rightarrow> workqueue \<Rightarrow> workqueue" where
  "requeue key e q =
     (case errors_As_RetryError e of
        Some retryAfter \<Rightarrow> wq_AddAfter key (retryAfter * second) q
      | None \<Rightarrow> wq_AddRateLimited svc_minRetryDelay svc_maxRetryDelay key q)"

definition processNextServiceItem :: "'w svcCtl \<Rightarrow> 'w svcState \<Rightarrow> (bool outcome \<times> 'w svcState) option" where
  "processNextServiceItem sc st =
     (case wq_Get (ss_serviceQueue st) of
        None \<Rightarrow> None
      | Some (None, q) \<Rightarrow> Some (Ok False, st\<lparr>ss_serviceQueue := q\<rparr>)
      | Some (Some key, q) \<Rightarrow> Some
          (case syncService sc key (st\<lparr>ss_serviceQueue := q\<rparr>) of
             (Ok _, st') \<Rightarrow>
               (Ok True, st'\<lparr>ss_serviceQueue := wq_Done key (wq_Forget key (ss_serviceQueue st'))\<rparr>)
           | (Err e, st') \<Rightarrow>
               (Ok True, st'\<lparr>ss_serviceQueue := wq_Done key (requeue key e (ss_serviceQueue st'))\<rparr>)
           | (Panic p, st') \<Rightarrow> (Panic p, st'\<lparr>ss_serviceQueue := wq_Done key (ss_serviceQueue st')\<rparr>)
           | (OutOfFuel, st') \<Rightarrow> (OutOfFuel, st')))"

section \<open>Syncing the nodes\<close>

definition sc_nodeNames :: "kNode list \<Rightarrow> string list" where
  "sc_nodeNames nodes = sort_Strings (remdups (map (\<lambda>n. node_Name (kn_node n)) nodes))"

definition maxNodeNamesToLog :: nat where "maxNodeNamesToLog = 20"

definition loggableNodeNames :: "kNode list \<Rightarrow> string list" where
  "loggableNodeNames nodes =
     (if length nodes > maxNodeNamesToLog
      then sc_nodeNames (take maxNodeNamesToLog nodes) @
        [''<'' @ Itoa (int (length nodes - maxNodeNamesToLog)) @ '' more>'']
      else sc_nodeNames nodes)"

definition updateFailed :: "kNode list \<Rightarrow> error \<Rightarrow> ('w, unit) sync_cmd" where
  "updateFailed hosts e =
     bindM (sc_event ''Warning'' ''UpdateLoadBalancerFailed''
       (''Error updating load balancer with new hosts ['' @ join '' '' (loggableNodeNames hosts) @
        ''] [node names limited, total number of nodes: '' @ Itoa (int (length hosts)) @ ''], error: '' @ error_text e))
     (\<lambda>_. liftR (Err e))"

text \<open>A failed update is an error only if the load balancer still exists, as far as can be told.\<close>

definition lockedUpdateLoadBalancerHosts :: "'w svcCtl \<Rightarrow> kNode list \<Rightarrow> ('w, unit) sync_cmd" where
  "lockedUpdateLoadBalancerHosts sc hosts =
     bindM (attempt (call_balancer (b_UpdateLoadBalancer (sc_balancer sc) (map kn_node hosts)))) (\<lambda>updated.
     case updated of
       Inr _ \<Rightarrow>
         if hosts = [] then sc_event ''Warning'' ''UnAvailableLoadBalancer''
           ''There are no available nodes for LoadBalancer''
         else sc_event ''Normal'' ''UpdatedLoadBalancer'' ''Updated load balancer with new hosts''
     | Inl e \<Rightarrow>
         if e = ImplementedElsewhere then returnM ()
         else bindM (attempt (call_balancer (b_GetLoadBalancer (sc_balancer sc)))) (\<lambda>got.
           case got of
             Inl _ \<Rightarrow> updateFailed hosts e
           | Inr (_, exists) \<Rightarrow> if \<not> exists then returnM () else updateFailed hosts e))"

text \<open>The part of \<^verbatim>\<open>nodeSyncService\<close> for a service that wants a load balancer; \<open>True\<close> asks for a retry.\<close>

definition nodeSyncObject :: "'w svcCtl \<Rightarrow> ('w, bool) sync_cmd" where
  "nodeSyncObject sc =
     bindM (attempt (listWithPredicates sc [])) (\<lambda>listed.
     case listed of
       Inl _ \<Rightarrow> returnM True
     | Inr newNodes \<Rightarrow>
         bindM get_state (\<lambda>(k, st).
         let newNodes = filterWithPredicates newNodes stableNodeSetPredicates;
             lastSynced = (case map_of (ss_lastSyncedNodes st) (MetaNamespaceKey (ks_service k)) of
                             None \<Rightarrow> [] | Some ns \<Rightarrow> ns);
             oldNodes = filterWithPredicates lastSynced stableNodeSetPredicates in
         bindM (storeLastSyncedNodes newNodes) (\<lambda>_.
         if nodesSufficientlyEqual oldNodes newNodes then returnM False
         else bindM (attempt (lockedUpdateLoadBalancerHosts sc newNodes)) (\<lambda>updated.
           case updated of Inl _ \<Rightarrow> returnM True | Inr _ \<Rightarrow> returnM False))))"

definition nodeSyncService :: "'w svcCtl \<Rightarrow> string \<Rightarrow> ('w, bool) sc_cmd" where
  "nodeSyncService sc key = (\<lambda>st.
     case map_of (ss_cache st) key of
       Some (Some k) \<Rightarrow>
         if \<not> wantsLoadBalancer k then (Ok False, st) else on_cached key (nodeSyncObject sc) k st
     | _ \<Rightarrow> (Ok False, st))"

definition retryKey :: "string \<Rightarrow> 'w svcState \<Rightarrow> string" where
  "retryKey key st =
     (case map_of (ss_cache st) key of
        Some (Some k) \<Rightarrow> svc_Namespace (ks_service k) @ ''/'' @ svc_Name (ks_service k)
      | _ \<Rightarrow> key)"

text \<open>
  The workers that run \<^verbatim>\<open>nodeSyncService\<close> for all cached services in parallel: here one after the
  other in some order. The result are the services to retry.
\<close>

fun updateLoadBalancerHosts :: "'w svcCtl \<Rightarrow> string list \<Rightarrow> ('w, string list) sc_cmd" where
  "updateLoadBalancerHosts sc [] = returnM []"
| "updateLoadBalancerHosts sc (key # keys) =
     bindM (nodeSyncService sc key) (\<lambda>shouldRetry.
     bindM get_state (\<lambda>st.
     bindM (updateLoadBalancerHosts sc keys) (\<lambda>retry.
     returnM (if shouldRetry then retryKey key st # retry else retry))))"

definition syncNodes :: "'w svcCtl \<Rightarrow> ('w, string list) sc_cmd" where
  "syncNodes sc =
     bindM get_state (\<lambda>st. updateLoadBalancerHosts sc (sc_order sc (map fst (ss_cache st))))"

definition processNextNodeItem :: "'w svcCtl \<Rightarrow> 'w svcState \<Rightarrow> (bool outcome \<times> 'w svcState) option" where
  "processNextNodeItem sc st =
     (case wq_Get (ss_nodeQueue st) of
        None \<Rightarrow> None
      | Some (None, q) \<Rightarrow> Some (Ok False, st\<lparr>ss_nodeQueue := q\<rparr>)
      | Some (Some key, q) \<Rightarrow> Some
          (case syncNodes sc (st\<lparr>ss_nodeQueue := q\<rparr>) of
             (Ok retry, st') \<Rightarrow>
               (Ok True, st'\<lparr>ss_serviceQueue := fold wq_Add (sc_order sc retry) (ss_serviceQueue st'),
                  ss_nodeQueue := wq_Done key (wq_Forget key (ss_nodeQueue st'))\<rparr>)
           | (Err e, st') \<Rightarrow> (Err e, st'\<lparr>ss_nodeQueue := wq_Done key (ss_nodeQueue st')\<rparr>)
           | (Panic p, st') \<Rightarrow> (Panic p, st'\<lparr>ss_nodeQueue := wq_Done key (ss_nodeQueue st')\<rparr>)
           | (OutOfFuel, st') \<Rightarrow> (OutOfFuel, st')))"

section \<open>What a sync leaves alone\<close>

text \<open>Syncing a service or the nodes touches neither of the two queues.\<close>

definition same_queues :: "'w svcState \<Rightarrow> 'w svcState \<Rightarrow> bool" where
  "same_queues st st' \<longleftrightarrow> ss_serviceQueue st' = ss_serviceQueue st \<and> ss_nodeQueue st' = ss_nodeQueue st"

interpretation scq: state_frame same_queues
  by unfold_locales (auto simp: same_queues_def)

definition same_queues_obj :: "kService \<times> 'w svcState \<Rightarrow> kService \<times> 'w svcState \<Rightarrow> bool" where
  "same_queues_obj x y \<longleftrightarrow> same_queues (snd x) (snd y)"

interpretation syq: state_frame same_queues_obj
  by unfold_locales (auto simp: same_queues_obj_def same_queues_def)

lemma syq_calls:
  "syq.keeps get_object" "syq.keeps (call_balancer m)" "syq.keeps (sc_event t reason msg)"
  "syq.keeps (kube_patch sc k)" "syq.keeps (storeLastSyncedNodes nodes)" "syq.keeps (listWithPredicates sc ps)"
  by (auto simp: syq.keeps_def get_object_def call_balancer_def sc_event_def kube_patch_def storeLastSyncedNodes_def
      listWithPredicates_def same_queues_obj_def same_queues_def Let_def split: prod.splits option.splits)

lemmas sync_defs = syncLoadBalancerIfNeeded_def cleanUp_def finishStatus_def patchStatus_def addFinalizer_def
  removeFinalizer_def sc_ensureLoadBalancer_def

lemmas node_defs = nodeSyncObject_def lockedUpdateLoadBalancerHosts_def updateFailed_def

lemma syq_sync:
  "syq.keeps (syncLoadBalancerIfNeeded sc)" "syq.keeps (processLoadBalancerDelete sc)" "syq.keeps (syncCached sc)"
  "syq.keeps (nodeSyncObject sc)"
  unfolding syncCached_def processLoadBalancerDelete_def sync_defs node_defs Let_def
  by (intro syq_calls syq.keeps_rules)+

lemma scq_on_cached:
  assumes "syq.keeps m"
  shows "scq.keeps (on_cached key m k)"
proof (rule scq.keepsI)
  fix st r st'
  assume "on_cached key m k st = (r, st')"
  then obtain k' st1 where "m (k, st) = (r, (k', st1))" "st' = cache_set key (Some k') st1"
    by (auto simp: on_cached_def split: prod.splits)
  with syq.keepsD [OF assms] show "same_queues st st'"
    by (fastforce simp: same_queues_obj_def same_queues_def cache_set_def)
qed

lemma scq_state: "scq.keeps (\<lambda>st. (r, cache_delete key st))" "scq.keeps (\<lambda>st. (r, if b then cache_delete key st else st))"
  by (auto simp: scq.keeps_def cache_delete_def same_queues_def)

lemma scq_create: "scq.keeps (processServiceCreateOrUpdate sc k key)"
proof (rule scq.keepsI)
  fix st r st'
  assume run: "processServiceCreateOrUpdate sc k key st = (r, st')"
  obtain cached st1 where g: "getOrCreate key st = (cached, st1)" by fastforce
  have q: "same_queues st st1" using g
    by (auto simp: getOrCreate_def cache_set_def same_queues_def split: option.splits)
  have "scq.keeps (bindM (case cached of None \<Rightarrow> returnM ()
        | Some old \<Rightarrow> if svc_UID (ks_service old) \<noteq> svc_UID (ks_service k)
            then on_cached key (processLoadBalancerDelete sc) old else returnM ())
       (\<lambda>_. bindM (on_cached key (syncCached sc) k) (\<lambda>operation st.
          (Ok (), if operation = deleteLoadBalancer then cache_delete key st else st))))"
    by (intro scq.keeps_rules scq_on_cached syq_sync scq_state)
  from scq.keepsD [OF this] run g have "same_queues st1 st'"
    by (simp add: processServiceCreateOrUpdate_def)
  with q show "same_queues st st'" by (auto simp: same_queues_def)
qed

lemma scq_delete: "scq.keeps (processServiceDeletion sc key)"
proof (rule scq.keepsI)
  fix st r st'
  assume run: "processServiceDeletion sc key st = (r, st')"
  have "scq.keeps (bindM (on_cached key (processLoadBalancerDelete sc) k) (\<lambda>_ st. (Ok (), cache_delete key st)))" for k
    by (intro scq.keeps_rules scq_on_cached syq_sync scq_state)
  from scq.keepsD [OF this] run show "same_queues st st'"
    by (auto simp: processServiceDeletion_def same_queues_def split: option.splits)
qed

lemma scq_syncService: "scq.keeps (syncService sc key)"
proof -
  have "scq.keeps (case sc_serviceGet sc ns name w of
      Err e \<Rightarrow> if IsNotFound e then processServiceDeletion sc key else liftR (Err e)
    | Ok service \<Rightarrow> processServiceCreateOrUpdate sc service key
    | Panic p \<Rightarrow> liftR (Panic p) | OutOfFuel \<Rightarrow> liftR OutOfFuel)" for ns name w
    by (cases "sc_serviceGet sc ns name w") (simp_all add: scq_create scq_delete scq.keeps_rules)
  then show ?thesis
    unfolding syncService_def by (intro scq.keeps_rules)
qed

section \<open>Retries\<close>

lemma wq_Get_Some:
  "wq_Get q = Some (Some key, q') \<Longrightarrow> wq_shuttingDown q' = wq_shuttingDown q \<and> key \<in> set (wq_processing q')
     \<and> key \<in> set (wq_queue q)"
  by (auto simp: wq_Get_def split: list.splits if_splits)

lemma wq_AddAfter_marks:
  assumes "\<not> wq_shuttingDown q" and "key \<in> set (wq_processing q)"
  shows "key \<in> set (wq_waiting (wq_Done key (wq_AddAfter key d q))) \<union> set (wq_queue (wq_Done key (wq_AddAfter key d q)))"
    "failures key (wq_Done key (wq_AddAfter key d q)) = failures key q"
  using assms by (auto simp: wq_AddAfter_def wq_Add_def wq_Done_def failures_def Let_def)

lemma wq_AddRateLimited_marks:
  assumes "\<not> wq_shuttingDown q" and "key \<in> set (wq_processing q)"
  shows "key \<in> set (wq_waiting (wq_Done key (wq_AddRateLimited b m key q)))
      \<union> set (wq_queue (wq_Done key (wq_AddRateLimited b m key q)))"
    "failures key (wq_Done key (wq_AddRateLimited b m key q)) = Suc (failures key q)"
  using assms
  by (auto simp: wq_AddRateLimited_def wq_When_def wq_AddAfter_def wq_Add_def wq_Done_def failures_def
      AList.update_conv' Let_def)

lemma requeue_marks:
  assumes "\<not> wq_shuttingDown q" and "key \<in> set (wq_processing q)"
  shows "key \<in> set (wq_waiting (wq_Done key (requeue key e q))) \<union> set (wq_queue (wq_Done key (requeue key e q)))"
    "failures key (wq_Done key (requeue key e q)) =
       (if errors_As_RetryError e = None then Suc (failures key q) else failures key q)"
  using wq_AddAfter_marks [OF assms] wq_AddRateLimited_marks [OF assms]
  by (simp_all add: requeue_def split: option.split)

lemma wq_Done_not_processing: "key \<notin> set (wq_processing (wq_Done key q))"
  by (simp add: wq_Done_def Let_def)

lemma wq_Forget_failures: "failures key (wq_Done key (wq_Forget key q)) = 0"
  by (simp add: failures_def wq_Done_def wq_Forget_def Let_def AList.delete_conv')

text \<open>
  C23: No service is dropped: a worker round that finds a service in the queue runs its sync once and ends with
  the service no longer being processed. If the sync fails, the service is queued again or waits for
  its retry; a retry error leaves its failure count as it was and any other error increments
  it; success resets the count.\<close>

theorem failed_sync_is_retried:
  assumes "processNextServiceItem sc st = Some (Ok True, st')" and "\<not> wq_shuttingDown (ss_serviceQueue st)"
  shows "\<exists>key q r st1. wq_Get (ss_serviceQueue st) = Some (Some key, q)
     \<and> syncService sc key (st\<lparr>ss_serviceQueue := q\<rparr>) = (r, st1)
     \<and> key \<notin> set (wq_processing (ss_serviceQueue st'))
     \<and> (case r of
          Ok _ \<Rightarrow> failures key (ss_serviceQueue st') = 0
        | Err e \<Rightarrow>
            key \<in> set (wq_waiting (ss_serviceQueue st')) \<union> set (wq_queue (ss_serviceQueue st'))
            \<and> failures key (ss_serviceQueue st') =
                (if errors_As_RetryError e = None then Suc (failures key q) else failures key q)
        | _ \<Rightarrow> False)"
proof -
  from assms(1) obtain key q where get: "wq_Get (ss_serviceQueue st) = Some (Some key, q)"
    by (auto simp: processNextServiceItem_def split: option.splits prod.splits)
  obtain r st1 where run: "syncService sc key (st\<lparr>ss_serviceQueue := q\<rparr>) = (r, st1)" by fastforce
  have q: "\<not> wq_shuttingDown q" "key \<in> set (wq_processing q)" using wq_Get_Some [OF get] assms(2) by auto
  have same: "ss_serviceQueue st1 = q"
    using scq.keepsD [OF scq_syncService run] by (simp add: same_queues_def)
  have "(case r of
          Ok _ \<Rightarrow> failures key (ss_serviceQueue st') = 0
        | Err e \<Rightarrow>
            key \<in> set (wq_waiting (ss_serviceQueue st')) \<union> set (wq_queue (ss_serviceQueue st'))
            \<and> failures key (ss_serviceQueue st') =
                (if errors_As_RetryError e = None then Suc (failures key q) else failures key q)
        | _ \<Rightarrow> False) \<and> key \<notin> set (wq_processing (ss_serviceQueue st'))"
  proof (cases r)
    case (Err e)
    with assms(1) get run have "ss_serviceQueue st' = wq_Done key (requeue key e q)"
      by (auto simp: processNextServiceItem_def same)
    with Err requeue_marks [OF q, of e] wq_Done_not_processing show ?thesis by simp
  qed (use assms(1) get run in \<open>auto simp: processNextServiceItem_def wq_Forget_failures wq_Done_not_processing\<close>)
  with get run show ?thesis by blast
qed

text \<open>A failing provider call, up to the error that the sync returns.\<close>

lemmas sync_run = bindM_def get_object_def sc_event_def attempt_def liftR_def returnM_def map_errM_def
  listWithPredicates_def storeLastSyncedNodes_def call_balancer_def

lemma sync_ensure_Err:
  assumes "wantsLoadBalancer k" "\<not> needsCleanup k" "HasLBFinalizer k"
    and "sc_nodeLister sc (ss_world st) = Ok nodes"
    and "b_EnsureLoadBalancer (sc_balancer sc) (map kn_node (filterWithPredicates nodes stableNodeSetPredicates))
       (ks_service k, ss_world st) = (Err e, (s', w'))"
    and "e \<noteq> ImplementedElsewhere"
  shows "\<exists>st'. syncLoadBalancerIfNeeded sc (k, st)
     = (Err (Wrapf ''failed to ensure load balancer: '' e ''''), (k\<lparr>ks_service := s'\<rparr>, st'))"
  using assms
  by (cases "filterWithPredicates nodes stableNodeSetPredicates")
    (simp_all add: syncLoadBalancerIfNeeded_def addFinalizer_def sc_ensureLoadBalancer_def sync_run Let_def)

lemma syncService_ensure_Err:
  assumes "SplitMetaNamespaceKey key = Ok (ns, name)" and "sc_serviceGet sc ns name (ss_world st) = Ok k"
    and "\<And>old. map_of (ss_cache st) key = Some (Some old) \<Longrightarrow> svc_UID (ks_service old) = svc_UID (ks_service k)"
    and "wantsLoadBalancer k" "\<not> needsCleanup k" "HasLBFinalizer k"
    and "sc_nodeLister sc (ss_world st) = Ok nodes"
    and "b_EnsureLoadBalancer (sc_balancer sc) (map kn_node (filterWithPredicates nodes stableNodeSetPredicates))
       (ks_service k, ss_world st) = (Err e, (s', w'))"
    and "e \<noteq> ImplementedElsewhere"
  shows "fst (syncService sc key st) = Err (Wrapf ''failed to ensure load balancer: '' e '''')"
proof -
  obtain cached st1 where g: "getOrCreate key st = (cached, st1)" by fastforce
  then have w: "ss_world st1 = ss_world st" and same: "cached = None \<or> (\<exists>old. cached = Some old
      \<and> svc_UID (ks_service old) = svc_UID (ks_service k))"
    using assms(3) by (auto simp: getOrCreate_def cache_set_def split: option.splits)
  from sync_ensure_Err [OF assms(4-6), of sc st1 nodes e s' w'] assms(7-9) obtain st2 where
    "syncLoadBalancerIfNeeded sc (k, st1)
       = (Err (Wrapf ''failed to ensure load balancer: '' e ''''), (k\<lparr>ks_service := s'\<rparr>, st2))"
    by (auto simp: w)
  with g same assms(1,2) show ?thesis
    by (auto simp: syncService_def processServiceCreateOrUpdate_def on_cached_def syncCached_def bindM_def
        liftR_def get_state_def returnM_def attempt_def sc_event_def)
qed

lemma provider_ensure_Err:
  assumes "getDisownLB s = Ok False" and "ensureBody l nodes (s, w) = (Err e, (s', w1))"
  shows "\<exists>e' w'. EnsureLoadBalancer l nodes (s, w) = (Err e', (s', w'))
     \<and> (if map_DeepEqual (svc_Annotations s) (svc_Annotations s') \<or> fst (Services_Patch (l_client l) s s' w1) = None
        then e' = e else \<exists>es. e' = Aggregate es)"
  using assms
  by (cases "Services_Patch (l_client l) s s' w1")
    (auto simp: EnsureLoadBalancer_def unless_disowned_def bindM_def get_service_def liftR_def with_patcher_def
      servicePatcher_Patch_def patchService_def same_json_def NewAggregate_def map_filter_simps split: option.splits)


section \<open>The cleanup finalizer\<close>

text \<open>
  A result that does not change when the patches of the API server are replaced by arbitrary
  ones: none was submitted.
\<close>

lemma cleanUp_without_patch:
  assumes "\<And>r s1 w1. b_GetLoadBalancer (sc_balancer sc) (ks_service k, ss_world st) = (Ok r, (s1, w1)) \<Longrightarrow>
     snd r \<and> (\<exists>bad. fst (b_EnsureLoadBalancerDeleted (sc_balancer sc) (s1, w1)) = bad
       \<and> (\<forall>x. bad \<noteq> Ok x) \<and> bad \<noteq> Err ImplementedElsewhere)"
  shows "cleanUp sc (k, st) = cleanUp (sc\<lparr>sc_Patch := p\<rparr>) (k, st) \<and> (\<forall>x. fst (cleanUp sc (k, st)) \<noteq> Ok x)"
proof -
  obtain g s1 w1 where g: "b_GetLoadBalancer (sc_balancer sc) (ks_service k, ss_world st) = (g, (s1, w1))"
    by (metis prod.collapse)
  obtain d s2 w2 where d: "b_EnsureLoadBalancerDeleted (sc_balancer sc) (s1, w1) = (d, (s2, w2))"
    by (metis prod.collapse)
  show ?thesis
  proof (cases g)
    case (Ok r)
    with assms g d have "snd r" "\<forall>x. d \<noteq> Ok x" "d \<noteq> Err ImplementedElsewhere" by auto
    with g Ok d show ?thesis
      by (cases r; cases d) (auto simp: cleanUp_def sync_run)
  qed (use g in \<open>auto simp: cleanUp_def sync_run\<close>)
qed

text \<open>The errors of the API client are not the sentinel of the cloud provider package.\<close>

definition foreign_sentinel_free :: "'w client \<Rightarrow> bool" where
  "foreign_sentinel_free c \<longleftrightarrow>
     (\<forall>p n w. snd (snd (fst (LoadBalancers_List c p n w))) \<noteq> Some ImplementedElsewhere)
     \<and> (\<forall>u. pageForURL c u \<noteq> Err ImplementedElsewhere)"

lemma allLoadBalancerList_loop_error:
  assumes "foreign_sentinel_free c"
  shows "fst (allLoadBalancerList_loop c n p acc w) \<noteq> Err ImplementedElsewhere"
proof (induction n arbitrary: p acc w)
  case (Suc n)
  obtain lbs resp err w1 where l: "LoadBalancers_List c p apiResultsPerPage w = ((lbs, resp, err), w1)"
    by (metis prod.collapse)
  have "err \<noteq> Some ImplementedElsewhere" "CurrentPage c links \<noteq> Err ImplementedElsewhere" for links
    using assms l unfolding foreign_sentinel_free_def CurrentPage_def
    by (metis fst_conv snd_conv, auto simp: outcome_simps split: option.splits)
  with Suc.IH l show ?case
    by (auto simp: bindM_def api_def liftR_def returnM_def split: option.splits outcome.splits)
qed (simp add: liftR_def)

lemma EnsureLoadBalancerDeleted_error:
  assumes "foreign_sentinel_free c"
  shows "fst (EnsureLoadBalancerDeleted c s w) \<noteq> Err ImplementedElsewhere"
proof -
  have disown: "getDisownLB s \<noteq> Err ImplementedElsewhere"
    by (auto simp: getDisownLB_def getBoolSetting_def getBool_def outcome_simps split: option.splits)
  obtain r w1 where r: "retrieveLoadBalancer c s w = (r, w1)" by fastforce
  have "r \<noteq> Err ImplementedElsewhere"
    using r allLoadBalancerList_loop_error [OF assms, of "page_fuel c" 1 "[]" w]
    by (auto simp: retrieveLoadBalancer_def Let_def findLoadBalancerByID_def allLoadBalancerList_def
        outcome_simps split: if_splits option.splits)
  with r disown show ?thesis
    by (cases "getDisownLB s"; cases r)
      (auto simp: EnsureLoadBalancerDeleted_def bindM_def attempt_def liftR_def returnM_def api_def deref_def
        split: option.splits prod.splits)
qed

text \<open>The API has confirmed that a service has no load balancer any more.\<close>

definition lb_gone :: "'w client \<Rightarrow> Service \<Rightarrow> 'w \<Rightarrow> bool" where
  "lb_gone c s w \<longleftrightarrow>
     (\<exists>w'. retrieveLoadBalancer c s w = (Err ErrLBNotFound, w'))
     \<or> (\<exists>lb w1 w' resp err. retrieveLoadBalancer c s w = (Ok (Some lb), w1)
          \<and> LoadBalancers_Delete c (lb_ID lb) w1 = (((), resp, err), w')
          \<and> (err = None \<or> is_StatusNotFound resp))"

lemma EnsureLoadBalancerDeleted_gone:
  assumes "fst (EnsureLoadBalancerDeleted c s w) = Ok ()"
  shows "getDisownLB s = Ok True \<or> lb_gone c s w"
proof (cases "getDisownLB s = Ok False")
  case True
  from assms obtain w' where "EnsureLoadBalancerDeleted c s w = (Ok (), w')" by (metis prod.collapse)
  then show ?thesis unfolding EnsureLoadBalancerDeleted_Ok_iff [OF True] lb_gone_def by auto
next
  case False
  with assms show ?thesis
    by (cases "getDisownLB s") (auto simp: EnsureLoadBalancerDeleted_def bindM_def liftR_def)
qed

lemma GetLoadBalancer_absent:
  assumes "GetLoadBalancer l (s, w) = (Ok (ing, False), (s', w'))"
  shows "\<exists>w1. retrieveLoadBalancer (l_client l) s w = (Err ErrLBNotFound, w1)"
proof -
  from assms have "\<exists>w0. (bindM (attempt (retrieveAndAnnotateLoadBalancer (l_client l))) (\<lambda>res.
          case res of
            Inl e \<Rightarrow> if e = ErrLBNotFound then returnM (None, False) else liftR (Err e)
          | Inr lb \<Rightarrow> returnM (Some (statusIngress lb), True))) (s, w) = (Ok (ing, False), (s', w0))"
    unfolding GetLoadBalancer_def by (rule with_patcher_Ok)
  then obtain w0 res s1 w1 where
    found: "attempt (retrieveAndAnnotateLoadBalancer (l_client l)) (s, w) = (Ok res, (s1, w1))"
    and rest: "(case res of
            Inl e \<Rightarrow> if e = ErrLBNotFound then returnM (None, False) else liftR (Err e)
          | Inr lb \<Rightarrow> returnM (Some (statusIngress lb), True)) (s1, w1) = (Ok (ing, False), (s', w0))"
    by (auto simp: bindM_Ok_iff)
  from rest have "res = Inl ErrLBNotFound" by (cases res) (auto simp: outcome_simps split: if_split_asm)
  with found show ?thesis by (auto simp: outcome_simps retrieveAndAnnotate_Err)
qed

text \<open>
  C22: The finalizer protects the load balancer: a sync that cleans a service up, that is, for a service that
  is being deleted or has no use for a load balancer any more, submits a patch or reports success only if
  the API has said that there is no load balancer or has confirmed its deletion, or if the
  service is disowned. In every other case the finalizer stays, and the service with it.\<close>

theorem finalizer_kept_until_gone:
  assumes "\<not> wantsLoadBalancer k \<or> needsCleanup k" and "sc_balancer sc = providerBalancer l"
    and "foreign_sentinel_free (l_client l)"
    and "syncLoadBalancerIfNeeded sc (k, st) \<noteq> syncLoadBalancerIfNeeded (sc\<lparr>sc_Patch := p\<rparr>) (k, st)
       \<or> fst (syncLoadBalancerIfNeeded sc (k, st)) = Ok operation"
  shows "(\<exists>w1. retrieveLoadBalancer (l_client l) (ks_service k) (ss_world st) = (Err ErrLBNotFound, w1))
     \<or> (\<exists>ing s1 w1. GetLoadBalancer l (ks_service k, ss_world st) = (Ok (ing, True), (s1, w1))
          \<and> (getDisownLB s1 = Ok True \<or> lb_gone (l_client l) s1 w1))"
proof (rule ccontr)
  assume not: "\<not> ?thesis"
  have "snd r \<and> (\<exists>bad. fst (b_EnsureLoadBalancerDeleted (sc_balancer sc) (s1, w1)) = bad
       \<and> (\<forall>x. bad \<noteq> Ok x) \<and> bad \<noteq> Err ImplementedElsewhere)"
    if g: "b_GetLoadBalancer (sc_balancer sc) (ks_service k, ss_world st) = (Ok r, (s1, w1))" for r s1 w1
  proof -
    from g have get: "GetLoadBalancer l (ks_service k, ss_world st) = (Ok (fst r, snd r), (s1, w1))"
      by (simp add: assms(2) providerBalancer_def)
    with not GetLoadBalancer_absent have ex: "snd r" by (metis (full_types))
    with get not have "\<not> (getDisownLB s1 = Ok True \<or> lb_gone (l_client l) s1 w1)" by auto
    then have "fst (EnsureLoadBalancerDeleted (l_client l) s1 w1) \<noteq> Ok ()"
      using EnsureLoadBalancerDeleted_gone by fast
    moreover have "fst (b_EnsureLoadBalancerDeleted (sc_balancer sc) (s1, w1))
        = fst (EnsureLoadBalancerDeleted (l_client l) s1 w1)"
      by (simp add: assms(2) providerBalancer_def bindM_def get_service_def on_world_def split: prod.splits)
    ultimately show ?thesis
      using EnsureLoadBalancerDeleted_error [OF assms(3), of s1 w1] ex by simp
  qed
  from cleanUp_without_patch [of sc k st p, OF this]
  have same: "cleanUp sc (k, st) = cleanUp (sc\<lparr>sc_Patch := p\<rparr>) (k, st)"
    and bad: "\<forall>x. fst (cleanUp sc (k, st)) \<noteq> Ok x" by blast+
  have "syncLoadBalancerIfNeeded sc' (k, st)
      = bindM (cleanUp sc') (\<lambda>_. finishStatus sc' (svc_Ingress (ks_service k)) [] deleteLoadBalancer) (k, st)" for sc'
    using assms(1) by (auto simp: syncLoadBalancerIfNeeded_def Let_def bindM_def get_object_def)
  note sync = this
  obtain c0 t where "cleanUp sc (k, st) = (c0, t)" "cleanUp (sc\<lparr>sc_Patch := p\<rparr>) (k, st) = (c0, t)" "\<forall>x. c0 \<noteq> Ok x"
    using same bad by (metis prod.collapse)
  with assms(4) show False unfolding sync by (cases c0) (auto simp: bindM_def)
qed

section \<open>Changes of the nodes\<close>

text \<open>
  What the controller compares of two nodes: the name, the provider ID and what the three
  predicates read. Conditions, addresses and all other taints and labels are not compared.
\<close>

definition same_to_controller :: "kNode \<Rightarrow> kNode \<Rightarrow> bool" where
  "same_to_controller n n' \<longleftrightarrow>
     node_Name (kn_node n) = node_Name (kn_node n') \<and> node_ProviderID (kn_node n) = node_ProviderID (kn_node n')
     \<and> nodeIncludedPredicate n = nodeIncludedPredicate n' \<and> nodeUnTaintedPredicate n = nodeUnTaintedPredicate n'
     \<and> nodeNotDeletedPredicate n = nodeNotDeletedPredicate n'"

lemma same_nodes_sufficient:
  assumes "list_all2 same_to_controller old new"
  shows "nodesSufficientlyEqual (filterWithPredicates old stableNodeSetPredicates)
     (filterWithPredicates new stableNodeSetPredicates)"
proof -
  have "list_all2 (\<lambda>n n'. node_Name (kn_node n) = node_Name (kn_node n')
      \<and> node_ProviderID (kn_node n) = node_ProviderID (kn_node n'))
    (filterWithPredicates old stableNodeSetPredicates) (filterWithPredicates new stableNodeSetPredicates)"
    using assms
    by (induction rule: list_all2_induct)
      (auto simp: filterWithPredicates_def same_to_controller_def respectsPredicates_def stableNodeSetPredicates_def)
  moreover have "fold (\<lambda>n m. AList.update (node_Name (kn_node n)) (node_ProviderID (kn_node n)) m) xs m
      = fold (\<lambda>n m. AList.update (node_Name (kn_node n)) (node_ProviderID (kn_node n)) m) ys m"
    if "list_all2 (\<lambda>n n'. node_Name (kn_node n) = node_Name (kn_node n')
      \<and> node_ProviderID (kn_node n) = node_ProviderID (kn_node n')) xs ys" for xs ys m
    using that by (induction arbitrary: m rule: list_all2_induct) auto
  ultimately have "protoNodes (filterWithPredicates old stableNodeSetPredicates)
      = protoNodes (filterWithPredicates new stableNodeSetPredicates)"
    "length (filterWithPredicates old stableNodeSetPredicates) = length (filterWithPredicates new stableNodeSetPredicates)"
    unfolding protoNodes_def by (blast, blast dest: list_all2_lengthD)
  then show ?thesis by (simp add: nodesSufficientlyEqual_def map_DeepEqual_refl)
qed

text \<open>
  C27: The service controller does not look at readiness: when the nodes differ from the ones a service was last synced
  with only in conditions, addresses, and taints or labels other than the two it knows, no update of the
  node is queued and a sync of the nodes calls neither the provider nor the API. This is why the provider has
  to ask for a retry when it holds nodes back.\<close>

theorem node_sync_ignores_readiness:
  assumes "sc_nodeLister sc (ss_world st) = Ok new"
    and "map_of (ss_cache st) key = Some (Some k)"
    and "map_of (ss_lastSyncedNodes st) (MetaNamespaceKey (ks_service k)) = Some old"
    and "list_all2 same_to_controller old new"
  shows "list_all2 (\<lambda>n n'. \<not> shouldSyncUpdatedNode n n') old new
     \<and> (\<exists>st'. nodeSyncService sc key st = (Ok False, st')
          \<and> ss_world st' = ss_world st \<and> ss_events st' = ss_events st \<and> same_queues st st')"
proof
  show "list_all2 (\<lambda>n n'. \<not> shouldSyncUpdatedNode n n') old new"
    using assms(4) by (rule list_all2_mono) (simp add: same_to_controller_def shouldSyncUpdatedNode_def)
  have list: "listWithPredicates sc [] (k, st) = (Ok new, (k, st))"
    by (simp add: listWithPredicates_def assms(1) filterWithPredicates_def respectsPredicates_def)
  show "\<exists>st'. nodeSyncService sc key st = (Ok False, st')
      \<and> ss_world st' = ss_world st \<and> ss_events st' = ss_events st \<and> same_queues st st'"
    using assms(2,3) same_nodes_sufficient [OF assms(4)] list
    by (cases "wantsLoadBalancer k")
      (auto simp: nodeSyncService_def on_cached_def nodeSyncObject_def bindM_def attempt_def get_state_def
        storeLastSyncedNodes_def returnM_def Let_def cache_set_def same_queues_def)
qed

section \<open>Keys\<close>

text \<open>
  The key of a service is read back as its namespace and name; names of Kubernetes
  objects contain no slash.
\<close>

lemma SplitMetaNamespaceKey_roundtrip:
  assumes "CHR ''/'' \<notin> set (svc_Namespace s)" and "CHR ''/'' \<notin> set (svc_Name s)"
  shows "SplitMetaNamespaceKey (MetaNamespaceKey s) = Ok (svc_Namespace s, svc_Name s)"
  using assms
  by (auto simp: SplitMetaNamespaceKey_def MetaNamespaceKey_def Split1_no_sep Split1_append)

section \<open>The contract of the provider interface\<close>

text \<open>
  What the controller relies on: the calls of the provider change nothing of the service object but
  its annotations.
\<close>

locale service_balancer =
  fixes b :: "'w balancer"
  assumes get_annotates: "b_GetLoadBalancer b (s, w) = (r1, (s', w')) \<Longrightarrow>
      s'\<lparr>svc_Annotations := []\<rparr> = s\<lparr>svc_Annotations := []\<rparr>"
    and ensure_annotates: "b_EnsureLoadBalancer b nodes (s, w) = (r2, (s', w')) \<Longrightarrow>
      s'\<lparr>svc_Annotations := []\<rparr> = s\<lparr>svc_Annotations := []\<rparr>"
    and update_annotates: "b_UpdateLoadBalancer b nodes (s, w) = (r3, (s', w')) \<Longrightarrow>
      s'\<lparr>svc_Annotations := []\<rparr> = s\<lparr>svc_Annotations := []\<rparr>"
    and delete_annotates: "b_EnsureLoadBalancerDeleted b (s, w) = (r4, (s', w')) \<Longrightarrow>
      s'\<lparr>svc_Annotations := []\<rparr> = s\<lparr>svc_Annotations := []\<rparr>"

definition object_frame :: "kService \<times> 'w svcState \<Rightarrow> kService \<times> 'w svcState \<Rightarrow> bool" where
  "object_frame x y \<longleftrightarrow>
     (fst y)\<lparr>ks_service := (ks_service (fst y))\<lparr>svc_Annotations := []\<rparr>\<rparr>
       = (fst x)\<lparr>ks_service := (ks_service (fst x))\<lparr>svc_Annotations := []\<rparr>\<rparr>
     \<and> ss_cache (snd y) = ss_cache (snd x)"

interpretation obj: state_frame object_frame
  by unfold_locales (auto simp: object_frame_def)

lemma object_frame_same:
  assumes "object_frame (k, st) (k', st')"
  shows "svc_UID (ks_service k') = svc_UID (ks_service k)" "svc_Name (ks_service k') = svc_Name (ks_service k)"
    "svc_Namespace (ks_service k') = svc_Namespace (ks_service k)" "svc_Type (ks_service k') = svc_Type (ks_service k)"
    "ss_cache st' = ss_cache st"
  using assms by (cases k; cases k'; cases "ks_service k"; cases "ks_service k'"; simp add: object_frame_def)+

lemma object_frame_key: "object_frame (k, st) (k', st') \<Longrightarrow> MetaNamespaceKey (ks_service k') = MetaNamespaceKey (ks_service k)"
  by (simp add: MetaNamespaceKey_def object_frame_same)

lemma obj_calls:
  "obj.keeps get_object" "obj.keeps (sc_event t reason msg)" "obj.keeps (kube_patch sc k)"
  "obj.keeps (storeLastSyncedNodes nodes)" "obj.keeps (listWithPredicates sc ps)"
  by (auto simp: obj.keeps_def get_object_def sc_event_def kube_patch_def storeLastSyncedNodes_def
      listWithPredicates_def object_frame_def Let_def split: prod.splits option.splits)

lemma obj_call_balancer:
  assumes "\<And>s w r s' w'. m (s, w) = (r, (s', w')) \<Longrightarrow> s'\<lparr>svc_Annotations := []\<rparr> = s\<lparr>svc_Annotations := []\<rparr>"
  shows "obj.keeps (call_balancer m)"
  using assms by (fastforce simp: obj.keeps_def call_balancer_def object_frame_def split: prod.splits)

context service_balancer
begin

lemma balancer_keeps:
  "obj.keeps (call_balancer (b_GetLoadBalancer b))" "obj.keeps (call_balancer (b_EnsureLoadBalancer b nodes))"
  "obj.keeps (call_balancer (b_UpdateLoadBalancer b nodes))" "obj.keeps (call_balancer (b_EnsureLoadBalancerDeleted b))"
  by (rule obj_call_balancer, erule get_annotates ensure_annotates update_annotates delete_annotates)+

lemma obj_sync:
  assumes "sc_balancer sc = b"
  shows "obj.keeps (syncCached sc)" "obj.keeps (processLoadBalancerDelete sc)" "obj.keeps (nodeSyncObject sc)"
  unfolding syncCached_def processLoadBalancerDelete_def sync_defs node_defs Let_def assms
  by (intro balancer_keeps obj_calls obj.keeps_rules)+

text \<open>A cached object stays the object of its service.\<close>

lemma on_cached_object:
  assumes "obj.keeps m" and "on_cached key m k st = (r, st')"
  shows "\<exists>k'. ss_cache st' = AList.update key (Some k') (ss_cache st)
     \<and> MetaNamespaceKey (ks_service k') = MetaNamespaceKey (ks_service k)
     \<and> svc_UID (ks_service k') = svc_UID (ks_service k)"
proof -
  from assms(2) obtain k' st1 where "m (k, st) = (r, (k', st1))" "st' = cache_set key (Some k') st1"
    by (auto simp: on_cached_def split: prod.splits)
  with obj.keepsD [OF assms(1), of "(k, st)" r "(k', st1)"] show ?thesis
    by (auto simp: cache_set_def object_frame_key object_frame_same)
qed

end

interpretation provider: service_balancer "providerBalancer l" for l
  by unfold_locales
    (use svc.keepsD [OF keeps_GetLoadBalancer] svc.keepsD [OF keeps_EnsureLoadBalancer]
      svc.keepsD [OF keeps_UpdateLoadBalancer] in
      \<open>fastforce simp: providerBalancer_def service_frame_def bindM_def get_service_def on_world_def split: prod.splits\<close>)+

section \<open>The controller as a state machine\<close>

text \<open>
  Rounds of the workers, items that the informers' event handlers add, retries whose delay has passed, and changes of the
  outside world, in any order.
\<close>

inductive sc_step :: "'w svcCtl \<Rightarrow> 'w svcState \<Rightarrow> 'w svcState \<Rightarrow> bool" for sc where
  service_round: "processNextServiceItem sc st = Some (r, st') \<Longrightarrow> sc_step sc st st'"
| node_round: "processNextNodeItem sc st = Some (r, st') \<Longrightarrow> sc_step sc st st'"
| enqueueService: "sc_step sc st (st\<lparr>ss_serviceQueue := wq_Add key (ss_serviceQueue st)\<rparr>)"
| enqueueNode: "sc_step sc st (st\<lparr>ss_nodeQueue := wq_Add key (ss_nodeQueue st)\<rparr>)"
| retry: "key \<in> set (wq_waiting (ss_serviceQueue st)) \<Longrightarrow>
    sc_step sc st (st\<lparr>ss_serviceQueue := wq_Ready key (ss_serviceQueue st)\<rparr>)"
| outside: "sc_step sc st (st\<lparr>ss_world := w\<rparr>)"

inductive sc_reachable :: "'w svcCtl \<Rightarrow> 'w svcState \<Rightarrow> bool" for sc where
  start: "sc_reachable sc \<lparr>ss_serviceQueue = wq_empty, ss_nodeQueue = wq_empty, ss_cache = [],
    ss_lastSyncedNodes = [], ss_events = [], ss_world = w\<rparr>"
| step: "sc_reachable sc st \<Longrightarrow> sc_step sc st st' \<Longrightarrow> sc_reachable sc st'"

inductive_cases sc_stepE: "sc_step sc st st'"

text \<open>Every entry of the cache is an object, under the key of its service.\<close>

definition cache_ok :: "'w svcState \<Rightarrow> bool" where
  "cache_ok st \<longleftrightarrow>
     (\<forall>key v. map_of (ss_cache st) key = Some v \<longrightarrow> (\<exists>k. v = Some k \<and> MetaNamespaceKey (ks_service k) = key))"

text \<open>The lister gives the object that was asked for, and names contain no slash.\<close>

definition lister_ok :: "'w svcCtl \<Rightarrow> bool" where
  "lister_ok sc \<longleftrightarrow> (\<forall>ns name w k. sc_serviceGet sc ns name w = Ok k \<longrightarrow>
     ns \<noteq> '''' \<and> svc_Namespace (ks_service k) = ns \<and> svc_Name (ks_service k) = name)"

lemma cache_ok_update:
  assumes "cache_ok st" and "ss_cache st' = AList.update key (Some k) (ss_cache st)"
    and "MetaNamespaceKey (ks_service k) = key"
  shows "cache_ok st'"
  using assms by (auto simp: cache_ok_def AList.update_conv' split: if_splits)

lemma cache_ok_delete: "cache_ok st \<Longrightarrow> cache_ok (cache_delete key st)"
  by (auto simp: cache_ok_def cache_delete_def AList.delete_conv' restrict_map_def split: if_splits)

lemma Split_key:
  assumes "SplitMetaNamespaceKey key = Ok (ns, name)" and "ns \<noteq> ''''"
    and "svc_Namespace s = ns" and "svc_Name s = name"
  shows "MetaNamespaceKey s = key"
proof -
  from assms(1,2) have "Split1 (CHR ''/'') key = [ns, name]"
    by (auto simp: SplitMetaNamespaceKey_def split: list.splits)
  then have "key = ns @ ''/'' @ name" using join_Split1 [of "CHR ''/''" key] by simp
  with assms show ?thesis by (simp add: MetaNamespaceKey_def)
qed

lemma cache_ok_synced:
  assumes "sc_balancer sc = providerBalancer l" and "MetaNamespaceKey (ks_service k) = key"
    and "cache_ok st" and "\<And>key'. key' \<noteq> key \<Longrightarrow> map_of (ss_cache st1) key' = map_of (ss_cache st) key'"
    and "bindM (on_cached key (syncCached sc) k) (\<lambda>operation st.
          (Ok (), if operation = deleteLoadBalancer then cache_delete key st else st)) st1 = (r, st')"
  shows "cache_ok st'"
proof -
  obtain r2 st2 where run: "on_cached key (syncCached sc) k st1 = (r2, st2)" by fastforce
  from provider.on_cached_object [OF provider.obj_sync(1) [OF assms(1)] run] assms(2,3,4)
  have "cache_ok st2" by (auto simp: cache_ok_def AList.update_conv' split: if_split_asm)
  with run assms(5) show ?thesis
    by (cases r2) (auto simp: bindM_def cache_ok_delete split: if_splits)
qed

lemma cache_ok_create:
  assumes "sc_balancer sc = providerBalancer l" and "MetaNamespaceKey (ks_service k) = key"
    and "cache_ok st" and "processServiceCreateOrUpdate sc k key st = (r, st')"
  shows "cache_ok st'"
proof (cases "map_of (ss_cache st) key")
  case None
  then have "bindM (on_cached key (syncCached sc) k) (\<lambda>operation st.
       (Ok (), if operation = deleteLoadBalancer then cache_delete key st else st)) (cache_set key None st) = (r, st')"
    using assms(4) by (simp add: processServiceCreateOrUpdate_def getOrCreate_def)
  then show ?thesis
    by (rule cache_ok_synced [OF assms(1-3), rotated]) (simp add: cache_set_def AList.update_conv')
next
  case (Some v)
  with assms(3) obtain old where v: "v = Some old" "MetaNamespaceKey (ks_service old) = key"
    unfolding cache_ok_def by blast
  obtain r1 st1 where run: "on_cached key (processLoadBalancerDelete sc) old st = (r1, st1)" by fastforce
  from provider.on_cached_object [OF provider.obj_sync(2) [OF assms(1)] run] v(2) assms(3)
  have ok: "cache_ok st1" by (metis cache_ok_update)
  show ?thesis
  proof (cases "svc_UID (ks_service old) = svc_UID (ks_service k)")
    case True
    with assms(4) Some v show ?thesis
      by (intro cache_ok_synced [OF assms(1-3)]) (auto simp: processServiceCreateOrUpdate_def getOrCreate_def)
  next
    case False
    show ?thesis
    proof (cases r1)
      case (Ok u)
      with False assms(4) Some v run show ?thesis
        by (intro cache_ok_synced [OF assms(1,2) ok])
          (auto simp: processServiceCreateOrUpdate_def getOrCreate_def bindM_def)
    qed (use False assms(4) Some v run ok in
        \<open>auto simp: processServiceCreateOrUpdate_def getOrCreate_def bindM_def\<close>)
  qed
qed

lemma cache_ok_deletion:
  assumes "sc_balancer sc = providerBalancer l" and "cache_ok st" and "processServiceDeletion sc key st = (r, st')"
  shows "cache_ok st'"
proof (cases "map_of (ss_cache st) key")
  case (Some v)
  with assms(2) obtain k where v: "v = Some k" "MetaNamespaceKey (ks_service k) = key"
    unfolding cache_ok_def by blast
  obtain r1 st1 where run: "on_cached key (processLoadBalancerDelete sc) k st = (r1, st1)" by fastforce
  from provider.on_cached_object [OF provider.obj_sync(2) [OF assms(1)] run] v(2) assms(2)
  have "cache_ok st1" by (metis cache_ok_update)
  with run Some v assms(3) show ?thesis
    by (cases r1) (auto simp: processServiceDeletion_def bindM_def cache_ok_delete)
qed (use assms in \<open>auto simp: processServiceDeletion_def\<close>)

lemma cache_ok_syncService:
  assumes "sc_balancer sc = providerBalancer l" and "lister_ok sc"
    and "cache_ok st" and "syncService sc key st = (r, st')"
  shows "cache_ok st'"
proof (cases "SplitMetaNamespaceKey key")
  case (Ok p)
  obtain ns name where p: "p = (ns, name)" by fastforce
  show ?thesis
  proof (cases "sc_serviceGet sc ns name (ss_world st)")
    case k: (Ok k)
    with assms(2) have "ns \<noteq> ''''" "svc_Namespace (ks_service k) = ns" "svc_Name (ks_service k) = name"
      unfolding lister_ok_def by blast+
    with Split_key Ok p have "MetaNamespaceKey (ks_service k) = key" by blast
    from cache_ok_create [OF assms(1) this assms(3)] assms(4) Ok p k show ?thesis
      by (simp add: syncService_def bindM_def liftR_def get_state_def)
  next
    case (Err e)
    with cache_ok_deletion [OF assms(1,3)] assms(3,4) Ok p show ?thesis
      by (auto simp: syncService_def bindM_def liftR_def get_state_def split: if_splits)
  qed (use assms(3,4) Ok p in \<open>auto simp: syncService_def bindM_def liftR_def get_state_def\<close>)
qed (use assms(3,4) in \<open>auto simp: syncService_def bindM_def liftR_def\<close>)

lemma cache_ok_nodeSyncService:
  assumes "sc_balancer sc = providerBalancer l" and "cache_ok st" and "nodeSyncService sc key st = (r, st')"
  shows "cache_ok st'"
proof (cases "map_of (ss_cache st) key")
  case (Some v)
  with assms(2) obtain k where v: "v = Some k" "MetaNamespaceKey (ks_service k) = key"
    unfolding cache_ok_def by blast
  show ?thesis
  proof (cases "wantsLoadBalancer k")
    case True
    with assms(3) Some v have run: "on_cached key (nodeSyncObject sc) k st = (r, st')"
      by (simp add: nodeSyncService_def)
    from provider.on_cached_object [OF provider.obj_sync(3) [OF assms(1)] run] v(2) assms(2)
    show ?thesis by (metis cache_ok_update)
  qed (use assms Some v in \<open>simp add: nodeSyncService_def\<close>)
qed (use assms in \<open>simp add: nodeSyncService_def\<close>)

lemma scq_nodeSyncService: "scq.keeps (nodeSyncService sc key)"
proof (rule scq.keepsI)
  fix st r st'
  assume "nodeSyncService sc key st = (r, st')"
  moreover have "same_queues st st" by (simp add: same_queues_def)
  ultimately show "same_queues st st'"
    by (auto simp: nodeSyncService_def split: option.splits if_splits
        intro: scq.keepsD [OF scq_on_cached [OF syq_sync(4)]])
qed

lemma updateLoadBalancerHosts_keeps:
  assumes "sc_balancer sc = providerBalancer l"
  shows "cache_ok st \<Longrightarrow> updateLoadBalancerHosts sc keys st = (r, st') \<Longrightarrow> cache_ok st' \<and> same_queues st st'"
proof (induction keys arbitrary: st r st')
  case (Cons key keys)
  obtain r1 st1 where one: "nodeSyncService sc key st = (r1, st1)" by fastforce
  have k1: "cache_ok st1" "same_queues st st1"
    using cache_ok_nodeSyncService [OF assms Cons.prems(1) one] scq.keepsD [OF scq_nodeSyncService one] by auto
  obtain r2 st2 where rest: "updateLoadBalancerHosts sc keys st1 = (r2, st2)" by fastforce
  from Cons.IH [OF k1(1) rest] k1 Cons.prems(2) one rest show ?case
    by (cases r1; cases r2) (auto simp: bindM_def get_state_def returnM_def same_queues_def)
qed (auto simp: returnM_def same_queues_def)

lemma requeue_processing: "wq_processing (requeue key e q) = wq_processing q"
  by (simp add: requeue_def wq_AddRateLimited_def wq_When_def wq_AddAfter_def wq_Add_def Let_def split: option.split)

lemma wq_inv_requeue: "wq_inv q \<Longrightarrow> key \<in> set (wq_processing q) \<Longrightarrow> wq_inv (wq_Done key (requeue key e q))"
  by (rule wq_inv_Done)
    (simp_all add: requeue_processing, simp add: requeue_def wq_inv_AddAfter wq_inv_AddRateLimited split: option.split)

lemma wq_inv_Forget_Done: "wq_inv q \<Longrightarrow> key \<in> set (wq_processing q) \<Longrightarrow> wq_inv (wq_Done key (wq_Forget key q))"
  by (rule wq_inv_Done) (simp add: wq_inv_other, simp add: wq_Forget_def)

lemma wq_inv_fold_Add: "wq_inv q \<Longrightarrow> wq_inv (fold wq_Add keys q)"
  by (induction keys arbitrary: q) (simp_all add: wq_inv_Add)

definition sc_inv :: "'w svcState \<Rightarrow> bool" where
  "sc_inv st \<longleftrightarrow> cache_ok st \<and> wq_inv (ss_serviceQueue st) \<and> wq_inv (ss_nodeQueue st)"

lemma sc_inv_service_round:
  assumes "sc_balancer sc = providerBalancer l" "lister_ok sc" "sc_inv st"
    and "processNextServiceItem sc st = Some (r, st')"
  shows "sc_inv st'"
proof (cases "wq_Get (ss_serviceQueue st)")
  case (Some kq)
  show ?thesis
  proof (cases "fst kq")
    case None
    with Some assms(3,4) wq_inv_Get show ?thesis
      by (cases kq) (fastforce simp: processNextServiceItem_def sc_inv_def cache_ok_def)
  next
    case (Some key)
    with \<open>wq_Get (ss_serviceQueue st) = Some kq\<close> obtain q where get: "wq_Get (ss_serviceQueue st) = Some (Some key, q)"
      by (cases kq) auto
    obtain r1 st1 where run: "syncService sc key (st\<lparr>ss_serviceQueue := q\<rparr>) = (r1, st1)" by fastforce
    have q: "wq_inv q" "key \<in> set (wq_processing q)" "wq_inv (ss_nodeQueue st)"
      using assms(3) get wq_inv_Get wq_Get_Some unfolding sc_inv_def by blast+
    have st1: "cache_ok st1" "ss_serviceQueue st1 = q" "ss_nodeQueue st1 = ss_nodeQueue st"
      using cache_ok_syncService [OF assms(1,2) _ run] assms(3) scq.keepsD [OF scq_syncService run]
      by (auto simp: sc_inv_def cache_ok_def same_queues_def)
    with assms(4) get run q show ?thesis
      by (cases r1) (auto simp: processNextServiceItem_def sc_inv_def cache_ok_def wq_inv_Done wq_inv_requeue wq_inv_Forget_Done)
  qed
qed (use assms(4) in \<open>simp add: processNextServiceItem_def\<close>)

lemma sc_inv_node_round:
  assumes "sc_balancer sc = providerBalancer l" "sc_inv st" and "processNextNodeItem sc st = Some (r, st')"
  shows "sc_inv st'"
proof (cases "wq_Get (ss_nodeQueue st)")
  case (Some kq)
  show ?thesis
  proof (cases "fst kq")
    case None
    with Some assms(2,3) wq_inv_Get show ?thesis
      by (cases kq) (fastforce simp: processNextNodeItem_def sc_inv_def cache_ok_def)
  next
    case (Some key)
    with \<open>wq_Get (ss_nodeQueue st) = Some kq\<close> obtain q where get: "wq_Get (ss_nodeQueue st) = Some (Some key, q)"
      by (cases kq) auto
    obtain r1 st1 where run: "syncNodes sc (st\<lparr>ss_nodeQueue := q\<rparr>) = (r1, st1)" by fastforce
    have q: "wq_inv q" "key \<in> set (wq_processing q)" "wq_inv (ss_serviceQueue st)"
      using assms(2) get wq_inv_Get wq_Get_Some unfolding sc_inv_def by blast+
    have "cache_ok (st\<lparr>ss_nodeQueue := q\<rparr>)" using assms(2) by (simp add: sc_inv_def cache_ok_def)
    then have st1: "cache_ok st1" "ss_nodeQueue st1 = q" "ss_serviceQueue st1 = ss_serviceQueue st"
      using updateLoadBalancerHosts_keeps [OF assms(1)] run
      by (fastforce simp: syncNodes_def bindM_def get_state_def same_queues_def)+
    with assms(3) get run q show ?thesis
      by (cases r1) (auto simp: processNextNodeItem_def sc_inv_def cache_ok_def wq_inv_Done wq_inv_Forget_Done
          wq_inv_fold_Add)
  qed
qed (use assms(3) in \<open>simp add: processNextNodeItem_def\<close>)


section \<open>Example runs\<close>

definition watched_service :: kService where
  "watched_service = \<lparr>ks_service = plain_service, ks_Finalizers = [LoadBalancerCleanupFinalizer],
     ks_LoadBalancerClass = None\<rparr>"

definition watched_nodes :: "kNode list" where
  "watched_nodes = map (\<lambda>n. \<lparr>kn_node = n, kn_DeletionTimestamp = None\<rparr>) example_nodes"

definition example_sc :: "unit svcCtl" where
  "example_sc = \<lparr>sc_balancer = providerBalancer (example_lbs lb_client),
     sc_serviceGet = (\<lambda>ns name w. if ns = ''default'' \<and> name = ''web'' then Ok watched_service
                        else Err (StatusError ''NotFound'' 404 ''not found'')),
     sc_nodeLister = (\<lambda>w. Ok watched_nodes), sc_Patch = (\<lambda>old new w. (None, w)), sc_order = id\<rparr>"

definition queued_state :: "unit svcState" where
  "queued_state = \<lparr>ss_serviceQueue = wq_Add ''default/web'' wq_empty, ss_nodeQueue = wq_empty, ss_cache = [],
     ss_lastSyncedNodes = [], ss_events = [], ss_world = ()\<rparr>"

lemma example_hold_back:
  "\<exists>e. ensureBody (example_lbs lb_client) example_nodes (plain_service, ()) = (Err e, (synced_service, ()))
     \<and> errors_As_RetryError e = Some 15"
proof -
  have prep: "prepareNodesForLBSync LoadBalancerTypeRegionalNetwork plain_service example_nodes = Ok [fresh_node]"
    and make: "createLoadBalancer (example_lbs lb_client) example_request (plain_service, ())
       = (Ok active_lb, (synced_service, ()))"
    by code_simp+
  have status: "\<exists>e. ensureStatus synced_service active_lb [fresh_node] [tainted_node] = Err e
      \<and> errors_As_RetryError e = Some 15"
    by (simp add: ensureStatus_def active_lb_def lbStatusNew_def lbStatusActive_def retryIfNodesPendingInit_def
        nodesNotYetReadyRetryAfter_def Let_def)
  have build: "lb_buildLoadBalancerRequest (example_lbs lb_client) plain_service example_nodes
     (admittedDropletIDSet None) () = (Ok (example_request, [tainted_node]), ())"
    by (simp add: admittedDropletIDSet_def example_request_built)
  have look: "retrieveAndAnnotateLoadBalancer lb_client (plain_service, ()) = (Err ErrLBNotFound, (plain_service, ()))"
    by (simp add: retrieveAndAnnotate_Err lb_client_lookup)
  have config: "l_client (example_lbs lb_client) = lb_client"
    "l_defaultLBType (example_lbs lb_client) = LoadBalancerTypeRegionalNetwork"
    by (simp_all add: example_lbs_def)
  from status obtain e where "ensureStatus synced_service active_lb [fresh_node] [tainted_node] = Err e"
    "errors_As_RetryError e = Some 15" by blast
  then show ?thesis
    by (simp add: ensureBody_def Let_def bindM_def get_service_def on_world_def map_errM_def attempt_def
        liftR_def returnM_def build look make prep config)
qed

lemma watched_nodes_stable: "map kn_node (filterWithPredicates watched_nodes stableNodeSetPredicates) = example_nodes"
  by code_simp

lemma example_queue:
  "wq_Get (ss_serviceQueue queued_state) = Some (Some ''default/web'', (wq_empty\<lparr>wq_processing := [''default/web'']\<rparr>))"
  by code_simp


theorem failed_sync_is_retried_witness:
  "let q = wq_Add ''a/b/c'' wq_empty; st = queued_state\<lparr>ss_serviceQueue := q\<rparr> in
   \<exists>st'. processNextServiceItem example_sc st = Some (Ok True, st')
     \<and> ''a/b/c'' \<in> set (wq_waiting (ss_serviceQueue st')) \<union> set (wq_queue (ss_serviceQueue st'))"
proof -
  let ?st = "queued_state\<lparr>ss_serviceQueue := wq_Add ''a/b/c'' wq_empty\<rparr>"
  let ?q = "wq_empty\<lparr>wq_processing := [''a/b/c'']\<rparr>"
  have get: "wq_Get (ss_serviceQueue ?st) = Some (Some ''a/b/c'', ?q)" by code_simp
  have split: "SplitMetaNamespaceKey ''a/b/c'' = Err (NewError ''unexpected key format: \"a/b/c\"'')" by code_simp
  have sync: "syncService example_sc ''a/b/c'' (?st\<lparr>ss_serviceQueue := ?q\<rparr>)
      = (Err (NewError ''unexpected key format: \"a/b/c\"''), ?st\<lparr>ss_serviceQueue := ?q\<rparr>)"
    by (simp add: syncService_def split bindM_def liftR_def)
  obtain st' where run: "processNextServiceItem example_sc ?st = Some (Ok True, st')"
    using get sync by (simp add: processNextServiceItem_def)
  have "\<not> wq_shuttingDown (ss_serviceQueue ?st)" by code_simp
  from failed_sync_is_retried [OF run this] get sync run show ?thesis by auto
qed

definition unwanted_service :: kService where
  "unwanted_service = watched_service\<lparr>ks_LoadBalancerClass := Some ''example.com/lb''\<rparr>"

theorem finalizer_kept_until_gone_witness:
  "fst (syncLoadBalancerIfNeeded example_sc (unwanted_service, queued_state)) = Ok deleteLoadBalancer
     \<and> (\<exists>w. retrieveLoadBalancer lb_client plain_service () = (Err ErrLBNotFound, w))"
proof -
  have parts: "ks_service unwanted_service = plain_service" "svc_Ingress plain_service = []"
    "ss_world queued_state = ()" "HasLBFinalizer unwanted_service" "\<not> wantsLoadBalancer unwanted_service"
    by (code_simp, code_simp, simp, code_simp, code_simp)
  have sc: "sc_balancer example_sc = providerBalancer (example_lbs lb_client)" "l_client (example_lbs lb_client) = lb_client"
    by (simp_all add: example_sc_def example_lbs_def)
  have patch: "sc_Patch example_sc old new w = (None, w)" for old new w by (simp add: example_sc_def)
  have get: "GetLoadBalancer (example_lbs lb_client) (plain_service, ()) = (Ok (None, False), (plain_service, ()))"
    by (simp add: GetLoadBalancer_def with_patcher_def bindM_def attempt_def returnM_def sc(2) retrieveAndAnnotate_Err
        retrieveAndAnnotateLoadBalancer_def get_service_def on_world_def lb_client_lookup servicePatcher_Patch_def
        map_DeepEqual_refl)
  have run: "fst (syncLoadBalancerIfNeeded example_sc (unwanted_service, queued_state)) = Ok deleteLoadBalancer"
    by (simp add: syncLoadBalancerIfNeeded_def cleanUp_def removeFinalizer_def finishStatus_def patchStatus_def kube_patch_def
        sync_run Let_def parts sc providerBalancer_def get patch)
  have free: "foreign_sentinel_free (l_client (example_lbs lb_client))"
    unfolding sc(2) by (simp add: foreign_sentinel_free_def lb_client_def offline_client_def Let_def)
  from finalizer_kept_until_gone [OF _ sc(1) free, of unwanted_service queued_state "sc_Patch example_sc" deleteLoadBalancer]
  have "\<exists>w. retrieveLoadBalancer lb_client plain_service () = (Err ErrLBNotFound, w)"
    using run parts get sc(2) by auto
  with run show ?thesis by blast
qed

theorem node_sync_ignores_readiness_witness:
  "let st = queued_state\<lparr>ss_cache := [(''default/web'', Some watched_service)],
       ss_lastSyncedNodes := [(''default/web'', map (\<lambda>n. n\<lparr>kn_node := (kn_node n)\<lparr>node_Conditions := []\<rparr>\<rparr>) watched_nodes)]\<rparr>
   in fst (nodeSyncService example_sc ''default/web'' st) = Ok False"
proof -
  let ?old = "map (\<lambda>n. n\<lparr>kn_node := (kn_node n)\<lparr>node_Conditions := []\<rparr>\<rparr>) watched_nodes"
  let ?st = "queued_state\<lparr>ss_cache := [(''default/web'', Some watched_service)],
     ss_lastSyncedNodes := [(''default/web'', ?old)]\<rparr>"
  have list: "sc_nodeLister example_sc (ss_world ?st) = Ok watched_nodes" by (simp add: example_sc_def)
  have cache: "map_of (ss_cache ?st) ''default/web'' = Some (Some watched_service)" by simp
  have key: "MetaNamespaceKey (ks_service watched_service) = ''default/web''" by code_simp
  have nodes: "map_of (ss_lastSyncedNodes ?st) (MetaNamespaceKey (ks_service watched_service)) = Some ?old"
    by (simp add: key)
  have same: "list_all2 same_to_controller ?old watched_nodes"
    by (simp add: list_all2_map1 list_all2_same same_to_controller_def nodeIncludedPredicate_def
        nodeUnTaintedPredicate_def nodeNotDeletedPredicate_def)
  from node_sync_ignores_readiness [OF list cache nodes same] show ?thesis by auto
qed

end
