(* ===== verification/Service_Events.thy ===== *)
theory Service_Events
  imports Service_Controller
begin

text \<open>
  The event handlers of the service controller, which decide what reaches its queues: added and changed
  services, added, changed and deleted nodes. The comparison of two versions of a service is shown to notice
  every change that this provider would turn into a different request.
\<close>

section \<open>Comparing services\<close>

text \<open>
  The fields of a service that only the comparison reads. The details of a port, its target and its
  application protocol, are in the order of the ports.
\<close>

record kServiceSpec = kService +
  ks_SessionAffinity :: string
  ks_SessionAffinityConfig :: "int option"
  ks_LoadBalancerIP :: string
  ks_ExternalIPs :: "string list"
  ks_IPFamilies :: "string list"
  ks_portDetails :: "(string \<times> string option) list"

definition portEqualForLB :: "ServicePort \<times> string \<times> string option \<Rightarrow> ServicePort \<times> string \<times> string option \<Rightarrow> bool" where
  "portEqualForLB = (\<lambda>(x, xTarget, xApp) (y, yTarget, yApp).
     if sp_Name x \<noteq> sp_Name y then False
     else if sp_Protocol x \<noteq> sp_Protocol y then False
     else if sp_Port x \<noteq> sp_Port y then False
     else if sp_NodePort x \<noteq> sp_NodePort y then False
     else if xTarget \<noteq> yTarget then False
     else xApp = yApp)"

definition getPortsForLB :: "kServiceSpec \<Rightarrow> (ServicePort \<times> string \<times> string option) list" where
  "getPortsForLB k = zip (svc_Ports (ks_service k)) (ks_portDetails k)"

definition portsEqualForLB :: "kServiceSpec \<Rightarrow> kServiceSpec \<Rightarrow> bool" where
  "portsEqualForLB x y = list_all2 portEqualForLB (getPortsForLB x) (getPortsForLB y)"

text \<open>Maps and slices are compared by content; the difference of nil and empty is left out.\<close>

definition needsUpdate :: "kServiceSpec \<Rightarrow> kServiceSpec \<Rightarrow> bool" where
  "needsUpdate oldService newService =
     (let oldWants = wantsLoadBalancer (kService.truncate oldService);
          newWants = wantsLoadBalancer (kService.truncate newService);
          old = ks_service oldService; new = ks_service newService in
      if \<not> oldWants \<and> \<not> newWants then False
      else if oldWants \<noteq> newWants then True
      else if newWants \<and> svc_LoadBalancerSourceRanges old \<noteq> svc_LoadBalancerSourceRanges new then True
      else if \<not> portsEqualForLB oldService newService \<or> ks_SessionAffinity oldService \<noteq> ks_SessionAffinity newService then True
      else if ks_SessionAffinityConfig oldService \<noteq> ks_SessionAffinityConfig newService then True
      else if ks_LoadBalancerIP oldService \<noteq> ks_LoadBalancerIP newService then True
      else if length (ks_ExternalIPs oldService) \<noteq> length (ks_ExternalIPs newService) then True
      else if list_ex (\<lambda>(x, y). x \<noteq> y) (zip (ks_ExternalIPs oldService) (ks_ExternalIPs newService)) then True
      else if \<not> map_DeepEqual (svc_Annotations old) (svc_Annotations new) then True
      else if svc_UID old \<noteq> svc_UID new then True
      else if svc_ExternalTrafficPolicy old \<noteq> svc_ExternalTrafficPolicy new then True
      else if svc_HealthCheckNodePort old \<noteq> svc_HealthCheckNodePort new then True
      else length (ks_IPFamilies oldService) \<noteq> length (ks_IPFamilies newService))"

section \<open>Event handlers\<close>

definition enqueueService :: "kService \<Rightarrow> 'w svcState \<Rightarrow> 'w svcState" where
  "enqueueService k st = st\<lparr>ss_serviceQueue := wq_Add (MetaNamespaceKey (ks_service k)) (ss_serviceQueue st)\<rparr>"

text \<open>Nodes have no namespace: their key is the name.\<close>

definition enqueueNode :: "kNode \<Rightarrow> 'w svcState \<Rightarrow> 'w svcState" where
  "enqueueNode n st = st\<lparr>ss_nodeQueue := wq_Add (node_Name (kn_node n)) (ss_nodeQueue st)\<rparr>"

definition service_AddFunc :: "kServiceSpec \<Rightarrow> 'w svcState \<Rightarrow> 'w svcState" where
  "service_AddFunc cur st =
     (let svc = kService.truncate cur in
      if wantsLoadBalancer svc \<or> needsCleanup svc then enqueueService svc st else st)"

definition service_UpdateFunc :: "kServiceSpec \<Rightarrow> kServiceSpec \<Rightarrow> 'w svcState \<Rightarrow> 'w svcState" where
  "service_UpdateFunc old cur st =
     (let curSvc = kService.truncate cur in
      if needsUpdate old cur \<or> needsCleanup curSvc then enqueueService curSvc st else st)"

definition node_UpdateFunc :: "kNode \<Rightarrow> kNode \<Rightarrow> 'w svcState \<Rightarrow> 'w svcState" where
  "node_UpdateFunc oldNode curNode st =
     (if \<not> shouldSyncUpdatedNode oldNode curNode then st else enqueueNode curNode st)"

section \<open>What the provider reads of a service\<close>

text \<open>Services that agree on everything but the status and the deletion timestamp.\<close>

definition same_spec :: "Service \<Rightarrow> Service \<Rightarrow> bool" where
  "same_spec s t \<longleftrightarrow>
     svc_Name s = svc_Name t \<and> svc_Namespace s = svc_Namespace t \<and> svc_UID s = svc_UID t
     \<and> map_of (svc_Annotations s) = map_of (svc_Annotations t) \<and> svc_Type s = svc_Type t \<and> svc_Ports s = svc_Ports t
     \<and> svc_ExternalTrafficPolicy s = svc_ExternalTrafficPolicy t
     \<and> svc_HealthCheckNodePort s = svc_HealthCheckNodePort t
     \<and> svc_LoadBalancerSourceRanges s = svc_LoadBalancerSourceRanges t"

lemma same_spec_fields:
  assumes "same_spec s t"
  shows "svc_Name s = svc_Name t" "svc_Namespace s = svc_Namespace t" "svc_UID s = svc_UID t"
    "map_of (svc_Annotations s) = map_of (svc_Annotations t)" "ann s = ann t" "svc_Type s = svc_Type t"
    "getBool (svc_Annotations s) = getBool (svc_Annotations t)"
    "svc_Ports s = svc_Ports t" "svc_ExternalTrafficPolicy s = svc_ExternalTrafficPolicy t"
    "svc_HealthCheckNodePort s = svc_HealthCheckNodePort t"
    "svc_LoadBalancerSourceRanges s = svc_LoadBalancerSourceRanges t"
  using assms by (simp_all add: same_spec_def mget_def getBool_def fun_eq_iff)

lemmas setting_defs = DefaultLoadBalancerName_def getLoadBalancerLegacyName_def getLoadBalancerName_def getProtocol_def getSubnetUUID_def getAlgorithm_def
  getSizeSlug_def getSizeUnit_def getStickySessionsType_def getStickySessionsCookieName_def
  getStickySessionsCookieTTL_def buildStickySessions_def getBoolSetting_def getRedirectHTTPToHTTPS_def
  getEnableProxyProtocol_def getDisableLetsEncryptDNSRecords_def getEnableBackendKeepalive_def getTLSPassThrough_def
  getHttpIdleTimeoutSeconds_def getType_def getNetwork_def

lemmas port_defs = getPorts_def getHTTPPorts_def getHTTP2Ports_def getHTTPSPorts_def getHTTP3Port_def getStrings_def

lemmas health_defs = RequestsOnlyLocalTraffic_def NeedsHealthCheck_def GetServiceHealthCheckPathPort_def
  healthCheckPathAndPort_def healthCheckPath_def healthCheckPort_def healthCheckProtocol_def intAnnotation_def
  healthCheckIntervalSeconds_def healthCheckResponseTimeoutSeconds_def healthCheckUnhealthyThreshold_def
  healthCheckHealthyThreshold_def buildHealthCheck_def

lemma same_settings:
  assumes "same_spec s t"
  shows "getLoadBalancerName s = getLoadBalancerName t" "getSubnetUUID s = getSubnetUUID t" "getAlgorithm s = getAlgorithm t"
    "getSizeSlug s = getSizeSlug t" "getSizeUnit s = getSizeUnit t" "buildStickySessions s = buildStickySessions t"
    "getRedirectHTTPToHTTPS s = getRedirectHTTPToHTTPS t" "getEnableProxyProtocol s = getEnableProxyProtocol t"
    "getDisableLetsEncryptDNSRecords s = getDisableLetsEncryptDNSRecords t"
    "getEnableBackendKeepalive s = getEnableBackendKeepalive t"
    "getHttpIdleTimeoutSeconds s = getHttpIdleTimeoutSeconds t" "getType s d = getType t d" "getNetwork s = getNetwork t"
  by (simp_all only: setting_defs same_spec_fields [OF assms])

lemma same_health:
  assumes "same_spec s t"
  shows "buildHealthCheck s = buildHealthCheck t"
  by (simp only: health_defs setting_defs port_defs same_spec_fields [OF assms])

lemma same_rules:
  assumes "same_spec s t"
  shows "buildRegionalNetworkForwardingRule s = buildRegionalNetworkForwardingRule t"
    "buildForwardingRules c s = buildForwardingRules c t" "buildFirewall c s = buildFirewall c t"
  by (simp_all only: buildRegionalNetworkForwardingRule_def buildForwardingRules_def buildHTTP3ForwardingRule_def
      buildForwardingRule_def buildTLSForwardingRule_def findCertificateID_def getCertificateID_def getCertificateName_def
      buildFirewall_def getSourceRangeRules_def setting_defs port_defs same_spec_fields [OF assms])

lemma same_request:
  assumes "same_spec s t"
  shows "buildLoadBalancerRequestWithNodeState c s d nso = buildLoadBalancerRequestWithNodeState c t d nso"
  by (simp only: buildLoadBalancerRequestWithNodeState_def getNetworkStack_def same_settings [OF assms] same_health [OF assms]
      same_rules [OF assms] same_spec_fields [OF assms])

lemma same_lb_request:
  assumes "same_spec s t"
  shows "lb_buildLoadBalancerRequest l s nodes ids = lb_buildLoadBalancerRequest l t nodes ids"
  by (simp only: lb_buildLoadBalancerRequest_def same_request [OF assms] same_settings [OF assms] emitServiceEvent_def
      hold_back_message_def qualified_name_def same_spec_fields [OF assms])

section \<open>Changes that matter are queued\<close>

lemma portsEqual_ports:
  assumes "portsEqualForLB x y" and "length (ks_portDetails x) = length (svc_Ports (ks_service x))"
    and "length (ks_portDetails y) = length (svc_Ports (ks_service y))"
  shows "svc_Ports (ks_service x) = svc_Ports (ks_service y)"
proof -
  have "list_all2 (\<lambda>p q. fst p = fst q) (getPortsForLB x) (getPortsForLB y)"
    using assms(1) unfolding portsEqualForLB_def
    by (rule list_all2_mono) (auto simp: portEqualForLB_def split: if_splits)
  then have "map fst (getPortsForLB x) = map fst (getPortsForLB y)"
    by (simp add: list_all2_conv_all_nth list_eq_iff_nth_eq)
  with assms(2,3) show ?thesis by (simp add: getPortsForLB_def)
qed

lemma unchanged_same_spec:
  assumes "\<not> needsUpdate old new" and "wantsLoadBalancer (kService.truncate old) \<or> wantsLoadBalancer (kService.truncate new)"
    and "length (ks_portDetails old) = length (svc_Ports (ks_service old))"
    and "length (ks_portDetails new) = length (svc_Ports (ks_service new))"
    and "svc_Name (ks_service old) = svc_Name (ks_service new)"
    and "svc_Namespace (ks_service old) = svc_Namespace (ks_service new)"
  shows "same_spec (ks_service old) (ks_service new)"
proof -
  from assms(1,2) have unchanged:
    "wantsLoadBalancer (kService.truncate old)" "wantsLoadBalancer (kService.truncate new)" "portsEqualForLB old new"
    "svc_LoadBalancerSourceRanges (ks_service old) = svc_LoadBalancerSourceRanges (ks_service new)"
    "map_DeepEqual (svc_Annotations (ks_service old)) (svc_Annotations (ks_service new))"
    "svc_UID (ks_service old) = svc_UID (ks_service new)"
    "svc_ExternalTrafficPolicy (ks_service old) = svc_ExternalTrafficPolicy (ks_service new)"
    "svc_HealthCheckNodePort (ks_service old) = svc_HealthCheckNodePort (ks_service new)"
    by (simp_all add: needsUpdate_def Let_def split: if_splits)
  have "svc_Type (ks_service old) = svc_Type (ks_service new)"
    using unchanged(1,2) by (simp add: wantsLoadBalancer_def kService.truncate_def)
  with unchanged portsEqual_ports [OF unchanged(3) assms(3,4)] assms(5,6) show ?thesis
    by (simp add: same_spec_def map_DeepEqual_iff)
qed

text \<open>
  C24: No change of a service that matters to this provider is missed. If the provider would send another request for
  the new version of a service than for the old one, for some nodes and in some state of the outside world, or would fail
  differently, the update handler of the service controller marks the
  service for processing, unless the queue is shutting down. So the fields that the
  controller compares cover all that the requests are built from.\<close>

theorem changed_request_is_queued:
  assumes "lb_buildLoadBalancerRequest l (ks_service old) nodes ids w
       \<noteq> lb_buildLoadBalancerRequest l (ks_service new) nodes ids w"
    and "wantsLoadBalancer (kService.truncate old) \<or> wantsLoadBalancer (kService.truncate new)"
    and "length (ks_portDetails old) = length (svc_Ports (ks_service old))"
    and "length (ks_portDetails new) = length (svc_Ports (ks_service new))"
    and "svc_Name (ks_service old) = svc_Name (ks_service new)"
    and "svc_Namespace (ks_service old) = svc_Namespace (ks_service new)"
    and "\<not> wq_shuttingDown (ss_serviceQueue st)"
  shows "MetaNamespaceKey (ks_service new) \<in> set (wq_dirty (ss_serviceQueue (service_UpdateFunc old new st)))"
proof -
  have "needsUpdate old new"
    using unchanged_same_spec [OF _ assms(2-6)] same_lb_request assms(1) by metis
  with assms(7) show ?thesis
    by (simp add: service_UpdateFunc_def enqueueService_def wq_Add_def kService.truncate_def Let_def)
qed

definition web_spec :: "Service \<Rightarrow> kServiceSpec" where
  "web_spec s = \<lparr>ks_service = s, ks_Finalizers = [LoadBalancerCleanupFinalizer], ks_LoadBalancerClass = None,
     ks_SessionAffinity = ''None'', ks_SessionAffinityConfig = None, ks_LoadBalancerIP = '''', ks_ExternalIPs = [],
     ks_IPFamilies = [''IPv4''], ks_portDetails = map (\<lambda>p. (''8080'', None)) (svc_Ports s)\<rparr>"

text \<open>A service that asks for a network which the provider does not know.\<close>

definition private_service :: Service where
  "private_service = plain_service\<lparr>svc_Annotations := [(annDONetwork, ''PRIVATE'')]\<rparr>"

theorem changed_request_is_queued_witness:
  "''default/web'' \<in> set (wq_dirty (ss_serviceQueue (service_UpdateFunc (web_spec plain_service) (web_spec private_service)
     (queued_state\<lparr>ss_serviceQueue := wq_empty\<rparr>))))"
proof -
  let ?l = "example_lbs (offline_client :: unit client)"
  let ?st = "queued_state\<lparr>ss_serviceQueue := wq_empty\<rparr>"
  have unknown: "getNetwork private_service = Err (NewError ''only LB networks supported are (EXTERNAL, INTERNAL)'')"
    by code_simp
  have built: "lb_buildLoadBalancerRequest ?l (ks_service (web_spec plain_service)) example_nodes [] ()
      \<noteq> lb_buildLoadBalancerRequest ?l (ks_service (web_spec private_service)) example_nodes [] ()"
    by (simp add: web_spec_def example_request_built)
      (simp add: lb_buildLoadBalancerRequest_def unknown bindM_def liftR_def)
  have wants: "wantsLoadBalancer (kService.truncate (web_spec plain_service))
      \<or> wantsLoadBalancer (kService.truncate (web_spec private_service))" by code_simp
  have key: "MetaNamespaceKey (ks_service (web_spec private_service)) = ''default/web''" by code_simp
  have "MetaNamespaceKey (ks_service (web_spec private_service))
      \<in> set (wq_dirty (ss_serviceQueue (service_UpdateFunc (web_spec plain_service) (web_spec private_service) ?st)))"
    by (rule changed_request_is_queued [OF built wants])
      (simp_all add: web_spec_def private_service_def wq_empty_def)
  then show ?thesis by (simp add: key)
qed

text \<open>
  The controller does not trigger itself: when it patches the status of a service, its finalizers or both, the update
  handler does not queue the service again, unless the service is to be cleaned up. A change of the annotations, which the
  provider writes, does queue it.\<close>

theorem own_patch_not_queued:
  "service_UpdateFunc old (old\<lparr>ks_service := (ks_service old)\<lparr>svc_Ingress := ingress\<rparr>, ks_Finalizers := finalizers\<rparr>) st =
     (if LoadBalancerCleanupFinalizer \<in> set finalizers
         \<and> (svc_DeletionTimestamp (ks_service old) \<noteq> None \<or> svc_Type (ks_service old) \<noteq> ServiceTypeLoadBalancer)
      then enqueueService (kService.truncate old) st else st)
   \<and> (wantsLoadBalancer (kService.truncate old) \<and> \<not> map_DeepEqual (svc_Annotations (ks_service old)) annotations \<longrightarrow>
        service_UpdateFunc old (old\<lparr>ks_service := (ks_service old)\<lparr>svc_Annotations := annotations\<rparr>\<rparr>) st
          = enqueueService (kService.truncate old) st)"
proof -
  let ?new = "old\<lparr>ks_service := (ks_service old)\<lparr>svc_Ingress := ingress\<rparr>, ks_Finalizers := finalizers\<rparr>"
  have ports: "portsEqualForLB x x" for x
    by (auto simp: portsEqualForLB_def portEqualForLB_def list_all2_same split: prod.splits)
  have zip: "list_ex (\<lambda>(x, y). x \<noteq> y) (zip xs xs) = False" for xs :: "string list"
    by (induction xs) simp_all
  have "portsEqualForLB old ?new" using ports [of old] by (simp add: portsEqualForLB_def getPortsForLB_def)
  then have "\<not> needsUpdate old ?new"
    by (simp add: needsUpdate_def Let_def zip wantsLoadBalancer_def kService.truncate_def)
  moreover have "needsCleanup (kService.truncate ?new) \<longleftrightarrow> LoadBalancerCleanupFinalizer \<in> set finalizers
      \<and> (svc_DeletionTimestamp (ks_service old) \<noteq> None \<or> svc_Type (ks_service old) \<noteq> ServiceTypeLoadBalancer)"
    by (simp add: needsCleanup_def HasLBFinalizer_def kService.truncate_def)
  ultimately show ?thesis
    by (auto simp: service_UpdateFunc_def enqueueService_def Let_def kService.truncate_def MetaNamespaceKey_def
        needsUpdate_def wantsLoadBalancer_def)
qed

theorem own_patch_not_queued_witness:
  "service_UpdateFunc (web_spec plain_service)
     ((web_spec plain_service)\<lparr>ks_service := plain_service\<lparr>svc_Annotations := [(annDOLoadBalancerID, ''lb-1'')]\<rparr>\<rparr>) queued_state
   = enqueueService (kService.truncate (web_spec plain_service)) queued_state"
proof -
  have "wantsLoadBalancer (kService.truncate (web_spec plain_service))
      \<and> \<not> map_DeepEqual (svc_Annotations (ks_service (web_spec plain_service))) [(annDOLoadBalancerID, ''lb-1'')]"
    by code_simp
  with own_patch_not_queued [of "web_spec plain_service" "[]" "[]" queued_state "[(annDOLoadBalancerID, ''lb-1'')]"]
  show ?thesis by (simp add: web_spec_def)
qed

text \<open>The handlers are steps of the state machine of the controller.\<close>

lemma handlers_are_steps:
  "service_AddFunc cur st = st \<or> sc_step sc st (service_AddFunc cur st)"
  "service_UpdateFunc old cur st = st \<or> sc_step sc st (service_UpdateFunc old cur st)"
  "node_UpdateFunc n n' st = st \<or> sc_step sc st (node_UpdateFunc n n' st)" "sc_step sc st (enqueueNode n st)"
  using sc_step.enqueueService [of sc st] sc_step.enqueueNode [of sc st]
  by (simp_all add: service_AddFunc_def service_UpdateFunc_def node_UpdateFunc_def enqueueService_def enqueueNode_def Let_def)

end
