(* ===== verification/Programs.thy ===== *)
theory Programs
  imports Cloud Service_Events
begin

text \<open>
  The two programs: the controller manager's command, which makes the provider through the plugin registry of
  k8s.io/cloud-provider and hands it to the controllers, and the admission server. What becomes of a process is a result or an
  exit status.
\<close>

section \<open>Processes\<close>

text \<open>\<^verbatim>\<open>klog.Fatalf\<close> ends the process with status 255. Messages are left out.\<close>

datatype 'a run = Result "'a outcome" | Exit int

definition Fatalf :: "'a run" where
  "Fatalf = Exit 255"

section \<open>The plugin registry\<close>

text \<open>A factory is given the content of the configuration file, if there is one; a nil provider is \<open>None\<close>.\<close>

type_synonym 'w Factory = "string option \<Rightarrow> ('w, 'w cloud option) cmd"

type_synonym 'w providers = "(string \<times> 'w Factory) list"

definition RegisterCloudProvider :: "string \<Rightarrow> 'w Factory \<Rightarrow> 'w providers \<Rightarrow> 'w providers run" where
  "RegisterCloudProvider name factory providers =
     (if map_of providers name \<noteq> None then Fatalf else Result (Ok (AList.update name factory providers)))"

definition GetCloudProvider :: "'w providers \<Rightarrow> string \<Rightarrow> string option \<Rightarrow> ('w, 'w cloud option) cmd" where
  "GetCloudProvider providers name config =
     (case map_of providers name of None \<Rightarrow> returnM None | Some f \<Rightarrow> f config)"

definition IsExternal :: "string \<Rightarrow> bool" where
  "IsExternal name = (name = ''external'')"

text \<open>The parameter \<open>open_file\<close> opens a file: an error, or its content.\<close>

definition InitCloudProvider ::
    "(string \<Rightarrow> 'w \<Rightarrow> error + string) \<Rightarrow> 'w providers \<Rightarrow> string \<Rightarrow> string \<Rightarrow> 'w \<Rightarrow> 'w cloud option run \<times> 'w" where
  "InitCloudProvider open_file providers name configFilePath = (\<lambda>w.
     if name = '''' then (Result (Ok None), w)
     else if IsExternal name then (Result (Ok None), w)
     else
       case (if configFilePath \<noteq> '''' then map_sum id Some (open_file configFilePath w) else Inr None) of
         Inl e \<Rightarrow> (Fatalf, w)
       | Inr config \<Rightarrow>
           (case GetCloudProvider providers name config w of
              (Err e, w') \<Rightarrow> (Result (Err (Errorf (''could not init cloud provider '' @ quote name @ '': '') e '''')), w')
            | (Ok None, w') \<Rightarrow> (Result (Err (NewError (''unknown cloud provider '' @ quote name))), w')
            | (r, w') \<Rightarrow> (Result r, w')))"

section \<open>The controller manager\<close>

text \<open>The initialisation of package do registers the provider under its name.\<close>

definition do_init :: "'w host \<Rightarrow> string \<Rightarrow> 'w providers \<Rightarrow> 'w providers run" where
  "do_init h version =
     RegisterCloudProvider ProviderName (\<lambda>_. bindM (newCloud h version) (\<lambda>c. returnM (Some c)))"

text \<open>The part of the completed configuration, which the flags determine, that is read here.\<close>

record CloudProviderConfiguration =
  cpc_Name :: string
  cpc_CloudConfigFile :: string

definition doInitializer ::
    "(string \<Rightarrow> 'w \<Rightarrow> error + string) \<Rightarrow> 'w providers \<Rightarrow> CloudProviderConfiguration \<Rightarrow> 'w \<Rightarrow> 'w cloud run \<times> 'w" where
  "doInitializer open_file providers cloudConfig = (\<lambda>w.
     case InitCloudProvider open_file providers (cpc_Name cloudConfig) (cpc_CloudConfigFile cloudConfig) w of
       (Result (Err e), w') \<Rightarrow> (Fatalf, w')
     | (Result (Ok None), w') \<Rightarrow> (Fatalf, w')
     | (Result (Ok (Some c)), w') \<Rightarrow> (Result (Ok c), w')
     | (Result (Panic p), w') \<Rightarrow> (Result (Panic p), w')
     | (Result OutOfFuel, w') \<Rightarrow> (Result OutOfFuel, w')
     | (Exit n, w') \<Rightarrow> (Exit n, w'))"

record CloudControllerManagerOptions =
  opts_CloudProvider :: CloudProviderConfiguration
  opts_SkipInClusterLookup :: bool

text \<open>
  The options and the command come from k8s.io/cloud-provider: \<open>newOptions\<close> constructs the options, \<open>execute\<close> parses the
  flags over the given options and runs the manager with the given initialiser.
\<close>

definition main ::
    "CloudControllerManagerOptions outcome \<Rightarrow>
     (CloudControllerManagerOptions \<Rightarrow> (CloudProviderConfiguration \<Rightarrow> 'w \<Rightarrow> 'w cloud run \<times> 'w) \<Rightarrow> 'w \<Rightarrow> unit run \<times> 'w) \<Rightarrow>
     (string \<Rightarrow> 'w \<Rightarrow> error + string) \<Rightarrow> 'w providers \<Rightarrow> 'w \<Rightarrow> unit run \<times> 'w" where
  "main newOptions execute open_file providers = (\<lambda>w.
     case newOptions of
       Err e \<Rightarrow> (Exit 1, w)
     | Panic p \<Rightarrow> (Result (Panic p), w)
     | OutOfFuel \<Rightarrow> (Result OutOfFuel, w)
     | Ok opts \<Rightarrow>
         let opts = opts\<lparr>opts_CloudProvider := (opts_CloudProvider opts)\<lparr>cpc_Name := ProviderName\<rparr>,
                         opts_SkipInClusterLookup := True\<rparr> in
         case execute opts (doInitializer open_file providers) w of
           (Result (Err e), w') \<Rightarrow> (Exit 1, w')
         | r \<Rightarrow> r)"

section \<open>Starting the controllers\<close>

text \<open>
  The service controller is made for the load balancers of the provider, with empty queues and caches.
\<close>

definition sc_New ::
    "'w cloud option \<Rightarrow> (string \<Rightarrow> string \<Rightarrow> 'w \<Rightarrow> kService outcome) \<Rightarrow> ('w \<Rightarrow> kNode list outcome) \<Rightarrow>
     (kService \<Rightarrow> kService \<Rightarrow> 'w \<Rightarrow> error option \<times> 'w) \<Rightarrow> (string list \<Rightarrow> string list) \<Rightarrow> 'w \<Rightarrow>
     ('w svcCtl \<times> 'w svcState) outcome" where
  "sc_New cloud serviceGet nodeLister patch order w =
     (case cloud of
        None \<Rightarrow> Err (NewError ''WARNING: no cloud provider provided, services of type LoadBalancer will fail'')
      | Some c \<Rightarrow>
          let (balancer, ok) = LoadBalancer c in
          if \<not> ok then Err (NewError ''the cloud provider does not support external load balancers'')
          else Ok (\<lparr>sc_balancer = providerBalancer balancer, sc_serviceGet = serviceGet, sc_nodeLister = nodeLister,
                    sc_Patch = patch, sc_order = order\<rparr>,
                   \<lparr>ss_serviceQueue = wq_empty, ss_nodeQueue = wq_empty, ss_cache = [], ss_lastSyncedNodes = [],
                    ss_events = [], ss_world = w\<rparr>))"

text \<open>Whether the route controller is started; \<open>rest\<close> is what follows when the provider supports routes.\<close>

definition startRouteController :: "bool \<Rightarrow> 'w cloud \<Rightarrow> bool outcome \<Rightarrow> bool outcome" where
  "startRouteController configureCloudRoutes c rest =
     (if \<not> configureCloudRoutes then Ok False
      else let (routes, ok) = Routes c in if \<not> ok then Ok False else rest)"

section \<open>The admission server\<close>

text \<open>
  The parameter \<open>serve\<close> registers the handler under the path and runs the webhook server until it ends,
  with or without an error.
\<close>

definition serveWebhook ::
    "(string \<Rightarrow> 'w LBServiceAdmissionHandler \<Rightarrow> 'w \<Rightarrow> error option \<times> 'w) \<Rightarrow> 'w LBServiceAdmissionHandler \<Rightarrow> ('w, unit) cmd" where
  "serveWebhook serve handler = (\<lambda>w.
     case serve ''/lb-service'' handler w of
       (Some e, w') \<Rightarrow> (Err (Errorf ''failed to serve webhook server: '' e ''''), w')
     | (None, w') \<Rightarrow> (Ok (), w'))"

definition admission_main ::
    "'w host \<Rightarrow> (string \<Rightarrow> Service outcome) \<Rightarrow> (string list \<Rightarrow> string list) \<Rightarrow>
     (string \<Rightarrow> 'w LBServiceAdmissionHandler \<Rightarrow> 'w \<Rightarrow> error option \<times> 'w) \<Rightarrow> 'w \<Rightarrow> unit run \<times> 'w" where
  "admission_main h decoder old_order serve = (\<lambda>w.
     case bindM (startAdmissionServer h decoder old_order) (serveWebhook serve) w of
       (Err e, w') \<Rightarrow> (Exit 1, w')
     | (r, w') \<Rightarrow> (Result r, w'))"

section \<open>What the controller manager runs\<close>

lemma do_init_alone:
  "do_init h version [] = Result (Ok providers) \<longleftrightarrow>
     providers = [(ProviderName, \<lambda>_. bindM (newCloud h version) (\<lambda>c. returnM (Some c)))]"
  by (auto simp: do_init_def RegisterCloudProvider_def)

lemma registered_twice:
  "do_init h version ps = Result (Ok providers) \<Longrightarrow> do_init h' version' providers = Exit 255"
  by (auto simp: do_init_def RegisterCloudProvider_def Fatalf_def AList.update_conv' split: if_splits)

lemma provider_names: "ProviderName \<noteq> ''''" "\<not> IsExternal ProviderName"
  by (simp_all add: ProviderName_def IsExternal_def)

definition config_readable :: "(string \<Rightarrow> 'w \<Rightarrow> error + string) \<Rightarrow> CloudProviderConfiguration \<Rightarrow> 'w \<Rightarrow> bool" where
  "config_readable open_file cfg w \<longleftrightarrow> cpc_CloudConfigFile cfg = '''' \<or> (\<exists>content. open_file (cpc_CloudConfigFile cfg) w = Inr content)"

lemma doInitializer_eq:
  assumes "do_init h version [] = Result (Ok providers)"
  shows "doInitializer open_file providers cfg w =
     (if cpc_Name cfg = ProviderName \<and> config_readable open_file cfg w
      then case newCloud h version w of
             (Err e, w') \<Rightarrow> (Exit 255, w')
           | (r, w') \<Rightarrow> (Result r, w')
      else (Exit 255, w))"
proof -
  note providers = assms [unfolded do_init_alone]
  consider "cpc_Name cfg \<noteq> ProviderName" | "cpc_Name cfg = ProviderName" "config_readable open_file cfg w"
    | e where "cpc_Name cfg = ProviderName" "cpc_CloudConfigFile cfg \<noteq> ''''" "open_file (cpc_CloudConfigFile cfg) w = Inl e"
    by (cases "open_file (cpc_CloudConfigFile cfg) w") (auto simp: config_readable_def)
  then show ?thesis
  proof cases
    case 1
    then show ?thesis
      by (auto simp: doInitializer_def InitCloudProvider_def GetCloudProvider_def providers Fatalf_def returnM_def
          split: sum.splits)
  next
    case 2
    obtain r w' where run: "newCloud h version w = (r, w')" by fastforce
    from 2 have "\<exists>config. (if cpc_CloudConfigFile cfg \<noteq> '''' then map_sum id Some (open_file (cpc_CloudConfigFile cfg) w)
        else Inr None) = (Inr config :: error + string option)"
      by (auto simp: config_readable_def)
    with 2 run show ?thesis
      by (cases r)
        (auto simp: doInitializer_def InitCloudProvider_def GetCloudProvider_def providers provider_names Fatalf_def
          bindM_def returnM_def)
  next
    case 3
    then show ?thesis
      by (simp add: doInitializer_def InitCloudProvider_def provider_names Fatalf_def config_readable_def)
  qed
qed

text \<open>
  The manager's command hands a provider to the controllers only if it was asked for this provider, its
  configuration file, if one is named, can be opened, and \<^verbatim>\<open>newCloud\<close> has made it from the environment. In all
  other cases the process ends with status 255: it never runs without a provider, and no error is passed on.
  Nothing has been asked of the API when the name or the file is wrong.\<close>

theorem doInitializer_exact:
  assumes "do_init h version [] = Result (Ok providers)"
  shows "doInitializer open_file providers cfg w =
     (if cpc_Name cfg = ProviderName \<and> config_readable open_file cfg w
      then case newCloud h version w of
             (Err e, w') \<Rightarrow> (Exit 255, w')
           | (r, w') \<Rightarrow> (Result r, w')
      else (Exit 255, w))"
  using assms by (rule doInitializer_eq)


text \<open>Without an access token neither program makes a call: the manager ends with status 255, the admission server with 1.\<close>

lemma programs_need_token:
  assumes "Getenv h doAccessTokenEnv = ''''"
  shows "do_init h version [] = Result (Ok providers) \<Longrightarrow> cpc_Name cfg = ProviderName \<Longrightarrow> cpc_CloudConfigFile cfg = '''' \<Longrightarrow>
      doInitializer open_file providers cfg w = (Exit 255, w)"
    and "admission_main h decoder old_order serve w = (Exit 1, w)"
proof -
  show "doInitializer open_file providers cfg w = (Exit 255, w)"
    if "do_init h version [] = Result (Ok providers)" "cpc_Name cfg = ProviderName" "cpc_CloudConfigFile cfg = ''''"
    using that assms by (auto simp: doInitializer_eq config_readable_def newCloud_def liftR_def)
  show "admission_main h decoder old_order serve w = (Exit 1, w)"
    using assms by (simp add: admission_main_def startAdmissionServer_def getGodoClient_def bindM_def liftR_def)
qed

section \<open>Examples\<close>

lemma metadata_providers: "\<exists>providers. do_init metadata_host '''' [] = Result (Ok providers)"
  by (simp add: do_init_alone)

theorem doInitializer_exact_witness:
  "\<exists>providers c. do_init metadata_host '''' [] = Result (Ok providers)
     \<and> doInitializer (\<lambda>path w. Inl (NewError ''no such file'')) providers
         \<lparr>cpc_Name = ''digitalocean'', cpc_CloudConfigFile = ''''\<rparr> () = (Result (Ok c), ())
     \<and> doInitializer (\<lambda>path w. Inl (NewError ''no such file'')) providers
         \<lparr>cpc_Name = ''external'', cpc_CloudConfigFile = ''''\<rparr> () = (Exit 255, ())"
proof -
  obtain providers where providers: "do_init metadata_host '''' [] = Result (Ok providers)" using metadata_providers by blast
  obtain c where "newCloud metadata_host '''' () = (Ok c, ())" using metadata_host_newCloud by blast
  with providers show ?thesis
    by (auto simp: doInitializer_exact [OF providers] ProviderName_def config_readable_def)
qed


end
