(* ===== verification/LB_Calls.thy ===== *)
theory LB_Calls
  imports LoadBalancers
begin

text \<open>
  Which calls of the API the load balancer handlers make: their behaviour does not depend on any
  call but the ones a handler may make.
\<close>

text \<open>Clients that agree on the calls that look things up, patch the service and record events.\<close>

definition same_lookups :: "'w client \<Rightarrow> 'w client \<Rightarrow> bool" where
  "same_lookups c c' \<longleftrightarrow>
     LoadBalancers_Get c' = LoadBalancers_Get c \<and> LoadBalancers_List c' = LoadBalancers_List c
     \<and> Droplets_List c' = Droplets_List c \<and> Certificates_Get c' = Certificates_Get c
     \<and> Certificates_ListByName c' = Certificates_ListByName c \<and> Services_Patch c' = Services_Patch c
     \<and> Events_Create c' = Events_Create c \<and> pageForURL c' = pageForURL c
     \<and> ParseCIDRSloppy c' = ParseCIDRSloppy c \<and> map_order c' = map_order c \<and> page_fuel c' = page_fuel c"

lemma same_lookups_fields:
  assumes "same_lookups c c'"
  shows "LoadBalancers_Get c' = LoadBalancers_Get c" "LoadBalancers_List c' = LoadBalancers_List c"
    "Droplets_List c' = Droplets_List c" "Certificates_Get c' = Certificates_Get c"
    "Certificates_ListByName c' = Certificates_ListByName c" "Services_Patch c' = Services_Patch c"
    "Events_Create c' = Events_Create c" "CurrentPage c' = CurrentPage c" "ParseCIDRSloppy c' = ParseCIDRSloppy c"
    "map_order c' = map_order c" "page_fuel c' = page_fuel c"
proof -
  from assms have "pageForURL c' = pageForURL c" by (simp add: same_lookups_def)
  then show "CurrentPage c' = CurrentPage c" by (intro ext) (simp only: CurrentPage_def)
qed (use assms in \<open>simp_all add: same_lookups_def\<close>)

lemma replaced_client:
  "l_client (l\<lparr>l_client := c\<rparr>) = c" "l_clusterID (l\<lparr>l_client := c\<rparr>) = l_clusterID l"
  "l_clusterVPCID (l\<lparr>l_client := c\<rparr>) = l_clusterVPCID l" "l_region (l\<lparr>l_client := c\<rparr>) = l_region l"
  "l_defaultLBType (l\<lparr>l_client := c\<rparr>) = l_defaultLBType l"
  by simp_all

lemma same_listings:
  assumes "same_lookups c c'"
  shows "allLoadBalancerList c' = allLoadBalancerList c" "allDropletList c' f = allDropletList c f"
proof -
  have "allLoadBalancerList_loop c' n page acc = allLoadBalancerList_loop c n page acc" for n page acc
    by (induction n arbitrary: page acc) (simp_all only: allLoadBalancerList_loop.simps same_lookups_fields [OF assms])
  then show "allLoadBalancerList c' = allLoadBalancerList c"
    by (simp only: allLoadBalancerList_def same_lookups_fields [OF assms])
  have "allDropletList_loop c' f n page acc = allDropletList_loop c f n page acc" for n page acc
    by (induction n arbitrary: page acc) (simp_all only: allDropletList_loop.simps same_lookups_fields [OF assms])
  then show "allDropletList c' f = allDropletList c f"
    by (simp only: allDropletList_def same_lookups_fields [OF assms])
qed

lemma same_reads:
  assumes "same_lookups c c'"
  shows "retrieveLoadBalancer c' = retrieveLoadBalancer c"
    "retrieveAndAnnotateLoadBalancer c' = retrieveAndAnnotateLoadBalancer c"
    "findCertificateID c' = findCertificateID c" "recordUpdatedLetsEncryptCert c' = recordUpdatedLetsEncryptCert c"
    "with_patcher c' = (with_patcher c :: ('a, 'b) svc_cmd \<Rightarrow> ('a, 'b) svc_cmd)"
  by (intro ext, simp only: retrieveLoadBalancer_def retrieveAndAnnotateLoadBalancer_def findLoadBalancerByID_def
      findCertificateID_def recordUpdatedLetsEncryptCert_def with_patcher_def servicePatcher_Patch_def patchService_def
      same_listings [OF assms] same_lookups_fields [OF assms])+

lemma same_built:
  assumes "same_lookups (l_client l) c'"
  shows "lb_buildLoadBalancerRequest (l\<lparr>l_client := c'\<rparr>) = lb_buildLoadBalancerRequest l"
  by (intro ext, simp only: lb_buildLoadBalancerRequest_def buildLoadBalancerRequestWithNodeState_def emitServiceEvent_def
      nodesToDropletIDs_def buildForwardingRules_def buildHTTP3ForwardingRule_def buildFirewall_def getSourceRangeRules_def
      ParseIPNets_def replaced_client same_reads [OF assms] same_listings [OF assms]
      same_lookups_fields [OF assms])

lemma same_update:
  assumes "same_lookups (l_client l) c'" and "LoadBalancers_Update c' = LoadBalancers_Update (l_client l)"
  shows "updateLoadBalancer (l\<lparr>l_client := c'\<rparr>) = updateLoadBalancer l"
  by (intro ext, simp only: updateLoadBalancer_def replaced_client same_built [OF assms(1)] same_reads [OF assms(1)] assms(2))

lemma same_ensure:
  assumes "same_lookups (l_client l) c'" and "LoadBalancers_Update c' = LoadBalancers_Update (l_client l)"
    and "fst (retrieveLoadBalancer (l_client l) s w) \<noteq> Err ErrLBNotFound"
  shows "ensureBody (l\<lparr>l_client := c'\<rparr>) nodes (s, w) = ensureBody l nodes (s, w)"
proof -
  obtain r s1 w1 where look: "retrieveAndAnnotateLoadBalancer (l_client l) (s, w) = (r, (s1, w1))"
    by (metis prod.exhaust)
  have "r \<noteq> Err ErrLBNotFound" using look assms(3) by (auto simp: retrieveAndAnnotate_Err)
  then have create: "(case found of
        Inl lbErr \<Rightarrow> if lbErr = ErrLBNotFound then bindM (createLoadBalancer (l\<lparr>l_client := c'\<rparr>) req) (\<lambda>lb. returnM (Some lb, pnr))
          else returnM (None, pnr)
      | Inr lb \<Rightarrow> updateLoadBalancer l lb nodes) =
      (case found of
        Inl lbErr \<Rightarrow> if lbErr = ErrLBNotFound then bindM (createLoadBalancer l req) (\<lambda>lb. returnM (Some lb, pnr))
          else returnM (None, pnr)
      | Inr lb \<Rightarrow> updateLoadBalancer l lb nodes)"
    if "attempt (retrieveAndAnnotateLoadBalancer (l_client l)) (s, w) = (Ok found, u)" for found u req pnr
    using that look by (cases r) (auto simp: attempt_def split: sum.splits)
  show ?thesis
    unfolding ensureBody_def replaced_client same_built [OF assms(1)] same_reads [OF assms(1)] same_update [OF assms(1,2)]
    by (rule bindM_run_cong, rule refl, clarsimp simp: outcome_simps, rule bindM_run_cong, rule refl,
        clarsimp simp: outcome_simps, rule bindM_run_cong, rule refl) (simp only: create)
qed

lemma same_ensure_create:
  assumes "same_lookups (l_client l) c'" and "LoadBalancers_Update c' = LoadBalancers_Update (l_client l)"
    and "LoadBalancers_Create c' = LoadBalancers_Create (l_client l)"
  shows "ensureBody (l\<lparr>l_client := c'\<rparr>) nodes = ensureBody l nodes"
  by (simp only: ensureBody_def createLoadBalancer_def replaced_client same_built [OF assms(1)] same_reads [OF assms(1)]
      same_update [OF assms(1,2)] assms(3))

text \<open>
  C19: The handlers change no more of the account than their names say. Replace every other call of the API by an
  arbitrary one: looking a load balancer up depends on the look-ups alone; updating depends on the look-ups and the
  update of a load balancer; ensuring creates a load balancer only when the look-up has reported that there is none, and
  never deletes one; and deleting depends on the look-ups and the deletion. So a failing look-up never leads to a second load
  balancer.\<close>

theorem handlers_call_only:
  assumes "same_lookups (l_client l) c'"
  shows "GetLoadBalancer (l\<lparr>l_client := c'\<rparr>) = GetLoadBalancer l
     \<and> (LoadBalancers_Update c' = LoadBalancers_Update (l_client l) \<longrightarrow>
          UpdateLoadBalancer (l\<lparr>l_client := c'\<rparr>) nodes = UpdateLoadBalancer l nodes
          \<and> (fst (retrieveLoadBalancer (l_client l) s w) \<noteq> Err ErrLBNotFound
               \<or> LoadBalancers_Create c' = LoadBalancers_Create (l_client l) \<longrightarrow>
             EnsureLoadBalancer (l\<lparr>l_client := c'\<rparr>) nodes (s, w) = EnsureLoadBalancer l nodes (s, w)))
     \<and> (LoadBalancers_Delete c' = LoadBalancers_Delete (l_client l) \<longrightarrow>
          EnsureLoadBalancerDeleted c' s = EnsureLoadBalancerDeleted (l_client l) s)"
proof -
  note reads = same_reads [OF assms]
  have get: "GetLoadBalancer (l\<lparr>l_client := c'\<rparr>) = GetLoadBalancer l"
    by (simp only: GetLoadBalancer_def replaced_client reads)
  have upd: "UpdateLoadBalancer (l\<lparr>l_client := c'\<rparr>) nodes = UpdateLoadBalancer l nodes"
    if "LoadBalancers_Update c' = LoadBalancers_Update (l_client l)"
    by (simp only: UpdateLoadBalancer_def updateBody_def replaced_client reads same_update [OF assms that])
  have del: "EnsureLoadBalancerDeleted c' s = EnsureLoadBalancerDeleted (l_client l) s"
    if "LoadBalancers_Delete c' = LoadBalancers_Delete (l_client l)"
    by (simp only: EnsureLoadBalancerDeleted_def reads that)
  have "EnsureLoadBalancer (l\<lparr>l_client := c'\<rparr>) nodes (s, w) = EnsureLoadBalancer l nodes (s, w)"
    if "LoadBalancers_Update c' = LoadBalancers_Update (l_client l)"
      "fst (retrieveLoadBalancer (l_client l) s w) \<noteq> Err ErrLBNotFound
       \<or> LoadBalancers_Create c' = LoadBalancers_Create (l_client l)"
  proof -
    from that have "ensureBody (l\<lparr>l_client := c'\<rparr>) nodes (s, w) = ensureBody l nodes (s, w)"
      using same_ensure [OF assms that(1)] same_ensure_create [OF assms that(1)] by auto
    then have "with_patcher (l_client l) (ensureBody (l\<lparr>l_client := c'\<rparr>) nodes) (s, w)
        = with_patcher (l_client l) (ensureBody l nodes) (s, w)"
      by (simp add: with_patcher_def)
    then show ?thesis
      by (simp add: EnsureLoadBalancer_def unless_disowned_def bindM_def get_service_def liftR_def reads
          split: outcome.splits)
  qed
  with get upd del show ?thesis by blast
qed

text \<open>A client whose look-up fails, and one that would also create and delete load balancers without answering.\<close>

definition failing_list_client :: "unit client" where
  "failing_list_client = lb_client\<lparr>LoadBalancers_List := (\<lambda>p n w. (([], None, Some (OtherError ''timeout'')), w))\<rparr>"

definition other_client :: "unit client" where
  "other_client = failing_list_client\<lparr>LoadBalancers_Create := (\<lambda>r w. ((None, None, None), w)),
     LoadBalancers_Delete := (\<lambda>i w. (((), None, None), w))\<rparr>"

theorem handlers_call_only_witness:
  "EnsureLoadBalancer ((example_lbs failing_list_client)\<lparr>l_client := other_client\<rparr>) example_nodes (plain_service, ())
     = EnsureLoadBalancer (example_lbs failing_list_client) example_nodes (plain_service, ())"
proof -
  have client: "l_client (example_lbs failing_list_client) = failing_list_client" by (simp add: example_lbs_def)
  have same: "same_lookups (l_client (example_lbs failing_list_client)) other_client"
    by (simp add: client same_lookups_def other_client_def)
  have i: "getLoadBalancerID plain_service = ''''" by code_simp
  have fuel: "page_fuel failing_list_client = Suc 9"
    by (simp add: failing_list_client_def lb_client_def offline_client_def Let_def)
  have "allLoadBalancerList failing_list_client () = (Err (OtherError ''timeout''), ())"
    unfolding allLoadBalancerList_def fuel allLoadBalancerList_loop.simps
    by (simp add: bindM_def api_def liftR_def) (simp add: failing_list_client_def)
  then have "fst (retrieveLoadBalancer (l_client (example_lbs failing_list_client)) plain_service ()) \<noteq> Err ErrLBNotFound"
    by (simp add: client retrieveLoadBalancer_def i Let_def bindM_def)
  moreover have "LoadBalancers_Update other_client = LoadBalancers_Update (l_client (example_lbs failing_list_client))"
    by (simp add: client other_client_def)
  ultimately show ?thesis
    using handlers_call_only [OF same, of example_nodes plain_service "()"] by blast
qed

end
