(* ===== verification/Tasks.thy ===== *)
theory Tasks
  imports Prelude
begin

text \<open>
  Goroutines that make calls of an API: a task is what a goroutine still has to do, a tree of calls. Between two calls of one
  task the other tasks and the outside world may move, so a call is the unit of interleaving. The theory has the
  retry loop of client-go and the worker pool of its \<^verbatim>\<open>workqueue.ParallelizeUntil\<close>, with the facts on
  the calls that tasks make whatever the interleaving.
\<close>

section \<open>Tasks\<close>

text \<open>
  A call has a label, which says what is called with which arguments, and acts on the state. A task that has returned, or has
  panicked, is halted.
\<close>

datatype ('l, 's) task = Halt "unit outcome" | Call 'l "'s \<Rightarrow> ('l, 's) task \<times> 's"

definition call :: "'l \<Rightarrow> ('s \<Rightarrow> 'r \<times> 's) \<Rightarrow> ('r \<Rightarrow> ('l, 's) task) \<Rightarrow> ('l, 's) task" where
  "call l m k = Call l (\<lambda>s. case m s of (r, s') \<Rightarrow> (k r, s'))"

abbreviation return_task :: "('l, 's) task" where
  "return_task \<equiv> Halt (Ok ())"

text \<open>Running a task alone: the calls it makes, each with the state it is made in, how it halts, and the state it leaves.\<close>

primrec run_task :: "('l, 's) task \<Rightarrow> 's \<Rightarrow> ('l \<times> 's) list \<times> unit outcome \<times> 's" where
  "run_task (Halt r) = (\<lambda>s. ([], r, s))"
| "run_task (Call l f) = (\<lambda>s. case map_prod run_task id (f s) of
     (run, s') \<Rightarrow> (case run s' of (tr, r, s'') \<Rightarrow> ((l, s) # tr, r, s'')))"

lemma run_task_call:
  "run_task (call l m k) s =
     (case m s of (r, s') \<Rightarrow> case run_task (k r) s' of (tr, r', s'') \<Rightarrow> ((l, s) # tr, r', s''))"
  by (simp add: call_def split: prod.splits)

section \<open>Retries\<close>

text \<open>
  \<^verbatim>\<open>retry.OnError\<close> with \<^verbatim>\<open>wait.ExponentialBackoff\<close>: a function is tried at most \<open>steps\<close>
  times, and again only after an error that is retriable. The function is told whether it is tried for the first time. When
  the loop is interrupted after a retriable error, that error is what is returned. The pauses between the tries are
  left out: other tasks may move before every call.
\<close>

definition Interrupted :: "error \<Rightarrow> bool" where
  "Interrupted e \<longleftrightarrow> errors_Is e WaitTimeout \<or> errors_Is e Canceled \<or> errors_Is e DeadlineExceeded"

definition lastError :: "error \<Rightarrow> error option \<Rightarrow> error" where
  "lastError e lastErr = (case lastErr of Some l \<Rightarrow> if Interrupted e then l else e | None \<Rightarrow> e)"

type_synonym ('l, 's) attempted = "(error option \<Rightarrow> ('l, 's) task) \<Rightarrow> ('l, 's) task"

primrec ExponentialBackoff ::
    "nat \<Rightarrow> (error \<Rightarrow> bool) \<Rightarrow> bool \<Rightarrow> error option \<Rightarrow> (bool \<Rightarrow> ('l, 's) attempted) \<Rightarrow> ('l, 's) attempted" where
  "ExponentialBackoff 0 retriable firstTry lastErr fn ret = ret (Some (lastError WaitTimeout lastErr))"
| "ExponentialBackoff (Suc steps) retriable firstTry lastErr fn ret =
     fn firstTry (\<lambda>err.
       case err of
         None \<Rightarrow> ret None
       | Some e \<Rightarrow>
           if retriable e then ExponentialBackoff steps retriable False (Some e) fn ret
           else ret (Some (lastError e lastErr)))"

definition OnError :: "nat \<Rightarrow> (error \<Rightarrow> bool) \<Rightarrow> (bool \<Rightarrow> ('l, 's) attempted) \<Rightarrow> ('l, 's) attempted" where
  "OnError steps retriable fn ret = ExponentialBackoff steps retriable True None fn ret"

text \<open>
  What holds of the function whatever follows it holds of the loop; what follows a success may need to be known only there.
\<close>

lemma ExponentialBackoff_rule:
  assumes "\<And>b ret. (\<And>e. Q (ret (Some e))) \<Longrightarrow> R (ret None) \<Longrightarrow> Q (fn b ret)"
    and "\<And>e. Q (ret (Some e))" and "R (ret None)"
  shows "Q (ExponentialBackoff steps retriable b lastErr fn ret)"
proof (induction steps arbitrary: b lastErr)
  case (Suc steps)
  show ?case unfolding ExponentialBackoff.simps
    by (rule assms(1)) (auto intro: assms(2,3) Suc.IH)
qed (simp add: assms(2))

lemma OnError_success_rule:
  assumes "\<And>b ret. (\<And>e. Q (ret (Some e))) \<Longrightarrow> R (ret None) \<Longrightarrow> Q (fn b ret)"
    and "\<And>e. Q (ret (Some e))" and "R (ret None)"
  shows "Q (OnError steps retriable fn ret)"
  unfolding OnError_def using assms by (rule ExponentialBackoff_rule)

lemma OnError_rule:
  assumes "\<And>b ret. (\<And>e. Q (ret e)) \<Longrightarrow> Q (fn b ret)" and "\<And>e. Q (ret e)"
  shows "Q (OnError steps retriable fn ret)"
proof (rule OnError_success_rule [where R = Q])
  fix b and ret :: "error option \<Rightarrow> ('a, 'b) task"
  assume "\<And>e. Q (ret (Some e))" and "Q (ret None)"
  then have "Q (ret e)" for e by (cases e) auto
  then show "Q (fn b ret)" by (rule assms(1))
qed (rule assms(2))+

section \<open>The worker pool\<close>

text \<open>
  A pool has the pieces that no worker has taken yet, in order, the tasks of the workers that are busy, and the state.
  A step gives the next piece to an idle worker, performs the next call of a busy one, lets one return,
  leaves the remaining pieces out once the context is cancelled, or is one of the outside world.
  The label of a step is the call it makes, if it makes one.
\<close>

type_synonym ('p, 'l, 's) pool = "'p list \<times> ('l, 's) task multiset \<times> 's"

inductive pool_step ::
    "('p \<Rightarrow> ('l, 's) task) \<Rightarrow> nat \<Rightarrow> bool \<Rightarrow> ('s \<Rightarrow> 's \<Rightarrow> bool) \<Rightarrow>
     ('p, 'l, 's) pool \<Rightarrow> ('l \<times> 's) option \<Rightarrow> ('p, 'l, 's) pool \<Rightarrow> bool"
  for work :: "'p \<Rightarrow> ('l, 's) task" and workers :: nat and cancelled :: bool and env :: "'s \<Rightarrow> 's \<Rightarrow> bool" where
  pool_take: "size ts < workers \<Longrightarrow>
    pool_step work workers cancelled env (p # ps, ts, s) None (ps, add_mset (work p) ts, s)"
| pool_call: "f s = (t, s') \<Longrightarrow>
    pool_step work workers cancelled env (ps, add_mset (Call l f) ts, s) (Some (l, s)) (ps, add_mset t ts, s')"
| pool_return: "pool_step work workers cancelled env (ps, add_mset return_task ts, s) None (ps, ts, s)"
| pool_cancel: "cancelled \<Longrightarrow> pool_step work workers cancelled env (ps, ts, s) None ([], ts, s)"
| pool_env: "env s s' \<Longrightarrow> pool_step work workers cancelled env (ps, ts, s) None (ps, ts, s')"

abbreviation no_env :: "'s \<Rightarrow> 's \<Rightarrow> bool" where
  "no_env \<equiv> \<lambda>_ _. False"

text \<open>The runs of any labelled step relation, with the calls that were made, in order.\<close>

definition emitted :: "'a option \<Rightarrow> 'a list" where
  "emitted a = (case a of None \<Rightarrow> [] | Some x \<Rightarrow> [x])"

inductive runs :: "('c \<Rightarrow> 'a option \<Rightarrow> 'c \<Rightarrow> bool) \<Rightarrow> 'c \<Rightarrow> 'a list \<Rightarrow> 'c \<Rightarrow> bool" for step where
  runs_refl: "runs step c [] c"
| runs_step: "runs step c tr c' \<Longrightarrow> step c' a c'' \<Longrightarrow> runs step c (tr @ emitted a) c''"

lemma emitted_simps [simp]: "emitted None = []" "emitted (Some x) = [x]"
  by (simp_all add: emitted_def)

lemma runs_trans:
  assumes "runs step c tr c'" and "runs step c' tr' c''"
  shows "runs step c (tr @ tr') c''"
  using assms(2,1)
proof (induction rule: runs.induct)
  case (runs_step c1 tr1 c2 a c3)
  then show ?case using runs.runs_step [of step c "tr @ tr1" c2 a c3] by simp
qed simp

lemma runs_one: "step c a c' \<Longrightarrow> runs step c (emitted a) c'"
  using runs.runs_step [OF runs_refl, of step c a c'] by simp

lemma runs_mono: "runs step c tr c' \<Longrightarrow> (\<And>c a c'. step c a c' \<Longrightarrow> step' c a c') \<Longrightarrow> runs step' c tr c'"
  by (induction rule: runs.induct) (auto intro: runs.intros)

section \<open>A task run alone is a schedule of the pool\<close>

text \<open>Whatever the machine \<open>C\<close> that a task is part of: if it can make the calls of the task, it can make them in a row.\<close>

lemma run_task_runs:
  assumes "\<And>l f s t s'. f s = (t, s') \<Longrightarrow> step (C (Call l f) s) (Some (l, s)) (C t s')"
    and "run_task t s = (tr, r, s')"
  shows "runs step (C t s) tr (C (Halt r) s')"
  using assms(2)
proof (induction t arbitrary: s tr)
  case (Halt r)
  then show ?case by (auto intro: runs_refl)
next
  case (Call l f)
  obtain t1 s1 where f: "f s = (t1, s1)" by fastforce
  with Call.prems obtain tr1 where run: "run_task t1 s1 = (tr1, r, s')" and tr: "tr = (l, s) # tr1"
    by (auto split: prod.splits)
  from f have "t1 \<in> Basic_BNFs.fsts (f s)" by simp
  note rest = Call.IH [OF rangeI this run]
  have "step (C (Call l f) s) (Some (l, s)) (C t1 s1)" using assms(1) f by blast
  from runs_trans [OF runs_one [of step, OF this] rest] show ?case by (simp add: tr)
qed

lemma pool_run_task:
  "run_task t s = (tr, r, s') \<Longrightarrow>
   runs (pool_step work workers cancelled env) (ps, add_mset t ts, s) tr (ps, add_mset (Halt r) ts, s')"
  using run_task_runs [of "pool_step work workers cancelled env" "\<lambda>t s. (ps, add_mset t ts, s)"] by (simp add: pool_call)

fun run_tasks :: "('p \<Rightarrow> ('l, 's) task) \<Rightarrow> 'p list \<Rightarrow> 's \<Rightarrow> (('l \<times> 's) list \<times> 's) option" where
  "run_tasks work [] s = Some ([], s)"
| "run_tasks work (p # ps) s =
     (case run_task (work p) s of
        (tr, Ok _, s') \<Rightarrow> map_option (\<lambda>(tr', s''). (tr @ tr', s'')) (run_tasks work ps s')
      | _ \<Rightarrow> None)"

lemma pool_run_tasks:
  assumes "run_tasks work ps s = Some (tr, s')" and "workers > 0"
  shows "runs (pool_step work workers cancelled env) (ps, {#}, s) tr ([], {#}, s')"
  using assms(1)
proof (induction ps arbitrary: s tr)
  case (Cons p ps)
  then obtain tr1 s1 tr2 where one: "run_task (work p) s = (tr1, Ok (), s1)"
    and rest: "run_tasks work ps s1 = Some (tr2, s')" and tr: "tr = tr1 @ tr2"
    by (auto split: prod.splits outcome.splits)
  let ?step = "pool_step work workers cancelled env"
  have "?step (p # ps, {#}, s) None (ps, {#work p#}, s)" using assms(2) by (simp add: pool_take)
  from runs_trans [OF runs_one [of ?step, OF this] pool_run_task [OF one]]
  have "runs ?step (p # ps, {#}, s) tr1 (ps, {#return_task#}, s1)" by simp
  from runs_step [OF this pool_return] have "runs ?step (p # ps, {#}, s) tr1 (ps, {#}, s1)" by simp
  from runs_trans [OF this Cons.IH [OF rest]] show ?case by (simp add: tr)
qed (auto intro: runs_refl)

section \<open>What the calls of a task respect\<close>

text \<open>
  A policy says which calls may be made after which history. A task obeys it when every call it can make is allowed by the calls
  it has made before, whatever the state in which it is made and whatever the answers.
\<close>

inductive obeys :: "(('l \<times> 's) set \<Rightarrow> 'l \<Rightarrow> 's \<Rightarrow> bool) \<Rightarrow> ('l \<times> 's) set \<Rightarrow> ('l, 's) task \<Rightarrow> bool" for P where
  obeys_Halt: "obeys P H (Halt r)"
| obeys_Call: "\<forall>s. P H l s \<and> obeys P (insert (l, s) H) (fst (f s)) \<Longrightarrow> obeys P H (Call l f)"

inductive_simps obeys_simps [simp]: "obeys P H (Halt r)" "obeys P H (Call l f)"

lemma obeys_call:
  "(\<And>s. P H l s) \<Longrightarrow> (\<And>s r s'. m s = (r, s') \<Longrightarrow> obeys P (insert (l, s) H) (k r)) \<Longrightarrow> obeys P H (call l m k)"
  by (simp add: call_def split: prod.splits)

text \<open>A trace is respectful when every call in it was allowed by what came before.\<close>

definition respects_policy :: "(('l \<times> 's) set \<Rightarrow> 'l \<Rightarrow> 's \<Rightarrow> bool) \<Rightarrow> ('l \<times> 's) list \<Rightarrow> bool" where
  "respects_policy P tr \<longleftrightarrow> (\<forall>tr1 l s tr2. tr = tr1 @ (l, s) # tr2 \<longrightarrow> P (set tr1) l s)"

lemma respects_policy_Nil [simp]: "respects_policy P []"
  by (simp add: respects_policy_def)

lemma respects_policy_snoc [simp]:
  "respects_policy P (tr @ [(l, s)]) \<longleftrightarrow> respects_policy P tr \<and> P (set tr) l s"
proof
  assume all: "respects_policy P (tr @ [(l, s)])"
  have "P (set tr1) l1 s1" if "tr = tr1 @ (l1, s1) # tr2" for tr1 l1 s1 tr2
    using all that unfolding respects_policy_def by (metis append.assoc append_Cons)
  with all show "respects_policy P tr \<and> P (set tr) l s" unfolding respects_policy_def by blast
next
  assume "respects_policy P tr \<and> P (set tr) l s"
  then show "respects_policy P (tr @ [(l, s)])"
    unfolding respects_policy_def by (auto simp: append_eq_append_conv2 append_eq_Cons_conv Cons_eq_append_conv)
qed

definition obeying_pool ::
    "(('l \<times> 's) set \<Rightarrow> 'l \<Rightarrow> 's \<Rightarrow> bool) \<Rightarrow> ('p \<Rightarrow> ('l, 's) task) \<Rightarrow> ('l \<times> 's) set \<Rightarrow> ('p, 'l, 's) pool \<Rightarrow> bool" where
  "obeying_pool P work H c \<longleftrightarrow>
     (\<forall>p \<in> set (fst c). obeys P H (work p)) \<and> (\<forall>t \<in># fst (snd c). obeys P H t)"

text \<open>A policy under which knowledge is not lost: what is allowed stays allowed when more has happened.\<close>

locale call_policy =
  fixes P :: "('l \<times> 's) set \<Rightarrow> 'l \<Rightarrow> 's \<Rightarrow> bool"
  assumes more_history: "P H l s \<Longrightarrow> H \<subseteq> H' \<Longrightarrow> P H' l s"
begin

lemma obeys_more_history: "obeys P H t \<Longrightarrow> H \<subseteq> H' \<Longrightarrow> obeys P H' t"
proof (induction arbitrary: H' rule: obeys.induct)
  case (obeys_Call H l f)
  have "P H' l s \<and> obeys P (insert (l, s) H') (fst (f s))" for s
    using obeys_Call.IH obeys_Call.prems more_history by (meson insert_mono)
  then show ?case by simp
qed (simp add: obeys_Halt)

lemma obeys_then: "obeys P H t \<Longrightarrow> obeys P (insert x H) t"
  by (erule obeys_more_history) blast

lemma pool_step_obeys:
  assumes "pool_step work workers cancelled env c a c'" and "obeying_pool P work H c"
  shows "(\<forall>l s. a = Some (l, s) \<longrightarrow> P H l s) \<and> obeying_pool P work (H \<union> set (emitted a)) c'"
  using assms
proof (induction rule: pool_step.induct)
  case (pool_call f s t s' ps l ts)
  then have "P H l s" "obeys P (insert (l, s) H) t" by (auto simp: obeying_pool_def) (metis fst_conv)
  with pool_call.prems show ?case
    by (auto simp: obeying_pool_def intro: obeys_more_history)
qed (auto simp: obeying_pool_def)

lemma pool_runs_obey:
  "runs (pool_step work workers cancelled env) c tr c' \<Longrightarrow> obeying_pool P work H c \<Longrightarrow>
   obeying_pool P work (H \<union> set tr) c'"
proof (induction rule: runs.induct)
  case (runs_step c tr c' a c'')
  from pool_step_obeys [OF runs_step.hyps(2) runs_step.IH [OF runs_step.prems]] show ?case by (simp add: Un_assoc)
qed simp


end

section \<open>Tasks that return\<close>

text \<open>A task that returns, whatever the answers it gets: it has no panic.\<close>

inductive task_returns :: "('l, 's) task \<Rightarrow> bool" where
  task_returns_Halt: "task_returns return_task"
| task_returns_Call: "\<forall>s. task_returns (fst (f s)) \<Longrightarrow> task_returns (Call l f)"

inductive_simps task_returns_simps [simp]: "task_returns (Halt r)" "task_returns (Call l f)"

lemma task_returns_call: "(\<And>s r s'. m s = (r, s') \<Longrightarrow> task_returns (k r)) \<Longrightarrow> task_returns (call l m k)"
  by (simp add: call_def split: prod.splits)

lemma task_returns_run_task: "task_returns t \<Longrightarrow> \<exists>tr s'. run_task t s = (tr, Ok (), s')"
proof (induction arbitrary: s rule: task_returns.induct)
  case (task_returns_Call f l)
  obtain t s1 where "f s = (t, s1)" by fastforce
  moreover from this task_returns_Call.IH obtain tr s' where "run_task t s1 = (tr, Ok (), s')" by (metis fst_conv)
  ultimately show ?case by simp
qed simp

lemma pool_runs_return:
  assumes "runs (pool_step work workers cancelled env) c tr c'" and "\<And>p. task_returns (work p)"
    and "\<forall>t \<in># fst (snd c). task_returns t"
  shows "\<forall>t \<in># fst (snd c'). task_returns t"
  using assms(1,3)
proof (induction rule: runs.induct)
  case (runs_step c tr c' a c'')
  from runs_step.hyps(2) runs_step.IH [OF runs_step.prems] show ?case
  proof (induction rule: pool_step.induct)
    case (pool_call f s t s' ps l ts)
    then have "task_returns t" by simp (metis fst_conv)
    with pool_call.prems show ?case by simp
  qed (simp_all add: assms(2))
qed

text \<open>A pool whose tasks return can always finish: there is a schedule that leaves nothing to do.\<close>

lemma pool_can_finish:
  assumes "\<And>p. task_returns (work p)" and "\<forall>t \<in># ts. task_returns t" and "workers > 0"
  shows "\<exists>tr s'. runs (pool_step work workers cancelled env) (ps, ts, s) tr ([], {#}, s')"
  using assms(2)
proof (induction ts arbitrary: s)
  case empty
  have "\<exists>tr s'. run_tasks work ps s = Some (tr, s')"
  proof (induction ps arbitrary: s)
    case (Cons p ps)
    obtain tr s1 where "run_task (work p) s = (tr, Ok (), s1)" using task_returns_run_task [OF assms(1)] by blast
    moreover from Cons obtain tr' s' where "run_tasks work ps s1 = Some (tr', s')" by blast
    ultimately show ?case by simp
  qed simp
  then show ?case using pool_run_tasks assms(3) by metis
next
  case (add t ts)
  let ?step = "pool_step work workers cancelled env"
  from task_returns_run_task add.prems obtain tr s1 where "run_task t s = (tr, Ok (), s1)" by (metis union_single_eq_member)
  from runs_step [OF pool_run_task [OF this] pool_return]
  have one: "runs ?step (ps, add_mset t ts, s) tr (ps, ts, s1)" by simp
  from add have "\<exists>tr s'. runs ?step (ps, ts, s1) tr ([], {#}, s')" by simp
  with runs_trans [OF one] show ?case by blast
qed

section \<open>How many calls a task makes\<close>


inductive calls_within :: "nat \<Rightarrow> ('l, 's) task \<Rightarrow> bool" where
  calls_within_Halt: "calls_within n (Halt r)"
| calls_within_Call: "\<forall>s. calls_within n (fst (f s)) \<Longrightarrow> calls_within (Suc n) (Call l f)"

inductive_simps calls_within_simps [simp]: "calls_within n (Halt r)" "calls_within n (Call l f)"

lemma calls_within_call:
  "0 < n \<Longrightarrow> (\<And>s r s'. m s = (r, s') \<Longrightarrow> calls_within (n - 1) (k r)) \<Longrightarrow> calls_within n (call l m k)"
  by (cases n) (simp_all add: call_def split: prod.splits)

lemma calls_within_more: "calls_within n t \<Longrightarrow> n \<le> m \<Longrightarrow> calls_within m t"
proof (induction arbitrary: m rule: calls_within.induct)
  case (calls_within_Call n f l)
  then show ?case by (cases m) auto
qed simp

lemma calls_within_ExponentialBackoff:
  assumes "\<And>b m ret. (\<And>e. calls_within m (ret e)) \<Longrightarrow> calls_within (k + m) (fn b ret)" and "\<And>e. calls_within n (ret e)"
  shows "calls_within (steps * k + n) (ExponentialBackoff steps retriable b lastErr fn ret)"
proof (induction steps arbitrary: b lastErr)
  case 0
  then show ?case by (simp add: assms(2))
next
  case (Suc steps)
  have "calls_within (k + (steps * k + n)) (ExponentialBackoff (Suc steps) retriable b lastErr fn ret)"
    unfolding ExponentialBackoff.simps
    by (rule assms(1)) (auto split: option.split intro: Suc.IH calls_within_more [OF assms(2)])
  then show ?case by (simp add: add.assoc)
qed

text \<open>
  The calls of a pool, whatever the schedule, are at most as many as its pieces are allowed together: each task has a number of
  calls left, and the calls made and the calls left never exceed the sum of the allowances.
\<close>

lemma pool_calls_bounded:
  assumes "runs (pool_step work workers cancelled env) c tr c'" and "\<And>p. calls_within n (work p)"
    and "fst (snd c) = {#}"
  shows "\<exists>B. image_mset snd B = fst (snd c') \<and> (\<forall>(k, t) \<in># B. calls_within k t) \<and>
    length tr + sum_mset (image_mset fst B) + n * length (fst c') \<le> n * length (fst c)"
  using assms(1,3)
proof (induction rule: runs.induct)
  case (runs_refl c)
  then show ?case by (intro exI [of _ "{#}"]) simp
next
  case (runs_step c tr c1 a c2)
  then obtain B where B: "image_mset snd B = fst (snd c1)" "\<forall>(k, t) \<in># B. calls_within k t"
    "length tr + sum_mset (image_mset fst B) + n * length (fst c1) \<le> n * length (fst c)" by blast
  from runs_step.hyps(2) B show ?case
  proof (induction rule: pool_step.induct)
    case (pool_take ts p ps s)
    then show ?case using assms(2) by (intro exI [of _ "add_mset (n, work p) B"]) auto
  next
    case (pool_call f s t s' ps l ts)
    then obtain k B0 where kB: "B = add_mset (k, Call l f) B0" "image_mset snd B0 = ts"
      by (auto dest!: msed_map_invR)
    with pool_call.prems obtain j where "k = Suc j" "calls_within j t"
      using pool_call.hyps by (auto simp: calls_within_simps(2)) (metis fst_conv)
    with kB pool_call.prems show ?case by (intro exI [of _ "add_mset (j, t) B0"]) auto
  next
    case (pool_return ps ts s)
    then obtain k B0 where "B = add_mset (k, return_task) B0" "image_mset snd B0 = ts"
      by (auto dest!: msed_map_invR)
    with pool_return.prems show ?case by (intro exI [of _ B0]) auto
  next
    case (pool_cancel ps ts s)
    then show ?case by (intro exI [of _ B]) auto
  next
    case (pool_env s s' ps ts)
    then show ?case by (intro exI [of _ B]) auto
  qed
qed

section \<open>What a task is sure to call\<close>

text \<open>Provided the states in which it makes its calls satisfy \<open>I\<close>, the task makes a call with a label in \<open>Q\<close>.\<close>

inductive surely :: "('l \<Rightarrow> 's \<Rightarrow> bool) \<Rightarrow> ('l \<Rightarrow> bool) \<Rightarrow> ('l, 's) task \<Rightarrow> bool" for I Q where
  surely_now: "Q l \<Longrightarrow> surely I Q (Call l f)"
| surely_later: "\<forall>s. I l s \<longrightarrow> surely I Q (fst (f s)) \<Longrightarrow> surely I Q (Call l f)"

inductive_simps surely_simps [simp]: "surely I Q (Halt r)" "surely I Q (Call l f)"

lemma surely_call:
  "(\<And>s r s'. I l s \<Longrightarrow> m s = (r, s') \<Longrightarrow> surely I Q (k r)) \<Longrightarrow> surely I Q (call l m k)"
  by (simp add: call_def split: prod.splits)

lemma pool_surely:
  assumes "runs (pool_step work workers False env) c tr c'"
    and "\<forall>(l, s) \<in> set tr. I l s" and "p \<in> set (fst c)" and "surely I Q (work p)"
  shows "p \<in> set (fst c') \<or> (\<exists>t \<in># fst (snd c'). surely I Q t) \<or> (\<exists>(l, s) \<in> set tr. Q l)"
  using assms
proof (induction rule: runs.induct)
  case (runs_step c tr c1 a c2)
  then have "p \<in> set (fst c1) \<or> (\<exists>t \<in># fst (snd c1). surely I Q t) \<or> (\<exists>(l, s) \<in> set tr. Q l)" by simp
  with runs_step.hyps(2) runs_step.prems show ?case
  proof (induction rule: pool_step.induct)
    case (pool_call f s t s' ps l ts)
    have "Q l \<or> surely I Q t" if "surely I Q (Call l f)"
      using that pool_call.hyps pool_call.prems(1) by simp (metis fst_conv)
    with pool_call.prems show ?case by auto
  qed auto
qed simp

end
