(* ===== verification/Kube_Nodes.thy ===== *)
theory Kube_Nodes
  imports Tasks Service_Controller
begin

text \<open>
  Kubernetes nodes as the two node controllers of k8s.io/cloud-provider handle them: the calls of the API for nodes, the conflicts
  on which an update is tried again, and the helpers that change the taints of a node.
\<close>

section \<open>Nodes and their taints\<close>

text \<open>A node as the API server hands it out: with its annotations, its UID and its version.\<close>

record mNode =
  mn_node :: Node
  mn_Annotations :: smap
  mn_UID :: string
  mn_ResourceVersion :: string

abbreviation mn_taints :: "mNode \<Rightarrow> Taint list" where
  "mn_taints n \<equiv> node_Taints (mn_node n)"

definition with_taints :: "mNode \<Rightarrow> Taint list \<Rightarrow> mNode" where
  "with_taints n taints = n\<lparr>mn_node := (mn_node n)\<lparr>node_Taints := taints\<rparr>\<rparr>"

definition MatchTaint :: "Taint \<Rightarrow> Taint \<Rightarrow> bool" where
  "MatchTaint t taintToMatch \<longleftrightarrow> taint_Key t = taint_Key taintToMatch \<and> taint_Effect t = taint_Effect taintToMatch"

definition taintExists :: "Taint list \<Rightarrow> Taint \<Rightarrow> bool" where
  "taintExists taints taintToFind = list_ex (\<lambda>taint. MatchTaint taint taintToFind) taints"

definition deleteTaint :: "Taint list \<Rightarrow> Taint \<Rightarrow> Taint list \<times> bool" where
  "deleteTaint taints taintToDelete =
     (filter (\<lambda>taint. \<not> MatchTaint taintToDelete taint) taints, list_ex (MatchTaint taintToDelete) taints)"

definition removeTaint :: "mNode \<Rightarrow> Taint \<Rightarrow> mNode \<times> bool" where
  "removeTaint node taint =
     (if length (mn_taints node) = 0 then (node, False)
      else if \<not> taintExists (mn_taints node) taint then (node, False)
      else let (newTaints, _) = deleteTaint (mn_taints node) taint in (with_taints node newTaints, True))"

text \<open>The loop over the taints returns early, without a new list, when the taint is found as it should be.\<close>

fun addOrUpdateTaint_loop :: "Taint \<Rightarrow> Taint list \<Rightarrow> bool \<Rightarrow> Taint list \<Rightarrow> Taint list option" where
  "addOrUpdateTaint_loop taint newTaints updated [] = Some (if updated then newTaints else newTaints @ [taint])"
| "addOrUpdateTaint_loop taint newTaints updated (nodeTaint # nodeTaints) =
     (if MatchTaint taint nodeTaint then
        if taint = nodeTaint then None
        else addOrUpdateTaint_loop taint (newTaints @ [taint]) True nodeTaints
      else addOrUpdateTaint_loop taint (newTaints @ [nodeTaint]) updated nodeTaints)"

definition addOrUpdateTaint :: "mNode \<Rightarrow> Taint \<Rightarrow> mNode \<times> bool" where
  "addOrUpdateTaint node taint =
     (case addOrUpdateTaint_loop taint [] False (mn_taints node) of
        None \<Rightarrow> (node, False)
      | Some newTaints \<Rightarrow> (with_taints node newTaints, True))"

section \<open>Calls and conflicts\<close>

text \<open>
  The calls of the Kubernetes API: reading a node at a version, the update of a node, the patch of a node, or
  of its status, into another, and deletion.
\<close>

record 'w nodeClient =
  Nodes_Get :: "string \<Rightarrow> string \<Rightarrow> 'w \<Rightarrow> (error + mNode) \<times> 'w"
  Nodes_Update :: "mNode \<Rightarrow> 'w \<Rightarrow> error option \<times> 'w"
  Nodes_Patch :: "string \<Rightarrow> mNode \<Rightarrow> mNode \<Rightarrow> 'w \<Rightarrow> error option \<times> 'w"
  Nodes_PatchStatus :: "string \<Rightarrow> mNode \<Rightarrow> mNode \<Rightarrow> 'w \<Rightarrow> error option \<times> 'w"
  Nodes_Delete :: "string \<Rightarrow> 'w \<Rightarrow> error option \<times> 'w"

definition IsConflict :: "error \<Rightarrow> bool" where
  "IsConflict e =
     (case as_APIStatus e of
        None \<Rightarrow> False
      | Some (reason, code) \<Rightarrow> reason = ''Conflict'' \<or> reason \<notin> set knownReasons \<and> code = 409)"

definition RetryOnConflict :: "nat \<Rightarrow> (bool \<Rightarrow> ('l, 's) attempted) \<Rightarrow> ('l, 's) attempted" where
  "RetryOnConflict steps fn = OnError steps IsConflict fn"

section \<open>Adding and removing a taint\<close>

lemma MatchTaint_sym: "MatchTaint t u \<longleftrightarrow> MatchTaint u t"
  by (auto simp: MatchTaint_def)

lemma MatchTaint_refl [simp]: "MatchTaint t t"
  by (simp add: MatchTaint_def)

definition others :: "Taint \<Rightarrow> Taint list \<Rightarrow> Taint list" where
  "others t taints = filter (\<lambda>u. \<not> MatchTaint t u) taints"

lemma others_simps [simp]:
  "others t [] = []" "others t (xs @ ys) = others t xs @ others t ys"
  "others t (u # us) = (if MatchTaint t u then others t us else u # others t us)"
  "others t (others t us) = others t us"
  by (simp_all add: others_def)

lemma with_taints_simps [simp]:
  "mn_taints (with_taints n ts) = ts" "with_taints (with_taints n ts) us = with_taints n us" "with_taints n (mn_taints n) = n"
  by (simp_all add: with_taints_def)

lemma taintExists_set: "taintExists taints t \<longleftrightarrow> (\<exists>u \<in> set taints. MatchTaint t u)"
  by (auto simp: taintExists_def list_ex_iff MatchTaint_sym)

lemma addOrUpdateTaint_loop_Some:
  "addOrUpdateTaint_loop t acc updated taints = Some newTaints \<Longrightarrow> (updated \<Longrightarrow> t \<in> set acc) \<Longrightarrow>
   others t newTaints = others t (acc @ taints) \<and> t \<in> set newTaints"
  by (induction t acc updated taints rule: addOrUpdateTaint_loop.induct) (auto split: if_splits)

lemma addOrUpdateTaint_loop_None: "addOrUpdateTaint_loop t acc updated taints = None \<Longrightarrow> t \<in> set taints"
  by (induction t acc updated taints rule: addOrUpdateTaint_loop.induct) (auto split: if_splits)

lemma addOrUpdateTaint_cases:
  assumes "addOrUpdateTaint node t = (node', updated)"
  shows "t \<in> set (mn_taints node') \<and> others t (mn_taints node') = others t (mn_taints node) \<and>
    node' = with_taints node (mn_taints node') \<and> (\<not> updated \<longrightarrow> node' = node)"
  using assms addOrUpdateTaint_loop_None [of t "[]" False] addOrUpdateTaint_loop_Some [of t "[]" False]
  by (auto simp: addOrUpdateTaint_def split: option.splits)

lemma removeTaint_cases:
  assumes "removeTaint node t = (node', updated)"
  shows "mn_taints node' = others t (mn_taints node) \<and> node' = with_taints node (mn_taints node') \<and>
    (updated \<longleftrightarrow> taintExists (mn_taints node) t)"
proof (cases "taintExists (mn_taints node) t")
  case False
  then have "others t (mn_taints node) = mn_taints node"
    by (auto simp: others_def taintExists_set filter_id_conv)
  with False assms show ?thesis by (auto simp: removeTaint_def split: if_splits) (metis with_taints_simps(3))
next
  case True
  then have "mn_taints node \<noteq> []" by (auto simp: taintExists_set)
  with True assms show ?thesis by (auto simp: removeTaint_def deleteTaint_def others_def)
qed

lemma others_not_tainted: "\<not> taintExists (others t taints) t"
  by (auto simp: taintExists_set others_def)

lemma addOrUpdateTaint_loop_only:
  "addOrUpdateTaint_loop t acc updated taints = Some newTaints \<Longrightarrow> \<forall>u \<in> set acc. MatchTaint t u \<longrightarrow> u = t \<Longrightarrow>
   \<forall>u \<in> set newTaints. MatchTaint t u \<longrightarrow> u = t"
  by (induction t acc updated taints rule: addOrUpdateTaint_loop.induct) (auto split: if_splits)

lemma addOrUpdateTaint_loop_present:
  "t \<in> set taints \<Longrightarrow> \<forall>u \<in> set taints. MatchTaint t u \<longrightarrow> u = t \<Longrightarrow> addOrUpdateTaint_loop t acc updated taints = None"
  by (induction t acc updated taints rule: addOrUpdateTaint_loop.induct) auto

lemma addOrUpdateTaint_idem: "\<not> snd (addOrUpdateTaint (fst (addOrUpdateTaint node t)) t)"
proof (cases "addOrUpdateTaint_loop t [] False (mn_taints node)")
  case None
  then show ?thesis by (simp add: addOrUpdateTaint_def)
next
  case (Some newTaints)
  from addOrUpdateTaint_loop_Some [OF this] addOrUpdateTaint_loop_only [OF this]
  have "addOrUpdateTaint_loop t [] False newTaints = None" by (intro addOrUpdateTaint_loop_present) auto
  with Some show ?thesis by (simp add: addOrUpdateTaint_def)
qed

text \<open>
  Adding a taint to a node and removing it again gives back the node: both are idempotent, the second call finds
  nothing to update, and a node that did not have the taint is the same after both.
\<close>

theorem taint_roundtrip:
  "\<not> snd (addOrUpdateTaint (fst (addOrUpdateTaint node t)) t) \<and> \<not> snd (removeTaint (fst (removeTaint node t)) t) \<and>
   (\<not> taintExists (mn_taints node) t \<longrightarrow> removeTaint (fst (addOrUpdateTaint node t)) t = (node, True))"
proof (intro conjI impI)
  show "\<not> snd (addOrUpdateTaint (fst (addOrUpdateTaint node t)) t)" by (rule addOrUpdateTaint_idem)
  obtain node1 b1 where rm: "removeTaint node t = (node1, b1)" by fastforce
  obtain node2 b2 where rm2: "removeTaint node1 t = (node2, b2)" by fastforce
  from removeTaint_cases [OF rm] removeTaint_cases [OF rm2] rm rm2
  show "\<not> snd (removeTaint (fst (removeTaint node t)) t)" by (simp add: others_not_tainted)
  assume fresh: "\<not> taintExists (mn_taints node) t"
  then have "others t (mn_taints node) = mn_taints node" by (auto simp: others_def taintExists_set filter_id_conv)
  obtain node3 b3 where add: "addOrUpdateTaint node t = (node3, b3)" by fastforce
  obtain node4 b4 where rm3: "removeTaint node3 t = (node4, b4)" by fastforce
  from addOrUpdateTaint_cases [OF add] have "t \<in> set (mn_taints node3)"
    "others t (mn_taints node3) = mn_taints node" "node3 = with_taints node (mn_taints node3)"
    using \<open>others t (mn_taints node) = mn_taints node\<close> by simp_all
  moreover from this have "taintExists (mn_taints node3) t" using taintExists_set MatchTaint_refl by blast
  ultimately have "node4 = node" "b4" using removeTaint_cases [OF rm3] by (metis with_taints_simps(2,3), blast)
  with add rm3 show "removeTaint (fst (addOrUpdateTaint node t)) t = (node, True)" by simp
qed

definition example_mNode :: mNode where
  "example_mNode = \<lparr>mn_node = tainted_node, mn_Annotations = [], mn_UID = ''u1'', mn_ResourceVersion = ''7''\<rparr>"

definition example_taint :: Taint where
  "example_taint = \<lparr>taint_Key = ''example.com/drain'', taint_Value = ''soon'', taint_Effect = ''NoExecute'', taint_TimeAdded = None\<rparr>"

theorem taint_roundtrip_witness:
  "removeTaint (fst (addOrUpdateTaint example_mNode example_taint)) example_taint = (example_mNode, True)"
proof -
  have "\<not> taintExists (mn_taints example_mNode) example_taint" by code_simp
  with taint_roundtrip show ?thesis by blast
qed

end
