(* ===== verification/Node_Lifecycle.thy ===== *)
theory Node_Lifecycle
  imports Kube_Nodes Cloud
begin

text \<open>
  The node lifecycle controller of k8s.io/cloud-provider, which acts on what the instances interface of the provider
  answers: it deletes the Kubernetes nodes whose droplets are gone and taints those whose droplets are
  off. The nodes of a round are worked on by concurrent workers; the controller is a state machine whose steps are the
  calls they make.
\<close>

section \<open>State and calls\<close>

definition ShutdownTaint :: Taint where
  "ShutdownTaint = \<lparr>taint_Key = ''node.cloudprovider.kubernetes.io/shutdown'', taint_Value = '''',
     taint_Effect = ''NoSchedule'', taint_TimeAdded = None\<rparr>"

record 'w lifecycle =
  lc_kubeClient :: "'w nodeClient"
  lc_nodeLister :: "'w \<Rightarrow> mNode list outcome"
  lc_cloud :: "'w cloud"
  lc_nodeMonitorPeriod :: int
  lc_concurrentNodeLifecycleSyncs :: int

text \<open>The events recorded so far, the counter vector of the provider calls, and the outside world.\<close>

record 'w lcState =
  lcs_events :: "Event list"
  lcs_providerCalls :: "(string \<times> string) multiset"
  lcs_world :: 'w

datatype action =
    ListNodes
  | LookUp mNode
  | LookUpShutdown mNode
  | GetNode string string
  | PatchNode string mNode mNode
  | DeleteNode string

type_synonym 'w lc_task = "(action, 'w lcState) task"

definition in_world :: "('w \<Rightarrow> 'r \<times> 'w) \<Rightarrow> 'w lcState \<Rightarrow> 'r \<times> 'w lcState" where
  "in_world m s = (case m (lcs_world s) of (r, w') \<Rightarrow> (r, s\<lparr>lcs_world := w'\<rparr>))"

definition NewCloudNodeLifecycleController ::
    "('w \<Rightarrow> mNode list outcome) \<Rightarrow> 'w nodeClient option \<Rightarrow> 'w cloud option \<Rightarrow> int \<Rightarrow> int \<Rightarrow> 'w lifecycle outcome" where
  "NewCloudNodeLifecycleController nodeLister kubeClient cloud nodeMonitorPeriod concurrentNodeLifecycleSyncs =
     (case kubeClient of
        None \<Rightarrow> Err (NewError ''kubernetes client is nil'')
      | Some kube \<Rightarrow>
     (case cloud of
        None \<Rightarrow> Err (NewError ''no cloud provider provided'')
      | Some c \<Rightarrow>
          let (_, instancesSupported) = Instances c; (_, instancesV2Supported) = InstancesV2 c in
          if \<not> instancesSupported \<and> \<not> instancesV2Supported
          then Err (NewError ''cloud provider does not support instances'')
          else if concurrentNodeLifecycleSyncs < 1
          then Err (NewError (''concurrentNodeLifecycleSyncs must be >= 1, got '' @ Itoa concurrentNodeLifecycleSyncs))
          else Ok \<lparr>lc_kubeClient = kube, lc_nodeLister = nodeLister, lc_cloud = c,
                   lc_nodeMonitorPeriod = nodeMonitorPeriod,
                   lc_concurrentNodeLifecycleSyncs = concurrentNodeLifecycleSyncs\<rparr>))"

section \<open>Changing the taints of a node\<close>

definition updateTaintBackoff_Steps :: nat where
  "updateTaintBackoff_Steps = 5"

text \<open>The version is left out of the node before, so that the patch sets it and the API server can see a conflict.\<close>

definition PatchNodeTaints :: "'w nodeClient \<Rightarrow> string \<Rightarrow> mNode \<Rightarrow> mNode \<Rightarrow> (action, 'w lcState) attempted" where
  "PatchNodeTaints c nodeName oldNode newNode ret =
     (let oldNodeNoRV = oldNode\<lparr>mn_ResourceVersion := ''''\<rparr>;
          newNodeClone = with_taints oldNode (mn_taints newNode) in
      call (PatchNode nodeName oldNodeNoRV newNodeClone)
        (in_world (Nodes_Patch c nodeName oldNodeNoRV newNodeClone)) ret)"

text \<open>One try of either function: \<open>change\<close> adds or removes one taint.\<close>

definition tryTaints ::
    "(mNode \<Rightarrow> Taint \<Rightarrow> mNode \<times> bool) \<Rightarrow> 'w nodeClient \<Rightarrow> string \<Rightarrow> Taint list \<Rightarrow> bool \<Rightarrow> (action, 'w lcState) attempted" where
  "tryTaints change c nodeName taints firstTry ret =
     (let resourceVersion = (if firstTry then ''0'' else '''') in
      call (GetNode nodeName resourceVersion) (in_world (Nodes_Get c nodeName resourceVersion)) (\<lambda>got.
        case got of
          Inl e \<Rightarrow> ret (Some e)
        | Inr oldNode \<Rightarrow>
            let (newNode, updated) =
              fold (\<lambda>taint (node, updated). let (curNewNode, ok) = change node taint in (curNewNode, updated \<or> ok))
                taints (oldNode, False) in
            if \<not> updated then ret None else PatchNodeTaints c nodeName oldNode newNode ret))"

definition AddOrUpdateTaintOnNode :: "'w nodeClient \<Rightarrow> string \<Rightarrow> Taint list \<Rightarrow> (action, 'w lcState) attempted" where
  "AddOrUpdateTaintOnNode c nodeName taints ret =
     (if length taints = 0 then ret None
      else RetryOnConflict updateTaintBackoff_Steps (tryTaints addOrUpdateTaint c nodeName taints) ret)"

definition RemoveTaintOffNode ::
    "'w nodeClient \<Rightarrow> string \<Rightarrow> mNode option \<Rightarrow> Taint list \<Rightarrow> (action, 'w lcState) attempted" where
  "RemoveTaintOffNode c nodeName node taints ret =
     (if length taints = 0 then ret None
      else if (case node of None \<Rightarrow> False | Some n \<Rightarrow> \<not> list_ex (taintExists (mn_taints n)) taints) then ret None
      else RetryOnConflict updateTaintBackoff_Steps (tryTaints removeTaint c nodeName taints) ret)"

section \<open>Asking the provider\<close>

definition observeInstanceOp :: "string \<Rightarrow> error option \<Rightarrow> 'w lcState \<Rightarrow> 'w lcState" where
  "observeInstanceOp operation err s =
     (let result =
        (case err of
           None \<Rightarrow> ''success''
         | Some e \<Rightarrow>
             if errors_Is e NotImplemented then ''not_implemented''
             else if errors_Is e InstanceNotFound then ''instance_not_found''
             else if errors_Is e Canceled then ''canceled''
             else ''error'') in
      s\<lparr>lcs_providerCalls := add_mset (operation, result) (lcs_providerCalls s)\<rparr>)"

text \<open>
  The provider supports the second version of the instances interface only: what the controller does with an implementation of
  the first is left out.
\<close>

definition ensureNodeExistsByProviderID :: "'w lifecycle \<Rightarrow> mNode \<Rightarrow> ('w lcState, bool) cmd" where
  "ensureNodeExistsByProviderID lc node = (\<lambda>s.
     case InstancesV2 (lc_cloud lc) of
       (instanceV2, ok) \<Rightarrow>
         if ok then
           (case in_world (InstanceExists (r_gclient (inst_resources instanceV2)) (mn_node node)) s of
              (Ok exists, s') \<Rightarrow>
                (Ok exists, observeInstanceOp ''instance_exists'' (if \<not> exists then Some InstanceNotFound else None) s')
            | (Err e, s') \<Rightarrow> (Err e, observeInstanceOp ''instance_exists'' (Some e) s')
            | (r, s') \<Rightarrow> (r, s'))
         else (Err (NewError ''instances interface not supported in the cloud provider''), s))"

definition shutdownInCloudProvider :: "'w lifecycle \<Rightarrow> mNode \<Rightarrow> ('w lcState, bool) cmd" where
  "shutdownInCloudProvider lc node = (\<lambda>s.
     case InstancesV2 (lc_cloud lc) of
       (instanceV2, ok) \<Rightarrow>
         if ok then
           (case in_world (InstanceShutdown (r_gclient (inst_resources instanceV2)) (mn_node node)) s of
              (Ok shutdown, s') \<Rightarrow> (Ok shutdown, observeInstanceOp ''instance_shutdown'' None s')
            | (Err e, s') \<Rightarrow> (Err e, observeInstanceOp ''instance_shutdown'' (Some e) s')
            | (r, s') \<Rightarrow> (r, s'))
         else (Err (NewError ''cloud provider does not support instances''), s))"

section \<open>One node\<close>

definition GetNodeCondition :: "Node \<Rightarrow> string \<Rightarrow> NodeCondition option" where
  "GetNodeCondition node conditionType = find (\<lambda>c. nc_Type c = conditionType) (node_Conditions node)"

definition readyStatus :: "mNode \<Rightarrow> string" where
  "readyStatus node = (case GetNodeCondition (mn_node node) ''Ready'' of None \<Rightarrow> ''Unknown'' | Some c \<Rightarrow> nc_Status c)"

definition lc_event :: "mNode \<Rightarrow> string \<Rightarrow> string \<Rightarrow> string \<Rightarrow> 'w lcState \<Rightarrow> 'w lcState" where
  "lc_event node evType reason msg s = s\<lparr>lcs_events := lcs_events s @
     [\<lparr>ev_Namespace = '''', ev_Name = node_Name (mn_node node), ev_UID = mn_UID node, ev_Type = evType,
       ev_Reason = reason, ev_Message = msg\<rparr>]\<rparr>"

definition deleteNode :: "'w lifecycle \<Rightarrow> mNode \<Rightarrow> 'w lcState \<Rightarrow> unit \<times> 'w lcState" where
  "deleteNode lc node s =
     (let name = node_Name (mn_node node);
          s1 = lc_event node ''Normal'' ''DeletingNode''
                 (''Deleting node '' @ name @ '' because it does not exist in the cloud provider'') s in
      case in_world (Nodes_Delete (lc_kubeClient lc) name) s1 of
        (None, s2) \<Rightarrow> ((), s2)
      | (Some e, s2) \<Rightarrow>
          ((), lc_event node ''Warning'' ''DeletingNodeFailed'' (''Failed deleting node '' @ name @ '': '' @ error_text e) s2))"

definition processNode :: "'w lifecycle \<Rightarrow> mNode \<Rightarrow> 'w lc_task" where
  "processNode lc node =
     (let name = node_Name (mn_node node) in
      if readyStatus node = ''True''
      then RemoveTaintOffNode (lc_kubeClient lc) name (Some node) [ShutdownTaint] (\<lambda>_. return_task)
      else call (LookUp node) (ensureNodeExistsByProviderID lc node) (\<lambda>exists.
        case exists of
          Err e \<Rightarrow> return_task
        | Panic p \<Rightarrow> Halt (Panic p)
        | OutOfFuel \<Rightarrow> Halt OutOfFuel
        | Ok exists \<Rightarrow>
            if \<not> exists then call (DeleteNode name) (deleteNode lc node) (\<lambda>_. return_task)
            else call (LookUpShutdown node) (shutdownInCloudProvider lc node) (\<lambda>shutdown.
              case shutdown of
                Err e \<Rightarrow> return_task
              | Panic p \<Rightarrow> Halt (Panic p)
              | OutOfFuel \<Rightarrow> Halt OutOfFuel
              | Ok shutdown \<Rightarrow>
                  if shutdown
                  then AddOrUpdateTaintOnNode (lc_kubeClient lc) name [ShutdownTaint] (\<lambda>_. return_task)
                  else return_task)))"

section \<open>Rounds\<close>

text \<open>
  A round lists the nodes from the informer's copy and works on them in the pool; a listing that fails ends
  the round. The next round starts when all workers have returned. The world, through \<open>env\<close>, may move at any time.
\<close>

type_synonym 'w lcPool = "(mNode, action, 'w lcState) pool"

inductive lc_step ::
    "'w lifecycle \<Rightarrow> bool \<Rightarrow> ('w lcState \<Rightarrow> 'w lcState \<Rightarrow> bool) \<Rightarrow>
     'w lcPool \<Rightarrow> (action \<times> 'w lcState) option \<Rightarrow> 'w lcPool \<Rightarrow> bool"
  for lc :: "'w lifecycle" and cancelled :: bool and env where
  lc_list: "lc_nodeLister lc (lcs_world s) = Ok nodes \<Longrightarrow>
    lc_step lc cancelled env ([], {#}, s) (Some (ListNodes, s)) (nodes, {#}, s)"
| lc_list_error: "lc_nodeLister lc (lcs_world s) = Err e \<Longrightarrow>
    lc_step lc cancelled env ([], {#}, s) (Some (ListNodes, s)) ([], {#}, s)"
| lc_pool: "pool_step (processNode lc) (nat (lc_concurrentNodeLifecycleSyncs lc)) cancelled env c a c' \<Longrightarrow>
    lc_step lc cancelled env c a c'"

section \<open>What the provider's answers mean\<close>

abbreviation lc_client :: "'w lifecycle \<Rightarrow> 'w client" where
  "lc_client lc \<equiv> r_gclient (inst_resources (c_instances (lc_cloud lc)))"

text \<open>The API answered 404, or with a droplet that is off, for the droplet in the node's provider ID.\<close>

definition answered_gone :: "'w lifecycle \<Rightarrow> mNode \<Rightarrow> 'w lcState \<Rightarrow> bool" where
  "answered_gone lc node s \<longleftrightarrow>
     (\<exists>dropletID d resp msg w'. dropletIDFromProviderID (node_ProviderID (mn_node node)) = Ok dropletID \<and>
        Droplets_Get (lc_client lc) dropletID (lcs_world s) = ((d, resp, Some (ErrorResponse StatusNotFound msg)), w'))"

definition answered_off :: "'w lifecycle \<Rightarrow> mNode \<Rightarrow> 'w lcState \<Rightarrow> bool" where
  "answered_off lc node s \<longleftrightarrow>
     (\<exists>dropletID d resp w'. dropletIDFromProviderID (node_ProviderID (mn_node node)) = Ok dropletID \<and>
        Droplets_Get (lc_client lc) dropletID (lcs_world s) = ((Some d, resp, None), w') \<and>
        droplet_Status d = dropletShutdownStatus)"

lemma ensureNodeExists_gone: "ensureNodeExistsByProviderID lc node s = (Ok False, s') \<Longrightarrow> answered_gone lc node s"
  by (auto simp: ensureNodeExistsByProviderID_def InstancesV2_def in_world_def answered_gone_def InstanceExists_False
      split: prod.splits outcome.splits)

lemma gone_not_exists: "answered_gone lc node s \<Longrightarrow> \<exists>s'. ensureNodeExistsByProviderID lc node s = (Ok False, s')"
  by (auto simp: ensureNodeExistsByProviderID_def InstancesV2_def in_world_def answered_gone_def InstanceExists_run)

lemma shutdown_answered_off: "shutdownInCloudProvider lc node s = (Ok True, s') \<Longrightarrow> answered_off lc node s"
  by (auto simp: shutdownInCloudProvider_def InstancesV2_def in_world_def answered_off_def
      split: prod.splits outcome.splits dest!: InstanceShutdown_True)

lemma provider_returns:
  "ensureNodeExistsByProviderID lc node s \<noteq> (Panic p, s')" "ensureNodeExistsByProviderID lc node s \<noteq> (OutOfFuel, s')"
  "shutdownInCloudProvider lc node s \<noteq> (Panic p, s')" "shutdownInCloudProvider lc node s \<noteq> (OutOfFuel, s')"
  by (auto simp: ensureNodeExistsByProviderID_def shutdownInCloudProvider_def InstancesV2_def in_world_def
      InstanceExists_returns InstanceShutdown_returns split: prod.splits outcome.splits)

section \<open>What a call of the controller rests on\<close>

type_synonym 'w lcHistory = "(action \<times> 'w lcState) set"

definition listed :: "'w lifecycle \<Rightarrow> 'w lcHistory \<Rightarrow> mNode \<Rightarrow> bool" where
  "listed lc H node \<longleftrightarrow>
     (\<exists>s nodes. (ListNodes, s) \<in> H \<and> lc_nodeLister lc (lcs_world s) = Ok nodes \<and> node \<in> set nodes)"

definition looked_up_gone :: "'w lifecycle \<Rightarrow> 'w lcHistory \<Rightarrow> mNode \<Rightarrow> bool" where
  "looked_up_gone lc H node \<longleftrightarrow> (\<exists>s. (LookUp node, s) \<in> H \<and> answered_gone lc node s)"

definition looked_up_off :: "'w lifecycle \<Rightarrow> 'w lcHistory \<Rightarrow> mNode \<Rightarrow> bool" where
  "looked_up_off lc H node \<longleftrightarrow> (\<exists>s. (LookUpShutdown node, s) \<in> H \<and> answered_off lc node s)"

definition fetched :: "'w lifecycle \<Rightarrow> 'w lcHistory \<Rightarrow> string \<Rightarrow> mNode \<Rightarrow> bool" where
  "fetched lc H name node \<longleftrightarrow>
     (\<exists>s resourceVersion w'. (GetNode name resourceVersion, s) \<in> H \<and>
        Nodes_Get (lc_kubeClient lc) name resourceVersion (lcs_world s) = (Inr node, w'))"

lemma looked_up_offI: "answered_off lc node s \<Longrightarrow> (LookUpShutdown node, s) \<in> H \<Longrightarrow> looked_up_off lc H node"
  by (auto simp: looked_up_off_def)

lemma fetchedI:
  "(GetNode name resourceVersion, s) \<in> H \<Longrightarrow>
   Nodes_Get (lc_kubeClient lc) name resourceVersion (lcs_world s) = (Inr node, w') \<Longrightarrow> fetched lc H name node"
  by (auto simp: fetched_def)

definition deletion_grounds :: "'w lifecycle \<Rightarrow> 'w lcHistory \<Rightarrow> string \<Rightarrow> bool" where
  "deletion_grounds lc H name \<longleftrightarrow>
     (\<exists>node. node_Name (mn_node node) = name \<and> listed lc H node \<and> readyStatus node \<noteq> ''True'' \<and> looked_up_gone lc H node)"

definition patch_grounds :: "'w lifecycle \<Rightarrow> 'w lcHistory \<Rightarrow> string \<Rightarrow> mNode \<Rightarrow> mNode \<Rightarrow> bool" where
  "patch_grounds lc H name old new \<longleftrightarrow>
     (\<exists>node current taints. node_Name (mn_node node) = name \<and> listed lc H node \<and> fetched lc H name current \<and>
        old = current\<lparr>mn_ResourceVersion := ''''\<rparr> \<and> new = with_taints current taints \<and>
        others ShutdownTaint taints = others ShutdownTaint (mn_taints current) \<and>
        (if readyStatus node = ''True'' then \<not> taintExists taints ShutdownTaint
         else ShutdownTaint \<in> set taints \<and> looked_up_off lc H node))"

lemmas grounds_defs = deletion_grounds_def patch_grounds_def listed_def looked_up_gone_def looked_up_off_def fetched_def

definition lc_policy :: "'w lifecycle \<Rightarrow> 'w lcHistory \<Rightarrow> action \<Rightarrow> 'w lcState \<Rightarrow> bool" where
  "lc_policy lc H l s =
     (case l of
        DeleteNode name \<Rightarrow> deletion_grounds lc H name
      | PatchNode name old new \<Rightarrow> patch_grounds lc H name old new
      | _ \<Rightarrow> True)"

lemma grounds_mono:
  assumes "H \<subseteq> H'"
  shows "listed lc H node \<Longrightarrow> listed lc H' node" "looked_up_gone lc H node \<Longrightarrow> looked_up_gone lc H' node"
    "looked_up_off lc H node \<Longrightarrow> looked_up_off lc H' node" "fetched lc H name node \<Longrightarrow> fetched lc H' name node"
  using assms unfolding listed_def looked_up_gone_def looked_up_off_def fetched_def by blast+

lemma deletion_grounds_mono: "deletion_grounds lc H name \<Longrightarrow> H \<subseteq> H' \<Longrightarrow> deletion_grounds lc H' name"
  unfolding deletion_grounds_def by (blast intro: grounds_mono)

lemma patch_grounds_mono: "patch_grounds lc H name old new \<Longrightarrow> H \<subseteq> H' \<Longrightarrow> patch_grounds lc H' name old new"
  unfolding patch_grounds_def by (auto intro: grounds_mono dest: grounds_mono) (metis grounds_mono)+

interpretation lcp: call_policy "lc_policy lc" for lc :: "'w lifecycle"
  by unfold_locales (auto simp: lc_policy_def dest: deletion_grounds_mono patch_grounds_mono split: action.splits)

section \<open>Every call has its grounds\<close>

lemma obeys_PatchNodeTaints:
  assumes "listed lc H node" and "fetched lc H (node_Name (mn_node node)) old"
    and "others ShutdownTaint (mn_taints new) = others ShutdownTaint (mn_taints old)"
    and "if readyStatus node = ''True'' then \<not> taintExists (mn_taints new) ShutdownTaint
         else ShutdownTaint \<in> set (mn_taints new) \<and> looked_up_off lc H node"
    and "\<And>e. obeys (lc_policy lc) H (ret e)"
  shows "obeys (lc_policy lc) H (PatchNodeTaints (lc_kubeClient lc) (node_Name (mn_node node)) old new ret)"
  unfolding PatchNodeTaints_def Let_def
proof (rule obeys_call)
  show "lc_policy lc H (PatchNode (node_Name (mn_node node)) (old\<lparr>mn_ResourceVersion := ''''\<rparr>)
      (with_taints old (mn_taints new))) s" for s
    unfolding lc_policy_def action.case patch_grounds_def using assms(1-4) by blast
qed (rule lcp.obeys_then [OF assms(5)])

text \<open>
  Both functions that change taints: what they make of a fetched node, and what is known of the node when
  they are called, are the grounds for the patch.
\<close>

lemma obeys_tryTaints:
  assumes "listed lc H node"
    and change: "\<And>old new. change old ShutdownTaint = (new, True) \<Longrightarrow>
      others ShutdownTaint (mn_taints new) = others ShutdownTaint (mn_taints old) \<and>
      (if readyStatus node = ''True'' then \<not> taintExists (mn_taints new) ShutdownTaint
       else ShutdownTaint \<in> set (mn_taints new) \<and> looked_up_off lc H node)"
    and ret: "\<And>e. obeys (lc_policy lc) H (ret e)"
  shows "obeys (lc_policy lc) H (tryTaints change (lc_kubeClient lc) (node_Name (mn_node node)) [ShutdownTaint] b ret)"
  unfolding tryTaints_def Let_def
proof (rule obeys_call, simp add: lc_policy_def, split sum.split, intro conjI allI impI)
  fix s r s' e
  let ?H = "insert (GetNode (node_Name (mn_node node)) (if b then ''0'' else ''''), s) H"
  show "obeys (lc_policy lc) ?H (ret (Some e))" by (rule lcp.obeys_then [OF ret])
  fix old
  assume "in_world (Nodes_Get (lc_kubeClient lc) (node_Name (mn_node node)) (if b then ''0'' else '''')) s = (r, s')"
    and "r = Inr old"
  then obtain w' where "Nodes_Get (lc_kubeClient lc) (node_Name (mn_node node)) (if b then ''0'' else '''') (lcs_world s) =
      (Inr old, w')"
    by (cases "Nodes_Get (lc_kubeClient lc) (node_Name (mn_node node)) (if b then ''0'' else '''') (lcs_world s)")
      (simp add: in_world_def)
  from fetchedI [OF insertI1 this] have got: "fetched lc ?H (node_Name (mn_node node)) old" .
  obtain new updated where new: "change old ShutdownTaint = (new, updated)" by fastforce
  have more: "H \<subseteq> ?H" by blast
  show "obeys (lc_policy lc) ?H (case fold (\<lambda>taint (node, updated). case change node taint of (curNewNode, ok) \<Rightarrow>
      (curNewNode, updated \<or> ok)) [ShutdownTaint] (old, False) of (newNode, updated) \<Rightarrow>
      if \<not> updated then ret None else PatchNodeTaints (lc_kubeClient lc) (node_Name (mn_node node)) old newNode ret)"
  proof (cases updated)
    case True
    with change [of old new] new have "others ShutdownTaint (mn_taints new) = others ShutdownTaint (mn_taints old)"
      "if readyStatus node = ''True'' then \<not> taintExists (mn_taints new) ShutdownTaint
       else ShutdownTaint \<in> set (mn_taints new) \<and> looked_up_off lc ?H node"
      using grounds_mono(3) [OF more, of lc node] by auto
    from obeys_PatchNodeTaints [OF grounds_mono(1) [OF more assms(1)] got this lcp.obeys_then [OF ret]] new True
    show ?thesis by simp
  next
    case False
    with new lcp.obeys_then [OF ret] show ?thesis by simp
  qed
qed

lemma obeys_processNode:
  assumes "listed lc H node"
  shows "obeys (lc_policy lc) H (processNode lc node)"
proof (cases "readyStatus node = ''True''")
  case True
  have "obeys (lc_policy lc) H (RetryOnConflict n (tryTaints removeTaint (lc_kubeClient lc) (node_Name (mn_node node))
      [ShutdownTaint]) (\<lambda>_. return_task))" for n
    unfolding RetryOnConflict_def
    by (rule OnError_rule, rule obeys_tryTaints [OF assms])
      (auto simp: True others_not_tainted dest!: removeTaint_cases)
  with True show ?thesis by (simp add: processNode_def RemoveTaintOffNode_def)
next
  case False
  have add: "obeys (lc_policy lc) H' (RetryOnConflict n (tryTaints addOrUpdateTaint (lc_kubeClient lc)
      (node_Name (mn_node node)) [ShutdownTaint]) (\<lambda>_. return_task))"
    if "looked_up_off lc H' node" "H \<subseteq> H'" for n H'
    unfolding RetryOnConflict_def
    by (rule OnError_rule, rule obeys_tryTaints [OF grounds_mono(1) [OF that(2) assms]])
      (auto simp: False that(1) dest!: addOrUpdateTaint_cases)
  have shutdown: "obeys (lc_policy lc) H' (case r of Err e \<Rightarrow> return_task | Panic p \<Rightarrow> Halt (Panic p)
      | OutOfFuel \<Rightarrow> Halt OutOfFuel | Ok shutdown \<Rightarrow> if shutdown
        then AddOrUpdateTaintOnNode (lc_kubeClient lc) (node_Name (mn_node node)) [ShutdownTaint] (\<lambda>_. return_task)
        else return_task)"
    if "shutdownInCloudProvider lc node s = (r, s')" "(LookUpShutdown node, s) \<in> H'" "H \<subseteq> H'" for r s s' H'
    using that by (cases r) (auto simp: provider_returns AddOrUpdateTaintOnNode_def
        intro!: add looked_up_offI dest: shutdown_answered_off)
  have deletion: "obeys (lc_policy lc) H' (call (DeleteNode (node_Name (mn_node node))) (deleteNode lc node) (\<lambda>_. return_task))"
    if "ensureNodeExistsByProviderID lc node s = (Ok False, s')" "(LookUp node, s) \<in> H'" "H \<subseteq> H'" for s s' H'
    using that grounds_mono(1) [OF that(3) assms] False
    by (intro obeys_call) (auto simp: lc_policy_def deletion_grounds_def looked_up_gone_def dest: ensureNodeExists_gone)
  show ?thesis
    unfolding processNode_def Let_def if_not_P [OF False]
  proof (rule obeys_call, simp add: lc_policy_def)
    fix s r s'
    assume run: "ensureNodeExistsByProviderID lc node s = (r, s')"
    then show "obeys (lc_policy lc) (insert (LookUp node, s) H) (case r of Err e \<Rightarrow> return_task
        | Panic p \<Rightarrow> Halt (Panic p) | OutOfFuel \<Rightarrow> Halt OutOfFuel | Ok exists \<Rightarrow> if \<not> exists
          then call (DeleteNode (node_Name (mn_node node))) (deleteNode lc node) (\<lambda>_. return_task)
          else call (LookUpShutdown node) (shutdownInCloudProvider lc node) (\<lambda>r. case r of Err e \<Rightarrow> return_task
            | Panic p \<Rightarrow> Halt (Panic p) | OutOfFuel \<Rightarrow> Halt OutOfFuel | Ok shutdown \<Rightarrow> if shutdown
              then AddOrUpdateTaintOnNode (lc_kubeClient lc) (node_Name (mn_node node)) [ShutdownTaint] (\<lambda>_. return_task)
              else return_task))"
    proof (cases r)
      case (Ok exists)
      have "obeys (lc_policy lc) (insert (LookUp node, s) H)
          (call (LookUpShutdown node) (shutdownInCloudProvider lc node) (\<lambda>r. case r of Err e \<Rightarrow> return_task
            | Panic p \<Rightarrow> Halt (Panic p) | OutOfFuel \<Rightarrow> Halt OutOfFuel | Ok shutdown \<Rightarrow> if shutdown
              then AddOrUpdateTaintOnNode (lc_kubeClient lc) (node_Name (mn_node node)) [ShutdownTaint] (\<lambda>_. return_task)
              else return_task))"
        by (rule obeys_call) (auto simp: lc_policy_def intro: shutdown)
      with deletion [of s s' "insert (LookUp node, s) H"] Ok run show ?thesis by (cases exists) auto
    qed (use run in \<open>auto simp: provider_returns\<close>)
  qed
qed

lemma lc_policy_list: "lc_policy lc H ListNodes s"
  by (simp add: lc_policy_def)

lemma lc_runs_obey:
  assumes "runs (lc_step lc cancelled env) c tr c'" and "c = ([], {#}, s)"
  shows "respects_policy (lc_policy lc) tr \<and> obeying_pool (lc_policy lc) (processNode lc) (set tr) c'"
  using assms
proof (induction rule: runs.induct)
  case (runs_refl c)
  then show ?case by (simp add: obeying_pool_def)
next
  case (runs_step c tr c1 a c2)
  then have IH: "respects_policy (lc_policy lc) tr" "obeying_pool (lc_policy lc) (processNode lc) (set tr) c1" by simp_all
  from runs_step.hyps(2) IH show ?case
  proof (induction rule: lc_step.induct)
    case (lc_list s nodes)
    then have "listed lc (set (tr @ [(ListNodes, s)])) node" if "node \<in> set nodes" for node
      using that unfolding listed_def by auto
    from obeys_processNode [OF this] lc_list.prems show ?case
      by (simp add: obeying_pool_def lc_policy_list)
  next
    case (lc_list_error s e)
    then show ?case by (simp add: obeying_pool_def lc_policy_list)
  next
    case (lc_pool c a c')
    with lcp.pool_step_obeys [OF lc_pool.hyps lc_pool.prems(2)] show ?case by (cases a) auto
  qed
qed

lemma calls_within_tryTaints:
  "(\<And>e. calls_within m (ret e)) \<Longrightarrow> calls_within (2 + m) (tryTaints change c name taints b ret)"
  unfolding tryTaints_def PatchNodeTaints_def Let_def
  by (rule calls_within_call) (auto split: sum.split prod.split intro!: calls_within_call intro: calls_within_more [of m])

lemma calls_within_RetryOnConflict:
  "calls_within (2 * n) (RetryOnConflict n (tryTaints change c name taints) (\<lambda>_. return_task))"
  using calls_within_ExponentialBackoff [of 2 "tryTaints change c name taints" 0 "\<lambda>_. return_task" n, OF calls_within_tryTaints]
  by (simp add: RetryOnConflict_def OnError_def mult.commute)

lemma calls_within_processNode: "calls_within 12 (processNode lc node)"
proof -
  have retry: "calls_within n (RetryOnConflict updateTaintBackoff_Steps (tryTaints change c name taints) (\<lambda>_. return_task))"
    if "10 \<le> n" for n change c name taints
    using calls_within_more [OF calls_within_RetryOnConflict, of updateTaintBackoff_Steps n] that
    by (simp add: updateTaintBackoff_Steps_def)
  show ?thesis
    unfolding processNode_def RemoveTaintOffNode_def AddOrUpdateTaintOnNode_def Let_def
    by (simp add: retry) (auto intro!: calls_within_call retry split: outcome.split)
qed

lemma task_returns_RetryOnConflict: "task_returns (RetryOnConflict n (tryTaints change c name taints) (\<lambda>_. return_task))"
  unfolding RetryOnConflict_def tryTaints_def PatchNodeTaints_def Let_def
  by (rule OnError_rule) (auto split: sum.split prod.split intro!: task_returns_call)

lemma task_returns_processNode: "task_returns (processNode lc node)"
  unfolding processNode_def RemoveTaintOffNode_def AddOrUpdateTaintOnNode_def Let_def
  by (auto simp: task_returns_RetryOnConflict provider_returns split: outcome.split intro!: task_returns_call)

lemma surely_processNode:
  assumes "readyStatus node \<noteq> ''True''"
  shows "surely (\<lambda>l s. l = LookUp node \<longrightarrow> answered_gone lc node s) (\<lambda>l. l = DeleteNode (node_Name (mn_node node)))
    (processNode lc node)"
proof -
  have "surely I (\<lambda>l. l = DeleteNode name) (call (DeleteNode name) m k)" for I name m k
    by (simp add: call_def)
  with assms show ?thesis
    unfolding processNode_def Let_def if_not_P [OF assms]
    by (intro surely_call) (auto split: outcome.splits dest!: gone_not_exists)
qed

section \<open>Properties\<close>

text \<open>
  C7: In every run of the node lifecycle controller, however its workers interleave with each other and with the outside
  world, a Kubernetes node is deleted only if it was listed as not ready before, its droplet was looked up after, and the
  DigitalOcean API itself answered that look-up with 404. No other error of the API, no malformed provider ID
  and no switched-off droplet makes the controller delete a node.
\<close>

theorem lifecycle_deletes_only_gone:
  assumes "runs (lc_step lc cancelled env) ([], {#}, s0) tr c" and "tr = before @ (DeleteNode name, s) # after"
  shows "\<exists>node listing nodes lookup. node_Name (mn_node node) = name \<and> readyStatus node \<noteq> ''True'' \<and>
    (ListNodes, listing) \<in> set before \<and> lc_nodeLister lc (lcs_world listing) = Ok nodes \<and> node \<in> set nodes \<and>
    (LookUp node, lookup) \<in> set before \<and> answered_gone lc node lookup"
proof -
  from lc_runs_obey [OF assms(1) refl] assms(2) have "deletion_grounds lc (set before) name"
    unfolding respects_policy_def lc_policy_def by fastforce
  then show ?thesis unfolding grounds_defs by blast
qed

text \<open>
  C11: Whatever the interleaving, a patch that the controller sends for a node changes nothing of the node but its
  taints, and of these only the shutdown taint: all others stay, in their order. The taint is set only for a node that was not
  ready and whose droplet the API reported as off; it is removed only from a node listed as ready. The
  patch is based on a node fetched before, and leaves its version out of the old object, so that a
  concurrent change of the taints is a conflict.
\<close>

theorem lifecycle_patches_only_shutdown_taint:
  assumes "runs (lc_step lc cancelled env) ([], {#}, s0) tr c" and "tr = before @ (PatchNode name old new, s) # after"
  shows "\<exists>node current taints. node_Name (mn_node node) = name \<and> listed lc (set before) node \<and>
    fetched lc (set before) name current \<and> old = current\<lparr>mn_ResourceVersion := ''''\<rparr> \<and>
    new = current\<lparr>mn_node := (mn_node current)\<lparr>node_Taints := taints\<rparr>\<rparr> \<and>
    filter (\<lambda>t. \<not> MatchTaint ShutdownTaint t) taints = filter (\<lambda>t. \<not> MatchTaint ShutdownTaint t) (mn_taints current) \<and>
    (if readyStatus node = ''True'' then \<not> taintExists taints ShutdownTaint
     else ShutdownTaint \<in> set taints \<and> looked_up_off lc (set before) node)"
proof -
  from lc_runs_obey [OF assms(1) refl] assms(2) have "patch_grounds lc (set before) name old new"
    unfolding respects_policy_def lc_policy_def by fastforce
  then show ?thesis unfolding patch_grounds_def others_def with_taints_def .
qed

text \<open>
  C12: A round of a controller that could be constructed ends: it makes at most twelve calls for each node, whatever the
  API answers and however the workers interleave (two look-ups, and five tries to fetch and patch the node), and from every moment of it
  the workers can finish the round without a panic.
\<close>

theorem lifecycle_round_ends:
  assumes "NewCloudNodeLifecycleController nodeLister kubeClient cloud period syncs = Ok lc"
    and "runs (pool_step (processNode lc) (nat syncs) cancelled env) (nodes, {#}, s) tr (ps, ts, s')"
  shows "length tr \<le> 12 * length nodes \<and>
    (\<exists>tr' s''. runs (pool_step (processNode lc) (nat syncs) cancelled env) (ps, ts, s') tr' ([], {#}, s''))"
proof (rule conjI)
  show "length tr \<le> 12 * length nodes"
    using pool_calls_bounded [OF assms(2) calls_within_processNode] by auto
  from assms(1) have "0 < nat syncs"
    by (auto simp: NewCloudNodeLifecycleController_def Let_def split: option.splits prod.splits if_splits)
  from pool_can_finish [OF task_returns_processNode _ this] pool_runs_return [OF assms(2) task_returns_processNode]
  show "\<exists>tr' s''. runs (pool_step (processNode lc) (nat syncs) cancelled env) (ps, ts, s') tr' ([], {#}, s'')" by simp
qed

text \<open>
  C8: A node whose droplet is gone is deleted: in every completed round that is not cancelled, for every listed node that is
  not ready and whose look-up the API answered with 404, the controller asks Kubernetes to delete the node,
  whatever else its workers and the world do.
\<close>

theorem lifecycle_deletes_gone:
  assumes "runs (pool_step (processNode lc) workers False env) (nodes, {#}, s) tr ([], {#}, s')"
    and "node \<in> set nodes" and "readyStatus node \<noteq> ''True''"
    and "\<forall>lookup. (LookUp node, lookup) \<in> set tr \<longrightarrow> answered_gone lc node lookup"
  shows "\<exists>deletion. (DeleteNode (node_Name (mn_node node)), deletion) \<in> set tr"
  using pool_surely [OF assms(1), of "\<lambda>l s. l = LookUp node \<longrightarrow> answered_gone lc node s" node] assms(2,4)
    surely_processNode [OF assms(3), of lc] by fastforce

section \<open>Examples\<close>

text \<open>A cluster with three nodes: one without droplet, one whose droplet is off, and one that is ready again.\<close>

definition gone_node :: mNode where
  "gone_node = \<lparr>mn_node = example_node\<lparr>node_Conditions := [\<lparr>nc_Type = ''Ready'', nc_Status = ''Unknown''\<rparr>]\<rparr>,
     mn_Annotations = [], mn_UID = ''u1'', mn_ResourceVersion = ''7''\<rparr>"

definition off_node :: mNode where
  "off_node = \<lparr>mn_node = example_node\<lparr>node_Name := ''worker-2'', node_ProviderID := ''digitalocean://43'',
     node_Conditions := []\<rparr>, mn_Annotations = [], mn_UID = ''u2'', mn_ResourceVersion = ''8''\<rparr>"

definition back_node :: mNode where
  "back_node = \<lparr>mn_node = example_node\<lparr>node_Name := ''worker-3'', node_ProviderID := ''digitalocean://44'',
     node_Taints := [ShutdownTaint]\<rparr>, mn_Annotations = [], mn_UID = ''u3'', mn_ResourceVersion = ''9''\<rparr>"

definition lc_nodes :: "mNode list" where
  "lc_nodes = [gone_node, off_node, back_node]"

definition lifecycle_client :: "unit client" where
  "lifecycle_client = offline_client\<lparr>Droplets_Get := (\<lambda>i w.
     if i = 42 then ((None, Some \<lparr>resp_StatusCode = 404, resp_Links = None\<rparr>, Some (ErrorResponse 404 ''gone'')), w)
     else ((Some (example_droplet\<lparr>droplet_ID := i, droplet_Status := ''off''\<rparr>),
            Some \<lparr>resp_StatusCode = 200, resp_Links = None\<rparr>, None), w))\<rparr>"

definition lifecycle_cloud :: "unit cloud" where
  "lifecycle_cloud =
     (let r = newResources ''cluster-1'' ''vpc-1'' \<lparr>paf_name = '''', paf_tags = []\<rparr> lifecycle_client;
          v = apiOperationsTotalVec in
      \<lparr>c_client = lifecycle_client, c_instances = newInstances r ''nyc1'',
       c_loadbalancers = newLoadBalancers r ''nyc1'' LoadBalancerTypeRegionalNetwork,
       c_metrics = \<lparr>m_host = '''', m_apiOperationDuration = v, m_apiOperationsTotal = v, m_resourceSyncDuration = v,
         m_resourceSyncsTotal = v, m_reconcileDuration = v, m_reconcilesTotal = v\<rparr>,
       c_defaultLBType = LoadBalancerTypeRegionalNetwork, c_resources = r, c_httpServer = None\<rparr>)"

definition lifecycle_kube :: "unit nodeClient" where
  "lifecycle_kube =
     \<lparr>Nodes_Get = (\<lambda>name rv w. (case find (\<lambda>n. node_Name (mn_node n) = name) lc_nodes of
        None \<Rightarrow> Inl (StatusError ''NotFound'' 404 ''no such node'') | Some n \<Rightarrow> Inr n, w)),
      Nodes_Update = (\<lambda>n w. (None, w)), Nodes_Patch = (\<lambda>name old new w. (None, w)),
      Nodes_PatchStatus = (\<lambda>name old new w. (None, w)), Nodes_Delete = (\<lambda>name w. (None, w))\<rparr>"

definition example_lifecycle :: "unit lifecycle" where
  "example_lifecycle =
     \<lparr>lc_kubeClient = lifecycle_kube, lc_nodeLister = (\<lambda>w. Ok lc_nodes), lc_cloud = lifecycle_cloud,
      lc_nodeMonitorPeriod = 5000000000, lc_concurrentNodeLifecycleSyncs = 1\<rparr>"

definition lcs_start :: "unit lcState" where
  "lcs_start = \<lparr>lcs_events = [], lcs_providerCalls = {#}, lcs_world = ()\<rparr>"

definition tainted_off :: mNode where
  "tainted_off = with_taints off_node [ShutdownTaint]"

lemma example_round:
  obtains tr s where "run_tasks (processNode example_lifecycle) lc_nodes lcs_start = Some (tr, s)"
    and "map fst tr = [LookUp gone_node, DeleteNode ''worker-1'', LookUp off_node, LookUpShutdown off_node,
       GetNode ''worker-2'' ''0'', PatchNode ''worker-2'' (off_node\<lparr>mn_ResourceVersion := ''''\<rparr>) tainted_off,
       GetNode ''worker-3'' ''0'', PatchNode ''worker-3'' (back_node\<lparr>mn_ResourceVersion := ''''\<rparr>) (with_taints back_node [])]"
proof -
  have "map_option (\<lambda>(tr, s). map fst tr) (run_tasks (processNode example_lifecycle) lc_nodes lcs_start) =
    Some [LookUp gone_node, DeleteNode ''worker-1'', LookUp off_node, LookUpShutdown off_node,
       GetNode ''worker-2'' ''0'', PatchNode ''worker-2'' (off_node\<lparr>mn_ResourceVersion := ''''\<rparr>) tainted_off,
       GetNode ''worker-3'' ''0'', PatchNode ''worker-3'' (back_node\<lparr>mn_ResourceVersion := ''''\<rparr>) (with_taints back_node [])]"
    by code_simp
  then show thesis using that by auto
qed

lemma example_pool_run:
  assumes "run_tasks (processNode example_lifecycle) lc_nodes lcs_start = Some (tr, s)"
  shows "runs (pool_step (processNode example_lifecycle) 1 False no_env) (lc_nodes, {#}, lcs_start) tr ([], {#}, s)"
  by (rule pool_run_tasks [OF assms]) simp

lemma example_lc_run:
  assumes "run_tasks (processNode example_lifecycle) lc_nodes lcs_start = Some (tr, s)"
  shows "runs (lc_step example_lifecycle False no_env) ([], {#}, lcs_start) ((ListNodes, lcs_start) # tr) ([], {#}, s)"
proof -
  let ?step = "lc_step example_lifecycle False no_env"
  have "?step ([], {#}, lcs_start) (Some (ListNodes, lcs_start)) (lc_nodes, {#}, lcs_start)"
    by (rule lc_list) (simp add: example_lifecycle_def)
  from runs_one [of ?step, OF this] have "runs ?step ([], {#}, lcs_start) [(ListNodes, lcs_start)] (lc_nodes, {#}, lcs_start)"
    by simp
  moreover have "runs ?step (lc_nodes, {#}, lcs_start) tr ([], {#}, s)"
    by (rule runs_mono [OF example_pool_run [OF assms]], rule lc_pool) (simp add: example_lifecycle_def)
  ultimately show ?thesis using runs_trans by fastforce
qed

lemma example_call:
  assumes "run_tasks (processNode example_lifecycle) lc_nodes lcs_start = Some (tr, s)" and "l \<in> set (map fst tr)"
  obtains before u after where "(ListNodes, lcs_start) # tr = before @ (l, u) # after"
proof -
  from assms(2) obtain x where "x \<in> set tr" "fst x = l" unfolding set_map by blast
  then have "(l, snd x) \<in> set ((ListNodes, lcs_start) # tr)" by auto
  with that show thesis by (meson split_list)
qed

theorem lifecycle_deletes_only_gone_witness:
  "\<exists>node lookup. node_Name (mn_node node) = ''worker-1'' \<and> readyStatus node \<noteq> ''True'' \<and>
     answered_gone example_lifecycle node lookup"
proof -
  obtain tr s where run: "run_tasks (processNode example_lifecycle) lc_nodes lcs_start = Some (tr, s)"
    and calls: "DeleteNode ''worker-1'' \<in> set (map fst tr)"
    by (rule example_round) (simp del: set_map)
  from example_call [OF this] obtain before u after
    where "(ListNodes, lcs_start) # tr = before @ (DeleteNode ''worker-1'', u) # after" .
  from lifecycle_deletes_only_gone [OF example_lc_run [OF run] this] show ?thesis by blast
qed

theorem lifecycle_patches_only_shutdown_taint_witness:
  "\<exists>node H. node_Name (mn_node node) = ''worker-2'' \<and> listed example_lifecycle H node \<and>
     (if readyStatus node = ''True'' then \<not> taintExists (mn_taints tainted_off) ShutdownTaint
      else ShutdownTaint \<in> set (mn_taints tainted_off) \<and> looked_up_off example_lifecycle H node)"
proof -
  let ?patch = "PatchNode ''worker-2'' (off_node\<lparr>mn_ResourceVersion := ''''\<rparr>) tainted_off"
  obtain tr s where run: "run_tasks (processNode example_lifecycle) lc_nodes lcs_start = Some (tr, s)"
    and calls: "?patch \<in> set (map fst tr)" by (rule example_round) (simp del: set_map)
  from example_call [OF this] obtain before u after where "(ListNodes, lcs_start) # tr = before @ (?patch, u) # after" .
  from lifecycle_patches_only_shutdown_taint [OF example_lc_run [OF run] this] obtain node taints current
    where "node_Name (mn_node node) = ''worker-2''" "listed example_lifecycle (set before) node"
      and new: "tainted_off = current\<lparr>mn_node := (mn_node current)\<lparr>node_Taints := taints\<rparr>\<rparr>"
      and "if readyStatus node = ''True'' then \<not> taintExists taints ShutdownTaint
       else ShutdownTaint \<in> set taints \<and> looked_up_off example_lifecycle (set before) node" by blast
  moreover have "mn_taints tainted_off = taints" unfolding new by simp
  ultimately show ?thesis by (metis (full_types))
qed

theorem lifecycle_round_ends_witness:
  "\<exists>lc tr s. NewCloudNodeLifecycleController (\<lambda>w. Ok lc_nodes) (Some lifecycle_kube) (Some lifecycle_cloud) 5000000000 1 = Ok lc
     \<and> runs (pool_step (processNode lc) 1 False no_env) (lc_nodes, {#}, lcs_start) tr ([], {#}, s) \<and> length tr \<le> 36"
proof -
  obtain tr s where run: "run_tasks (processNode example_lifecycle) lc_nodes lcs_start = Some (tr, s)" by (rule example_round)
  have new: "NewCloudNodeLifecycleController (\<lambda>w. Ok lc_nodes) (Some lifecycle_kube) (Some lifecycle_cloud) 5000000000 1 =
      Ok example_lifecycle"
    by (simp add: NewCloudNodeLifecycleController_def Instances_def InstancesV2_def example_lifecycle_def)
  from lifecycle_round_ends [OF new] example_pool_run [OF run] new show ?thesis
    by (fastforce simp: lc_nodes_def)
qed

theorem lifecycle_deletes_gone_witness:
  "\<exists>tr s deletion. runs (pool_step (processNode example_lifecycle) 1 False no_env) (lc_nodes, {#}, lcs_start) tr ([], {#}, s)
     \<and> (DeleteNode ''worker-1'', deletion) \<in> set tr"
proof -
  obtain tr s where run: "run_tasks (processNode example_lifecycle) lc_nodes lcs_start = Some (tr, s)" by (rule example_round)
  have "answered_gone example_lifecycle gone_node u" for u
  proof -
    have "dropletIDFromProviderID (node_ProviderID (mn_node gone_node)) = Ok 42" by code_simp
    then show ?thesis
      by (simp add: answered_gone_def example_lifecycle_def lifecycle_cloud_def newInstances_def newResources_def
          lifecycle_client_def StatusNotFound_def Let_def)
  qed
  moreover have "gone_node \<in> set lc_nodes" "readyStatus gone_node \<noteq> ''True''" "node_Name (mn_node gone_node) = ''worker-1''"
    by code_simp+
  ultimately show ?thesis
    using lifecycle_deletes_gone [OF example_pool_run [OF run], of gone_node] example_pool_run [OF run] by metis
qed

end
