(* ===== verification/Node_Controller.thy ===== *)
theory Node_Controller
  imports Kube_Nodes Cloud
begin

text \<open>
  The node controller of k8s.io/cloud-provider, which initialises new nodes with what the provider knows of their
  instances: it sets the provider ID and the labels, removes the taint that keeps pods off an uninitialised node, and keeps the
  addresses of the nodes up to date. Several workers take nodes from a queue while a periodic loop refreshes the addresses;
  a step of the state machine is one call. A question to the provider counts as one call.
\<close>

section \<open>State and calls\<close>

text \<open>
  The parsers of the node IP annotation and of IP addresses are parameters; an IP address is its canonical text.
\<close>

record 'w nodeController =
  nc_kubeClient :: "'w nodeClient"
  nc_cloud :: "'w cloud"
  nc_nodesGet :: "string \<Rightarrow> 'w \<Rightarrow> error + mNode"
  nc_nodesList :: "'w \<Rightarrow> mNode list outcome"
  nc_workerCount :: int
  nc_statusUpdateWorkerCount :: int
  nc_ParseNodeIPAnnotation :: "string \<Rightarrow> string list outcome"
  nc_ParseIPSloppy :: "string \<Rightarrow> string option"

record 'w ncState =
  ncs_workqueue :: workqueue
  ncs_events :: "Event list"
  ncs_world :: 'w

datatype nc_action =
    ListerGet string
  | AskMetadata mNode
  | UpdateNode mNode
  | PatchStatus string mNode mNode
  | FetchNode string string
  | PatchLabels string mNode mNode
  | RecordSynced mNode
  | Requeue string
  | ForgetItem string
  | DoneItem string

type_synonym 'w nc_task = "(nc_action, 'w ncState) task"

definition nc_in_world :: "('w \<Rightarrow> 'r \<times> 'w) \<Rightarrow> 'w ncState \<Rightarrow> 'r \<times> 'w ncState" where
  "nc_in_world m s = (case m (ncs_world s) of (r, w') \<Rightarrow> (r, s\<lparr>ncs_world := w'\<rparr>))"

definition nc_read :: "('w \<Rightarrow> 'r) \<Rightarrow> 'w ncState \<Rightarrow> 'r \<times> 'w ncState" where
  "nc_read m s = (m (ncs_world s), s)"

definition on_queue :: "(workqueue \<Rightarrow> workqueue) \<Rightarrow> 'w ncState \<Rightarrow> unit \<times> 'w ncState" where
  "on_queue f s = ((), s\<lparr>ncs_workqueue := f (ncs_workqueue s)\<rparr>)"

definition NewCloudNodeController ::
    "'w nodeClient \<Rightarrow> (string \<Rightarrow> 'w \<Rightarrow> error + mNode) \<Rightarrow> ('w \<Rightarrow> mNode list outcome) \<Rightarrow> 'w cloud \<Rightarrow>
     (string \<Rightarrow> string list outcome) \<Rightarrow> (string \<Rightarrow> string option) \<Rightarrow> int \<Rightarrow> int \<Rightarrow> 'w nodeController outcome" where
  "NewCloudNodeController kubeClient get list cloud parseAnnotation parseIP workerCount statusUpdateWorkerCount =
     (let (_, instancesSupported) = Instances cloud; (_, instancesV2Supported) = InstancesV2 cloud in
      if \<not> instancesSupported \<and> \<not> instancesV2Supported
      then Err (NewError ''cloud provider does not support instances'')
      else Ok \<lparr>nc_kubeClient = kubeClient, nc_cloud = cloud, nc_nodesGet = get, nc_nodesList = list,
               nc_workerCount = workerCount, nc_statusUpdateWorkerCount = statusUpdateWorkerCount,
               nc_ParseNodeIPAnnotation = parseAnnotation, nc_ParseIPSloppy = parseIP\<rparr>)"

section \<open>Taints and addresses\<close>

definition TaintExternalCloudProvider :: string where
  "TaintExternalCloudProvider = ''node.cloudprovider.kubernetes.io/uninitialized''"

definition getCloudTaint :: "Taint list \<Rightarrow> Taint option" where
  "getCloudTaint taints = find (\<lambda>taint. taint_Key taint = TaintExternalCloudProvider) taints"

definition excludeCloudTaint :: "Taint list \<Rightarrow> Taint list" where
  "excludeCloudTaint taints = filter (\<lambda>taint. taint_Key taint \<noteq> TaintExternalCloudProvider) taints"

text \<open>The map has one address for each type: of several addresses of a type, the last.\<close>

definition nodeAddressesChangeDetected :: "NodeAddress list \<Rightarrow> NodeAddress list \<Rightarrow> bool" where
  "nodeAddressesChangeDetected addressSet1 addressSet2 =
     (if length addressSet1 \<noteq> length addressSet2 then True
      else
        let addressMap1 = fold (\<lambda>a m. AList.update (na_Type a) (na_Address a) m) addressSet1 [] in
        list_ex (\<lambda>v. mget addressMap1 (na_Type v) \<noteq> na_Address v) addressSet2)"

fun enforceNodeIPs :: "(string \<Rightarrow> string option) \<Rightarrow> NodeAddress list \<Rightarrow> NodeAddress list \<Rightarrow> string list \<Rightarrow> NodeAddress list outcome" where
  "enforceNodeIPs parseIP cloudNodeAddresses enforced [] = Ok enforced"
| "enforceNodeIPs parseIP cloudNodeAddresses enforced (nodeIP # nodeIPs) =
     (let matching = filter (\<lambda>a. parseIP (na_Address a) = Some nodeIP) cloudNodeAddresses in
      if matching = []
      then Err (NewError (''failed to get node address from cloud provider that matches ip: '' @ nodeIP))
      else enforceNodeIPs parseIP cloudNodeAddresses (enforced @ matching) nodeIPs)"

definition GetNodeAddressesFromNodeIP :: "'w nodeController \<Rightarrow> string \<Rightarrow> NodeAddress list \<Rightarrow> NodeAddress list outcome" where
  "GetNodeAddressesFromNodeIP nc providedNodeIP cloudNodeAddresses =
     bindR (map_err (\<lambda>e. Errorf (''failed to parse node IP '' @ quote providedNodeIP @ '': '') e '''')
         (nc_ParseNodeIPAnnotation nc providedNodeIP)) (\<lambda>nodeIPs.
     bindR (enforceNodeIPs (nc_ParseIPSloppy nc) cloudNodeAddresses [] nodeIPs) (\<lambda>enforced.
     Ok (enforced @ filter (\<lambda>a. na_Type a \<notin> na_Type ` set enforced) cloudNodeAddresses)))"

definition AnnotationAlphaProvidedIPAddr :: string where
  "AnnotationAlphaProvidedIPAddr = ''alpha.kubernetes.io/provided-node-ip''"

definition updateNodeAddressesFromNodeIP :: "'w nodeController \<Rightarrow> mNode \<Rightarrow> NodeAddress list \<Rightarrow> NodeAddress list outcome" where
  "updateNodeAddressesFromNodeIP nc node addresses =
     (case map_of (mn_Annotations node) AnnotationAlphaProvidedIPAddr of
        None \<Rightarrow> Ok addresses
      | Some providedNodeIP \<Rightarrow> GetNodeAddressesFromNodeIP nc providedNodeIP addresses)"

text \<open>The addresses that the node should have; then \<open>updateNodeAddress\<close>, after which \<open>k\<close> follows.\<close>

definition wantedAddresses :: "'w nodeController \<Rightarrow> mNode \<Rightarrow> InstanceMeta \<Rightarrow> NodeAddress list outcome" where
  "wantedAddresses nc node md =
     (let nodeAddresses = im_NodeAddresses md;
          hostnameExists = list_ex (\<lambda>a. na_Type a = NodeHostName) nodeAddresses in
      updateNodeAddressesFromNodeIP nc node
        (if \<not> hostnameExists
         then nodeAddresses @ filter (\<lambda>a. na_Type a = NodeHostName) (node_Addresses (mn_node node))
         else nodeAddresses))"

definition updateNodeAddress :: "'w nodeController \<Rightarrow> mNode \<Rightarrow> InstanceMeta \<Rightarrow> 'w nc_task \<Rightarrow> 'w nc_task" where
  "updateNodeAddress nc node md k =
     (if getCloudTaint (mn_taints node) \<noteq> None then k
      else if length (im_NodeAddresses md) = 0 then k
      else case wantedAddresses nc node md of
        Err e \<Rightarrow> k
      | Panic p \<Rightarrow> Halt (Panic p)
      | OutOfFuel \<Rightarrow> Halt OutOfFuel
      | Ok newAddresses \<Rightarrow>
          if \<not> nodeAddressesChangeDetected (node_Addresses (mn_node node)) newAddresses then k
          else
            let newNode = node\<lparr>mn_node := (mn_node node)\<lparr>node_Addresses := newAddresses\<rparr>\<rparr>;
                name = node_Name (mn_node node) in
            call (PatchStatus name node newNode)
              (nc_in_world (Nodes_PatchStatus (nc_kubeClient nc) name node newNode)) (\<lambda>_. k))"

section \<open>Asking the provider\<close>

text \<open>
  As in the lifecycle controller, what is done with an implementation of the first version of the instances interface is left
  out.
\<close>

definition getInstanceMetadata :: "'w nodeController \<Rightarrow> mNode \<Rightarrow> 'w \<Rightarrow> InstanceMeta outcome \<times> 'w" where
  "getInstanceMetadata nc node = (\<lambda>w.
     case InstancesV2 (nc_cloud nc) of
       (instancesV2, ok) \<Rightarrow>
         if ok then
           bindM (InstanceMetadata (r_gclient (inst_resources instancesV2)) (mn_node node)) (\<lambda>metadata.
             if im_ProviderID metadata = '''' then
               if node_ProviderID (mn_node node) = ''''
               then liftR (Err (NewError (''cloud provider does not set node provider ID for node '' @ node_Name (mn_node node))))
               else returnM (metadata\<lparr>im_ProviderID := node_ProviderID (mn_node node)\<rparr>)
             else returnM metadata) w
         else (Err (NewError ''failed to get instances from cloud provider''), w))"

definition getInstanceNodeAddresses :: "'w nodeController \<Rightarrow> mNode \<Rightarrow> 'w \<Rightarrow> InstanceMeta outcome \<times> 'w" where
  "getInstanceNodeAddresses nc node = (\<lambda>w.
     case InstancesV2 (nc_cloud nc) of
       (instancesV2, ok) \<Rightarrow>
         if ok then InstanceMetadata (r_gclient (inst_resources instancesV2)) (mn_node node) w
         else (Err (NewError ''failed to get instances from cloud provider''), w))"

section \<open>Initialising a node\<close>

definition LabelInstanceType :: string where "LabelInstanceType = ''beta.kubernetes.io/instance-type''"

definition LabelInstanceTypeStable :: string where "LabelInstanceTypeStable = ''node.kubernetes.io/instance-type''"

definition LabelFailureDomainBetaZone :: string where
  "LabelFailureDomainBetaZone = ''failure-domain.beta.kubernetes.io/zone''"

definition LabelTopologyZone :: string where "LabelTopologyZone = ''topology.kubernetes.io/zone''"

definition LabelFailureDomainBetaRegion :: string where
  "LabelFailureDomainBetaRegion = ''failure-domain.beta.kubernetes.io/region''"

definition LabelTopologyRegion :: string where "LabelTopologyRegion = ''topology.kubernetes.io/region''"

definition set_label :: "string \<Rightarrow> string \<Rightarrow> mNode \<Rightarrow> mNode" where
  "set_label k v n = n\<lparr>mn_node := (mn_node n)\<lparr>node_Labels := AList.update k v (node_Labels (mn_node n))\<rparr>\<rparr>"

text \<open>
  A key of a Kubernetes namespace matches the regular expression \<^verbatim>\<open>(^|\.)(kubernetes|k8s)\.io/\<close>: with a dot in front,
  the start of the key is no special case. A label that the node has already is left as it is.
\<close>

definition isK8sNamespace :: "string \<Rightarrow> bool" where
  "isK8sNamespace k \<longleftrightarrow> sublist ''.kubernetes.io/'' (''.'' @ k) \<or> sublist ''.k8s.io/'' (''.'' @ k)"

definition addAdditionalLabel :: "string \<times> string \<Rightarrow> mNode \<Rightarrow> mNode" where
  "addAdditionalLabel = (\<lambda>(k, v) n.
     if isK8sNamespace k then n
     else if map_of (node_Labels (mn_node n)) k \<noteq> None then n
     else set_label k v n)"

type_synonym nodeModifier = "mNode \<Rightarrow> mNode"

definition getNodeModifiersFromCloudProvider ::
    "'w nodeController \<Rightarrow> mNode \<Rightarrow> InstanceMeta \<Rightarrow> nodeModifier list outcome" where
  "getNodeModifiersFromCloudProvider nc node instanceMeta =
     (let providerID =
        (if node_ProviderID (mn_node node) = '''' \<and> im_ProviderID instanceMeta \<noteq> ''''
         then [\<lambda>n. n\<lparr>mn_node := (mn_node n)\<lparr>node_ProviderID := im_ProviderID instanceMeta\<rparr>\<rparr>] else []) in
      bindR (map_err (\<lambda>e. Wrapf (''provided node ip for node '' @ quote (node_Name (mn_node node)) @ '' is not valid: '') e '''')
          (updateNodeAddressesFromNodeIP nc node (im_NodeAddresses instanceMeta))) (\<lambda>_.
      Ok (providerID @
        (if im_InstanceType instanceMeta \<noteq> ''''
         then [\<lambda>n. set_label LabelInstanceTypeStable (im_InstanceType instanceMeta)
                (set_label LabelInstanceType (im_InstanceType instanceMeta) n)] else []) @
        (if im_Zone instanceMeta \<noteq> ''''
         then [\<lambda>n. set_label LabelTopologyZone (im_Zone instanceMeta)
                (set_label LabelFailureDomainBetaZone (im_Zone instanceMeta) n)] else []) @
        (if im_Region instanceMeta \<noteq> ''''
         then [\<lambda>n. set_label LabelTopologyRegion (im_Region instanceMeta)
                (set_label LabelFailureDomainBetaRegion (im_Region instanceMeta) n)] else []) @
        (if length (im_AdditionalLabels instanceMeta) > 0
         then [fold addAdditionalLabel (im_AdditionalLabels instanceMeta)] else []))))"

text \<open>One try of the update: the modifiers are applied to the node as the informer has it now.\<close>

definition tryInitialize ::
    "'w nodeController \<Rightarrow> string \<Rightarrow> nodeModifier list \<Rightarrow> InstanceMeta \<Rightarrow> bool \<Rightarrow> (nc_action, 'w ncState) attempted" where
  "tryInitialize nc nodeName nodeModifiers instanceMetadata firstTry ret =
     call (ListerGet nodeName) (nc_read (nc_nodesGet nc nodeName)) (\<lambda>got.
       case got of
         Inl e \<Rightarrow> ret (Some e)
       | Inr curNode \<Rightarrow>
           let newNode = fold (\<lambda>modify n. modify n) nodeModifiers curNode in
           call (UpdateNode newNode) (nc_in_world (Nodes_Update (nc_kubeClient nc) newNode)) (\<lambda>err.
             case err of
               Some e \<Rightarrow> ret (Some e)
             | None \<Rightarrow> updateNodeAddress nc newNode instanceMetadata (ret None)))"

definition UpdateNodeSpecBackoff_Steps :: nat where
  "UpdateNodeSpecBackoff_Steps = 20"

section \<open>Labels\<close>

definition labelReconcileInfo :: "(string \<times> string \<times> bool) list" where
  "labelReconcileInfo =
     [(LabelFailureDomainBetaZone, LabelTopologyZone, True),
      (LabelFailureDomainBetaRegion, LabelTopologyRegion, True),
      (LabelInstanceType, LabelInstanceTypeStable, True)]"

definition labelsToUpdate :: "smap \<Rightarrow> smap" where
  "labelsToUpdate nodeLabels =
     fold (\<lambda>(primaryKey, secondaryKey, ensureSecondaryExists) labels.
       case map_of nodeLabels primaryKey of
         None \<Rightarrow> labels
       | Some primaryValue \<Rightarrow>
           (case map_of nodeLabels secondaryKey of
              Some secondaryValue \<Rightarrow>
                if primaryValue \<noteq> secondaryValue then AList.update secondaryKey primaryValue labels else labels
            | None \<Rightarrow> if ensureSecondaryExists then AList.update secondaryKey primaryValue labels else labels))
       labelReconcileInfo []"

text \<open>The error of the patch is rendered into a new one, which is no error of the API any more.\<close>

definition tryLabels :: "'w nodeController \<Rightarrow> string \<Rightarrow> smap \<Rightarrow> bool \<Rightarrow> (nc_action, 'w ncState) attempted" where
  "tryLabels nc nodeName labels firstTry ret =
     (let resourceVersion = (if firstTry then ''0'' else '''') in
      call (FetchNode nodeName resourceVersion)
        (nc_in_world (Nodes_Get (nc_kubeClient nc) nodeName resourceVersion)) (\<lambda>got.
        case got of
          Inl e \<Rightarrow> ret (Some e)
        | Inr node \<Rightarrow>
            let newNode = fold (\<lambda>(key, value) n. set_label key value n) labels node;
                name = node_Name (mn_node node) in
            call (PatchLabels name node newNode)
              (nc_in_world (Nodes_Patch (nc_kubeClient nc) name node newNode)) (\<lambda>err.
              case err of
                Some e \<Rightarrow> ret (Some (Errorf ''failed to patch the node: '' e ''''))
              | None \<Rightarrow> ret None)))"

definition updateLabelBackoff_Steps :: nat where
  "updateLabelBackoff_Steps = 5"

definition AddOrUpdateLabelsOnNode :: "'w nodeController \<Rightarrow> smap \<Rightarrow> mNode \<Rightarrow> (bool \<Rightarrow> 'w nc_task) \<Rightarrow> 'w nc_task" where
  "AddOrUpdateLabelsOnNode nc labels node ret =
     RetryOnConflict updateLabelBackoff_Steps (tryLabels nc (node_Name (mn_node node)) labels) (\<lambda>err. ret (err = None))"

text \<open>The message of the last error leaves the rendering of the node out.\<close>

definition reconcileNodeLabels :: "'w nodeController \<Rightarrow> string \<Rightarrow> (nc_action, 'w ncState) attempted" where
  "reconcileNodeLabels nc nodeName ret =
     call (ListerGet nodeName) (nc_read (nc_nodesGet nc nodeName)) (\<lambda>got.
       case got of
         Inl e \<Rightarrow> if IsNotFound e then ret None else ret (Some e)
       | Inr node \<Rightarrow>
           let labels = labelsToUpdate (node_Labels (mn_node node)) in
           if length labels = 0 then ret None
           else AddOrUpdateLabelsOnNode nc labels node (\<lambda>ok.
             if \<not> ok then ret (Some (NewError ''failed update labels for node '')) else ret None))"

section \<open>The work of a worker\<close>

text \<open>The part after the metadata are known; the event is recorded on the node that was read first.\<close>

definition recordSynced :: "mNode \<Rightarrow> 'w ncState \<Rightarrow> unit \<times> 'w ncState" where
  "recordSynced node s = ((), s\<lparr>ncs_events := ncs_events s @
     [\<lparr>ev_Namespace = '''', ev_Name = node_Name (mn_node node), ev_UID = mn_UID node, ev_Type = ''Normal'',
       ev_Reason = ''Synced'', ev_Message = ''Node synced successfully''\<rparr>]\<rparr>)"

definition initializeNode :: "'w nodeController \<Rightarrow> string \<Rightarrow> mNode \<Rightarrow> InstanceMeta \<Rightarrow> (nc_action, 'w ncState) attempted" where
  "initializeNode nc nodeName copyNode instanceMetadata ret =
     (case getNodeModifiersFromCloudProvider nc copyNode instanceMetadata of
        Err e \<Rightarrow> ret (Some (Errorf ''failed to get node modifiers from cloud provider: '' e ''''))
      | Panic p \<Rightarrow> Halt (Panic p)
      | OutOfFuel \<Rightarrow> Halt OutOfFuel
      | Ok nodeModifiers \<Rightarrow>
          RetryOnConflict UpdateNodeSpecBackoff_Steps
            (tryInitialize nc nodeName
              (nodeModifiers @ [\<lambda>n. with_taints n (excludeCloudTaint (mn_taints n))]) instanceMetadata)
            (\<lambda>err. case err of
               Some e \<Rightarrow> ret (Some e)
             | None \<Rightarrow> call (RecordSynced copyNode) (recordSynced copyNode) (\<lambda>_. ret None)))"

definition syncNode :: "'w nodeController \<Rightarrow> string \<Rightarrow> (nc_action, 'w ncState) attempted" where
  "syncNode nc nodeName ret =
     call (ListerGet nodeName) (nc_read (nc_nodesGet nc nodeName)) (\<lambda>got.
       case got of
         Inl e \<Rightarrow> if IsNotFound e then ret None else ret (Some e)
       | Inr copyNode \<Rightarrow>
           if getCloudTaint (mn_taints copyNode) = None then reconcileNodeLabels nc nodeName ret
           else call (AskMetadata copyNode) (nc_in_world (getInstanceMetadata nc copyNode)) (\<lambda>metadata.
             case metadata of
               Err e \<Rightarrow> ret (Some (Errorf (''failed to get instance metadata for node '' @ nodeName @ '': '') e ''''))
             | Panic p \<Rightarrow> Halt (Panic p)
             | OutOfFuel \<Rightarrow> Halt OutOfFuel
             | Ok instanceMetadata \<Rightarrow> initializeNode nc nodeName copyNode instanceMetadata ret))"

definition syncHandler :: "'w nodeController \<Rightarrow> string \<Rightarrow> (nc_action, 'w ncState) attempted" where
  "syncHandler nc key ret =
     (case SplitMetaNamespaceKey key of
        Ok (_, name) \<Rightarrow> syncNode nc name ret
      | _ \<Rightarrow> ret None)"

text \<open>
  Of the default rate limiter, the exponential part; the token bucket of all retries can only make a delay longer.
\<close>

definition nc_minDelay :: int where "nc_minDelay = 5000000"

definition nc_maxDelay :: int where "nc_maxDelay = 1000000000000"

definition processItem :: "'w nodeController \<Rightarrow> string \<Rightarrow> 'w nc_task" where
  "processItem nc key =
     syncHandler nc key (\<lambda>err.
       let finish = call (DoneItem key) (on_queue (wq_Done key)) (\<lambda>_. return_task) in
       case err of
         Some e \<Rightarrow> call (Requeue key) (on_queue (wq_AddRateLimited nc_minDelay nc_maxDelay key)) (\<lambda>_. finish)
       | None \<Rightarrow> call (ForgetItem key) (on_queue (wq_Forget key)) (\<lambda>_. finish))"

section \<open>The periodic refresh\<close>

definition updateNodeFunc :: "'w nodeController \<Rightarrow> mNode \<Rightarrow> 'w nc_task" where
  "updateNodeFunc nc node =
     (if getCloudTaint (mn_taints node) \<noteq> None then return_task
      else call (AskMetadata node) (nc_in_world (getInstanceNodeAddresses nc node)) (\<lambda>metadata.
        case metadata of
          Err e \<Rightarrow> return_task
        | Panic p \<Rightarrow> Halt (Panic p)
        | OutOfFuel \<Rightarrow> Halt OutOfFuel
        | Ok instanceMetadata \<Rightarrow> updateNodeAddress nc node instanceMetadata return_task))"

section \<open>The controller as a state machine\<close>

text \<open>
  The workers with the keys they work on, the pool of the refresh, and the state. The informer queues a node at any
  time (\<^verbatim>\<open>enqueueNode\<close>: the key of a node is its name), delays pass, the queue is shut down at the end, and
  the world moves.
\<close>

definition nc_enqueueNode :: "mNode \<Rightarrow> 'w ncState \<Rightarrow> 'w ncState" where
  "nc_enqueueNode node s = s\<lparr>ncs_workqueue := wq_Add (node_Name (mn_node node)) (ncs_workqueue s)\<rparr>"

type_synonym 'w ncConfig = "(string \<times> 'w nc_task) multiset \<times> mNode list \<times> 'w nc_task multiset \<times> 'w ncState"

inductive nc_step ::
    "'w nodeController \<Rightarrow> ('w \<Rightarrow> 'w \<Rightarrow> bool) \<Rightarrow> 'w ncConfig \<Rightarrow> (nc_action \<times> 'w ncState) option \<Rightarrow> 'w ncConfig \<Rightarrow> bool"
  for nc :: "'w nodeController" and env where
  nc_enqueue: "nc_step nc env (ws, ps, ts, s) None (ws, ps, ts, nc_enqueueNode node s)"
| nc_ready: "key \<in> set (wq_waiting (ncs_workqueue s)) \<Longrightarrow>
    nc_step nc env (ws, ps, ts, s) None (ws, ps, ts, s\<lparr>ncs_workqueue := wq_Ready key (ncs_workqueue s)\<rparr>)"
| nc_shutdown: "nc_step nc env (ws, ps, ts, s) None (ws, ps, ts, s\<lparr>ncs_workqueue := wq_ShutDown (ncs_workqueue s)\<rparr>)"
| nc_take: "int (size ws) < nc_workerCount nc \<Longrightarrow> wq_Get (ncs_workqueue s) = Some (Some key, q) \<Longrightarrow>
    nc_step nc env (ws, ps, ts, s) None (add_mset (key, processItem nc key) ws, ps, ts, s\<lparr>ncs_workqueue := q\<rparr>)"
| nc_call: "f s = (t, s') \<Longrightarrow>
    nc_step nc env (add_mset (key, Call l f) ws, ps, ts, s) (Some (l, s)) (add_mset (key, t) ws, ps, ts, s')"
| nc_return: "nc_step nc env (add_mset (key, return_task) ws, ps, ts, s) None (ws, ps, ts, s)"
| nc_list: "nc_nodesList nc (ncs_world s) = Ok nodes \<Longrightarrow>
    nc_step nc env (ws, [], {#}, s) None (ws, nodes, {#}, s)"
| nc_refresh: "pool_step (updateNodeFunc nc) (nat (nc_statusUpdateWorkerCount nc)) cancelled no_env (ps, ts, s) a (ps', ts', s') \<Longrightarrow>
    nc_step nc env (ws, ps, ts, s) a (ws, ps', ts', s')"
| nc_env: "env (ncs_world s) w' \<Longrightarrow> nc_step nc env (ws, ps, ts, s) None (ws, ps, ts, s\<lparr>ncs_world := w'\<rparr>)"

section \<open>When a change of addresses is seen\<close>

lemma address_map:
  "map_of (fold (\<lambda>a m. AList.update (na_Type a) (na_Address a) m) addrs m0) =
     map_of m0 ++ map_of (rev (map (\<lambda>a. (na_Type a, na_Address a)) addrs))"
  by (induction addrs arbitrary: m0) (auto simp: AList.update_conv' map_add_def fun_eq_iff split: option.splits)

lemma unchanged_iff:
  "\<not> nodeAddressesChangeDetected as bs \<longleftrightarrow> length as = length bs \<and>
     (\<forall>b \<in> set bs. mget (rev (map (\<lambda>a. (na_Type a, na_Address a)) as)) (na_Type b) = na_Address b)"
  by (auto simp: nodeAddressesChangeDetected_def Let_def list_ex_iff mget_def address_map)

text \<open>The comparison is right for lists with one address of each type, and sees a change in any other list compared with itself.\<close>

lemma change_detected_self:
  "nodeAddressesChangeDetected as as \<longleftrightarrow> (\<exists>a \<in> set as. \<exists>b \<in> set as. na_Type a = na_Type b \<and> na_Address a \<noteq> na_Address b)"
proof
  assume "nodeAddressesChangeDetected as as"
  then obtain b where b: "b \<in> set as" "mget (rev (map (\<lambda>a. (na_Type a, na_Address a)) as)) (na_Type b) \<noteq> na_Address b"
    using unchanged_iff [of as as] by auto
  obtain v where v: "map_of (rev (map (\<lambda>a. (na_Type a, na_Address a)) as)) (na_Type b) = Some v"
    using b(1) by (cases "map_of (rev (map (\<lambda>a. (na_Type a, na_Address a)) as)) (na_Type b)")
      (auto simp: map_of_eq_None_iff image_iff)
  from map_of_SomeD [OF v] obtain a where "a \<in> set as" "na_Type a = na_Type b" "na_Address a = v" by auto
  moreover from b(2) v have "v \<noteq> na_Address b" by (simp add: mget_def)
  ultimately show "\<exists>a \<in> set as. \<exists>b \<in> set as. na_Type a = na_Type b \<and> na_Address a \<noteq> na_Address b" using b(1) by blast
next
  assume "\<exists>a \<in> set as. \<exists>b \<in> set as. na_Type a = na_Type b \<and> na_Address a \<noteq> na_Address b"
  then show "nodeAddressesChangeDetected as as" using unchanged_iff [of as as] by metis
qed

lemma unchanged_same_set:
  assumes "distinct (map na_Type as)" and "distinct (map na_Type bs)" and "\<forall>b \<in> set bs. na_Address b \<noteq> ''''"
  shows "\<not> nodeAddressesChangeDetected as bs \<longleftrightarrow> set as = set bs"
proof -
  let ?m = "rev (map (\<lambda>a. (na_Type a, na_Address a)) as)"
  have dist: "distinct (map fst ?m)" using assms(1) by (simp add: comp_def flip: rev_map)
  have len: "length cs = card (set cs)" if "distinct (map na_Type cs)" for cs
    using that by (simp add: distinct_map distinct_card)
  have look: "mget ?m (na_Type b) = na_Address b \<longleftrightarrow> b \<in> set as" if "b \<in> set bs" for b
  proof -
    have "mget ?m (na_Type b) = na_Address b \<longleftrightarrow> map_of ?m (na_Type b) = Some (na_Address b)"
      using assms(3) that by (auto simp: mget_def split: option.splits)
    also have "\<dots> \<longleftrightarrow> (na_Type b, na_Address b) \<in> set ?m" using dist by simp
    also have "\<dots> \<longleftrightarrow> b \<in> set as" by (auto simp: image_iff) (metis NodeAddress.equality old.unit.exhaust)+
    finally show ?thesis .
  qed
  then have "(\<forall>b \<in> set bs. mget ?m (na_Type b) = na_Address b) \<longleftrightarrow> set bs \<subseteq> set as" by blast
  moreover have "length as = length bs \<longleftrightarrow> card (set as) = card (set bs)"
    by (simp only: len [OF assms(1)] len [OF assms(2)])
  ultimately have "\<not> nodeAddressesChangeDetected as bs \<longleftrightarrow> card (set as) = card (set bs) \<and> set bs \<subseteq> set as"
    by (simp only: unchanged_iff)
  then show ?thesis using card_subset_eq [OF finite_set, of "set bs" as] by (metis order_refl)
qed

section \<open>What the provider answers\<close>

abbreviation nc_client :: "'w nodeController \<Rightarrow> 'w client" where
  "nc_client nc \<equiv> r_gclient (inst_resources (c_instances (nc_cloud nc)))"

lemma InstanceMetadata_meta:
  assumes "InstanceMetadata c node w = (Ok md, w')"
  shows "\<exists>dropletID d u. metadataDroplet c node w = (Ok (dropletID, d), u) \<and> im_ProviderID md = providerIDPrefix @ Itoa dropletID \<and>
    nodeAddresses d = Ok (im_NodeAddresses md)"
  using assms by (fastforce simp: InstanceMetadata_def outcome_simps)

lemma InstanceMetadata_labels:
  "InstanceMetadata c node w = (Ok md, w') \<Longrightarrow> im_Zone md = '''' \<and> im_AdditionalLabels md = []"
  by (fastforce simp: InstanceMetadata_def outcome_simps)

text \<open>The provider always sets the provider ID, so that the controller does not have to.\<close>

lemma getInstanceMetadata_eq: "getInstanceMetadata nc node w = InstanceMetadata (nc_client nc) (mn_node node) w"
proof -
  have "im_ProviderID md \<noteq> ''''" if "InstanceMetadata (nc_client nc) (mn_node node) w = (Ok md, w')" for md w'
    using InstanceMetadata_meta [OF that] by (auto simp: providerIDPrefix_def)
  then show ?thesis
    by (auto simp: getInstanceMetadata_def InstancesV2_def bindM_def returnM_def split: prod.splits outcome.splits)
qed

lemma getInstanceNodeAddresses_eq:
  "getInstanceNodeAddresses nc node w = InstanceMetadata (nc_client nc) (mn_node node) w"
  by (simp add: getInstanceNodeAddresses_def InstancesV2_def)

section \<open>What a call of the controller rests on\<close>

type_synonym 'w ncHistory = "(nc_action \<times> 'w ncState) set"

definition informed :: "'w nodeController \<Rightarrow> 'w ncHistory \<Rightarrow> string \<Rightarrow> mNode \<Rightarrow> bool" where
  "informed nc H name node \<longleftrightarrow> (\<exists>s. (ListerGet name, s) \<in> H \<and> nc_nodesGet nc name (ncs_world s) = Inr node)"

definition metadata_known :: "'w nodeController \<Rightarrow> 'w ncHistory \<Rightarrow> mNode \<Rightarrow> InstanceMeta \<Rightarrow> bool" where
  "metadata_known nc H node md \<longleftrightarrow>
     (\<exists>s w'. (AskMetadata node, s) \<in> H \<and> InstanceMetadata (nc_client nc) (mn_node node) (ncs_world s) = (Ok md, w'))"

text \<open>What initialisation makes of the current node, given the node that was read first and the metadata.\<close>

definition initialised :: "mNode \<Rightarrow> InstanceMeta \<Rightarrow> mNode \<Rightarrow> mNode \<Rightarrow> bool" where
  "initialised first md cur new \<longleftrightarrow>
     node_ProviderID (mn_node new) =
       (if node_ProviderID (mn_node first) = '''' then im_ProviderID md else node_ProviderID (mn_node cur)) \<and>
     mn_taints new = excludeCloudTaint (mn_taints cur) \<and>
     map_of (node_Labels (mn_node new)) = map_of (node_Labels (mn_node cur)) ++
       (if im_InstanceType md \<noteq> ''''
        then [LabelInstanceType \<mapsto> im_InstanceType md, LabelInstanceTypeStable \<mapsto> im_InstanceType md] else Map.empty) ++
       (if im_Region md \<noteq> ''''
        then [LabelFailureDomainBetaRegion \<mapsto> im_Region md, LabelTopologyRegion \<mapsto> im_Region md] else Map.empty) \<and>
     new\<lparr>mn_node := (mn_node cur)\<rparr> = cur \<and> node_Name (mn_node new) = node_Name (mn_node cur) \<and>
     node_Conditions (mn_node new) = node_Conditions (mn_node cur) \<and> node_Addresses (mn_node new) = node_Addresses (mn_node cur)"

definition update_grounds :: "'w nodeController \<Rightarrow> 'w ncHistory \<Rightarrow> mNode \<Rightarrow> bool" where
  "update_grounds nc H new \<longleftrightarrow>
     (\<exists>name first cur md. informed nc H name first \<and> getCloudTaint (mn_taints first) \<noteq> None \<and> metadata_known nc H first md \<and>
        informed nc H name cur \<and> initialised first md cur new)"

definition status_grounds :: "'w nodeController \<Rightarrow> 'w ncHistory \<Rightarrow> mNode \<Rightarrow> mNode \<Rightarrow> bool" where
  "status_grounds nc H old new \<longleftrightarrow>
     getCloudTaint (mn_taints old) = None \<and>
     (\<exists>node md addresses. metadata_known nc H node md \<and> wantedAddresses nc old md = Ok addresses \<and>
        new = old\<lparr>mn_node := (mn_node old)\<lparr>node_Addresses := addresses\<rparr>\<rparr> \<and>
        nodeAddressesChangeDetected (node_Addresses (mn_node old)) addresses)"

definition nc_policy :: "'w nodeController \<Rightarrow> 'w ncHistory \<Rightarrow> nc_action \<Rightarrow> 'w ncState \<Rightarrow> bool" where
  "nc_policy nc H l s =
     (case l of
        UpdateNode new \<Rightarrow> update_grounds nc H new
      | PatchStatus name old new \<Rightarrow> status_grounds nc H old new
      | _ \<Rightarrow> True)"

lemma nc_grounds_mono:
  assumes "H \<subseteq> H'"
  shows "informed nc H name node \<Longrightarrow> informed nc H' name node" "metadata_known nc H node md \<Longrightarrow> metadata_known nc H' node md"
  using assms unfolding informed_def metadata_known_def by blast+

lemma update_grounds_mono: "update_grounds nc H new \<Longrightarrow> H \<subseteq> H' \<Longrightarrow> update_grounds nc H' new"
  unfolding update_grounds_def by (meson nc_grounds_mono)

lemma status_grounds_mono: "status_grounds nc H old new \<Longrightarrow> H \<subseteq> H' \<Longrightarrow> status_grounds nc H' old new"
  unfolding status_grounds_def by (blast intro: nc_grounds_mono(2))

text \<open>Policies for the controller that leave reading nodes and patching labels free.\<close>

locale node_policy = call_policy P for P :: "'w ncHistory \<Rightarrow> nc_action \<Rightarrow> 'w ncState \<Rightarrow> bool" +
  assumes labels_free: "P H (ListerGet name) s" "P H (FetchNode name resourceVersion) s" "P H (PatchLabels name old new) s"
begin

lemma obeys_tryLabels:
  assumes "\<And>e. obeys P H (ret e)"
  shows "obeys P H (tryLabels nc name labels b ret)"
  unfolding tryLabels_def Let_def
  by (intro obeys_call; (rule labels_free)?)
    (auto simp: labels_free split: sum.split option.split intro!: obeys_call obeys_then assms)

lemma obeys_reconcileNodeLabels:
  assumes "\<And>e. obeys P H (ret e)"
  shows "obeys P H (reconcileNodeLabels nc name ret)"
proof -
  have patch: "obeys P H' (AddOrUpdateLabelsOnNode nc labels node k)"
    if "\<And>ok. obeys P H' (k ok)" for H' labels node k
    unfolding AddOrUpdateLabelsOnNode_def RetryOnConflict_def by (rule OnError_rule) (auto intro: obeys_tryLabels that)
  show ?thesis
    unfolding reconcileNodeLabels_def Let_def
    by (intro obeys_call; (rule labels_free)?) (auto split: sum.split intro!: patch obeys_then assms)
qed

lemma runs_obey:
  assumes work: "\<And>H key. obeys P H (processItem nc key)" and refresh: "\<And>H node. obeys P H (updateNodeFunc nc node)"
    and "runs (nc_step nc env) c tr c'" and "c = ({#}, [], {#}, s)"
  shows "respects_policy P tr \<and> (\<forall>(k, t) \<in># fst c'. obeys P (set tr) t) \<and>
    (\<forall>t \<in># fst (snd (snd c')). obeys P (set tr) t)"
  using assms(3,4)
proof (induction rule: runs.induct)
  case (runs_step c tr c1 a c2)
  then have IH: "respects_policy P tr" "\<forall>(k, t) \<in># fst c1. obeys P (set tr) t"
    "\<forall>t \<in># fst (snd (snd c1)). obeys P (set tr) t" by simp_all
  from runs_step.hyps(2) IH show ?case
  proof (induction rule: nc_step.induct)
    case (nc_call f s t s' key l ws ps ts)
    then have "P (set tr) l s" "obeys P (insert (l, s) (set tr)) t" by simp_all (metis fst_conv)
    with nc_call.prems show ?case by (auto intro: obeys_then)
  next
    case (nc_refresh cancelled ps ts s a ps' ts' s' ws)
    then have "obeying_pool P (updateNodeFunc nc) (set tr) (ps, ts, s)" by (simp add: obeying_pool_def refresh)
    from pool_step_obeys [OF nc_refresh.hyps this] nc_refresh.prems show ?case
      by (cases a) (auto simp: obeying_pool_def intro: obeys_then)
  qed (auto simp: work)
qed simp

end

interpretation ncp: node_policy "nc_policy nc" for nc :: "'w nodeController"
  by unfold_locales (auto simp: nc_policy_def dest: update_grounds_mono status_grounds_mono split: nc_action.splits)

lemma nc_policy_simps [simp]:
  "nc_policy nc H (ListerGet name) s" "nc_policy nc H (AskMetadata node) s" "nc_policy nc H (FetchNode name v) s"
  "nc_policy nc H (PatchLabels name old new) s" "nc_policy nc H (RecordSynced node) s" "nc_policy nc H (Requeue key) s"
  "nc_policy nc H (ForgetItem key) s" "nc_policy nc H (DoneItem key) s"
  "nc_policy nc H (UpdateNode new) s \<longleftrightarrow> update_grounds nc H new"
  "nc_policy nc H (PatchStatus name old new) s \<longleftrightarrow> status_grounds nc H old new"
  by (simp_all add: nc_policy_def)

lemma status_groundsI:
  "getCloudTaint (mn_taints old) = None \<Longrightarrow> metadata_known nc H node md \<Longrightarrow> wantedAddresses nc old md = Ok addresses \<Longrightarrow>
   nodeAddressesChangeDetected (node_Addresses (mn_node old)) addresses \<Longrightarrow>
   status_grounds nc H old (old\<lparr>mn_node := (mn_node old)\<lparr>node_Addresses := addresses\<rparr>\<rparr>)"
  unfolding status_grounds_def by blast

lemma obeys_updateNodeAddress:
  assumes "metadata_known nc H n md" and "obeys (nc_policy nc) H k"
  shows "obeys (nc_policy nc) H (updateNodeAddress nc node md k)"
  unfolding updateNodeAddress_def Let_def using assms
  by (auto split: outcome.split intro!: obeys_call ncp.obeys_then status_groundsI)

lemma set_label_simps [simp]:
  "mn_taints (set_label k v n) = mn_taints n" "node_ProviderID (mn_node (set_label k v n)) = node_ProviderID (mn_node n)"
  "map_of (node_Labels (mn_node (set_label k v n))) = (map_of (node_Labels (mn_node n)))(k \<mapsto> v)"
  "node_Name (mn_node (set_label k v n)) = node_Name (mn_node n)"
  "node_Conditions (mn_node (set_label k v n)) = node_Conditions (mn_node n)"
  "node_Addresses (mn_node (set_label k v n)) = node_Addresses (mn_node n)"
  "mn_Annotations (set_label k v n) = mn_Annotations n" "mn_UID (set_label k v n) = mn_UID n"
  "mn_ResourceVersion (set_label k v n) = mn_ResourceVersion n"
  by (simp_all add: set_label_def AList.update_conv')

text \<open>The metadata of this provider have neither a zone nor additional labels.\<close>

lemma modifiers_initialise:
  assumes "getNodeModifiersFromCloudProvider nc first md = Ok mods" and "im_ProviderID md \<noteq> ''''"
    and "im_Zone md = ''''" and "im_AdditionalLabels md = []"
  shows "initialised first md cur
    (fold (\<lambda>modify n. modify n) (mods @ [\<lambda>n. with_taints n (excludeCloudTaint (mn_taints n))]) cur)"
  using assms
  by (auto simp: getNodeModifiersFromCloudProvider_def initialised_def with_taints_def Let_def outcome_simps)

lemma informedI: "nc_read (nc_nodesGet nc name) s = (Inr node, s') \<Longrightarrow> informed nc (insert (ListerGet name, s) H) name node"
  by (auto simp: informed_def nc_read_def)

lemma metadata_knownI:
  "nc_in_world (getInstanceMetadata nc node) s = (Ok md, s') \<Longrightarrow> metadata_known nc (insert (AskMetadata node, s) H) node md"
  "nc_in_world (getInstanceNodeAddresses nc node) s = (Ok md, s') \<Longrightarrow> metadata_known nc (insert (AskMetadata node, s) H) node md"
  by (auto simp: metadata_known_def nc_in_world_def getInstanceMetadata_eq getInstanceNodeAddresses_eq split: prod.splits)

lemma metadata_known_ProviderID: "metadata_known nc H node md \<Longrightarrow> im_ProviderID md \<noteq> ''''"
  by (auto simp: metadata_known_def providerIDPrefix_def dest!: InstanceMetadata_meta)

lemma metadata_known_labels:
  assumes "metadata_known nc H node md"
  shows "im_Zone md = ''''" "im_AdditionalLabels md = []"
  using assms by (auto simp: metadata_known_def dest!: InstanceMetadata_labels)

lemma obeys_tryInitialize:
  assumes "informed nc H name first" and "getCloudTaint (mn_taints first) \<noteq> None" and known: "metadata_known nc H first md"
    and mods: "getNodeModifiersFromCloudProvider nc first md = Ok mods" and ret: "\<And>e. obeys (nc_policy nc) H (ret e)"
  shows "obeys (nc_policy nc) H (tryInitialize nc name
    (mods @ [\<lambda>n. with_taints n (excludeCloudTaint (mn_taints n))]) md b ret)"
  unfolding tryInitialize_def Let_def
proof (rule obeys_call, simp)
  fix s r s'
  let ?H = "insert (ListerGet name, s) H"
  let ?new = "fold (\<lambda>modify n. modify n) (mods @ [\<lambda>n. with_taints n (excludeCloudTaint (mn_taints n))])"
  assume read: "nc_read (nc_nodesGet nc name) s = (r, s')"
  have more: "H \<subseteq> ?H" "H \<subseteq> insert x ?H" for x by auto
  show "obeys (nc_policy nc) ?H (case r of Inl e \<Rightarrow> ret (Some e) | Inr curNode \<Rightarrow>
      call (UpdateNode (?new curNode)) (nc_in_world (Nodes_Update (nc_kubeClient nc) (?new curNode)))
        (\<lambda>err. case err of Some e \<Rightarrow> ret (Some e) | None \<Rightarrow> updateNodeAddress nc (?new curNode) md (ret None)))"
  proof (cases r)
    case (Inr cur)
    with read informedI have cur: "informed nc ?H name cur" by blast
    from modifiers_initialise [OF mods metadata_known_ProviderID [OF known] metadata_known_labels [OF known], of cur] cur
      nc_grounds_mono [OF more(1), of nc] assms(1-3)
    have "update_grounds nc ?H (?new cur)" unfolding update_grounds_def by blast
    with Inr show ?thesis
      by (auto split: option.split intro!: obeys_call obeys_updateNodeAddress
          intro: ncp.obeys_more_history [OF ret] nc_grounds_mono(2) [OF more(2) known])
  qed (simp add: ncp.obeys_then ret)
qed

lemma obeys_initializeNode:
  assumes "informed nc H name first" and "getCloudTaint (mn_taints first) \<noteq> None" and "metadata_known nc H first md"
    and ret: "\<And>e. obeys (nc_policy nc) H (ret e)"
  shows "obeys (nc_policy nc) H (initializeNode nc name first md ret)"
proof (cases "getNodeModifiersFromCloudProvider nc first md")
  case (Ok mods)
  have "obeys (nc_policy nc) H (RetryOnConflict UpdateNodeSpecBackoff_Steps (tryInitialize nc name
      (mods @ [\<lambda>n. with_taints n (excludeCloudTaint (mn_taints n))]) md)
      (\<lambda>err. case err of Some e \<Rightarrow> ret (Some e)
        | None \<Rightarrow> call (RecordSynced first) (recordSynced first) (\<lambda>_. ret None)))"
    unfolding RetryOnConflict_def
    by (rule OnError_rule, erule obeys_tryInitialize [OF assms(1-3) Ok])
      (auto simp: ret split: option.split intro!: obeys_call ncp.obeys_then)
  with Ok show ?thesis by (simp add: initializeNode_def)
qed (simp_all add: initializeNode_def ret)

lemma obeys_syncNode:
  assumes ret: "\<And>e. obeys (nc_policy nc) H (ret e)"
  shows "obeys (nc_policy nc) H (syncNode nc name ret)"
  unfolding syncNode_def
proof (rule obeys_call, simp, split sum.split, intro conjI allI impI)
  fix s r s' e
  let ?H = "insert (ListerGet name, s) H"
  show "obeys (nc_policy nc) ?H (if IsNotFound e then ret None else ret (Some e))" by (simp add: ret ncp.obeys_then)
  fix first
  assume "nc_read (nc_nodesGet nc name) s = (r, s')" and "r = Inr first"
  then have first: "informed nc ?H name first" by (simp add: informedI)
  show "obeys (nc_policy nc) ?H (if getCloudTaint (mn_taints first) = None then reconcileNodeLabels nc name ret
      else call (AskMetadata first) (nc_in_world (getInstanceMetadata nc first)) (\<lambda>metadata. case metadata of
          Err e \<Rightarrow> ret (Some (Errorf (''failed to get instance metadata for node '' @ name @ '': '') e ''''))
        | Panic p \<Rightarrow> Halt (Panic p) | OutOfFuel \<Rightarrow> Halt OutOfFuel | Ok md \<Rightarrow> initializeNode nc name first md ret))"
    by (auto simp: ncp.obeys_then ret metadata_knownI nc_grounds_mono(1) [OF subset_insertI first]
        split: outcome.split intro!: ncp.obeys_reconcileNodeLabels obeys_call obeys_initializeNode)
qed

lemma obeys_processItem: "obeys (nc_policy nc) H (processItem nc key)"
  unfolding processItem_def syncHandler_def Let_def
  by (auto split: outcome.split option.split intro!: obeys_syncNode obeys_call)

lemma obeys_updateNodeFunc: "obeys (nc_policy nc) H (updateNodeFunc nc node)"
  unfolding updateNodeFunc_def
  by (auto split: outcome.split intro!: obeys_call obeys_updateNodeAddress metadata_knownI)

section \<open>One worker for each node\<close>

text \<open>
  A worker holds a key until it says that it is done with it: until then its calls leave the items being processed as they
  are, and the call that releases the key is its last.
\<close>

definition same_processing :: "'w ncState \<Rightarrow> 'w ncState \<Rightarrow> bool" where
  "same_processing s s' \<longleftrightarrow> wq_processing (ncs_workqueue s') = wq_processing (ncs_workqueue s) \<and>
     (wq_inv (ncs_workqueue s) \<longrightarrow> wq_inv (ncs_workqueue s'))"

inductive holds :: "string \<Rightarrow> 'w nc_task \<Rightarrow> bool" for key where
  holds_Halt: "r \<noteq> Ok () \<Longrightarrow> holds key (Halt r)"
| holds_last: "\<forall>s. f s = (return_task, s\<lparr>ncs_workqueue := wq_Done key (ncs_workqueue s)\<rparr>) \<Longrightarrow> holds key (Call l f)"
| holds_Call: "\<forall>s. same_processing s (snd (f s)) \<and> holds key (fst (f s)) \<Longrightarrow> holds key (Call l f)"

inductive_simps holds_Halt_iff [simp]: "holds key (Halt r)"

lemma holds_call:
  "(\<And>s r s'. m s = (r, s') \<Longrightarrow> same_processing s s' \<and> holds key (k r)) \<Longrightarrow> holds key (call l m k)"
  unfolding call_def by (rule holds_Call) (auto split: prod.splits)

lemma processing_kept:
  "wq_processing (wq_Add k q) = wq_processing q" "wq_processing (wq_AddRateLimited b d k q) = wq_processing q"
  "wq_processing (wq_Forget k q) = wq_processing q" "wq_processing (wq_Ready k q) = wq_processing q"
  "wq_processing (wq_ShutDown q) = wq_processing q"
  by (simp_all add: wq_AddRateLimited_def wq_When_def wq_AddAfter_def wq_Add_def wq_Forget_def wq_Ready_def
      wq_ShutDown_def Let_def)

lemma same_processing_calls [simp]:
  "nc_in_world m s = (r, s') \<Longrightarrow> same_processing s s'" "nc_read g s = (r, s') \<Longrightarrow> same_processing s s'"
  "recordSynced node s = (u, s') \<Longrightarrow> same_processing s s'"
  "on_queue (wq_AddRateLimited b d key) s = (u, s') \<Longrightarrow> same_processing s s'"
  "on_queue (wq_Forget key) s = (u, s') \<Longrightarrow> same_processing s s'"
  by (auto simp: same_processing_def nc_in_world_def nc_read_def recordSynced_def on_queue_def wq_inv_AddRateLimited
      wq_inv_other processing_kept split: prod.splits)

lemma holds_updateNodeAddress: "holds key k \<Longrightarrow> holds key (updateNodeAddress nc node md k)"
  unfolding updateNodeAddress_def Let_def by (auto split: outcome.split intro!: holds_call)

lemma holds_initializeNode:
  assumes "\<And>e. holds key (ret e)"
  shows "holds key (initializeNode nc name first md ret)"
proof -
  have "holds key (tryInitialize nc name mods md b k)" if "\<And>e. holds key (k e)" for mods b k
    unfolding tryInitialize_def Let_def
    by (auto split: sum.split option.split intro!: holds_call holds_updateNodeAddress that)
  then show ?thesis
    unfolding initializeNode_def RetryOnConflict_def using assms
    by (auto split: outcome.split option.split intro!: holds_call OnError_rule [where Q = "holds key"])
qed

lemma holds_reconcileNodeLabels:
  assumes "\<And>e. holds key (ret e)"
  shows "holds key (reconcileNodeLabels nc name ret)"
proof -
  have "holds key (tryLabels nc n labels b k)" if "\<And>e. holds key (k e)" for n labels b k
    unfolding tryLabels_def Let_def by (auto split: sum.split option.split intro!: holds_call that)
  then show ?thesis
    unfolding reconcileNodeLabels_def AddOrUpdateLabelsOnNode_def RetryOnConflict_def Let_def using assms
    by (auto split: sum.split intro!: holds_call OnError_rule [where Q = "holds key"])
qed

lemma holds_processItem: "holds key (processItem nc key)"
proof -
  have last: "holds key (call (DoneItem key) (on_queue (wq_Done key)) (\<lambda>_. return_task))"
    unfolding call_def by (rule holds_last) (simp add: on_queue_def)
  have sync: "holds key (syncNode nc name ret)" if "\<And>e. holds key (ret e)" for name ret
    unfolding syncNode_def using that
    by (auto split: sum.split outcome.split intro!: holds_call holds_initializeNode holds_reconcileNodeLabels)
  show ?thesis
    unfolding processItem_def syncHandler_def Let_def
    by (auto split: outcome.split option.split intro!: sync holds_call last)
qed

text \<open>The periodic refresh does not touch the queue.\<close>

inductive quiet :: "'w nc_task \<Rightarrow> bool" where
  quiet_Halt: "quiet (Halt r)"
| quiet_Call: "\<forall>s. ncs_workqueue (snd (f s)) = ncs_workqueue s \<and> quiet (fst (f s)) \<Longrightarrow> quiet (Call l f)"

inductive_simps quiet_simps [simp]: "quiet (Halt r)" "quiet (Call l f)"

lemma quiet_updateNodeFunc: "quiet (updateNodeFunc nc node)"
  unfolding updateNodeFunc_def updateNodeAddress_def call_def Let_def
  by (auto simp: nc_in_world_def split: outcome.split prod.split)

text \<open>The keys of the workers that have not returned yet are the items being processed.\<close>

definition nc_inv :: "'w ncConfig \<Rightarrow> bool" where
  "nc_inv c \<longleftrightarrow>
     (case c of (ws, ps, ts, s) \<Rightarrow>
        wq_inv (ncs_workqueue s) \<and>
        image_mset fst (filter_mset (\<lambda>(k, t). t \<noteq> return_task) ws) = mset (wq_processing (ncs_workqueue s)) \<and>
        (\<forall>(k, t) \<in># ws. t = return_task \<or> holds k t) \<and> (\<forall>t \<in># ts. quiet t))"

abbreviation busy_keys :: "(string \<times> 'w nc_task) multiset \<Rightarrow> string multiset" where
  "busy_keys ws \<equiv> image_mset fst (filter_mset (\<lambda>(k, t). t \<noteq> return_task) ws)"

lemma holds_busy: "holds k t \<Longrightarrow> t \<noteq> return_task"
  by auto

lemma mset_removeAll_distinct: "distinct xs \<Longrightarrow> x \<in> set xs \<Longrightarrow> mset (removeAll x xs) = mset xs - {#x#}"
  by (metis distinct_remove1_removeAll mset_remove1)

lemma nc_inv_call:
  assumes "nc_inv (add_mset (key, Call l f) ws, ps, ts, s)" and "f s = (t, s')"
  shows "nc_inv (add_mset (key, t) ws, ps, ts, s')"
proof -
  let ?q = "ncs_workqueue s"
  from assms(1) have inv: "wq_inv ?q" and keys: "add_mset key (busy_keys ws) = mset (wq_processing ?q)"
    and holds: "holds key (Call l f)" and rest: "\<forall>(k, t) \<in># ws. t = return_task \<or> holds k t" "\<forall>t \<in># ts. quiet t"
    by (simp_all add: nc_inv_def)
  from keys have mem: "key \<in> set (wq_processing ?q)" by (metis set_mset_mset union_single_eq_member)
  from holds show ?thesis
  proof (cases rule: holds.cases)
    case holds_last
    with assms(2) have t: "t = return_task" "s' = s\<lparr>ncs_workqueue := wq_Done key ?q\<rparr>" by auto
    have "mset (wq_processing (wq_Done key ?q)) = mset (removeAll key (wq_processing ?q))"
      by (simp add: wq_Done_def Let_def)
    also have "\<dots> = mset (wq_processing ?q) - {#key#}"
      by (rule mset_removeAll_distinct) (use mem inv in \<open>simp_all add: wq_inv_def\<close>)
    also have "\<dots> = busy_keys ws" unfolding keys [symmetric] by simp
    finally have "mset (wq_processing (wq_Done key ?q)) = busy_keys ws" .
    with t rest wq_inv_Done [OF inv mem] show ?thesis by (simp add: nc_inv_def)
  next
    case holds_Call
    then have "same_processing s s'" "holds key t" using assms(2) by (metis snd_conv, metis fst_conv)
    with inv keys rest holds_busy [OF this(2)] show ?thesis by (auto simp: nc_inv_def same_processing_def)
  qed
qed

lemma nc_inv_refresh:
  assumes "pool_step (updateNodeFunc nc) n cancelled no_env (ps, ts, s) a (ps', ts', s')" and "nc_inv (ws, ps, ts, s)"
  shows "nc_inv (ws, ps', ts', s')"
  using assms(1)
proof (cases rule: pool_step.cases)
  case (pool_call f t l us)
  with assms(2) have "ncs_workqueue s' = ncs_workqueue s \<and> quiet t"
    by (simp add: nc_inv_def) (metis fst_conv snd_conv)
  with pool_call assms(2) show ?thesis by (simp add: nc_inv_def)
qed (use assms(2) quiet_updateNodeFunc in \<open>auto simp: nc_inv_def\<close>)

lemma nc_inv_step:
  assumes "nc_step nc env c a c'" and "nc_inv c"
  shows "nc_inv c'"
  using assms
proof (induction rule: nc_step.induct)
  case (nc_take ws s key q ps ts)
  then have "wq_processing q = key # wq_processing (ncs_workqueue s)"
    by (auto simp: wq_Get_def split: list.splits if_splits)
  with nc_take wq_inv_Get [OF _ nc_take.hyps(2)] holds_processItem [of key nc] holds_busy [OF holds_processItem]
  show ?case by (auto simp: nc_inv_def)
next
  case (nc_call f s t s' key l ws ps ts)
  from nc_inv_call [OF nc_call.prems nc_call.hyps] show ?case .
next
  case (nc_refresh cancelled ps ts s a ps' ts' s' ws)
  from nc_inv_refresh [OF nc_refresh.hyps nc_refresh.prems] show ?case .
qed (auto simp: nc_inv_def nc_enqueueNode_def processing_kept wq_inv_Add wq_inv_other)

section \<open>When a node is left alone\<close>

text \<open>
  A node needs no work at the moment: the informer does not know it, or knows it without the taint, or the API server has accepted
  an update that initialises it.
\<close>

definition settled :: "'w nodeController \<Rightarrow> 'w ncHistory \<Rightarrow> string \<Rightarrow> bool" where
  "settled nc H name \<longleftrightarrow>
     (\<exists>s e. (ListerGet name, s) \<in> H \<and> nc_nodesGet nc name (ncs_world s) = Inl e \<and> IsNotFound e) \<or>
     (\<exists>node. informed nc H name node \<and> getCloudTaint (mn_taints node) = None) \<or>
     (\<exists>cur new s w'. informed nc H name cur \<and> node_Name (mn_node new) = node_Name (mn_node cur) \<and>
        mn_taints new = excludeCloudTaint (mn_taints cur) \<and>
        (UpdateNode new, s) \<in> H \<and> Nodes_Update (nc_kubeClient nc) new (ncs_world s) = (None, w'))"

definition forget_policy :: "'w nodeController \<Rightarrow> 'w ncHistory \<Rightarrow> nc_action \<Rightarrow> 'w ncState \<Rightarrow> bool" where
  "forget_policy nc H l s =
     (case l of
        ForgetItem key \<Rightarrow> (\<forall>ns name. SplitMetaNamespaceKey key = Ok (ns, name) \<longrightarrow> settled nc H name)
      | _ \<Rightarrow> True)"

lemma settled_mono: "settled nc H name \<Longrightarrow> H \<subseteq> H' \<Longrightarrow> settled nc H' name"
  unfolding settled_def informed_def by blast

interpretation ncf: node_policy "forget_policy nc" for nc :: "'w nodeController"
  by unfold_locales (auto simp: forget_policy_def intro: settled_mono split: nc_action.splits)

lemma forget_policy_simps [simp]:
  "forget_policy nc H (ListerGet name) s" "forget_policy nc H (AskMetadata node) s" "forget_policy nc H (FetchNode name v) s"
  "forget_policy nc H (PatchLabels name old new) s" "forget_policy nc H (RecordSynced node) s"
  "forget_policy nc H (Requeue key) s" "forget_policy nc H (DoneItem key) s" "forget_policy nc H (UpdateNode new) s"
  "forget_policy nc H (PatchStatus name old new) s"
  by (simp_all add: forget_policy_def)

text \<open>What may follow an error, and what may follow a success.\<close>

abbreviation after_error :: "'w nodeController \<Rightarrow> 'w ncHistory \<Rightarrow> 'w nc_task \<Rightarrow> bool" where
  "after_error nc H t \<equiv> obeys (forget_policy nc) H t"

definition after_success :: "'w nodeController \<Rightarrow> 'w ncHistory \<Rightarrow> string \<Rightarrow> 'w nc_task \<Rightarrow> bool" where
  "after_success nc H name t \<longleftrightarrow> (\<forall>H'. H \<subseteq> H' \<longrightarrow> settled nc H' name \<longrightarrow> obeys (forget_policy nc) H' t)"

lemma after_successD: "after_success nc H name t \<Longrightarrow> H \<subseteq> H' \<Longrightarrow> settled nc H' name \<Longrightarrow> obeys (forget_policy nc) H' t"
  by (simp add: after_success_def)

lemma after_success_mono: "after_success nc H name t \<Longrightarrow> H \<subseteq> H' \<Longrightarrow> after_success nc H' name t"
  unfolding after_success_def by blast

lemma forget_updateNodeAddress: "obeys (forget_policy nc) H k \<Longrightarrow> obeys (forget_policy nc) H (updateNodeAddress nc node md k)"
  unfolding updateNodeAddress_def Let_def by (auto split: outcome.split intro!: obeys_call ncf.obeys_then)

lemma settled_update:
  "informed nc H name cur \<Longrightarrow> node_Name (mn_node new) = node_Name (mn_node cur) \<Longrightarrow>
   mn_taints new = excludeCloudTaint (mn_taints cur) \<Longrightarrow> (UpdateNode new, s) \<in> H \<Longrightarrow>
   nc_in_world (Nodes_Update (nc_kubeClient nc) new) s = (None, s') \<Longrightarrow> settled nc H name"
  unfolding settled_def nc_in_world_def by (cases "Nodes_Update (nc_kubeClient nc) new (ncs_world s)") auto

lemma addAdditionalLabels_keep [simp]:
  "mn_taints (fold addAdditionalLabel labels n) = mn_taints n \<and>
   node_Name (mn_node (fold addAdditionalLabel labels n)) = node_Name (mn_node n)"
  by (induction labels arbitrary: n) (auto simp: addAdditionalLabel_def)

lemma modifiers_keep:
  assumes "getNodeModifiersFromCloudProvider nc first md = Ok mods"
  shows "mn_taints (fold (\<lambda>modify n. modify n) mods cur) = mn_taints cur \<and>
    node_Name (mn_node (fold (\<lambda>modify n. modify n) mods cur)) = node_Name (mn_node cur)"
  using assms by (auto simp: getNodeModifiersFromCloudProvider_def Let_def outcome_simps)

lemma forget_tryInitialize:
  assumes mods: "getNodeModifiersFromCloudProvider nc first md = Ok mods"
    and err: "\<And>e. after_error nc H (ret (Some e))" and ok: "after_success nc H name (ret None)"
  shows "after_error nc H (tryInitialize nc name (mods @ [\<lambda>n. with_taints n (excludeCloudTaint (mn_taints n))]) md b ret)"
proof -
  let ?new = "\<lambda>cur. with_taints (fold (\<lambda>modify n. modify n) mods cur)
      (excludeCloudTaint (mn_taints (fold (\<lambda>modify n. modify n) mods cur)))"
  have accepted: "after_error nc (insert (UpdateNode (?new cur), s1) (insert (ListerGet name, s) H)) (ret None)"
    if "nc_read (nc_nodesGet nc name) s = (Inr cur, s')" "nc_in_world (Nodes_Update (nc_kubeClient nc) (?new cur)) s1 = (None, s2)"
    for s cur s' s1 s2
  proof (rule after_successD [OF ok])
    have "informed nc (insert (UpdateNode (?new cur), s1) (insert (ListerGet name, s) H)) name cur"
      by (rule nc_grounds_mono(1) [OF subset_insertI informedI [OF that(1)]])
    from settled_update [OF this _ _ insertI1 that(2)] modifiers_keep [OF mods, of cur]
    show "settled nc (insert (UpdateNode (?new cur), s1) (insert (ListerGet name, s) H)) name"
      by (simp add: with_taints_def)
  qed blast
  show ?thesis
    unfolding tryInitialize_def Let_def
    by (intro obeys_call; (simp; fail)?)
      (auto simp: err ncf.obeys_then split: sum.split option.split intro!: obeys_call forget_updateNodeAddress accepted)
qed

lemma forget_initializeNode:
  assumes err: "\<And>e. after_error nc H (ret (Some e))" and ok: "after_success nc H name (ret None)"
  shows "after_error nc H (initializeNode nc name first md ret)"
proof (cases "getNodeModifiersFromCloudProvider nc first md")
  case (Ok mods)
  let ?finish = "\<lambda>err. case err of Some e \<Rightarrow> ret (Some e)
        | None \<Rightarrow> call (RecordSynced first) (recordSynced first) (\<lambda>_. ret None)"
  have "after_success nc H name (?finish None)"
    unfolding after_success_def using after_successD [OF ok] by (auto intro!: obeys_call ncf.obeys_then)
  then have "after_error nc H (RetryOnConflict UpdateNodeSpecBackoff_Steps (tryInitialize nc name
      (mods @ [\<lambda>n. with_taints n (excludeCloudTaint (mn_taints n))]) md) ?finish)"
    unfolding RetryOnConflict_def
    by (intro OnError_success_rule [where Q = "after_error nc H" and R = "after_success nc H name"]
        forget_tryInitialize [OF Ok]) (simp_all add: err)
  with Ok show ?thesis by (simp add: initializeNode_def)
qed (simp_all add: initializeNode_def err)

lemma forget_syncNode:
  assumes err: "\<And>e H. after_error nc H (ret (Some e))" and ok: "\<And>H. settled nc H name \<Longrightarrow> obeys (forget_policy nc) H (ret None)"
  shows "obeys (forget_policy nc) H (syncNode nc name ret)"
  unfolding syncNode_def
proof (rule obeys_call, simp, split sum.split, intro conjI allI impI)
  fix s r s' e
  let ?H = "insert (ListerGet name, s) H"
  assume read: "nc_read (nc_nodesGet nc name) s = (r, s')"
  have "settled nc ?H name" if "r = Inl e" "IsNotFound e"
    using read that unfolding settled_def nc_read_def by blast
  with ok err show "r = Inl e \<Longrightarrow> obeys (forget_policy nc) ?H (if IsNotFound e then ret None else ret (Some e))" by simp
  fix first
  assume "r = Inr first"
  with read have first: "informed nc ?H name first" by (simp add: informedI)
  have labels: "obeys (forget_policy nc) ?H (reconcileNodeLabels nc name ret)" if "getCloudTaint (mn_taints first) = None"
  proof (rule ncf.obeys_reconcileNodeLabels)
    from first that have "settled nc ?H name" unfolding settled_def by blast
    then show "obeys (forget_policy nc) ?H (ret e)" for e using err ok by (cases e) auto
  qed
  have "after_success nc H' name (ret None)" for H' by (simp add: after_success_def ok)
  with labels err show "obeys (forget_policy nc) ?H (if getCloudTaint (mn_taints first) = None then reconcileNodeLabels nc name ret
      else call (AskMetadata first) (nc_in_world (getInstanceMetadata nc first)) (\<lambda>metadata. case metadata of
          Err e \<Rightarrow> ret (Some (Errorf (''failed to get instance metadata for node '' @ name @ '': '') e ''''))
        | Panic p \<Rightarrow> Halt (Panic p) | OutOfFuel \<Rightarrow> Halt OutOfFuel | Ok md \<Rightarrow> initializeNode nc name first md ret))"
    by (auto split: outcome.split intro!: obeys_call forget_initializeNode)
qed

lemma forget_processItem: "obeys (forget_policy nc) H (processItem nc key)"
  unfolding processItem_def syncHandler_def Let_def
  by (auto simp: forget_policy_def split: outcome.split option.split intro!: forget_syncNode obeys_call)

lemma forget_updateNodeFunc: "obeys (forget_policy nc) H (updateNodeFunc nc node)"
  unfolding updateNodeFunc_def by (auto split: outcome.split intro!: obeys_call forget_updateNodeAddress)

section \<open>Properties\<close>

lemma getCloudTaint_exclude: "getCloudTaint (excludeCloudTaint ts) = None"
  by (simp add: getCloudTaint_def excludeCloudTaint_def find_None_iff)



text \<open>
  C13: No two workers work on the same node at the same time: in every reachable state of the controller the keys
  that workers have taken and not yet released are exactly the items that the queue has as being processed, each held by one
  worker, and the queue is well formed.
\<close>

theorem one_worker_per_node:
  assumes "runs (nc_step nc env) ({#}, [], {#}, s0) tr (ws, ps, ts, s)" and "ncs_workqueue s0 = wq_empty"
  shows "wq_inv (ncs_workqueue s) \<and> size (filter_mset (\<lambda>(k, t). k = key \<and> t \<noteq> return_task) ws) \<le> 1 \<and>
    (key \<in> set (wq_processing (ncs_workqueue s)) \<longleftrightarrow> (\<exists>t. (key, t) \<in># ws \<and> t \<noteq> return_task))"
proof -
  have "nc_inv c'" if "runs (nc_step nc env) c tr' c'" "nc_inv c" for c tr' c'
    using that by (induction rule: runs.induct) (auto intro: nc_inv_step)
  from this [OF assms(1)] assms(2) have inv: "wq_inv (ncs_workqueue s)" and
    keys: "busy_keys ws = mset (wq_processing (ncs_workqueue s))"
    by (simp_all add: nc_inv_def wq_inv_empty) (simp_all add: wq_empty_def)
  have "size (filter_mset (\<lambda>(k, t). k = key \<and> t \<noteq> return_task) ws) = count (busy_keys ws) key"
    by (induction ws) auto
  also have "\<dots> \<le> 1" using inv unfolding keys by (simp add: wq_inv_def distinct_count_atmost_1)
  moreover have "key \<in># busy_keys ws \<longleftrightarrow> (\<exists>t. (key, t) \<in># ws \<and> t \<noteq> return_task)" by force
  ultimately show ?thesis using inv unfolding keys by simp
qed

definition dual_stack :: "Droplet \<Rightarrow> bool" where
  "dual_stack d \<longleftrightarrow> (\<exists>ip4 ip6. PublicIPv4 d = Ok ip4 \<and> PublicIPv6 d = Ok ip6 \<and> ip4 \<noteq> '''' \<and> ip6 \<noteq> '''')"

lemma nodeAddresses_shape:
  assumes "nodeAddresses d = Ok addrs"
  obtains ip ip4 ip6 where "PublicIPv4 d = Ok ip4" "PublicIPv6 d = Ok ip6" "ip \<noteq> ''''"
    "addrs = [\<lparr>na_Type = NodeHostName, na_Address = droplet_Name d\<rparr>, \<lparr>na_Type = NodeInternalIP, na_Address = ip\<rparr>] @
       (if ip4 \<noteq> '''' then [\<lparr>na_Type = NodeExternalIP, na_Address = ip4\<rparr>] else []) @
       (if ip6 \<noteq> '''' then [\<lparr>na_Type = NodeExternalIP, na_Address = ip6\<rparr>] else [])"
  using assms by (auto simp: nodeAddresses_def outcome_simps split: if_splits)

lemma address_types: "NodeHostName \<noteq> NodeInternalIP" "NodeHostName \<noteq> NodeExternalIP" "NodeInternalIP \<noteq> NodeExternalIP"
  by (simp_all add: NodeHostName_def NodeInternalIP_def NodeExternalIP_def)

lemma single_stack_types:
  "nodeAddresses d = Ok addrs \<Longrightarrow> \<not> dual_stack d \<Longrightarrow> distinct (map na_Type addrs)"
  by (erule nodeAddresses_shape) (auto simp: dual_stack_def address_types)

lemma addresses_nonempty:
  "nodeAddresses d = Ok addrs \<Longrightarrow> droplet_Name d \<noteq> '''' \<Longrightarrow> \<forall>a \<in> set addrs. na_Address a \<noteq> ''''"
  by (erule nodeAddresses_shape) auto

text \<open>
  C14: The comparison of addresses with which the refresh decides whether to patch a node sees a change in an unchanged list of the
  addresses of a droplet exactly if the droplet has a public address of both families: it compares by type, and both are
  external addresses. For all other droplets the comparison is right: no change is seen if and only if the addresses are the
  same.
\<close>

theorem address_comparison:
  assumes "nodeAddresses d = Ok addrs" and "nodeAddresses d' = Ok addrs'" and "droplet_Name d' \<noteq> ''''"
    and "\<And>ip. PublicIPv4 d = Ok ip \<Longrightarrow> ip \<noteq> '''' \<Longrightarrow> PublicIPv6 d \<noteq> Ok ip"
  shows "(nodeAddressesChangeDetected addrs addrs \<longleftrightarrow> dual_stack d) \<and>
    (\<not> dual_stack d \<and> \<not> dual_stack d' \<longrightarrow> (\<not> nodeAddressesChangeDetected addrs addrs' \<longleftrightarrow> set addrs = set addrs'))"
proof (rule conjI)
  show "nodeAddressesChangeDetected addrs addrs \<longleftrightarrow> dual_stack d"
  proof (rule nodeAddresses_shape [OF assms(1)])
    fix ip ip4 ip6
    assume "PublicIPv4 d = Ok ip4" "PublicIPv6 d = Ok ip6"
      "addrs = [\<lparr>na_Type = NodeHostName, na_Address = droplet_Name d\<rparr>, \<lparr>na_Type = NodeInternalIP, na_Address = ip\<rparr>] @
       (if ip4 \<noteq> '''' then [\<lparr>na_Type = NodeExternalIP, na_Address = ip4\<rparr>] else []) @
       (if ip6 \<noteq> '''' then [\<lparr>na_Type = NodeExternalIP, na_Address = ip6\<rparr>] else [])"
    with assms(4) show ?thesis
      by (auto simp: change_detected_self dual_stack_def address_types address_types [symmetric])
  qed
  show "\<not> dual_stack d \<and> \<not> dual_stack d' \<longrightarrow> (\<not> nodeAddressesChangeDetected addrs addrs' \<longleftrightarrow> set addrs = set addrs')"
    using unchanged_same_set [OF single_stack_types [OF assms(1)] single_stack_types [OF assms(2)]
        addresses_nonempty [OF assms(2,3)]] by blast
qed

text \<open>
  So the status of a node with a public address of both families is patched whenever it is looked at, with the node as it is.
\<close>

lemma dual_stack_patched_again:
  assumes "nodeAddressesChangeDetected (im_NodeAddresses md) (im_NodeAddresses md)"
    and "nodeAddresses d = Ok (im_NodeAddresses md)" and "node_Addresses (mn_node node) = im_NodeAddresses md"
    and "getCloudTaint (mn_taints node) = None" and "map_of (mn_Annotations node) AnnotationAlphaProvidedIPAddr = None"
  shows "updateNodeAddress nc node md k = call (PatchStatus (node_Name (mn_node node)) node node)
    (nc_in_world (Nodes_PatchStatus (nc_kubeClient nc) (node_Name (mn_node node)) node node)) (\<lambda>_. k)"
proof (rule nodeAddresses_shape [OF assms(2)])
  fix ip ip4 ip6
  assume shape: "im_NodeAddresses md =
      [\<lparr>na_Type = NodeHostName, na_Address = droplet_Name d\<rparr>, \<lparr>na_Type = NodeInternalIP, na_Address = ip\<rparr>] @
       (if ip4 \<noteq> '''' then [\<lparr>na_Type = NodeExternalIP, na_Address = ip4\<rparr>] else []) @
       (if ip6 \<noteq> '''' then [\<lparr>na_Type = NodeExternalIP, na_Address = ip6\<rparr>] else [])"
  have same: "node\<lparr>mn_node := (mn_node node)\<lparr>node_Addresses := im_NodeAddresses md\<rparr>\<rparr> = node"
    by (simp add: assms(3) [symmetric])
  have "wantedAddresses nc node md = Ok (im_NodeAddresses md)"
    using assms(5) shape by (simp add: wantedAddresses_def updateNodeAddressesFromNodeIP_def Let_def)
  moreover have "im_NodeAddresses md \<noteq> []" by (simp add: shape)
  ultimately show ?thesis using assms(1,3,4) by (simp add: updateNodeAddress_def Let_def same)
qed

text \<open>
  A conflict when labels are patched is not tried again: the error of the patch is rendered into a new error, so
  that the loop, whose steps are for conflicts, ends after one try.
\<close>

lemma label_conflict_not_retried:
  assumes "Nodes_Get (nc_kubeClient nc) (node_Name (mn_node node)) ''0'' (ncs_world s) = (Inr current, w)"
    and "Nodes_Patch (nc_kubeClient nc) (node_Name (mn_node current)) current
       (fold (\<lambda>(key, value) n. set_label key value n) labels current) w = (Some e, w')"
  shows "\<exists>s1. run_task (AddOrUpdateLabelsOnNode nc labels node (\<lambda>ok. if ok then return_task else Halt (Err e))) s =
    ([(FetchNode (node_Name (mn_node node)) ''0'', s), s1], Err e, s\<lparr>ncs_world := w'\<rparr>)"
proof -
  have "\<not> IsConflict (Errorf p e q)" for p q by (simp add: IsConflict_def)
  then show ?thesis
    using assms by (simp add: AddOrUpdateLabelsOnNode_def RetryOnConflict_def OnError_def updateLabelBackoff_Steps_def
        numeral_eq_Suc tryLabels_def run_task_call nc_in_world_def Let_def)
qed

section \<open>Examples\<close>

text \<open>A new node, still tainted, whose droplet the API knows.\<close>

definition new_node :: mNode where
  "new_node = \<lparr>mn_node = example_node\<lparr>node_Taints := [\<lparr>taint_Key = TaintExternalCloudProvider, taint_Value = ''true'',
     taint_Effect = ''NoSchedule'', taint_TimeAdded = None\<rparr>], node_Addresses := []\<rparr>,
     mn_Annotations = [], mn_UID = ''u1'', mn_ResourceVersion = ''1''\<rparr>"

definition node_kube :: "unit nodeClient" where
  "node_kube = \<lparr>Nodes_Get = (\<lambda>name rv w. (Inr new_node, w)), Nodes_Update = (\<lambda>n w. (None, w)),
     Nodes_Patch = (\<lambda>name old new w. (None, w)), Nodes_PatchStatus = (\<lambda>name old new w. (None, w)),
     Nodes_Delete = (\<lambda>name w. (None, w))\<rparr>"

definition node_cloud :: "unit cloud" where
  "node_cloud =
     (let r = newResources ''cluster-1'' ''vpc-1'' \<lparr>paf_name = '''', paf_tags = []\<rparr> droplet_client;
          v = apiOperationsTotalVec in
      \<lparr>c_client = droplet_client, c_instances = newInstances r ''nyc1'',
       c_loadbalancers = newLoadBalancers r ''nyc1'' LoadBalancerTypeRegionalNetwork,
       c_metrics = \<lparr>m_host = '''', m_apiOperationDuration = v, m_apiOperationsTotal = v, m_resourceSyncDuration = v,
         m_resourceSyncsTotal = v, m_reconcileDuration = v, m_reconcilesTotal = v\<rparr>,
       c_defaultLBType = LoadBalancerTypeRegionalNetwork, c_resources = r, c_httpServer = None\<rparr>)"

definition example_nc :: "unit nodeController" where
  "example_nc = \<lparr>nc_kubeClient = node_kube, nc_cloud = node_cloud, nc_nodesGet = (\<lambda>name w. Inr new_node),
     nc_nodesList = (\<lambda>w. Ok [new_node]), nc_workerCount = 2, nc_statusUpdateWorkerCount = 1,
     nc_ParseNodeIPAnnotation = (\<lambda>s. Ok [s]), nc_ParseIPSloppy = Some\<rparr>"

definition ncs_start :: "unit ncState" where
  "ncs_start = \<lparr>ncs_workqueue = wq_empty, ncs_events = [], ncs_world = ()\<rparr>"

definition ncs_taken :: "unit ncState" where
  "ncs_taken = ncs_start\<lparr>ncs_workqueue := wq_empty\<lparr>wq_processing := [''worker-1'']\<rparr>\<rparr>"

lemma example_item:
  obtains tr s node u v where "run_task (processItem example_nc ''worker-1'') ncs_taken = (tr, Ok (), s)"
    and "(UpdateNode node, u) \<in> set tr" and "(ForgetItem ''worker-1'', v) \<in> set tr"
proof -
  have "fst (snd (run_task (processItem example_nc ''worker-1'') ncs_taken)) = Ok () \<and>
      list_ex (\<lambda>(l, s). case l of UpdateNode n \<Rightarrow> True | _ \<Rightarrow> False)
        (fst (run_task (processItem example_nc ''worker-1'') ncs_taken)) \<and>
      list_ex (\<lambda>(l, s). case l of ForgetItem key \<Rightarrow> key = ''worker-1'' | _ \<Rightarrow> False)
        (fst (run_task (processItem example_nc ''worker-1'') ncs_taken))"
    by code_simp
  moreover obtain tr r s where "run_task (processItem example_nc ''worker-1'') ncs_taken = (tr, r, s)"
    by (metis prod.exhaust)
  ultimately show thesis using that by (auto simp: list_ex_iff split: nc_action.splits)
qed

lemma example_take:
  "runs (nc_step example_nc no_env) ({#}, [], {#}, ncs_start) []
     ({#(''worker-1'', processItem example_nc ''worker-1'')#}, [], {#}, ncs_taken)"
proof -
  let ?step = "nc_step example_nc no_env"
  have "?step ({#}, [], {#}, ncs_start) None ({#}, [], {#}, nc_enqueueNode new_node ncs_start)" by (rule nc_enqueue)
  note queued = runs_one [of ?step, OF this]
  have "?step ({#}, [], {#}, nc_enqueueNode new_node ncs_start) None
      (add_mset (''worker-1'', processItem example_nc ''worker-1'') {#}, [], {#},
       (nc_enqueueNode new_node ncs_start)\<lparr>ncs_workqueue := wq_empty\<lparr>wq_processing := [''worker-1'']\<rparr>\<rparr>)"
  proof (rule nc_take)
    show "int (size {#}) < nc_workerCount example_nc" by (simp add: example_nc_def)
    show "wq_Get (ncs_workqueue (nc_enqueueNode new_node ncs_start)) =
      Some (Some ''worker-1'', wq_empty\<lparr>wq_processing := [''worker-1'']\<rparr>)" by code_simp
  qed
  from runs_step [of ?step, OF queued this] show ?thesis by (simp add: ncs_taken_def nc_enqueueNode_def)
qed

lemma example_nc_run:
  assumes "run_task (processItem example_nc ''worker-1'') ncs_taken = (tr, Ok (), s)"
  shows "runs (nc_step example_nc no_env) ({#}, [], {#}, ncs_start) tr ({#(''worker-1'', return_task)#}, [], {#}, s)"
proof -
  let ?step = "nc_step example_nc no_env"
  have "runs ?step ({#(''worker-1'', processItem example_nc ''worker-1'')#}, [], {#}, ncs_taken) tr
      ({#(''worker-1'', return_task)#}, [], {#}, s)"
    using run_task_runs [of ?step "\<lambda>t s. ({#(''worker-1'', t)#}, [], {#}, s)", OF _ assms] by (simp add: nc_call)
  from runs_trans [OF example_take this] show ?thesis by simp
qed



theorem one_worker_per_node_witness:
  "''worker-1'' \<in> set (wq_processing (ncs_workqueue ncs_taken)) \<and>
   (\<exists>t. (''worker-1'', t) \<in># {#(''worker-1'', processItem example_nc ''worker-1'')#} \<and> t \<noteq> return_task)"
proof -
  have "''worker-1'' \<in> set (wq_processing (ncs_workqueue ncs_taken))" by code_simp
  with one_worker_per_node [OF example_take, of "''worker-1''"] show ?thesis by (simp add: ncs_start_def)
qed

definition dual_droplet :: Droplet where
  "dual_droplet = example_droplet\<lparr>droplet_Networks := Some
     \<lparr>nets_V4 = [\<lparr>net_IPAddress = ''203.0.113.7'', net_Type = ''public''\<rparr>,
                \<lparr>net_IPAddress = ''10.0.0.2'', net_Type = ''private''\<rparr>],
      nets_V6 = [\<lparr>net_IPAddress = ''2001:db8::7'', net_Type = ''public''\<rparr>]\<rparr>\<rparr>"

theorem address_comparison_witness:
  "\<exists>addrs. nodeAddresses dual_droplet = Ok addrs \<and> nodeAddressesChangeDetected addrs addrs"
proof -
  have ips: "PublicIPv4 dual_droplet = Ok ''203.0.113.7''" "PublicIPv6 dual_droplet = Ok ''2001:db8::7''" by code_simp+
  have "(case nodeAddresses dual_droplet of Ok _ \<Rightarrow> True | _ \<Rightarrow> False) \<and>
      (case nodeAddresses example_droplet of Ok _ \<Rightarrow> True | _ \<Rightarrow> False)" by code_simp
  then obtain addrs addrs' where addrs: "nodeAddresses dual_droplet = Ok addrs" "nodeAddresses example_droplet = Ok addrs'"
    by (auto split: outcome.splits)
  have "dual_stack dual_droplet" by (simp add: dual_stack_def ips)
  moreover have "droplet_Name example_droplet \<noteq> ''''" by code_simp
  ultimately show ?thesis using address_comparison [OF addrs] addrs(1) by (auto simp: ips)
qed

end
