(* ===== verification/Spec2Isabelle.thy ===== *)
theory Spec2Isabelle
  imports Programs LB_Calls Node_Lifecycle Node_Controller
begin

text \<open>
  \<^bold>\<open>The DigitalOcean cloud controller manager.\<close> The repository holds two programs. The
  cloud controller manager plugs into the Kubernetes cloud-provider framework: it tells
  Kubernetes about droplets, keeps a load balancer for every service of type LoadBalancer, keeps one
  firewall open for the ports of the services, and tags the load balancers of the cluster. The admission
  server is a webhook that lets the DigitalOcean API validate a service before it is stored. All
  of their own code is under src/cloud-controller-manager; this development models that
  code and, where the code's correctness rests on it, vendored code: the work queue, the retry loop and the worker pool of
  client-go, the service controller, the two node controllers and the plugin registry of k8s.io/cloud-provider, what the
  metrics use of the Prometheus client, and a few helpers of godo.

  \<^bold>\<open>How Go is modelled.\<close> A fallible function returns an \<open>outcome\<close>: a value, an error, a panic, or
  \<open>OutOfFuel\<close>. An error is a value of the datatype \<open>error\<close>, which keeps the chain of
  \<^verbatim>\<open>%w\<close> that \<^verbatim>\<open>errors.Is\<close> and \<^verbatim>\<open>errors.As\<close> follow. Code with effects is a command, a function of the
  state it runs in; errors keep the state reached so far. The DigitalOcean API, the Kubernetes API and the
  metadata service are not part of the repository: they are functions of a world of type \<open>'w\<close>,
  collected in the records \<open>client\<close> and \<open>host\<close>, and a theorem that relies on their behaviour says so in its
  hypotheses. Machine integers are \<open>int\<close> with the conversions to int32 and uint32 written
  out; pointers are options; the order in which Go visits a map is a parameter wherever the
  result could depend on it.

  \<^bold>\<open>The theories.\<close>
  \<^item> \<open>Prelude\<close>: errors, outcomes, the two binds, the locales \<open>outcome_monad\<close>, \<open>state_frame\<close> (a relation
    that every call keeps) and \<open>slice_order\<close>, lemmas on lists.
  \<^item> \<open>Go_Strings\<close>, \<open>Net_IP\<close>: what the code uses of strconv, strings, sort and net/netip.
  \<^item> \<open>Cloud_Types\<close>: the Kubernetes and godo structs as records, the API clients, service annotations
    (locale \<open>annotation_store\<close>).
  \<^item> \<open>Annotations\<close>, \<open>LB_Config\<close>: lb_annotations.go, annotations.go, and the readers and builders of loadbalancers.go:
    ports, certificates, forwarding rules, health checks, sticky sessions, allow and deny lists.
  \<^item> \<open>Pagination\<close>: the listing loops of common.go and metadata.go. The code bounds no listing; the
    model gives a loop \<open>page_fuel\<close> requests, and the locale \<open>paged_list\<close> shows that as much fuel as
    there are pages collects all of them.
  \<^item> \<open>Droplets\<close>: droplets.go and the addresses of a node in common.go.
  \<^item> \<open>LB_Nodes\<close>: which nodes can back a load balancer, which are held back, the network stack.
  \<^item> \<open>LB_Request\<close>: from nodes to droplets, and the request for a load balancer.
  \<^item> \<open>LoadBalancers\<close>: patch.go and the handlers of the LoadBalancer interface: get, ensure, update, delete.
    Their state is the service, which the code updates in place, and the world.
  \<^item> \<open>LB_Calls\<close>: which calls of the API each of the handlers can make.
  \<^item> \<open>Firewall_Diff\<close>: firewall_controller_diff.go and firewall_controller_print.go.
  \<^item> \<open>Work_Queue\<close>: the rate limited queue of client-go, with its contract \<open>exclusive_queue\<close>.
  \<^item> \<open>Firewall_Controller\<close>: firewall_controller.go and firewall_controller_cache.go: cache (locale
    \<open>value_cache\<close>), API operations with their metrics, the request for all services, reconcile and resync.
  \<^item> \<open>Firewall_Queue\<close>: the controller as a state machine over the queue, its invariant, convergence, and
    that a round of the worker is a run of the machine.
  \<^item> \<open>Firewall_Worker\<close>: the goroutines of the controller; the worker loop has fuel for its rounds, and one per queued
    item plus one is shown to be enough after a shutdown.
  \<^item> \<open>Metrics\<close>: metrics.go on a model of the Prometheus client: vectors and labels, counters and histograms,
    registration; every panic of the client is an outcome.
  \<^item> \<open>Service_Controller\<close>: the controller of k8s.io/cloud-provider that calls the load balancer handlers: rounds of
    its workers, retries, cache, finalizers, status, node syncs. It uses a provider through the locale
    \<open>service_balancer\<close>, which the handlers of this provider are shown to satisfy, and is a state
    machine with an invariant.
  \<^item> \<open>Service_Events\<close>: its event handlers and the comparison of two versions of a service.
  \<^item> \<open>Tasks\<close>: goroutines as trees of calls that interleave, client-go's \<^verbatim>\<open>retry.OnError\<close> and
    \<^verbatim>\<open>workqueue.ParallelizeUntil\<close>. The locale \<open>call_policy\<close> says which calls may follow which history; what every task
    obeys alone holds of every interleaving. Tries are bounded by the steps of the back-off, so that no fuel is needed.
  \<^item> \<open>Kube_Nodes\<close>: nodes as the node controllers handle them: the calls of the API, conflicts, the helpers for taints in
    node/helpers/taints.go.
  \<^item> \<open>Node_Lifecycle\<close>: node_lifecycle_controller.go of k8s.io/cloud-provider, which calls \<^verbatim>\<open>InstanceExists\<close> and
    \<^verbatim>\<open>InstanceShutdown\<close> of droplets.go: a state machine of rounds, each worked on by concurrent workers.
  \<^item> \<open>Node_Controller\<close>: node_controller.go of k8s.io/cloud-provider with node/helpers/labels.go and address.go, which calls
    \<^verbatim>\<open>InstanceMetadata\<close>: workers on a queue beside a periodic refresh. The locale \<open>node_policy\<close> extends \<open>call_policy\<close> and
    is interpreted for two policies: what an update rests on, and when a node may be forgotten.
  \<^item> \<open>Settings\<close>: environment variables, region, default load balancer type, metrics address.
  \<^item> \<open>Admission\<close>: lb_service_admission_handler.go and the construction of the handler in the
    admission server's main.go.
  \<^item> \<open>Resources\<close>: resources.go, the tagging task and the periodic synchroniser that runs it.
  \<^item> \<open>Cloud\<close>: cloud.go and health.go: construction and initialisation of the provider, its metrics
    server, and properties that span the two programs.
  \<^item> \<open>Programs\<close>: the main functions of both programs, the plugin registry through which the manager makes its provider,
    and the controllers that are started with it.

  \<^bold>\<open>What is shown.\<close> For load balancers: the backends of a request are exactly the admitted
  nodes and never empty; readiness flaps evict nobody; success means an active load balancer and nothing held back; deletion is
  idempotent; only three annotations of a service are ever written; a load balancer is created only
  when the look-up found none; a disowned service is left
  alone. For the service controller on top of them: a failed sync is always retried, a delay that a handler asks
  for reaches the queue, the finalizer of a service stays until its load balancer is gone, no change that would alter a
  request is missed, changes of readiness alone do not reach the load balancers, and the cache never holds the object of another
  service. For nodes: instances are reported gone only on a 404; whatever the interleaving, a Kubernetes node
  is deleted only after such an answer for a node that was not ready, every completed round asks for the deletion of the nodes that are gone, only the
  shutdown taint is ever patched, and a round ends after at most twelve calls for each node. A new node loses its taint only with the metadata of
  its droplet, no uninitialised node is forgotten, no two workers have the same node, and which lists of addresses are taken
  for changed. For the firewall: the rules
  are exactly those the services call for and do not depend on any order; no change is lost,
  the controller can always converge, a second reconcile is skipped, a deleted firewall is
  created again, the worker stops after a shutdown, and its instrumentation never panics. For the webhook: it only makes dry runs, its verdict on every answer of
  the API, and that it validates the request the controller will send. For the configuration: its
  consistency, that no service can make a program panic over its type, and that the manager either runs with a
  provider made from the environment or ends.

  \<^bold>\<open>What is not modelled.\<close> Contexts and deadlines: a call that is cancelled is a call that
  returns an error. Logging, and with it \<^verbatim>\<open>logLBInfo\<close>. Time: the durations that the metrics record are arbitrary numbers,
  exact ones where Go has floats, and the controllers keep the list of the recorded events. JSON: the decoder of the webhook is a parameter, and the merge patch of a service
  is handed to the API as the two objects it is computed from. The HTTP and webhook servers; a server is the
  address it listens on, or a parameter. The options and the cobra command of k8s.io/cloud-provider, which are
  parameters of main, with the leader election behind them; the flags and the logger of the
  admission server. What the node controllers do with a provider of the first version of the instances interface, which this
  one does not implement, and their metrics but for the counter of provider calls; the parsers of IP addresses are parameters of
  the node controller. A question to the provider is one call of a task, and the pauses between two tries are left out. The service controller syncs the
  load balancers of several services after a change of the nodes one after the other. The parsing of CIDRs, floats and URLs are
  parameters. Quoting with \<^verbatim>\<open>%q\<close> puts a text between quotes and escapes nothing. The
  locks of the cache and of the queue are the atomicity of their operations.
\<close>

end
